(* ===== verification/Prelude.thy ===== *)
theory Prelude
  imports Main "HOL-Library.Sublist" "HOL-Library.AList"
begin

text \<open>
  Shared vocabulary of the development: the byte-level model of Rust strings and of the \<^verbatim>\<open>str\<close> methods the
  sources call, results as sums, and the lemmas on lists and association lists that several components use.

  A Rust \<^verbatim>\<open>String\<close> is its UTF-8 byte sequence, so a model string is a list of
  \<^typ>\<open>char\<close> where one \<^typ>\<open>char\<close> is one byte and \<^const>\<open>length\<close> is \<^verbatim>\<open>str::len\<close>.
\<close>

section \<open>ASCII case\<close>

definition lower_char :: "char \<Rightarrow> char" where
  "lower_char c =
     (let n = (of_char c :: nat) in if 65 \<le> n \<and> n \<le> 90 then char_of (n + 32) else c)"

definition to_ascii_lowercase :: "string \<Rightarrow> string" where
  "to_ascii_lowercase s = map lower_char s"

definition eq_ignore_ascii_case :: "string \<Rightarrow> string \<Rightarrow> bool" where
  "eq_ignore_ascii_case a b \<longleftrightarrow> to_ascii_lowercase a = to_ascii_lowercase b"

lemma lower_char_idem [simp]: "lower_char (lower_char c) = lower_char c"
  by (auto simp: lower_char_def Let_def)

lemma to_ascii_lowercase_idem [simp]:
  "to_ascii_lowercase (to_ascii_lowercase s) = to_ascii_lowercase s"
  by (simp add: to_ascii_lowercase_def)

lemma length_to_ascii_lowercase [simp]: "length (to_ascii_lowercase s) = length s"
  by (simp add: to_ascii_lowercase_def)

lemma to_ascii_lowercase_append [simp]:
  "to_ascii_lowercase (s @ t) = to_ascii_lowercase s @ to_ascii_lowercase t"
  by (simp add: to_ascii_lowercase_def)

lemma to_ascii_lowercase_Nil [simp]: "to_ascii_lowercase [] = []"
  by (simp add: to_ascii_lowercase_def)

lemma to_ascii_lowercase_eq_Nil [simp]: "to_ascii_lowercase s = [] \<longleftrightarrow> s = []"
  by (simp add: to_ascii_lowercase_def)

lemma to_ascii_lowercase_take: "to_ascii_lowercase (take n s) = take n (to_ascii_lowercase s)"
  by (simp add: to_ascii_lowercase_def take_map)

lemma to_ascii_lowercase_drop: "to_ascii_lowercase (drop n s) = drop n (to_ascii_lowercase s)"
  by (simp add: to_ascii_lowercase_def drop_map)

lemma eq_ignore_ascii_case_refl [simp]: "eq_ignore_ascii_case a a"
  by (simp add: eq_ignore_ascii_case_def)

lemma eq_ignore_ascii_case_sym: "eq_ignore_ascii_case a b \<longleftrightarrow> eq_ignore_ascii_case b a"
  by (auto simp: eq_ignore_ascii_case_def)

text \<open>Characters without a case variant keep their identity under lower-casing.\<close>

definition caseless :: "char \<Rightarrow> bool" where
  "caseless c \<longleftrightarrow> (let n = (of_char c :: nat) in
     \<not> (97 \<le> n \<and> n \<le> 122) \<and> \<not> (65 \<le> n \<and> n \<le> 90))"

lemma of_char_lower_char:
  "(of_char (lower_char x) :: nat) =
     (let n = of_char x in if 65 \<le> n \<and> n \<le> 90 then n + 32 else n)"
  by (auto simp: lower_char_def Let_def)

text \<open>
  The same test on the bits of a character, as the code equation: the closed instances
  of the witnesses then evaluate on Booleans and not on numbers.
\<close>

lemma low_five_bits: "(let m = (of_bool b0 + 2 * of_bool b1 + 4 * of_bool b2 + 8 * of_bool b3 + 16 * of_bool b4 :: nat)
    in 1 \<le> m \<and> m \<le> 26) \<longleftrightarrow> (b0 \<or> b1 \<or> b2 \<or> b3 \<or> b4) \<and> \<not> (b4 \<and> b3 \<and> (b2 \<or> b1 \<and> b0))"
  by (cases b0; cases b1; cases b2; cases b3; cases b4) simp_all

lemma of_char_bits: "(of_char (Char b0 b1 b2 b3 b4 b5 b6 b7) :: nat)
   = (of_bool b0 + 2 * of_bool b1 + 4 * of_bool b2 + 8 * of_bool b3 + 16 * of_bool b4) + 32 * of_bool b5
     + 64 * of_bool b6 + 128 * of_bool b7"
  by (simp add: of_char_def)

lemma upper_bits:
  "(let n = (of_char (Char b0 b1 b2 b3 b4 b5 b6 b7) :: nat) in 65 \<le> n \<and> n \<le> 90) \<longleftrightarrow>
     b6 \<and> \<not> b5 \<and> \<not> b7 \<and> (b0 \<or> b1 \<or> b2 \<or> b3 \<or> b4) \<and> \<not> (b4 \<and> b3 \<and> (b2 \<or> b1 \<and> b0))"
proof -
  define m where "m = (of_bool b0 + 2 * of_bool b1 + 4 * of_bool b2 + 8 * of_bool b3 + 16 * of_bool b4 :: nat)"
  have m: "m \<le> 31" by (simp add: m_def of_bool_def)
  have "(1 \<le> m \<and> m \<le> 26) \<longleftrightarrow> (b0 \<or> b1 \<or> b2 \<or> b3 \<or> b4) \<and> \<not> (b4 \<and> b3 \<and> (b2 \<or> b1 \<and> b0))"
    using low_five_bits [of b0 b1 b2 b3 b4] unfolding m_def Let_def .
  then show ?thesis
    unfolding of_char_bits m_def [symmetric] Let_def using m
    by (cases b5; cases b6; cases b7) auto
qed

lemma lower_char_code [code]:
  "lower_char (Char b0 b1 b2 b3 b4 b5 b6 b7) =
     (if b6 \<and> \<not> b5 \<and> \<not> b7 \<and> (b0 \<or> b1 \<or> b2 \<or> b3 \<or> b4) \<and> \<not> (b4 \<and> b3 \<and> (b2 \<or> b1 \<and> b0))
      then Char b0 b1 b2 b3 b4 True b6 b7 else Char b0 b1 b2 b3 b4 b5 b6 b7)"
proof -
  have "(of_char (lower_char (Char b0 b1 b2 b3 b4 b5 b6 b7)) :: nat) = of_char
     (if b6 \<and> \<not> b5 \<and> \<not> b7 \<and> (b0 \<or> b1 \<or> b2 \<or> b3 \<or> b4) \<and> \<not> (b4 \<and> b3 \<and> (b2 \<or> b1 \<and> b0))
      then Char b0 b1 b2 b3 b4 True b6 b7 else Char b0 b1 b2 b3 b4 b5 b6 b7)"
    unfolding of_char_lower_char Let_def using upper_bits [of b0 b1 b2 b3 b4 b5 b6 b7]
    by (simp add: Let_def of_char_bits)
  then show ?thesis by (simp only: of_char_eq_iff)
qed
lemma lower_char_eq_caseless:
  assumes "caseless c"
  shows "lower_char x = c \<longleftrightarrow> x = c"
proof -
  have "lower_char x = c \<longleftrightarrow> (of_char (lower_char x) :: nat) = of_char c"
    by simp
  also have "\<dots> \<longleftrightarrow> (of_char x :: nat) = of_char c"
    using assms by (auto simp: of_char_lower_char caseless_def Let_def split: if_splits)
  finally show ?thesis by simp
qed

lemma mem_to_ascii_lowercase:
  "caseless c \<Longrightarrow> c \<in> set (to_ascii_lowercase s) \<longleftrightarrow> c \<in> set s"
  by (auto simp: to_ascii_lowercase_def image_iff lower_char_eq_caseless
      eq_commute [of c] intro: bexI [of _ c])

lemma hd_to_ascii_lowercase:
  "s \<noteq> [] \<Longrightarrow> caseless (hd s) \<Longrightarrow> hd (to_ascii_lowercase s) = hd s"
  by (simp add: to_ascii_lowercase_def hd_map lower_char_eq_caseless)

section \<open>Searching and splitting\<close>

text \<open>\<^verbatim>\<open>str::starts_with\<close>, \<^verbatim>\<open>ends_with\<close>, \<^verbatim>\<open>contains\<close>, \<^verbatim>\<open>strip_suffix\<close>, \<^verbatim>\<open>find\<close>.\<close>

abbreviation starts_with :: "string \<Rightarrow> string \<Rightarrow> bool" where
  "starts_with s p \<equiv> prefix p s"

abbreviation ends_with :: "string \<Rightarrow> string \<Rightarrow> bool" where
  "ends_with s p \<equiv> suffix p s"

abbreviation contains :: "string \<Rightarrow> string \<Rightarrow> bool" where
  "contains s p \<equiv> sublist p s"

definition strip_suffix :: "string \<Rightarrow> string \<Rightarrow> string option" where
  "strip_suffix s p =
     (if suffix p s then Some (take (length s - length p) s) else None)"

fun find_sub :: "string \<Rightarrow> string \<Rightarrow> nat option" where
  "find_sub n [] = (if n = [] then Some 0 else None)"
| "find_sub n (c # s) =
     (if prefix n (c # s) then Some 0 else map_option Suc (find_sub n s))"

text \<open>\<^verbatim>\<open>str::split(c)\<close> and \<^verbatim>\<open>str::split_once(c)\<close> on one ASCII separator.\<close>

fun split_char :: "char \<Rightarrow> string \<Rightarrow> string list" where
  "split_char c [] = [[]]"
| "split_char c (x # xs) =
     (if x = c then [] # split_char c xs
      else (case split_char c xs of [] \<Rightarrow> [[x]] | y # ys \<Rightarrow> (x # y) # ys))"

text \<open>\<^verbatim>\<open>str::split([...])\<close> on a set of ASCII separators.\<close>

fun split_chars :: "char list \<Rightarrow> string \<Rightarrow> string list" where
  "split_chars cs [] = [[]]"
| "split_chars cs (x # xs) =
     (if x \<in> set cs then [] # split_chars cs xs
      else (case split_chars cs xs of [] \<Rightarrow> [[x]] | y # ys \<Rightarrow> (x # y) # ys))"

fun split_once :: "char \<Rightarrow> string \<Rightarrow> (string \<times> string) option" where
  "split_once c [] = None"
| "split_once c (x # xs) =
     (if x = c then Some ([], xs) else map_option (apfst ((#) x)) (split_once c xs))"

lemma split_char_not_Nil [simp]: "split_char c s \<noteq> []"
  by (induction s) (auto split: list.splits)

lemma split_chars_not_Nil [simp]: "split_chars c s \<noteq> []"
  by (induction s) (auto split: list.splits)

lemma hd_split_char_not_in: "c \<notin> set (hd (split_char c s))"
  by (induction s) (auto split: list.splits)

lemma hd_split_char_id: "c \<notin> set s \<Longrightarrow> split_char c s = [s]"
  by (induction s) auto

lemma split_once_Some:
  "split_once c s = Some (a, b) \<longleftrightarrow> s = a @ c # b \<and> c \<notin> set a"
proof (induction s arbitrary: a)
  case Nil
  then show ?case by simp
next
  case (Cons x s)
  then show ?case
    by (cases a) (auto simp: apfst_def map_prod_def split: prod.splits)
qed

lemma find_sub_None: "find_sub n s = None \<longleftrightarrow> \<not> sublist n s"
  by (induction s) (auto simp: sublist_Cons_right)

lemma find_sub_Some_le: "find_sub n s = Some k \<Longrightarrow> k + length n \<le> length s"
proof (induction s arbitrary: k)
  case Nil
  then show ?case by (simp split: if_splits)
next
  case (Cons c s)
  then show ?case
    by (auto split: if_splits dest: prefix_length_le)
qed

lemma find_sub_Some_at: "find_sub n s = Some k \<Longrightarrow> take (length n) (drop k s) = n"
proof (induction s arbitrary: k)
  case Nil
  then show ?case by (simp split: if_splits)
next
  case (Cons c s)
  then show ?case
    by (auto split: if_splits simp: prefix_def)
qed

text \<open>The text before the first match has no match of its own.\<close>

lemma find_sub_Some_first:
  assumes "find_sub n s = Some k" "n \<noteq> []"
  shows "\<not> sublist n (take k s)"
  using assms
proof (induction s arbitrary: k)
  case Nil
  then show ?case by simp
next
  case (Cons c s)
  show ?case
  proof (cases "prefix n (c # s)")
    case True
    with Cons.prems show ?thesis by simp
  next
    case False
    with Cons.prems obtain j where j: "find_sub n s = Some j" "k = Suc j" by auto
    have "\<not> sublist n (take j s)" using Cons.IH [OF j(1) Cons.prems(2)] .
    moreover have "\<not> prefix n (c # take j s)"
      using False by (metis prefix_order.trans take_Suc_Cons take_is_prefix)
    ultimately show ?thesis using j(2) by (simp add: sublist_Cons_right)
  qed
qed

text \<open>
  An occurrence of \<open>w\<close> in \<open>g @ r @ t\<close> lies in \<open>g\<close> or in \<open>t\<close> when \<open>r\<close> does not contain
  the first character of \<open>w\<close> and \<open>w\<close> does not contain the first character of \<open>r\<close>.
\<close>

lemma sublist_glue:
  assumes w: "w \<noteq> []" "hd w \<notin> set r" and r: "r \<noteq> []" "hd r \<notin> set w"
    and occ: "sublist w (g @ r @ t)"
  shows "sublist w g \<or> sublist w t"
proof -
  have tail: "sublist w t" if "sublist w (r @ t)"
  proof -
    from that consider "sublist w r" | "sublist w t"
      | w1 w2 where "w = w1 @ w2" "suffix w1 r" "prefix w2 t"
      by (auto simp: sublist_append)
    then show ?thesis
    proof cases
      case 1
      with w show ?thesis by (metis list.set_sel(1) set_mono_sublist subsetD)
    next
      case 3
      with w have "w1 = []"
        by (metis hd_append2 list.set_sel(1) set_mono_suffix subsetD)
      with 3 show ?thesis by (simp add: prefix_imp_sublist)
    qed
  qed
  from occ consider "sublist w g" | "sublist w (r @ t)"
    | w1 w2 where "w = w1 @ w2" "suffix w1 g" "prefix w2 (r @ t)"
    by (auto simp: sublist_append)
  then show ?thesis
  proof cases
    case 3
    have "w2 = []"
    proof (rule ccontr)
      assume ne: "w2 \<noteq> []"
      with 3 r(1) have "hd w2 = hd r" by (cases r; cases w2) (auto simp: prefix_def)
      then have "hd r \<in> set w2" using ne by (metis list.set_sel(1))
      with 3 r(2) show False by simp
    qed
    with 3 show ?thesis by (simp add: suffix_imp_sublist)
  qed (use tail in auto)
qed

section \<open>Trimming\<close>

text \<open>
  \<^verbatim>\<open>str::trim\<close> removes characters with the Unicode property White_Space. In UTF-8
  these are the byte sequences below; on well-formed UTF-8 a match of such a
  sequence at either end is a match of the character.
\<close>

definition white_space :: "string list" where
  "white_space =
     [[CHR 0x09], [CHR 0x0A], [CHR 0x0B], [CHR 0x0C], [CHR 0x0D], [CHR 0x20],
      [CHR 0xC2, CHR 0x85], [CHR 0xC2, CHR 0xA0], [CHR 0xE1, CHR 0x9A, CHR 0x80],
      [CHR 0xE2, CHR 0x80, CHR 0x80], [CHR 0xE2, CHR 0x80, CHR 0x81],
      [CHR 0xE2, CHR 0x80, CHR 0x82], [CHR 0xE2, CHR 0x80, CHR 0x83],
      [CHR 0xE2, CHR 0x80, CHR 0x84], [CHR 0xE2, CHR 0x80, CHR 0x85],
      [CHR 0xE2, CHR 0x80, CHR 0x86], [CHR 0xE2, CHR 0x80, CHR 0x87],
      [CHR 0xE2, CHR 0x80, CHR 0x88], [CHR 0xE2, CHR 0x80, CHR 0x89],
      [CHR 0xE2, CHR 0x80, CHR 0x8A], [CHR 0xE2, CHR 0x80, CHR 0xA8],
      [CHR 0xE2, CHR 0x80, CHR 0xA9], [CHR 0xE2, CHR 0x80, CHR 0xAF],
      [CHR 0xE2, CHR 0x81, CHR 0x9F], [CHR 0xE3, CHR 0x80, CHR 0x80]]"

text \<open>
  One trimming loop serves both ends: \<open>strip_front\<close> removes listed prefixes, and
  the end is trimmed on the reversed string against the reversed sequences.
\<close>

fun leading :: "string list \<Rightarrow> string \<Rightarrow> nat" where
  "leading [] s = 0"
| "leading (w # ws) s = (if prefix w s then length w else leading ws s)"

lemma leading_le: "leading ws s \<le> length s"
  by (induction ws) (auto dest: prefix_length_le)

function strip_front :: "string list \<Rightarrow> string \<Rightarrow> string" where
  "strip_front ws s = (if leading ws s = 0 then s else strip_front ws (drop (leading ws s) s))"
  by pat_completeness auto
termination
proof (relation "measure (\<lambda>(ws, s). length s)")
  show "wf (measure (\<lambda>(ws, s :: string). length s))" by simp
next
  fix ws and s :: string
  assume "leading ws s \<noteq> 0"
  moreover have "leading ws s \<le> length s" by (rule leading_le)
  ultimately show "((ws, drop (leading ws s) s), ws, s) \<in> measure (\<lambda>(ws, s). length s)"
    by simp
qed

declare strip_front.simps [simp del]

definition trim_start :: "string \<Rightarrow> string" where
  "trim_start s = strip_front white_space s"

definition trim_end :: "string \<Rightarrow> string" where
  "trim_end s = rev (strip_front (map rev white_space) (rev s))"

definition trim :: "string \<Rightarrow> string" where
  "trim s = trim_end (trim_start s)"

lemma strip_front_suffix: "suffix (strip_front ws s) s"
proof (induction ws s rule: strip_front.induct)
  case (1 ws s)
  show ?case
  proof (cases "leading ws s = 0")
    case True
    then show ?thesis by (subst strip_front.simps) simp
  next
    case False
    then have "suffix (strip_front ws (drop (leading ws s) s)) (drop (leading ws s) s)"
      by (rule "1.IH")
    with False show ?thesis
      by (subst strip_front.simps) (simp, meson suffix_drop suffix_order.trans)
  qed
qed

lemma set_trim: "set (trim s) \<subseteq> set s"
proof -
  have 1: "set (trim_start s) \<subseteq> set s"
    unfolding trim_start_def using set_mono_suffix [OF strip_front_suffix] .
  have "set (trim_end (trim_start s)) \<subseteq> set (trim_start s)"
    unfolding trim_end_def
    using set_mono_suffix [OF strip_front_suffix, of "map rev white_space" "rev (trim_start s)"]
    by simp
  with 1 show ?thesis by (auto simp: trim_def)
qed

text \<open>\<^verbatim>\<open>trim_end_matches(c)\<close>, also the loop \<^verbatim>\<open>while s.ends_with(c) { s.pop(); }\<close>.\<close>

definition trim_end_matches :: "char \<Rightarrow> string \<Rightarrow> string" where
  "trim_end_matches c s = rev (dropWhile ((=) c) (rev s))"

lemma trim_end_matches_not_suffix: "\<not> suffix [c] (trim_end_matches c s)"
proof
  assume "suffix [c] (trim_end_matches c s)"
  then obtain zs where zs: "dropWhile ((=) c) (rev s) = c # zs"
    by (auto simp: trim_end_matches_def suffix_to_prefix prefix_def)
  then have "dropWhile ((=) c) (rev s) \<noteq> []" by simp
  then have "\<not> c = hd (dropWhile ((=) c) (rev s))" by (rule hd_dropWhile)
  with zs show False by simp
qed

lemma trim_end_matches_id: "\<not> suffix [c] s \<Longrightarrow> trim_end_matches c s = s"
proof -
  assume a: "\<not> suffix [c] s"
  show ?thesis
  proof (cases "rev s")
    case Nil
    then show ?thesis by (simp add: trim_end_matches_def)
  next
    case (Cons x xs)
    then have "s = rev xs @ [x]" by (metis rev.simps(2) rev_rev_ident)
    with a have "x \<noteq> c" by (auto simp: suffix_def)
    with Cons show ?thesis
      unfolding trim_end_matches_def by (metis (full_types) dropWhile.simps(2) rev_rev_ident)
  qed
qed

section \<open>Decimal numbers\<close>

text \<open>\<^verbatim>\<open>Display\<close> of an unsigned integer.\<close>

fun show_nat :: "nat \<Rightarrow> string" where
  "show_nat n = (if n < 10 then [char_of (48 + n)] else show_nat (n div 10) @ [char_of (48 + n mod 10)])"

declare show_nat.simps [simp del]

text \<open>
  \<^verbatim>\<open>str::parse\<close> to an unsigned integer: an optional plus sign, then one or more digits, and
  a value below the type's bound.
\<close>

definition digit_value :: "char \<Rightarrow> nat option" where
  "digit_value c =
     (let n = of_char c :: nat in if 48 \<le> n \<and> n \<le> 57 then Some (n - 48) else None)"

fun decimal :: "nat \<Rightarrow> string \<Rightarrow> nat option" where
  "decimal acc [] = Some acc"
| "decimal acc (c # s) = Option.bind (digit_value c) (\<lambda>d. decimal (acc * 10 + d) s)"

definition parse_uint :: "nat \<Rightarrow> string \<Rightarrow> nat option" where
  "parse_uint bound s =
     (let digits = (if starts_with s ''+'' then tl s else s)
      in if digits = [] then None
         else Option.bind (decimal 0 digits) (\<lambda>n. if n < bound then Some n else None))"

lemma parse_uint_bound: "parse_uint bound s = Some n \<Longrightarrow> n < bound"
  by (auto simp: parse_uint_def Let_def split: if_splits bind_splits)

section \<open>Replacing\<close>

text \<open>\<^verbatim>\<open>str::replace\<close>: every non-overlapping occurrence, from the left.\<close>

function replace_sub :: "string \<Rightarrow> string \<Rightarrow> string \<Rightarrow> string" where
  "replace_sub needle repl s =
     (case (if needle = [] then None else find_sub needle s) of
        None \<Rightarrow> s
      | Some k \<Rightarrow> take k s @ repl @ replace_sub needle repl (drop (k + length needle) s))"
  by pat_completeness auto
termination
proof (relation "measure (\<lambda>(n, b, s). length s)", goal_cases)
  case (2 needle repl s k)
  then have "needle \<noteq> []" "find_sub needle s = Some k" by (auto split: if_splits)
  moreover from this have "k + length needle \<le> length s" by (intro find_sub_Some_le)
  ultimately show ?case by (cases needle) auto
qed simp

declare replace_sub.simps [simp del]

lemma replace_sub_None: "\<not> contains s needle \<Longrightarrow> replace_sub needle repl s = s"
  by (subst replace_sub.simps) (simp add: find_sub_None [THEN iffD2])

section \<open>Results\<close>

text \<open>Success of the \<^verbatim>\<open>?\<close> operator: every intermediate result was a success.\<close>

lemma sum_case_Inr_iff [simp]:
  "(case x of Inl e \<Rightarrow> Inl (g e) | Inr a \<Rightarrow> f a) = Inr b \<longleftrightarrow> (\<exists>a. x = Inr a \<and> f a = Inr b)"
  by (cases x) simp_all

lemma option_case_Inr_iff [simp]:
  "(case x of None \<Rightarrow> Inl e | Some a \<Rightarrow> f a) = Inr b \<longleftrightarrow> (\<exists>a. x = Some a \<and> f a = Inr b)"
  by (cases x) simp_all

lemma if_Inr_iff [simp]:
  "(if c then Inl e else x) = Inr b \<longleftrightarrow> \<not> c \<and> x = Inr b"
  by simp

section \<open>Lists\<close>

lemma find_SomeD: "find P xs = Some a \<Longrightarrow> a \<in> set xs \<and> P a"
  by (auto simp: find_Some_iff)

end
