(* ===== verification/Json.thy ===== *)
theory Json
  imports Prelude "HOL-Library.Word" "HOL-Library.Char_ord" "HOL-Library.List_Lexorder"
begin

text \<open>
  \<^verbatim>\<open>serde_json::Value\<close> as the sources use it. An object is a \<^verbatim>\<open>BTreeMap\<close>: an association
  list with strictly increasing keys in byte order, which is the order in which
  \<^verbatim>\<open>keys()\<close> and \<^verbatim>\<open>values()\<close> enumerate it (the crate is built without \<^verbatim>\<open>preserve_order\<close>).
\<close>

type_synonym u32 = "32 word"
type_synonym u64 = "64 word"

datatype number = PosInt u64 | NegInt u64 | Float u64

datatype json =
    JNull
  | JBool bool
  | JNum number
  | JStr string
  | JArr "json list"
  | JObj "(string \<times> json) list"

type_synonym jmap = "(string \<times> json) list"

fun obj_insert :: "string \<Rightarrow> 'v \<Rightarrow> (string \<times> 'v) list \<Rightarrow> (string \<times> 'v) list" where
  "obj_insert k v [] = [(k, v)]"
| "obj_insert k v ((k', v') # m) =
     (if k = k' then (k, v) # m
      else if k < k' then (k, v) # (k', v') # m
      else (k', v') # obj_insert k v m)"

text \<open>\<^verbatim>\<open>json!({ ... })\<close> inserts its entries one after the other.\<close>

definition obj_of :: "(string \<times> 'v) list \<Rightarrow> (string \<times> 'v) list" where
  "obj_of kvs = foldl (\<lambda>m (k, v). obj_insert k v m) [] kvs"

definition jobj :: "jmap \<Rightarrow> json" where
  "jobj kvs = JObj (obj_of kvs)"

text \<open>\<^verbatim>\<open>v["k"] = x\<close> on an object.\<close>

fun json_put :: "string \<Rightarrow> json \<Rightarrow> json \<Rightarrow> json" where
  "json_put k x (JObj m) = JObj (obj_insert k x m)"
| "json_put k x j = j"

section \<open>Accessors\<close>

fun json_get :: "json \<Rightarrow> string \<Rightarrow> json option" where
  "json_get (JObj m) k = map_of m k"
| "json_get _ _ = None"

fun as_str :: "json \<Rightarrow> string option" where
  "as_str (JStr s) = Some s"
| "as_str _ = None"

fun as_array :: "json \<Rightarrow> json list option" where
  "as_array (JArr xs) = Some xs"
| "as_array _ = None"

fun as_object :: "json \<Rightarrow> jmap option" where
  "as_object (JObj m) = Some m"
| "as_object _ = None"

fun as_bool :: "json \<Rightarrow> bool option" where
  "as_bool (JBool b) = Some b"
| "as_bool _ = None"

fun as_u64 :: "json \<Rightarrow> u64 option" where
  "as_u64 (JNum (PosInt w)) = Some w"
| "as_u64 _ = None"

definition get_str :: "json \<Rightarrow> string \<Rightarrow> string option" where
  "get_str j k = Option.bind (json_get j k) as_str"

definition get_array :: "json \<Rightarrow> string \<Rightarrow> json list option" where
  "get_array j k = Option.bind (json_get j k) as_array"

definition get_object :: "json \<Rightarrow> string \<Rightarrow> jmap option" where
  "get_object j k = Option.bind (json_get j k) as_object"

definition first_of :: "'a list \<Rightarrow> 'a option" where
  "first_of xs = (case xs of [] \<Rightarrow> None | x # _ \<Rightarrow> Some x)"

section \<open>Laws of objects\<close>

lemma map_of_obj_insert [simp]: "map_of (obj_insert k v m) = (map_of m)(k \<mapsto> v)"
  by (induction k v m rule: obj_insert.induct) auto

lemma keys_obj_insert: "fst ` set (obj_insert k v m) = insert k (fst ` set m)"
  by (induction k v m rule: obj_insert.induct) auto

lemma obj_insert_sorted:
  "sorted_wrt (<) (map fst m) \<Longrightarrow> sorted_wrt (<) (map fst (obj_insert k v m))"
proof (induction k v m rule: obj_insert.induct)
  case (2 k v k' v' m)
  consider "k = k'" | "k < k'" | "k' < k" by (meson linorder_less_linear)
  then show ?case
  proof cases
    case 2
    with "2.prems" show ?thesis by (auto intro: less_trans)
  next
    case 3
    have "\<forall>x \<in> fst ` set (obj_insert k v m). k' < x"
      using "2.prems" 3 by (auto simp: keys_obj_insert)
    with 3 "2" show ?thesis by (auto dest: less_asym)
  qed (use 2 in auto)
qed simp

lemma foldl_obj_insert_sorted:
  "sorted_wrt (<) (map fst m) \<Longrightarrow>
   sorted_wrt (<) (map fst (foldl (\<lambda>m (k, v). obj_insert k v m) m kvs))"
  by (induction kvs arbitrary: m) (auto intro: obj_insert_sorted)

lemma obj_of_sorted: "sorted_wrt (<) (map fst (obj_of kvs))"
  by (simp add: obj_of_def foldl_obj_insert_sorted)

lemma keys_foldl_obj_insert:
  "fst ` set (foldl (\<lambda>m (k, v). obj_insert k v m) m kvs) = fst ` set m \<union> fst ` set kvs"
  by (induction kvs arbitrary: m) (simp_all add: keys_obj_insert split_beta)

lemma keys_obj_of: "fst ` set (obj_of kvs) = fst ` set kvs"
  by (simp add: obj_of_def keys_foldl_obj_insert)

lemma map_of_foldl_obj_insert:
  "map_of (foldl (\<lambda>m (k, v). obj_insert k v m) m kvs) = map_of m ++ map_of (rev kvs)"
  by (induction kvs arbitrary: m) (auto simp: map_add_def fun_eq_iff split: option.splits)

lemma map_of_obj_of: "map_of (obj_of kvs) = map_of (rev kvs)"
  by (simp add: obj_of_def map_of_foldl_obj_insert)

lemma json_get_jobj [simp]: "json_get (jobj kvs) k = map_of (rev kvs) k"
  by (simp add: jobj_def map_of_obj_of)

lemma json_get_put [simp]:
  "json_get (json_put k x (JObj m)) j = (if j = k then Some x else map_of m j)"
  by simp

lemma sorted_keys_distinct: "sorted_wrt (<) (map fst m) \<Longrightarrow> distinct (map fst m)"
  for m :: "(string \<times> 'v) list"
  by (simp add: strict_sorted_iff)

section \<open>Well-formed values\<close>

text \<open>A value as \<^verbatim>\<open>serde_json\<close> can hold it: every object is a map, its keys distinct and in order.\<close>

fun wf_json :: "json \<Rightarrow> bool" where
  "wf_json (JArr vs) = list_all wf_json vs"
| "wf_json (JObj m) = (sorted_wrt (<) (map fst m) \<and> list_all (\<lambda>(k, v). wf_json v) m)"
| "wf_json _ = True"

lemma wf_obj_insert:
  "wf_json (JObj m) \<Longrightarrow> wf_json v \<Longrightarrow> wf_json (JObj (obj_insert k v m))"
proof -
  assume m: "wf_json (JObj m)" and v: "wf_json v"
  have "list_all (\<lambda>(k, v). wf_json v) (obj_insert k v m)"
    using m v by (induction k v m rule: obj_insert.induct) auto
  with m show ?thesis by (simp add: obj_insert_sorted)
qed

lemma wf_json_put: "wf_json v \<Longrightarrow> wf_json x \<Longrightarrow> wf_json (json_put k x v)"
  by (cases v) (simp_all add: wf_obj_insert del: wf_json.simps(2))

lemma wf_jobj: "list_all (\<lambda>(k, v). wf_json v) kvs \<Longrightarrow> wf_json (jobj kvs)"
proof -
  have "wf_json (JObj m) \<Longrightarrow> list_all (\<lambda>(k, v). wf_json v) kvs
      \<Longrightarrow> wf_json (JObj (foldl (\<lambda>m (k, v). obj_insert k v m) m kvs))" for m
    by (induction kvs arbitrary: m) (auto simp: wf_obj_insert simp del: wf_json.simps(2))
  from this [of "[]"] show "list_all (\<lambda>(k, v). wf_json v) kvs \<Longrightarrow> wf_json (jobj kvs)"
    by (simp add: jobj_def obj_of_def)
qed

lemma wf_json_get: "wf_json v \<Longrightarrow> json_get v k = Some x \<Longrightarrow> wf_json x"
  by (cases v) (auto simp: list_all_iff dest!: map_of_SomeD)

section \<open>Saturating arithmetic\<close>

lemma unat_max: "unat (- 1 :: 'a::len word) = 2 ^ LENGTH('a) - 1"
  by (simp add: unsigned_minus_1_eq_mask mask_eq_exp_minus_1)

lemma unat_saturating:
  fixes a b :: "'a::len word"
  shows "unat (if a + b < a then - 1 else a + b) = min (2 ^ LENGTH('a) - 1) (unat a + unat b)"
proof (cases "unat a + unat b < 2 ^ LENGTH('a)")
  case True
  then have "unat (a + b) = unat a + unat b"
    by (simp add: unat_word_ariths take_bit_nat_eq_self)
  then show ?thesis using True by (auto simp: word_less_nat_alt)
next
  case False
  have "unat a < 2 ^ LENGTH('a)" "unat b < 2 ^ LENGTH('a)"
    using unsigned_less [of a] unsigned_less [of b] by simp_all
  moreover have "unat (a + b) = (unat a + unat b) mod 2 ^ LENGTH('a)"
    by (simp add: unat_word_ariths take_bit_eq_mod)
  moreover have "(unat a + unat b) mod 2 ^ LENGTH('a) = (unat a + unat b - 2 ^ LENGTH('a)) mod 2 ^ LENGTH('a)"
    using False by (simp only: le_mod_geq not_less)
  ultimately have "unat (a + b) = unat a + unat b - 2 ^ LENGTH('a)"
    using mod_less [of "unat a + unat b - 2 ^ LENGTH('a)" "2 ^ LENGTH('a)"] by linarith
  with False \<open>unat b < _\<close> have "a + b < a" unfolding word_less_nat_alt by linarith
  then show ?thesis using False by (simp add: unat_max)
qed

lemma unat_clamped:
  "unat (if n < 2 ^ LENGTH('a) then of_nat n else - 1 :: 'a::len word) = min (2 ^ LENGTH('a) - 1) n"
  by (auto simp: unat_max unat_of_nat take_bit_nat_eq_self)

end
