(* ===== verification/Errors.thy ===== *)
theory Errors
  imports Json
begin

text \<open>
  Errors of the JMAP client (\<^verbatim>\<open>JmapError\<close> of \<^verbatim>\<open>src/jmap_client.rs\<close>), errors returned to the
  MCP caller (\<^verbatim>\<open>rmcp::ErrorData\<close>: a JSON-RPC code and a message), the mapping between the
  two in \<^verbatim>\<open>src/mcp.rs\<close>, and the application codes and classes of \<^verbatim>\<open>src/audit.rs\<close>.
\<close>

section \<open>Errors of the JMAP client\<close>

datatype jmap_error =
    Unauthorized
  | Http string
  | Upstream nat
  | Method_Error string "string option"
  | Parse string
  | TooLarge

definition em_dash :: string where
  "em_dash = [CHR 0xE2, CHR 0x80, CHR 0x94]"

fun jmap_error_text :: "jmap_error \<Rightarrow> string" where
  "jmap_error_text Unauthorized = ''not authenticated to Stalwart (token expired or rejected)''"
| "jmap_error_text (Http e) = ''JMAP transport error: '' @ e"
| "jmap_error_text (Upstream status) = ''JMAP endpoint returned non-2xx: '' @ show_nat status"
| "jmap_error_text (Method_Error error_type description) =
     ''JMAP method error: '' @ error_type
     @ (case description of None \<Rightarrow> [] | Some d \<Rightarrow> '' '' @ em_dash @ '' '' @ d)"
| "jmap_error_text (Parse e) = ''unexpected JMAP response shape: '' @ e"
| "jmap_error_text TooLarge = ''attachment exceeds the configured size cap''"

section \<open>Errors returned to the caller\<close>

record error_data =
  err_code :: int
  err_message :: string

definition invalid_params :: "string \<Rightarrow> error_data" where
  "invalid_params m = \<lparr>err_code = - 32602, err_message = m\<rparr>"

definition internal_error :: "string \<Rightarrow> error_data" where
  "internal_error m = \<lparr>err_code = - 32603, err_message = m\<rparr>"

definition RATE_LIMITED_CODE :: int where "RATE_LIMITED_CODE = - 32029"

definition AUTH_EXPIRED_CODE :: int where "AUTH_EXPIRED_CODE = - 32028"

definition UPSTREAM_AUTH_REJECTED_CODE :: int where "UPSTREAM_AUTH_REJECTED_CODE = - 32027"

lemmas code_defs = RATE_LIMITED_CODE_def AUTH_EXPIRED_CODE_def UPSTREAM_AUTH_REJECTED_CODE_def

definition error_class :: "error_data \<Rightarrow> string" where
  "error_class e =
     (let c = err_code e in
      if c = - 32700 then ''parse''
      else if c = - 32600 then ''invalid_request''
      else if c = - 32601 then ''method_not_found''
      else if c = - 32602 then ''invalid_params''
      else if c = - 32603 then ''internal''
      else if c = RATE_LIMITED_CODE then ''rate_limited''
      else if c = AUTH_EXPIRED_CODE then ''auth_expired''
      else if c = UPSTREAM_AUTH_REJECTED_CODE then ''upstream_auth_rejected''
      else ''other'')"

definition missing_identity_err :: error_data where
  "missing_identity_err = internal_error ''no authenticated identity in request context''"

definition missing_token_err :: error_data where
  "missing_token_err = internal_error ''no access token in request context''"

definition map_jmap_err :: "jmap_error \<Rightarrow> error_data" where
  "map_jmap_err e =
     (case e of
        Unauthorized \<Rightarrow>
          \<lparr>err_code = AUTH_EXPIRED_CODE, err_message = ''auth expired; reconnect''\<rparr>
      | Method_Error error_type description \<Rightarrow>
          (if error_type = ''notFound'' \<or> error_type = ''invalidArguments''
           then invalid_params (case description of None \<Rightarrow> jmap_error_text e | Some d \<Rightarrow> d)
           else internal_error (jmap_error_text e))
      | TooLarge \<Rightarrow> invalid_params (jmap_error_text e)
      | _ \<Rightarrow> internal_error (jmap_error_text e))"

lemma err_code_simps [simp]:
  "err_code (invalid_params m) = - 32602" "err_code (internal_error m) = - 32603"
  "err_code missing_identity_err = - 32603" "err_code missing_token_err = - 32603"
  by (simp_all add: invalid_params_def internal_error_def missing_identity_err_def
      missing_token_err_def)

text \<open>The expiry code stands for a rejected credential and nothing else.\<close>

lemma map_jmap_err_expired: "err_code (map_jmap_err e) = AUTH_EXPIRED_CODE \<longleftrightarrow> e = Unauthorized"
  by (cases e) (simp_all add: map_jmap_err_def code_defs)

lemma map_jmap_err_codes:
  "err_code (map_jmap_err e) \<in> {AUTH_EXPIRED_CODE, - 32602, - 32603}"
  by (cases e) (simp_all add: map_jmap_err_def)

end
