(* ===== verification/Url.thy ===== *)
theory Url
  imports Prelude "HOL-Library.Word"
begin

unbundle bit_operations_syntax

text \<open>
  What the sources read of a parsed URL (crate \<^verbatim>\<open>url\<close>) and of an IP address
  (\<^verbatim>\<open>std::net\<close>). The parser itself is not under \<^verbatim>\<open>src/\<close>: it is the argument
  \<open>parse_url\<close> of every definition that calls \<^verbatim>\<open>Url::parse\<close>.
\<close>

type_synonym u8 = "8 word"
type_synonym u16 = "16 word"

record url =
  u_text :: string                    \<comment> \<open>\<^verbatim>\<open>as_str\<close>\<close>
  u_scheme :: string
  u_host :: "string option"           \<comment> \<open>\<^verbatim>\<open>host_str\<close>\<close>
  u_is_domain :: bool                 \<comment> \<open>\<^verbatim>\<open>host()\<close> is \<^verbatim>\<open>Host::Domain\<close>\<close>
  u_port :: "nat option"              \<comment> \<open>\<^verbatim>\<open>port_or_known_default\<close>\<close>
  u_path :: string
  u_query :: "string option"
  u_fragment :: "string option"
  u_username :: string
  u_password :: "string option"

type_synonym url_parser = "string \<Rightarrow> string + url"

datatype ipv4 = Ipv4 u8 u8 u8 u8
datatype ipv6 = Ipv6 u16 u16 u16 u16 u16 u16 u16 u16
datatype ip_addr = V4 ipv4 | V6 ipv6

type_synonym socket_addr = "ip_addr \<times> nat"

section \<open>Address classes of the standard library\<close>

fun v4_is_loopback :: "ipv4 \<Rightarrow> bool" where
  "v4_is_loopback (Ipv4 a b c d) = (a = 127)"

fun v4_is_private :: "ipv4 \<Rightarrow> bool" where
  "v4_is_private (Ipv4 a b c d) =
     (a = 10 \<or> (a = 172 \<and> 16 \<le> b \<and> b \<le> 31) \<or> (a = 192 \<and> b = 168))"

fun v4_is_link_local :: "ipv4 \<Rightarrow> bool" where
  "v4_is_link_local (Ipv4 a b c d) = (a = 169 \<and> b = 254)"

fun v4_is_broadcast :: "ipv4 \<Rightarrow> bool" where
  "v4_is_broadcast (Ipv4 a b c d) = (a = 255 \<and> b = 255 \<and> c = 255 \<and> d = 255)"

fun v4_is_documentation :: "ipv4 \<Rightarrow> bool" where
  "v4_is_documentation (Ipv4 a b c d) =
     ((a = 192 \<and> b = 0 \<and> c = 2) \<or> (a = 198 \<and> b = 51 \<and> c = 100) \<or> (a = 203 \<and> b = 0 \<and> c = 113))"

fun v4_is_unspecified :: "ipv4 \<Rightarrow> bool" where
  "v4_is_unspecified (Ipv4 a b c d) = (a = 0 \<and> b = 0 \<and> c = 0 \<and> d = 0)"

fun v4_is_multicast :: "ipv4 \<Rightarrow> bool" where
  "v4_is_multicast (Ipv4 a b c d) = (224 \<le> a \<and> a \<le> 239)"

fun v6_is_loopback :: "ipv6 \<Rightarrow> bool" where
  "v6_is_loopback (Ipv6 a b c d e f g h) =
     (a = 0 \<and> b = 0 \<and> c = 0 \<and> d = 0 \<and> e = 0 \<and> f = 0 \<and> g = 0 \<and> h = 1)"

fun v6_is_unspecified :: "ipv6 \<Rightarrow> bool" where
  "v6_is_unspecified (Ipv6 a b c d e f g h) =
     (a = 0 \<and> b = 0 \<and> c = 0 \<and> d = 0 \<and> e = 0 \<and> f = 0 \<and> g = 0 \<and> h = 0)"

fun v6_is_multicast :: "ipv6 \<Rightarrow> bool" where
  "v6_is_multicast (Ipv6 a b c d e f g h) = (a AND 0xff00 = 0xff00)"

fun to_ipv4_mapped :: "ipv6 \<Rightarrow> ipv4 option" where
  "to_ipv4_mapped (Ipv6 a b c d e f g h) =
     (if a = 0 \<and> b = 0 \<and> c = 0 \<and> d = 0 \<and> e = 0 \<and> f = 0xffff
      then Some (Ipv4 (ucast (drop_bit 8 g)) (ucast g) (ucast (drop_bit 8 h)) (ucast h))
      else None)"

section \<open>A sample parser\<close>

text \<open>
  A concrete instance of the parser parameter, for the witnesses: scheme, host without its
  port, and path.
\<close>

definition sample_url_parser :: url_parser where
  "sample_url_parser s =
     (case split_once CHR '':'' s of
        None \<Rightarrow> Inl ''relative URL without a base''
      | Some (scheme, rest) \<Rightarrow>
          (let rest = drop 2 rest;
               authority = takeWhile (\<lambda>c. c \<noteq> CHR ''/'') rest;
               path = dropWhile (\<lambda>c. c \<noteq> CHR ''/'') rest
           in Inr \<lparr>u_text = s, u_scheme = scheme,
                   u_host = Some (takeWhile (\<lambda>c. c \<noteq> CHR '':'') authority), u_is_domain = True,
                   u_port = None, u_path = path, u_query = None, u_fragment = None,
                   u_username = [], u_password = None\<rparr>))"

end
