(* ===== verification/Http.thy ===== *)
theory Http
  imports Errors Url
begin

text \<open>
  Effects. The outside world is an abstract value: sending a request consumes a world and
  yields a reply, or the text of a transport error, and the next world. A computation takes a
  state and returns an error or a result, and the state afterwards; the state carries the world
  and, as a ghost, every request sent so far, so that a property of a handler can speak about
  the requests it emits. Handlers run one after the other: a property that must survive
  interleaving is stated per operation on the shared state.
\<close>

section \<open>Requests and replies\<close>

datatype body = No_Body | Json_Body json | Raw_Body string

record http_request =
  rq_method :: string
  rq_url :: string
  rq_auth :: "string option"          \<comment> \<open>the \<^verbatim>\<open>Authorization\<close> header the program sets\<close>
  rq_content_type :: "string option"
  rq_body :: body
  rq_pinned :: "(string \<times> socket_addr list) option"   \<comment> \<open>\<^verbatim>\<open>resolve_to_addrs\<close>\<close>

record http_reply =
  rp_status :: nat
  rp_json :: "string + json"          \<comment> \<open>the body read as JSON\<close>
  rp_bytes :: "string + string"       \<comment> \<open>the body read as bytes\<close>
  rp_length :: "nat option"           \<comment> \<open>\<^verbatim>\<open>Content-Length\<close>\<close>
  rp_content_type :: "string option"
  rp_chunks :: "(string + string) list"  \<comment> \<open>the body read as a stream of chunks\<close>

definition is_success :: "nat \<Rightarrow> bool" where
  "is_success status \<longleftrightarrow> 200 \<le> status \<and> status < 300"

text \<open>The world: the transport, the monotonic clock, and the system clock, in nanoseconds.\<close>

record 'w net =
  net_send :: "http_request \<Rightarrow> 'w \<Rightarrow> (string + http_reply) \<times> 'w"
  net_clock :: "'w \<Rightarrow> nat"
  net_system :: "'w \<Rightarrow> nat"

text \<open>\<^verbatim>\<open>now_unix\<close>: seconds since the epoch.\<close>

definition net_unix :: "('w, 'x) net_scheme \<Rightarrow> 'w \<Rightarrow> int" where
  "net_unix X w = int (net_system X w div 10 ^ 9)"

record 'w io =
  world :: 'w
  trace :: "http_request list"

text \<open>What a handler of the server answers.\<close>

datatype response_body = Text string | Json_Text json | Bytes string

record response =
  rs_status :: nat
  rs_location :: "string option"
  rs_content_type :: "string option"
  rs_www_authenticate :: "string option"
  rs_body :: response_body

definition plain :: "nat \<Rightarrow> string \<Rightarrow> response" where
  "plain status text =
     \<lparr>rs_status = status, rs_location = None, rs_content_type = Some ''text/plain; charset=utf-8'',
      rs_www_authenticate = None, rs_body = Text text\<rparr>"

definition redirect_to :: "string \<Rightarrow> response" where
  "redirect_to url =
     \<lparr>rs_status = 303, rs_location = Some url, rs_content_type = None,
      rs_www_authenticate = None, rs_body = Text []\<rparr>"

definition newline :: string where "newline = [CHR 0x0A]"

section \<open>Computations\<close>

type_synonym ('s, 'e, 'a) comp = "'s \<Rightarrow> ('e + 'a) \<times> 's"

definition ret :: "'a \<Rightarrow> ('s, 'e, 'a) comp" where
  "ret a = (\<lambda>s. (Inr a, s))"

definition fail :: "'e \<Rightarrow> ('s, 'e, 'a) comp" where
  "fail e = (\<lambda>s. (Inl e, s))"

definition bindE :: "('s, 'e, 'a) comp \<Rightarrow> ('a \<Rightarrow> ('s, 'e, 'b) comp) \<Rightarrow> ('s, 'e, 'b) comp" where
  "bindE m k = (\<lambda>s. case m s of (Inl e, s1) \<Rightarrow> (Inl e, s1) | (Inr a, s1) \<Rightarrow> k a s1)"

text \<open>\<^verbatim>\<open>map_err\<close>, and a \<^verbatim>\<open>match\<close> on the result of a computation.\<close>

definition map_err :: "('e \<Rightarrow> 'f) \<Rightarrow> ('s, 'e, 'a) comp \<Rightarrow> ('s, 'f, 'a) comp" where
  "map_err f m = (\<lambda>s. case m s of (Inl e, s1) \<Rightarrow> (Inl (f e), s1) | (Inr a, s1) \<Rightarrow> (Inr a, s1))"

definition attempt :: "('s, 'e, 'a) comp \<Rightarrow> (('e + 'a) \<Rightarrow> ('s, 'f, 'b) comp) \<Rightarrow> ('s, 'f, 'b) comp" where
  "attempt m k = (\<lambda>s. case m s of (r, s1) \<Rightarrow> k r s1)"

definition lift :: "'e + 'a \<Rightarrow> ('s, 'e, 'a) comp" where
  "lift r = (\<lambda>s. (r, s))"

definition need :: "'e \<Rightarrow> 'a option \<Rightarrow> ('s, 'e, 'a) comp" where
  "need e v = (case v of None \<Rightarrow> fail e | Some a \<Rightarrow> ret a)"

definition refuse_if :: "bool \<Rightarrow> 'e \<Rightarrow> ('s, 'e, unit) comp" where
  "refuse_if c e = (if c then fail e else ret ())"

definition gets :: "('s \<Rightarrow> 'a) \<Rightarrow> ('s, 'e, 'a) comp" where
  "gets f = (\<lambda>s. (Inr (f s), s))"

definition modifies :: "('s \<Rightarrow> 's) \<Rightarrow> ('s, 'e, unit) comp" where
  "modifies f = (\<lambda>s. (Inr (), f s))"

definition send :: "('w, 'x) net_scheme \<Rightarrow> http_request \<Rightarrow> (('w, 'm) io_scheme, string, http_reply) comp" where
  "send X rq = (\<lambda>s. case net_send X rq (world s) of
     (r, w) \<Rightarrow> (r, s\<lparr>world := w, trace := trace s @ [rq]\<rparr>))"

definition now_of :: "('w, 'x) net_scheme \<Rightarrow> ('w, 'm) io_scheme \<Rightarrow> nat" where
  "now_of X s = net_clock X (world s)"

lemmas comp_defs = ret_def fail_def bindE_def map_err_def attempt_def lift_def need_def
  refuse_if_def gets_def modifies_def

lemma bindE_Inr: "bindE m k s = (Inr b, s2) \<longleftrightarrow> (\<exists>a s1. m s = (Inr a, s1) \<and> k a s1 = (Inr b, s2))"
  by (auto simp: bindE_def split: prod.splits sum.splits)

lemma bindE_step: "m s = (Inr a, s1) \<Longrightarrow> bindE m k s = k a s1"
  by (simp add: bindE_def)

lemma bindE_gets: "bindE (gets f) k s = k (f s) s"
  by (simp add: bindE_def gets_def)

lemma bindE_fail: "m s = (Inl e, s1) \<Longrightarrow> bindE m k s = (Inl e, s1)"
  by (simp add: bindE_def)

section \<open>The requests a computation emits\<close>

definition emits :: "(http_request \<Rightarrow> bool) \<Rightarrow> (('w, 'm) io_scheme, 'e, 'a) comp \<Rightarrow> bool" where
  "emits P m \<longleftrightarrow> (\<forall>s. \<exists>new. trace (snd (m s)) = trace s @ new \<and> list_all P new)"

named_theorems emits_intros

lemma emits_ret [emits_intros]: "emits P (ret a)"
  by (simp add: emits_def ret_def)

lemma emits_fail [emits_intros]: "emits P (fail e)"
  by (simp add: emits_def fail_def)

lemma emits_lift [emits_intros]: "emits P (lift r)"
  by (simp add: emits_def lift_def)

lemma emits_need [emits_intros]: "emits P (need e v)"
  by (simp add: need_def emits_ret emits_fail split: option.split)

lemma emits_refuse_if [emits_intros]: "emits P (refuse_if c e)"
  by (simp add: refuse_if_def emits_ret emits_fail)

lemma emits_gets [emits_intros]: "emits P (gets f)"
  by (simp add: emits_def gets_def)

lemma emits_modifies: "(\<And>s. trace (f s) = trace s) \<Longrightarrow> emits P (modifies f)"
  by (simp add: emits_def modifies_def)

lemma emits_attempt [emits_intros]:
  assumes "emits P m" and "\<And>r. emits P (k r)"
  shows "emits P (attempt m k)"
  unfolding emits_def
proof
  fix s
  obtain r s1 where m: "m s = (r, s1)" by (cases "m s")
  obtain n1 where n1: "trace s1 = trace s @ n1" "list_all P n1"
    using assms(1) m unfolding emits_def by (metis snd_conv)
  obtain n2 where n2: "trace (snd (k r s1)) = trace s1 @ n2" "list_all P n2"
    using assms(2) unfolding emits_def by metis
  show "\<exists>new. trace (snd (attempt m k s)) = trace s @ new \<and> list_all P new"
    using m n1 n2 by (intro exI [of _ "n1 @ n2"]) (simp add: attempt_def)
qed

lemma bindE_attempt: "bindE m k = attempt m (\<lambda>r. case r of Inl e \<Rightarrow> fail e | Inr a \<Rightarrow> k a)"
  by (auto simp: bindE_def attempt_def fail_def split: prod.splits sum.splits)

lemma map_err_attempt: "map_err f m = attempt m (\<lambda>r. case r of Inl e \<Rightarrow> fail (f e) | Inr a \<Rightarrow> ret a)"
  by (auto simp: map_err_def attempt_def fail_def ret_def split: prod.splits sum.splits)

lemma emits_bindE [emits_intros]: "emits P m \<Longrightarrow> (\<And>a. emits P (k a)) \<Longrightarrow> emits P (bindE m k)"
  unfolding bindE_attempt by (rule emits_attempt) (auto intro: emits_fail split: sum.split)

lemma emits_map_err [emits_intros]: "emits P m \<Longrightarrow> emits P (map_err f m)"
  unfolding map_err_attempt by (rule emits_attempt) (auto intro: emits_fail emits_ret split: sum.split)

lemma emits_if [emits_intros]: "(c \<Longrightarrow> emits P a) \<Longrightarrow> (\<not> c \<Longrightarrow> emits P b) \<Longrightarrow> emits P (if c then a else b)"
  by simp

lemma emits_case_option [emits_intros]:
  "(v = None \<Longrightarrow> emits P a) \<Longrightarrow> (\<And>x. v = Some x \<Longrightarrow> emits P (b x)) \<Longrightarrow> emits P (case v of None \<Rightarrow> a | Some x \<Rightarrow> b x)"
  by (cases v) simp_all

lemma emits_case_sum [emits_intros]:
  "(\<And>x. v = Inl x \<Longrightarrow> emits P (a x)) \<Longrightarrow> (\<And>x. v = Inr x \<Longrightarrow> emits P (b x)) \<Longrightarrow> emits P (case v of Inl x \<Rightarrow> a x | Inr x \<Rightarrow> b x)"
  by (cases v) simp_all

lemma emits_case_prod [emits_intros]:
  "(\<And>x y. v = (x, y) \<Longrightarrow> emits P (a x y)) \<Longrightarrow> emits P (case v of (x, y) \<Rightarrow> a x y)"
  by (cases v) simp

lemma emits_Let [emits_intros]: "emits P (f v) \<Longrightarrow> emits P (Let v f)"
  by (simp add: Let_def)

lemma emits_send: "P rq \<Longrightarrow> emits P (send X rq)"
  by (auto simp: emits_def send_def split: prod.split)

lemma emits_weaken: "emits P m \<Longrightarrow> (\<And>r. P r \<Longrightarrow> Q r) \<Longrightarrow> emits Q m"
  unfolding emits_def by (metis list.pred_mono_strong)

lemma emitsD: "emits P m \<Longrightarrow> m s = (r, s1) \<Longrightarrow> \<exists>new. trace s1 = trace s @ new \<and> list_all P new"
  unfolding emits_def by (metis snd_conv)

section \<open>What a computation preserves\<close>

text \<open>
  A computation preserves a relation when it takes every state to one that is related to it. For
  an invariant the relation is an implication, for a part of the state that nothing changes an
  equality (\<open>keeps\<close>). Computations that are made of preserving ones preserve every preorder.
\<close>

definition preserves :: "('s \<Rightarrow> 's \<Rightarrow> bool) \<Rightarrow> ('s, 'e, 'a) comp \<Rightarrow> bool" where
  "preserves R m \<longleftrightarrow> (\<forall>s. R s (snd (m s)))"

abbreviation keeps :: "('s \<Rightarrow> 'v) \<Rightarrow> ('s, 'e, 'a) comp \<Rightarrow> bool" where
  "keeps f \<equiv> preserves (\<lambda>s s1. f s1 = f s)"

lemma preservesD: "preserves R m \<Longrightarrow> m s = (r, s1) \<Longrightarrow> R s s1"
  unfolding preserves_def by (metis snd_conv)

lemma preserves_modifies: "(\<And>s. R s (g s)) \<Longrightarrow> preserves R (modifies g)"
  by (simp add: preserves_def modifies_def)

lemma preserves_branch:
  "(c \<Longrightarrow> preserves R m1) \<Longrightarrow> (\<not> c \<Longrightarrow> preserves R m2) \<Longrightarrow> preserves R (if c then m1 else m2)"
  "(v = None \<Longrightarrow> preserves R m1) \<Longrightarrow> (\<And>x. v = Some x \<Longrightarrow> preserves R (b x))
   \<Longrightarrow> preserves R (case v of None \<Rightarrow> m1 | Some x \<Rightarrow> b x)"
  "preserves R (g u) \<Longrightarrow> preserves R (Let u g)"
  by (cases v; simp)+

lemma preserves_case:
  "(\<And>x. w = Inl x \<Longrightarrow> preserves R (c x)) \<Longrightarrow> (\<And>y. w = Inr y \<Longrightarrow> preserves R (d y))
   \<Longrightarrow> preserves R (case w of Inl x \<Rightarrow> c x | Inr y \<Rightarrow> d y)"
  "(\<And>x y. z = (x, y) \<Longrightarrow> preserves R (h x y)) \<Longrightarrow> preserves R (case z of (x, y) \<Rightarrow> h x y)"
  by (cases w; simp) (cases z; simp)

locale state_relation =
  fixes R :: "'s \<Rightarrow> 's \<Rightarrow> bool"
  assumes related_refl: "R s s"
    and related_trans: "R s t \<Longrightarrow> R t u \<Longrightarrow> R s u"
begin

lemma preserves_basic:
  "preserves R (ret a)" "preserves R (fail e)" "preserves R (lift r)" "preserves R (gets g)"
  "preserves R (need e v)" "preserves R (refuse_if c e)"
  by (simp_all add: preserves_def comp_defs related_refl split: option.split)

text \<open>The second step may rely on what the first one says of its result and its state.\<close>

lemma preserves_attempt_with:
  assumes "preserves R m" and "\<And>s r s1. m s = (r, s1) \<Longrightarrow> R s1 (snd (k r s1))"
  shows "preserves R (attempt m k)"
  unfolding preserves_def
proof
  fix s
  obtain r s1 where m: "m s = (r, s1)" by (cases "m s")
  show "R s (snd (attempt m k s))"
    using related_trans [OF preservesD [OF assms(1) m] assms(2) [OF m]] m by (simp add: attempt_def)
qed

lemma preserves_attempt: "preserves R m \<Longrightarrow> (\<And>r. preserves R (k r)) \<Longrightarrow> preserves R (attempt m k)"
  by (rule preserves_attempt_with) (simp_all add: preserves_def)

lemma preserves_bindE_with:
  assumes "preserves R m" and "\<And>s a s1. m s = (Inr a, s1) \<Longrightarrow> R s1 (snd (k a s1))"
  shows "preserves R (bindE m k)"
  unfolding bindE_attempt using assms
  by (intro preserves_attempt_with) (auto simp: fail_def related_refl split: sum.split)

lemma preserves_bindE: "preserves R m \<Longrightarrow> (\<And>a. preserves R (k a)) \<Longrightarrow> preserves R (bindE m k)"
  by (rule preserves_bindE_with) (simp_all add: preserves_def)

lemma preserves_lift: "(\<And>a. r = Inr a \<Longrightarrow> preserves R (k a)) \<Longrightarrow> preserves R (bindE (lift r) k)"
  by (cases r) (auto simp: preserves_def bindE_def lift_def related_refl)

lemma preserves_gets: "(\<And>s. R s (snd (k (f s) s))) \<Longrightarrow> preserves R (bindE (gets f) k)"
  by (simp add: preserves_def bindE_def gets_def)

lemma preserves_map_err: "preserves R m \<Longrightarrow> preserves R (map_err g m)"
  unfolding map_err_attempt
  by (rule preserves_attempt) (auto intro: preserves_basic split: sum.split)

lemmas preserves_intros = preserves_basic preserves_attempt preserves_bindE preserves_map_err
  preserves_branch preserves_case

end

interpretation same: state_relation "\<lambda>s s1. f s1 = f s" for f
  by unfold_locales simp_all

end
