(* ===== verification/Capped_Store.thy ===== *)
theory Capped_Store
  imports Json
begin

text \<open>
  The bounded in-memory maps of the server. A \<^verbatim>\<open>HashMap\<close> is an association list with distinct
  keys whose order stands for the iteration order, which the language leaves open: every lemma
  holds for every order. The locale states what the four stores have in common; the theories of
  the stores interpret it on the code's own operations.
\<close>

section \<open>Evicting the least entry\<close>

text \<open>\<^verbatim>\<open>iter().min_by_key(f)\<close>: the first of the least.\<close>

fun min_by_key :: "('a \<Rightarrow> nat) \<Rightarrow> 'a list \<Rightarrow> 'a option" where
  "min_by_key f [] = None"
| "min_by_key f (x # xs) =
     (case min_by_key f xs of
        None \<Rightarrow> Some x
      | Some y \<Rightarrow> if f x \<le> f y then Some x else Some y)"

text \<open>\<^verbatim>\<open>iter().max_by_key(f)\<close>: the last of the greatest.\<close>

fun max_by_key :: "('a \<Rightarrow> nat) \<Rightarrow> 'a list \<Rightarrow> 'a option" where
  "max_by_key f [] = None"
| "max_by_key f (x # xs) =
     (case max_by_key f xs of
        None \<Rightarrow> Some x
      | Some y \<Rightarrow> if f y < f x then Some x else Some y)"

definition remove_found :: "('k \<times> 'v) option \<Rightarrow> ('k \<times> 'v) list \<Rightarrow> ('k \<times> 'v) list" where
  "remove_found e m = (case e of None \<Rightarrow> m | Some (k, _) \<Rightarrow> AList.delete k m)"

lemma min_by_key_None [simp]: "min_by_key f xs = None \<longleftrightarrow> xs = []"
  by (induction xs) (auto split: option.splits)

lemma max_by_key_None [simp]: "max_by_key f xs = None \<longleftrightarrow> xs = []"
  by (induction xs) (auto split: option.splits)

lemma min_by_key_in: "min_by_key f xs = Some x \<Longrightarrow> x \<in> set xs"
  by (induction xs arbitrary: x) (auto split: option.splits if_splits)

lemma max_by_key_in: "max_by_key f xs = Some x \<Longrightarrow> x \<in> set xs"
  by (induction xs arbitrary: x) (auto split: option.splits if_splits)

lemma min_by_key_least: "min_by_key f xs = Some x \<Longrightarrow> y \<in> set xs \<Longrightarrow> f x \<le> f y"
  by (induction xs arbitrary: x) (fastforce split: option.splits if_splits)+

lemma max_by_key_greatest: "max_by_key f xs = Some x \<Longrightarrow> y \<in> set xs \<Longrightarrow> f y \<le> f x"
  by (induction xs arbitrary: x) (fastforce split: option.splits if_splits)+

lemma min_by_key_subset: "set_option (min_by_key f xs) \<subseteq> set xs"
  by (auto dest: min_by_key_in)

lemma max_by_key_subset: "set_option (max_by_key f xs) \<subseteq> set xs"
  by (auto dest: max_by_key_in)

section \<open>Association lists with distinct keys\<close>

abbreviation keys :: "('k \<times> 'v) list \<Rightarrow> 'k list" where
  "keys m \<equiv> map fst m"

lemma length_delete_member:
  assumes "distinct (keys m)" "k \<in> set (keys m)"
  shows "length (AList.delete k m) < length m"
proof -
  obtain v where "(k, v) \<in> set m" using assms(2) by auto
  then show ?thesis unfolding AList.delete_eq by (rule length_filter_less) simp
qed

lemma length_delete: "length (AList.delete k m) \<le> length m"
  by (simp add: AList.delete_eq)

lemma length_update:
  "length (AList.update k v m) = (if k \<in> set (keys m) then length m else Suc (length m))"
  by (induction m) auto

lemma length_update_found: "map_of m k = Some v \<Longrightarrow> length (AList.update k w m) = length m"
  by (auto simp: length_update dest!: map_of_SomeD intro: rev_image_eqI)

lemma keys_delete: "k' \<in> set (keys (AList.delete k m)) \<longleftrightarrow> k' \<in> set (keys m) \<and> k' \<noteq> k"
  by (auto simp: AList.delete_eq)

lemma distinct_keys_delete: "distinct (keys m) \<Longrightarrow> distinct (keys (AList.delete k m))"
  by (rule distinct_delete)

lemma distinct_keys_filter: "distinct (keys m) \<Longrightarrow> distinct (keys (filter P m))"
  by (induction m) auto

lemma map_of_filter_Some:
  "distinct (keys m) \<Longrightarrow> map_of (filter P m) k = Some v \<Longrightarrow> map_of m k = Some v"
  by (metis (no_types, lifting) distinct_keys_filter map_of_eq_Some_iff filter_is_subset subsetD)

lemma map_of_delete: "map_of (AList.delete k m) k' = (if k' = k then None else map_of m k')"
  by (simp add: AList.delete_conv)

lemma remove_found_laws:
  assumes "distinct (keys m)" and "set_option e \<subseteq> set m"
  shows "distinct (keys (remove_found e m))"
    and "length (remove_found e m) \<le> length m"
    and "e \<noteq> None \<Longrightarrow> length (remove_found e m) < length m"
    and "map_of (remove_found e m) k' = Some w \<Longrightarrow> map_of m k' = Some w"
    and "set (keys (remove_found e m)) \<subseteq> set (keys m)"
proof -
  show "distinct (keys (remove_found e m))"
    using assms(1) by (auto simp: remove_found_def distinct_delete split: option.split prod.split)
  show "length (remove_found e m) \<le> length m"
    by (auto simp: remove_found_def length_delete split: option.split prod.split)
  show "e \<noteq> None \<Longrightarrow> length (remove_found e m) < length m"
    using assms(2) length_delete_member [OF assms(1)]
    by (force simp: remove_found_def split: option.split prod.split)
  show "map_of (remove_found e m) k' = Some w \<Longrightarrow> map_of m k' = Some w"
    by (auto simp: remove_found_def map_of_delete split: option.splits prod.splits if_splits)
  show "set (keys (remove_found e m)) \<subseteq> set (keys m)"
    by (auto simp: remove_found_def AList.delete_eq split: option.split prod.split)
qed

section \<open>Making room for a new key\<close>

text \<open>What the stores do before an insertion: at the cap, a new key evicts the chosen entry.\<close>

definition make_room ::
  "nat \<Rightarrow> ('k \<times> 'v) option \<Rightarrow> 'k \<Rightarrow> ('k \<times> 'v) list \<Rightarrow> ('k \<times> 'v) list" where
  "make_room cap e k m = (if cap \<le> length m \<and> map_of m k = None then remove_found e m else m)"

lemma make_room_laws:
  assumes "distinct (keys m)" and "set_option e \<subseteq> set m"
  shows "distinct (keys (AList.update k v (make_room cap e k m)))"
    and "length m \<le> cap \<Longrightarrow> 0 < cap \<Longrightarrow> (m \<noteq> [] \<Longrightarrow> e \<noteq> None)
         \<Longrightarrow> length (AList.update k v (make_room cap e k m)) \<le> cap"
    and "k \<noteq> k' \<Longrightarrow> map_of (AList.update k v (make_room cap e k m)) k' = Some w
         \<Longrightarrow> map_of m k' = Some w"
proof -
  note r = remove_found_laws [OF assms]
  show "distinct (keys (AList.update k v (make_room cap e k m)))"
    using assms(1) r(1) by (simp add: make_room_def distinct_update)
  show "k \<noteq> k' \<Longrightarrow> map_of (AList.update k v (make_room cap e k m)) k' = Some w
         \<Longrightarrow> map_of m k' = Some w"
    using r(4) [of k' w] by (auto simp: make_room_def update_conv' split: if_splits)
  assume len: "length m \<le> cap" "0 < cap" and e: "m \<noteq> [] \<Longrightarrow> e \<noteq> None"
  show "length (AList.update k v (make_room cap e k m)) \<le> cap"
  proof (cases "cap \<le> length m \<and> map_of m k = None")
    case True
    then have "e \<noteq> None" using e len by auto
    then have "length (remove_found e m) < length m" by (rule r(3))
    then show ?thesis using True len by (simp add: make_room_def length_update)
  next
    case False
    then have "length m < cap \<or> k \<in> set (keys m)"
      by (auto simp: map_of_eq_None_iff)
    moreover have "make_room cap e k m = m" using False unfolding make_room_def by (rule if_not_P)
    ultimately show ?thesis using len by (auto simp: length_update)
  qed
qed

section \<open>The interface\<close>

locale capped_store =
  fixes cap :: nat
    and op_key :: "'o \<Rightarrow> 'k"
    and step :: "'o \<Rightarrow> ('k \<times> 'v) list \<Rightarrow> ('k \<times> 'v) list"
  assumes step_distinct: "distinct (keys m) \<Longrightarrow> distinct (keys (step opn m))"
    and step_bounded: "distinct (keys m) \<Longrightarrow> length m \<le> cap \<Longrightarrow> length (step opn m) \<le> cap"
    and step_others:
      "distinct (keys m) \<Longrightarrow> op_key opn \<noteq> k \<Longrightarrow> map_of (step opn m) k = Some v
       \<Longrightarrow> map_of m k = Some v"
begin

definition run :: "'o list \<Rightarrow> ('k \<times> 'v) list" where
  "run ops = fold step ops []"

lemma run_snoc: "run (ops @ [opn]) = step opn (run ops)"
  by (simp add: run_def)

lemma run_invariant: "distinct (keys (run ops)) \<and> length (run ops) \<le> cap"
proof (induction ops rule: rev_induct)
  case Nil
  then show ?case by (simp add: run_def)
next
  case (snoc opn ops)
  then show ?case unfolding run_snoc using step_distinct step_bounded by blast
qed

lemma run_origin:
  assumes "map_of (run ops) k = Some v"
  shows "\<exists>before opn rest. ops = before @ opn # rest \<and> op_key opn = k
           \<and> (\<forall>o' \<in> set rest. op_key o' \<noteq> k) \<and> map_of (run (before @ [opn])) k = Some v"
  using assms
proof (induction ops rule: rev_induct)
  case Nil
  then show ?case by (simp add: run_def)
next
  case (snoc opn ops)
  show ?case
  proof (cases "op_key opn = k")
    case True
    with snoc.prems show ?thesis by (intro exI [of _ ops] exI [of _ opn] exI [of _ "[]"]) simp
  next
    case False
    have "map_of (run ops) k = Some v"
      using step_others [OF _ False] run_invariant snoc.prems unfolding run_snoc by blast
    then obtain before o' rest where
      "ops = before @ o' # rest" "op_key o' = k" "\<forall>x \<in> set rest. op_key x \<noteq> k"
      "map_of (run (before @ [o'])) k = Some v"
      using snoc.IH by blast
    with False show ?thesis
      by (intro exI [of _ before] exI [of _ o'] exI [of _ "rest @ [opn]"]) auto
  qed
qed

end

end
