(* ===== verification/From_Address.thy ===== *)
theory From_Address
  imports Errors "HOL-Library.Multiset"
begin

text \<open>
  The choice of the sender of a message (\<^verbatim>\<open>src/mcp.rs\<close>): which addresses a mailbox owns
  (its JMAP identities, the aliases of its principal, and the addresses the operator granted
  its account), which of them are shared role addresses, and \<^verbatim>\<open>choose_from_address\<close>, which
  decides the \<^verbatim>\<open>From\<close> of a submission and the identity it is submitted under.
\<close>

section \<open>Addresses\<close>

record owned_address =
  oa_email :: string
  oa_identity_id :: "string option"
  oa_name :: "string option"

record chosen_from =
  cf_email :: string
  cf_name :: "string option"
  cf_identity_id :: string

record owned_from_address =
  ofa_owner :: string
  ofa_email :: string

definition ROLE_LOCAL_PARTS :: "string list" where
  "ROLE_LOCAL_PARTS =
     [''abuse'', ''admin'', ''administrator'', ''billing'', ''bounces'', ''contact'', ''dmarc'',
      ''help'', ''hostmaster'', ''info'', ''mailer-daemon'', ''marketing'', ''no-reply'', ''noc'',
      ''noreply'', ''postmaster'', ''root'', ''sales'', ''security'', ''support'', ''team'',
      ''usenet'', ''uucp'', ''webmaster'', ''www'']"

definition is_role_address :: "string \<Rightarrow> bool" where
  "is_role_address email =
     (let local_part = to_ascii_lowercase (hd (split_char CHR ''@'' email))
      in local_part \<in> set ROLE_LOCAL_PARTS)"

text \<open>\<^verbatim>\<open>ChosenFrom::header\<close>.\<close>

definition from_header :: "chosen_from \<Rightarrow> json" where
  "from_header c =
     (case cf_name c of
        None \<Rightarrow> jobj [(''email'', JStr (cf_email c))]
      | Some n \<Rightarrow>
          (if trim n = [] then jobj [(''email'', JStr (cf_email c))]
           else jobj [(''name'', JStr (trim n)), (''email'', JStr (cf_email c))]))"

section \<open>The choice\<close>

definition comma_join :: "string list \<Rightarrow> string" where
  "comma_join v = concat (case v of [] \<Rightarrow> [] | x # xs \<Rightarrow> x # concat (map (\<lambda>y. ['', '', y]) xs))"

definition sendable_list :: "owned_address list \<Rightarrow> string" where
  "sendable_list owned =
     (let v = sort (map oa_email (filter (\<lambda>a. \<not> is_role_address (oa_email a)) owned))
      in if v = [] then ''(none)'' else comma_join v)"

definition fallback_identity_id :: "owned_address list \<Rightarrow> string option \<Rightarrow> string option" where
  "fallback_identity_id owned session_email =
     (let own = (case session_email of
                   None \<Rightarrow> None
                 | Some me \<Rightarrow>
                     Option.bind
                       (find (\<lambda>a. eq_ignore_ascii_case (oa_email a) me \<and> oa_identity_id a \<noteq> None) owned)
                       oa_identity_id)
      in case own of
           Some i \<Rightarrow> Some i
         | None \<Rightarrow>
             Option.bind
               (find (\<lambda>a. oa_identity_id a \<noteq> None \<and> \<not> is_role_address (oa_email a)) owned)
               oa_identity_id)"

definition find_owned :: "owned_address list \<Rightarrow> string \<Rightarrow> owned_address option" where
  "find_owned owned want = find (\<lambda>a. eq_ignore_ascii_case (oa_email a) (trim want)) owned"

text \<open>The explicit \<^verbatim>\<open>from\<close>: trimmed, and only when something is left.\<close>

definition explicit_want :: "string option \<Rightarrow> string option" where
  "explicit_want explicit_from =
     (case explicit_from of
        None \<Rightarrow> None
      | Some w \<Rightarrow> if trim w = [] then None else Some (trim w))"

definition choose_address ::
  "owned_address list \<Rightarrow> string option \<Rightarrow> string list \<Rightarrow> string option
   \<Rightarrow> error_data + owned_address" where
  "choose_address owned explicit_from preferred session_email =
     (case explicit_want explicit_from of
        Some want \<Rightarrow>
          (case find_owned owned want of
             None \<Rightarrow>
               Inl (invalid_params (want @ '' is not an address on this mailbox. Sendable addresses: ''
                 @ sendable_list owned))
           | Some found \<Rightarrow>
               (if is_role_address (oa_email found) then
                  Inl (invalid_params (oa_email found
                    @ '' is a shared role address and must not be used as a personal From. ''
                    @ ''Sendable addresses: '' @ sendable_list owned))
                else Inr found))
      | None \<Rightarrow>
          (case find (\<lambda>a. \<not> is_role_address (oa_email a))
                  (List.map_filter (find_owned owned) preferred) of
             Some a \<Rightarrow> Inr a
           | None \<Rightarrow>
               (case Option.bind session_email (find_owned owned) of
                  Some a \<Rightarrow>
                    (if \<not> is_role_address (oa_email a) then Inr a
                     else Inl (invalid_params (''cannot determine which address to send as '' @ em_dash
                       @ '' pass `from` explicitly. Sendable addresses: '' @ sendable_list owned)))
                | None \<Rightarrow>
                    Inl (invalid_params (''cannot determine which address to send as '' @ em_dash
                      @ '' pass `from` explicitly. Sendable addresses: '' @ sendable_list owned)))))"

definition choose_from_address ::
  "owned_address list \<Rightarrow> string option \<Rightarrow> string list \<Rightarrow> string option
   \<Rightarrow> error_data + chosen_from" where
  "choose_from_address owned explicit_from preferred session_email =
     (if owned = [] then
        Inl (invalid_params ''this account has no sending addresses configured'')
      else case choose_address owned explicit_from preferred session_email of
        Inl e \<Rightarrow> Inl e
      | Inr chosen \<Rightarrow>
          (case (case oa_identity_id chosen of
                   Some i \<Rightarrow> Some i
                 | None \<Rightarrow> fallback_identity_id owned session_email) of
             None \<Rightarrow>
               Inl (invalid_params (oa_email chosen
                 @ '' is an alias on this mailbox, but no personal identity exists to submit ''
                 @ ''it under''))
           | Some identity_id \<Rightarrow>
               Inr \<lparr>cf_email = oa_email chosen, cf_name = oa_name chosen,
                    cf_identity_id = identity_id\<rparr>))"

section \<open>The owned addresses\<close>

type_synonym responses = "(string \<times> json \<times> string) list"

abbreviation str_field :: "json \<Rightarrow> string \<Rightarrow> string option" where
  "str_field \<equiv> get_str"

text \<open>The first response of a method, and its \<^verbatim>\<open>list\<close>.\<close>

definition method_payload :: "responses \<Rightarrow> string \<Rightarrow> json option" where
  "method_payload resps meth = map_option (fst \<circ> snd) (find (\<lambda>r. fst r = meth) resps)"

definition method_list :: "responses \<Rightarrow> string \<Rightarrow> json list" where
  "method_list resps meth =
     (case Option.bind (method_payload resps meth) (\<lambda>p. get_array p ''list'') of
        None \<Rightarrow> [] | Some l \<Rightarrow> l)"

text \<open>A \<^verbatim>\<open>HashMap\<close> collected from pairs: a later entry of a key replaces an earlier one.\<close>

definition domain_map :: "responses \<Rightarrow> string \<Rightarrow> string option" where
  "domain_map resps =
     map_of (rev (List.map_filter
       (\<lambda>d. Option.bind (str_field d ''id'') (\<lambda>i. map_option (Pair i) (str_field d ''name'')))
       (method_list resps ''x:Domain/get'')))"

definition principal_is :: "json \<Rightarrow> string \<Rightarrow> bool" where
  "principal_is account username =
     (let local_part = hd (split_char CHR ''@'' username) in
      list_ex (\<lambda>v. eq_ignore_ascii_case v username \<or> eq_ignore_ascii_case v local_part)
        (List.map_filter (str_field account) [''email'', ''name'', ''description'']))"

definition alias_of :: "(string \<Rightarrow> string option) \<Rightarrow> json \<Rightarrow> owned_address option" where
  "alias_of domains al =
     (if Option.bind (json_get al ''enabled'') as_bool = Some False then None
      else case (str_field al ''name'', str_field al ''domainId'') of
        (Some name, Some domain_id) \<Rightarrow>
          map_option
            (\<lambda>domain. \<lparr>oa_email = name @ ''@'' @ domain, oa_identity_id = None,
                       oa_name = str_field al ''description''\<rparr>)
            (domains domain_id)
      | _ \<Rightarrow> None)"

definition aliases_of :: "json \<Rightarrow> (string \<Rightarrow> string option) \<Rightarrow> owned_address list" where
  "aliases_of account domains =
     (let entries = (case json_get account ''aliases'' of
                       Some (JArr l) \<Rightarrow> l
                     | Some (JObj m) \<Rightarrow> map snd m
                     | _ \<Rightarrow> [])
      in sort_key oa_email (List.map_filter (alias_of domains) entries))"

definition principal_aliases_unavailable :: "jmap_error \<Rightarrow> bool" where
  "principal_aliases_unavailable e =
     (case e of
        Method_Error error_type _ \<Rightarrow>
          error_type = ''unknownMethod'' \<or> error_type = ''unknownCapability''
          \<or> error_type = ''forbidden''
      | _ \<Rightarrow> False)"

definition extras_granted_to ::
  "string option \<Rightarrow> owned_from_address list \<Rightarrow> owned_from_address list" where
  "extras_granted_to session_username extras =
     (case session_username of
        None \<Rightarrow> []
      | Some user \<Rightarrow>
          filter (\<lambda>e. eq_ignore_ascii_case user (ofa_owner e))
            (filter (\<lambda>e. \<not> is_role_address (ofa_email e)) extras))"

text \<open>The three stages of \<^verbatim>\<open>owned_addresses\<close>; the requests between them are in the service.\<close>

definition identity_address :: "json \<Rightarrow> owned_address option" where
  "identity_address i =
     (case (str_field i ''email'', str_field i ''id'') of
        (Some email, Some ident) \<Rightarrow>
          Some \<lparr>oa_email = email, oa_identity_id = Some ident, oa_name = str_field i ''name''\<rparr>
      | _ \<Rightarrow> None)"

fun add_unowned :: "owned_address list \<Rightarrow> owned_address list \<Rightarrow> owned_address list" where
  "add_unowned out [] = out"
| "add_unowned out (al # as) =
     (if list_ex (\<lambda>a. eq_ignore_ascii_case (oa_email a) (oa_email al)) out
      then add_unowned out as
      else add_unowned (out @ [al]) as)"

definition extra_address :: "owned_from_address \<Rightarrow> owned_address" where
  "extra_address e = \<lparr>oa_email = ofa_email e, oa_identity_id = None, oa_name = None\<rparr>"

definition merge_owned ::
  "json list \<Rightarrow> owned_address list \<Rightarrow> owned_from_address list \<Rightarrow> owned_address list" where
  "merge_owned identities aliases granted =
     add_unowned (add_unowned (List.map_filter identity_address identities) aliases)
       (map extra_address granted)"

section \<open>Properties of the choice\<close>

lemma find_owned_SomeD:
  "find_owned owned w = Some a \<Longrightarrow> a \<in> set owned \<and> eq_ignore_ascii_case (oa_email a) (trim w)"
  by (auto simp: find_owned_def find_Some_iff)

lemma choose_address_ok:
  assumes "choose_address owned ex pref se = Inr a"
  shows "a \<in> set owned \<and> \<not> is_role_address (oa_email a)
    \<and> (\<exists>w. (explicit_want ex = Some w \<or> (explicit_want ex = None \<and> (w \<in> set pref \<or> se = Some w)))
           \<and> find_owned owned w = Some a)"
proof (cases "explicit_want ex")
  case (Some w)
  then show ?thesis
    using assms find_owned_SomeD [of owned w a] by (auto simp: choose_address_def split: option.splits if_splits)
next
  case None
  show ?thesis
  proof (cases "find (\<lambda>a. \<not> is_role_address (oa_email a)) (List.map_filter (find_owned owned) pref)")
    case (Some b)
    then have "b \<in> set (List.map_filter (find_owned owned) pref)" "\<not> is_role_address (oa_email b)"
      by (auto simp: find_Some_iff)
    moreover have "b = a" using assms None Some by (simp add: choose_address_def)
    ultimately show ?thesis
      using None find_owned_SomeD [of owned _ a] by (fastforce simp: List.map_filter_def)
  next
    case N: None
    then show ?thesis
      using assms None find_owned_SomeD [of owned _ a] by (auto simp: choose_address_def split: option.splits bind_splits if_splits)
  qed
qed

lemma fallback_identity_id_ok:
  "fallback_identity_id owned se = Some i \<Longrightarrow> \<exists>a \<in> set owned. oa_identity_id a = Some i"
  by (auto simp: fallback_identity_id_def find_Some_iff Let_def split: option.splits bind_splits)

lemma choose_from_address_ok:
  assumes "choose_from_address owned ex pref se = Inr c"
  shows "\<exists>a \<in> set owned. choose_address owned ex pref se = Inr a
    \<and> cf_email c = oa_email a \<and> cf_name c = oa_name a
    \<and> (\<exists>b \<in> set owned. oa_identity_id b = Some (cf_identity_id c))
    \<and> (oa_identity_id a \<noteq> None \<longrightarrow> oa_identity_id a = Some (cf_identity_id c))"
proof -
  obtain a i where a: "choose_address owned ex pref se = Inr a"
    and i: "(case oa_identity_id a of Some i \<Rightarrow> Some i | None \<Rightarrow> fallback_identity_id owned se) = Some i"
    and c: "c = \<lparr>cf_email = oa_email a, cf_name = oa_name a, cf_identity_id = i\<rparr>"
    using assms by (auto simp: choose_from_address_def)
  have "a \<in> set owned" using choose_address_ok [OF a] by simp
  moreover from this have "\<exists>b \<in> set owned. oa_identity_id b = Some i"
    using i fallback_identity_id_ok [of owned se i] by (cases "oa_identity_id a") auto
  ultimately show ?thesis using a i c by (intro bexI [of _ a]) (auto split: option.splits)
qed

lemma set_add_unowned: "set (add_unowned out as) \<subseteq> set out \<union> set as"
  by (induction out as rule: add_unowned.induct) auto


text \<open>
  C11. The sender is authorised: whatever \<^verbatim>\<open>from\<close>, reply addresses and signed-in user a request
  carries, the chosen \<^verbatim>\<open>From\<close> is never a role address, it belongs to an identity of the
  account, to an enabled alias of its principal, or to an address the operator granted to the
  account the backend says the credential is; and the identity it is submitted under is one
  of the account's own.
\<close>

theorem sender_authorised:
  assumes "choose_from_address
             (merge_owned identities (aliases_of account domains) (extras_granted_to user extras))
             explicit_from preferred session_email = Inr c"
  shows "\<not> is_role_address (cf_email c)
    \<and> ((\<exists>i \<in> set identities. str_field i ''email'' = Some (cf_email c))
       \<or> (\<exists>a \<in> set (aliases_of account domains). oa_email a = cf_email c)
       \<or> (\<exists>e \<in> set extras. ofa_email e = cf_email c
             \<and> (\<exists>u. user = Some u \<and> eq_ignore_ascii_case u (ofa_owner e))))
    \<and> (\<exists>i \<in> set identities. str_field i ''id'' = Some (cf_identity_id c))"
proof -
  let ?ids = "List.map_filter identity_address identities"
  let ?als = "aliases_of account domains"
  let ?ex = "extras_granted_to user extras"
  let ?owned = "merge_owned identities ?als ?ex"
  have owned: "set ?owned \<subseteq> set ?ids \<union> set ?als \<union> extra_address ` set ?ex"
    using set_add_unowned [of "add_unowned ?ids ?als" "map extra_address ?ex"]
      set_add_unowned [of ?ids ?als] by (auto simp: merge_owned_def)
  have ids: "a \<in> set ?ids \<Longrightarrow> \<exists>i \<in> set identities. str_field i ''email'' = Some (oa_email a)
      \<and> str_field i ''id'' = oa_identity_id a" for a
    by (auto simp: map_filter_def identity_address_def split: option.splits)
  have als: "a \<in> set ?als \<Longrightarrow> oa_identity_id a = None" for a
    by (auto simp: aliases_of_def alias_of_def map_filter_def Let_def split: option.splits if_splits)
  have ex: "e \<in> set ?ex \<Longrightarrow> e \<in> set extras \<and> (\<exists>u. user = Some u \<and> eq_ignore_ascii_case u (ofa_owner e))" for e
    by (auto simp: extras_granted_to_def split: option.splits)
  obtain a b where a: "a \<in> set ?owned" "choose_address ?owned explicit_from preferred session_email = Inr a"
      "cf_email c = oa_email a"
    and b: "b \<in> set ?owned" "oa_identity_id b = Some (cf_identity_id c)"
    using choose_from_address_ok [OF assms] by blast
  have "b \<in> set ?ids" using b owned als by (auto simp: extra_address_def)
  then have id: "\<exists>i \<in> set identities. str_field i ''id'' = Some (cf_identity_id c)"
    using ids [of b] b by auto
  have "a \<in> set ?ids \<or> a \<in> set ?als \<or> (\<exists>e \<in> set ?ex. a = extra_address e)"
    using a owned by auto
  then have "(\<exists>i \<in> set identities. str_field i ''email'' = Some (cf_email c))
       \<or> (\<exists>a \<in> set ?als. oa_email a = cf_email c)
       \<or> (\<exists>e \<in> set extras. ofa_email e = cf_email c
             \<and> (\<exists>u. user = Some u \<and> eq_ignore_ascii_case u (ofa_owner e)))"
    using ids [of a] ex a(3) by (auto simp: extra_address_def)
  moreover have "\<not> is_role_address (cf_email c)"
    using choose_address_ok [OF a(2)] a(3) by simp
  ultimately show ?thesis using id by blast
qed

definition sample_identities :: "json list" where
  "sample_identities =
     [jobj [(''id'', JStr ''i1''), (''email'', JStr ''team@a.x'')],
      jobj [(''id'', JStr ''i2''), (''email'', JStr ''julian@a.x''), (''name'', JStr ''Julian'')]]"

definition sample_extras :: "owned_from_address list" where
  "sample_extras = [\<lparr>ofa_owner = ''julian@a.x'', ofa_email = ''j@b.y''\<rparr>]"

definition sample_account :: json where
  "sample_account = jobj [(''aliases'', JArr [jobj [(''name'', JStr ''jl''), (''domainId'', JStr ''d'')]])]"

theorem sender_authorised_witness:
  "choose_from_address
     (merge_owned sample_identities (aliases_of sample_account (\<lambda>d. Some ''c.z''))
        (extras_granted_to (Some ''Julian@A.x'') sample_extras))
     (Some '' J@B.y '') [] None
   = Inr \<lparr>cf_email = ''j@b.y'', cf_name = None, cf_identity_id = ''i2''\<rparr>
   \<and> \<not> is_role_address ''j@b.y''"
proof -
  have h: "choose_from_address
     (merge_owned sample_identities (aliases_of sample_account (\<lambda>d. Some ''c.z''))
        (extras_granted_to (Some ''Julian@A.x'') sample_extras))
     (Some '' J@B.y '') [] None
   = Inr \<lparr>cf_email = ''j@b.y'', cf_name = None, cf_identity_id = ''i2''\<rparr>"
    by code_simp
  show ?thesis using h sender_authorised [OF h] by simp
qed

text \<open>List order does not matter.\<close>

lemma find_perm:
  assumes "mset xs = mset ys" "distinct (map f xs)" "\<And>a b. P a \<Longrightarrow> P b \<Longrightarrow> f a = f b"
  shows "find P xs = find P ys"
proof -
  have set: "set xs = set ys" using assms(1) by (metis set_mset_mset)
  have uniq: "a \<in> set xs \<Longrightarrow> b \<in> set xs \<Longrightarrow> P a \<Longrightarrow> P b \<Longrightarrow> a = b" for a b
    using assms(2,3) by (meson distinct_map inj_onD)
  show ?thesis
  proof (cases "find P xs")
    case None
    then show ?thesis using set by (metis find_None_iff)
  next
    case (Some a)
    have a: "a \<in> set xs" "P a" using find_SomeD [OF Some] by simp_all
    then obtain b where b: "find P ys = Some b" using set by (metis find_None_iff not_None_eq)
    have "b \<in> set xs" "P b" using find_SomeD [OF b] set by simp_all
    then have "a = b" using uniq a by blast
    then show ?thesis using Some b by simp
  qed
qed

definition sender :: "error_data + chosen_from \<Rightarrow> error_data + (string \<times> string option)" where
  "sender r = map_sum id (\<lambda>c. (cf_email c, cf_name c)) r"

lemma find_owned_perm:
  assumes "mset xs = mset ys" "distinct (map (to_ascii_lowercase \<circ> oa_email) xs)"
  shows "find_owned xs = find_owned ys"
  unfolding find_owned_def
  by (intro ext find_perm [OF assms]) (auto simp: eq_ignore_ascii_case_def)

lemma sendable_list_perm: "mset xs = mset ys \<Longrightarrow> sendable_list xs = sendable_list ys"
proof -
  assume "mset xs = mset ys"
  then have "mset (map oa_email (filter (\<lambda>a. \<not> is_role_address (oa_email a)) xs))
    = mset (map oa_email (filter (\<lambda>a. \<not> is_role_address (oa_email a)) ys))"
    by (simp add: mset_map mset_filter)
  then show ?thesis
    unfolding sendable_list_def by (metis sorted_list_of_multiset_mset)
qed

lemma choose_address_perm:
  assumes "mset xs = mset ys" "distinct (map (to_ascii_lowercase \<circ> oa_email) xs)"
  shows "choose_address xs ex pref se = choose_address ys ex pref se"
  unfolding choose_address_def find_owned_perm [OF assms] sendable_list_perm [OF assms(1)] ..

lemma fallback_None_iff:
  "fallback_identity_id owned se = None \<longleftrightarrow>
     (\<forall>a \<in> set owned. oa_identity_id a \<noteq> None \<longrightarrow>
        is_role_address (oa_email a)
        \<and> (\<forall>me. se = Some me \<longrightarrow> \<not> eq_ignore_ascii_case (oa_email a) me))"
proof -
  have bind: "Option.bind (find (\<lambda>a. P a \<and> oa_identity_id a \<noteq> None) xs) oa_identity_id = None
    \<longleftrightarrow> (\<forall>a \<in> set xs. P a \<longrightarrow> oa_identity_id a = None)" for P xs
    by (induction xs) auto
  have bind2: "Option.bind (find (\<lambda>a. oa_identity_id a \<noteq> None \<and> P a) xs) oa_identity_id = None
    \<longleftrightarrow> (\<forall>a \<in> set xs. P a \<longrightarrow> oa_identity_id a = None)" for P xs
    using bind [of P xs] by (simp add: conj_commute)
  have alt: "(case ownid of None \<Rightarrow> x | Some i \<Rightarrow> Some i) = None \<longleftrightarrow> ownid = None \<and> x = None"
    for ownid x :: "string option" by (cases ownid) simp_all
  show ?thesis
    by (cases se) (auto simp only: fallback_identity_id_def Let_def alt bind bind2 option.case option.inject)
qed

text \<open>
  The choice does not depend on the order in which the server lists the addresses: for
  addresses distinct up to letter case, any permutation of the list gives the same address and
  display name, or the same error.
\<close>

theorem choice_ignores_list_order:
  assumes "mset xs = mset ys" and "distinct (map (to_ascii_lowercase \<circ> oa_email) xs)"
  shows "sender (choose_from_address xs ex pref se) = sender (choose_from_address ys ex pref se)"
proof -
  have "set xs = set ys" using assms(1) by (metis set_mset_mset)
  then have fb: "fallback_identity_id xs se = None \<longleftrightarrow> fallback_identity_id ys se = None"
    by (simp add: fallback_None_iff)
  have "xs = [] \<longleftrightarrow> ys = []" using assms(1) by auto
  then show ?thesis
    unfolding choose_from_address_def choose_address_perm [OF assms]
    using fb by (auto simp: sender_def split: sum.splits option.splits)
qed

theorem choice_ignores_list_order_witness:
  "sender (choose_from_address
      [\<lparr>oa_email = ''team@a.x'', oa_identity_id = Some ''i1'', oa_name = None\<rparr>,
       \<lparr>oa_email = ''julian@a.x'', oa_identity_id = Some ''i2'', oa_name = None\<rparr>] None [] (Some ''julian@a.x''))
   = sender (choose_from_address
      [\<lparr>oa_email = ''julian@a.x'', oa_identity_id = Some ''i2'', oa_name = None\<rparr>,
       \<lparr>oa_email = ''team@a.x'', oa_identity_id = Some ''i1'', oa_name = None\<rparr>] None [] (Some ''julian@a.x''))"
  by (rule choice_ignores_list_order) (simp, code_simp)

end
