(* ===== verification/Jmap_Client.thy ===== *)
theory Jmap_Client
  imports Http Capped_Store From_Address
begin

text \<open>
  \<^verbatim>\<open>src/jmap_client.rs\<close>: the JMAP client. Every operation takes the complete \<^verbatim>\<open>Authorization\<close>
  value of the caller; the only state is the cache of discovered sessions, keyed by the SHA-256
  of that value. SHA-256 and the deserialisers that \<^verbatim>\<open>serde\<close> derives are parameters.
\<close>

section \<open>Sessions\<close>

definition CAP_CORE :: string where "CAP_CORE = ''urn:ietf:params:jmap:core''"
definition CAP_MAIL :: string where "CAP_MAIL = ''urn:ietf:params:jmap:mail''"
definition CAP_SUBMISSION :: string where "CAP_SUBMISSION = ''urn:ietf:params:jmap:submission''"

definition SESSION_TTL :: nat where "SESSION_TTL = 3600 * 10 ^ 9"
definition SESSION_CAP :: nat where "SESSION_CAP = 256"

record jmap_session =
  api_url :: string
  download_url :: string
  upload_url :: string
  primary_accounts :: "(string \<times> string) list"
  username :: "string option"

definition mail_account_id :: "jmap_session \<Rightarrow> string option" where
  "mail_account_id s = map_of (primary_accounts s) CAP_MAIL"

definition is_authenticated :: "jmap_session \<Rightarrow> bool" where
  "is_authenticated s \<longleftrightarrow>
     primary_accounts s \<noteq> [] \<or> (case username s of None \<Rightarrow> False | Some u \<Rightarrow> trim u \<noteq> [])"

record blob_upload_response =
  bu_blob_id :: string
  bu_content_type :: string
  bu_size :: nat

record cached_session =
  cs_session :: jmap_session
  cs_cached_at :: nat

type_synonym session_cache = "(string \<times> cached_session) list"

record 'w jmap_client = "'w net" +
  discovery_url :: string
  sha256 :: "string \<Rightarrow> string"
  decode_session :: "json \<Rightarrow> string + jmap_session"
  decode_upload :: "json \<Rightarrow> string + blob_upload_response"

record 'w jmap_state = "'w io" +
  sessions :: session_cache

definition hash_token :: "('w, 'x) jmap_client_scheme \<Rightarrow> string \<Rightarrow> string" where
  "hash_token X token = sha256 X token"

definition session_fresh :: "nat \<Rightarrow> cached_session \<Rightarrow> bool" where
  "session_fresh now c \<longleftrightarrow> now - cs_cached_at c < SESSION_TTL"

definition session_lookup :: "nat \<Rightarrow> string \<Rightarrow> session_cache \<Rightarrow> jmap_session option" where
  "session_lookup now key m =
     (case map_of m key of
        None \<Rightarrow> None
      | Some c \<Rightarrow> if session_fresh now c then Some (cs_session c) else None)"

definition session_insert ::
  "nat \<Rightarrow> string \<Rightarrow> jmap_session \<Rightarrow> session_cache \<Rightarrow> session_cache" where
  "session_insert now key session m =
     (let m1 = (if SESSION_CAP \<le> length m then filter (\<lambda>(_, c). session_fresh now c) m else m)
      in AList.update key \<lparr>cs_session = session, cs_cached_at = now\<rparr>
           (make_room SESSION_CAP (max_by_key (\<lambda>(_, c). now - cs_cached_at c) m1) key m1))"

definition session_evict :: "string \<Rightarrow> session_cache \<Rightarrow> session_cache" where
  "session_evict key m = AList.delete key m"

definition evict ::
  "('w, 'x) jmap_client_scheme \<Rightarrow> string \<Rightarrow> (('w, 'm) jmap_state_scheme, 'e, unit) comp" where
  "evict X token = modifies (\<lambda>s. s\<lparr>sessions := session_evict (hash_token X token) (sessions s)\<rparr>)"

section \<open>Requests\<close>

text \<open>
  What every operation does with a reply: a refused credential also drops the cached session.
\<close>

definition check_status ::
  "('w, 'x) jmap_client_scheme \<Rightarrow> string \<Rightarrow> http_reply
   \<Rightarrow> (('w, 'm) jmap_state_scheme, jmap_error, unit) comp" where
  "check_status X token resp =
     (if rp_status resp = 401 \<or> rp_status resp = 403
      then bindE (evict X token) (\<lambda>_. fail Unauthorized)
      else if \<not> is_success (rp_status resp) then fail (Upstream (rp_status resp))
      else ret ())"

definition get_request :: "string \<Rightarrow> string \<Rightarrow> http_request" where
  "get_request url token =
     \<lparr>rq_method = ''GET'', rq_url = url, rq_auth = Some token, rq_content_type = None,
      rq_body = No_Body, rq_pinned = None\<rparr>"

definition session_for ::
  "('w, 'x) jmap_client_scheme \<Rightarrow> string
   \<Rightarrow> (('w, 'm) jmap_state_scheme, jmap_error, jmap_session) comp" where
  "session_for X token =
     (let key = hash_token X token in
      bindE (gets (\<lambda>s. session_lookup (now_of X s) key (sessions s))) (\<lambda>hit.
      case hit of
        Some session \<Rightarrow> ret session
      | None \<Rightarrow>
          bindE (map_err Http (send X (get_request (discovery_url X) token))) (\<lambda>resp.
          bindE (check_status X token resp) (\<lambda>_.
          bindE (lift (case rp_json resp of
                         Inl e \<Rightarrow> Inl (Parse (''session resource: '' @ e))
                       | Inr v \<Rightarrow>
                           (case decode_session X v of
                              Inl e \<Rightarrow> Inl (Parse (''session resource: '' @ e))
                            | Inr session \<Rightarrow> Inr session))) (\<lambda>session.
          bindE (modifies (\<lambda>s. s\<lparr>sessions :=
                   session_insert (now_of X s) key session (sessions s)\<rparr>)) (\<lambda>_.
            ret session))))))"

definition account_id ::
  "('w, 'x) jmap_client_scheme \<Rightarrow> string
   \<Rightarrow> (('w, 'm) jmap_state_scheme, jmap_error, string) comp" where
  "account_id X token =
     bindE (session_for X token) (\<lambda>session.
       need (Parse ''session has no primary mail account'') (mail_account_id session))"

text \<open>One method response: its name, payload and call id, or the error it stands for.\<close>

definition method_response :: "json \<Rightarrow> jmap_error + string \<times> json \<times> string" where
  "method_response r =
     (case as_array r of
        None \<Rightarrow> Inl (Parse ''methodResponse is not an array'')
      | Some arr \<Rightarrow>
          (case Option.bind (first_of arr) as_str of
             None \<Rightarrow> Inl (Parse ''methodResponse[0] not a string'')
           | Some name \<Rightarrow>
               (let payload = (if 1 < length arr then arr ! 1 else JNull);
                    call_id = (case (if 2 < length arr then as_str (arr ! 2) else None) of
                                 None \<Rightarrow> [] | Some i \<Rightarrow> i)
                in if name = ''error'' then
                     Inl (Method_Error
                       (case get_str payload ''type'' of None \<Rightarrow> ''unknownError'' | Some t \<Rightarrow> t)
                       (get_str payload ''description''))
                   else Inr (name, payload, call_id))))"

fun method_responses :: "json list \<Rightarrow> jmap_error + responses" where
  "method_responses [] = Inr []"
| "method_responses (r # rs) =
     (case method_response r of
        Inl e \<Rightarrow> Inl e
      | Inr x \<Rightarrow>
          (case method_responses rs of
             Inl e \<Rightarrow> Inl e
           | Inr xs \<Rightarrow> Inr (x # xs)))"

type_synonym method_call = "string \<times> json \<times> string"

definition call_body :: "string list \<Rightarrow> method_call list \<Rightarrow> json" where
  "call_body use calls =
     jobj [(''using'', JArr (map JStr use)),
           (''methodCalls'', JArr (map (\<lambda>(name, args, i). JArr [JStr name, args, JStr i]) calls))]"

definition post_json :: "string \<Rightarrow> string \<Rightarrow> json \<Rightarrow> http_request" where
  "post_json url token v =
     \<lparr>rq_method = ''POST'', rq_url = url, rq_auth = Some token,
      rq_content_type = Some ''application/json'', rq_body = Json_Body v, rq_pinned = None\<rparr>"

definition jmap_call ::
  "('w, 'x) jmap_client_scheme \<Rightarrow> string \<Rightarrow> string list \<Rightarrow> method_call list
   \<Rightarrow> (('w, 'm) jmap_state_scheme, jmap_error, responses) comp" where
  "jmap_call X token use calls =
     bindE (session_for X token) (\<lambda>session.
     bindE (map_err Http (send X (post_json (api_url session) token (call_body use calls)))) (\<lambda>resp.
     bindE (check_status X token resp) (\<lambda>_.
     bindE (lift (case rp_json resp of
                    Inl e \<Rightarrow> Inl (Parse (''method response envelope: '' @ e))
                  | Inr v \<Rightarrow> Inr v)) (\<lambda>envelope.
     bindE (need (Parse ''missing methodResponses array'')
             (get_array envelope ''methodResponses'')) (\<lambda>rs.
       lift (method_responses rs))))))"

section \<open>Blobs\<close>

definition hex_digit :: "nat \<Rightarrow> char" where
  "hex_digit n = (if n < 10 then char_of (48 + n) else char_of (55 + n))"

definition is_alphanumeric :: "char \<Rightarrow> bool" where
  "is_alphanumeric c =
     (let n = of_char c :: nat in
      (65 \<le> n \<and> n \<le> 90) \<or> (97 \<le> n \<and> n \<le> 122) \<or> (48 \<le> n \<and> n \<le> 57))"

definition unreserved :: "char \<Rightarrow> bool" where
  "unreserved c \<longleftrightarrow> is_alphanumeric c \<or> c \<in> set ''-_.~''"

definition url_escape :: "string \<Rightarrow> string" where
  "url_escape s =
     concat (map (\<lambda>c. if unreserved c then [c]
                      else [CHR ''%'', hex_digit (of_char c div 16), hex_digit (of_char c mod 16)]) s)"

definition expand_download_url ::
  "string \<Rightarrow> string \<Rightarrow> string \<Rightarrow> string \<Rightarrow> string \<Rightarrow> string" where
  "expand_download_url template acct blob_id content_type name =
     replace_sub ''{name}'' (url_escape name)
       (replace_sub ''{type}'' (url_escape content_type)
         (replace_sub ''{blobId}'' (url_escape blob_id)
           (replace_sub ''{accountId}'' (url_escape acct) template)))"

definition download_blob ::
  "('w, 'x) jmap_client_scheme \<Rightarrow> string \<Rightarrow> string \<Rightarrow> string \<Rightarrow> string \<Rightarrow> nat
   \<Rightarrow> (('w, 'm) jmap_state_scheme, jmap_error, string) comp" where
  "download_blob X token blob_id content_type name max_bytes =
     bindE (session_for X token) (\<lambda>session.
     bindE (need (Parse ''session has no primary mail account'') (mail_account_id session)) (\<lambda>acct.
     bindE (map_err Http (send X (get_request
              (expand_download_url (download_url session) acct blob_id content_type name) token)))
       (\<lambda>resp.
     bindE (check_status X token resp) (\<lambda>_.
     bindE (refuse_if (case rp_length resp of None \<Rightarrow> False | Some len \<Rightarrow> max_bytes < len) TooLarge)
       (\<lambda>_.
     bindE (lift (case rp_bytes resp of Inl e \<Rightarrow> Inl (Http e) | Inr b \<Rightarrow> Inr b)) (\<lambda>bytes.
     bindE (refuse_if (max_bytes < length bytes) TooLarge) (\<lambda>_.
       ret bytes)))))))"

definition upload_blob ::
  "('w, 'x) jmap_client_scheme \<Rightarrow> string \<Rightarrow> string \<Rightarrow> string
   \<Rightarrow> (('w, 'm) jmap_state_scheme, jmap_error, blob_upload_response) comp" where
  "upload_blob X token bytes content_type =
     bindE (session_for X token) (\<lambda>session.
     bindE (need (Parse ''session has no primary mail account'') (mail_account_id session)) (\<lambda>acct.
     bindE (map_err Http (send X
              \<lparr>rq_method = ''POST'', rq_url = replace_sub ''{accountId}'' acct (upload_url session),
               rq_auth = Some token, rq_content_type = Some content_type,
               rq_body = Raw_Body bytes, rq_pinned = None\<rparr>)) (\<lambda>resp.
     bindE (check_status X token resp) (\<lambda>_.
       lift (case rp_json resp of
               Inl e \<Rightarrow> Inl (Parse (''blob upload response: '' @ e))
             | Inr v \<Rightarrow>
                 (case decode_upload X v of
                    Inl e \<Rightarrow> Inl (Parse (''blob upload response: '' @ e))
                  | Inr r \<Rightarrow> Inr r))))))"

section \<open>The session cache\<close>

datatype session_op = Insert_Session nat string jmap_session | Evict_Session string

fun session_op_key :: "session_op \<Rightarrow> string" where
  "session_op_key (Insert_Session now k s) = k"
| "session_op_key (Evict_Session k) = k"

fun session_step :: "session_op \<Rightarrow> session_cache \<Rightarrow> session_cache" where
  "session_step (Insert_Session now k s) m = session_insert now k s m"
| "session_step (Evict_Session k) m = session_evict k m"

lemma session_insert_laws:
  assumes "distinct (keys m)"
  shows "distinct (keys (session_insert now k s m))"
    and "length m \<le> SESSION_CAP \<Longrightarrow> length (session_insert now k s m) \<le> SESSION_CAP"
    and "k \<noteq> k' \<Longrightarrow> map_of (session_insert now k s m) k' = Some v \<Longrightarrow> map_of m k' = Some v"
    and "map_of (session_insert now k s m) k = Some \<lparr>cs_session = s, cs_cached_at = now\<rparr>"
proof -
  define m1 where "m1 = (if SESSION_CAP \<le> length m then filter (\<lambda>(_, c). session_fresh now c) m else m)"
  have d: "distinct (keys m1)" using assms by (simp add: m1_def distinct_keys_filter)
  have len: "length m \<le> SESSION_CAP \<Longrightarrow> length m1 \<le> SESSION_CAP"
    by (auto simp: m1_def intro: le_trans [OF length_filter_le])
  have sub: "map_of m1 k' = Some v \<Longrightarrow> map_of m k' = Some v" for k' v
    using map_of_filter_Some [OF assms] by (auto simp: m1_def split: if_splits)
  note room = make_room_laws [OF d max_by_key_subset [of "\<lambda>(_, c). now - cs_cached_at c" m1]]
  have eq: "session_insert now k s m = AList.update k \<lparr>cs_session = s, cs_cached_at = now\<rparr>
      (make_room SESSION_CAP (max_by_key (\<lambda>(_, c). now - cs_cached_at c) m1) k m1)"
    by (simp add: session_insert_def m1_def Let_def)
  show "distinct (keys (session_insert now k s m))" unfolding eq by (rule room(1))
  show "length m \<le> SESSION_CAP \<Longrightarrow> length (session_insert now k s m) \<le> SESSION_CAP"
    unfolding eq by (rule room(2) [OF len]) (simp_all add: SESSION_CAP_def)
  show "k \<noteq> k' \<Longrightarrow> map_of (session_insert now k s m) k' = Some v \<Longrightarrow> map_of m k' = Some v"
    unfolding eq by (rule sub [OF room(3)])
  show "map_of (session_insert now k s m) k = Some \<lparr>cs_session = s, cs_cached_at = now\<rparr>"
    unfolding eq by (simp add: update_conv')
qed

interpretation session_store: capped_store SESSION_CAP session_op_key session_step
proof (unfold_locales, goal_cases)
  case (1 m opn)
  then show ?case by (cases opn) (simp_all add: session_insert_laws(1) session_evict_def distinct_delete)
next
  case (2 m opn)
  then show ?case
    by (cases opn) (auto simp: session_insert_laws(2) session_evict_def intro: le_trans [OF length_delete])
next
  case (3 m opn k v)
  then show ?case
    by (cases opn) (simp_all only: session_step.simps session_op_key.simps session_evict_def
        session_insert_laws(3) map_of_delete split: if_splits)
qed

text \<open>
  C24. A cached session is the caller's own and fresh: whatever discoveries and evictions
  happened, in whatever order, a session served for a key was discovered for that key less than
  an hour ago and not evicted since, and no more than 256 sessions are held.
\<close>

theorem session_served_is_own:
  assumes "session_lookup now k (session_store.run ops) = Some s"
  shows "length (session_store.run ops) \<le> 256
    \<and> (\<exists>before t rest. ops = before @ Insert_Session t k s # rest \<and> now - t < SESSION_TTL
         \<and> list_all (\<lambda>o'. session_op_key o' \<noteq> k) rest)"
proof -
  obtain c where c: "map_of (session_store.run ops) k = Some c" "session_fresh now c" "s = cs_session c"
    using assms by (auto simp: session_lookup_def split: option.splits if_splits)
  obtain before opn rest where o: "ops = before @ opn # rest" "session_op_key opn = k"
      "\<forall>o' \<in> set rest. session_op_key o' \<noteq> k" "map_of (session_store.run (before @ [opn])) k = Some c"
    using session_store.run_origin [OF c(1)] by blast
  have d: "distinct (keys (session_store.run before))" using session_store.run_invariant by blast
  obtain t where "opn = Insert_Session t k s" "cs_cached_at c = t"
  proof (cases opn)
    case (Insert_Session t k' s')
    then have "c = \<lparr>cs_session = s', cs_cached_at = t\<rparr>"
      using o(2,4) session_insert_laws(4) [OF d] unfolding session_store.run_snoc by simp
    then show ?thesis using that Insert_Session o(2) c(3) by simp
  next
    case (Evict_Session k')
    then show ?thesis
      using o(2,4) unfolding session_store.run_snoc by (simp add: session_evict_def map_of_delete)
  qed
  then show ?thesis
    using o(1,3) c(2) session_store.run_invariant [of ops]
    by (auto simp: session_fresh_def list_all_iff SESSION_CAP_def)
qed

definition sample_session :: jmap_session where
  "sample_session =
     \<lparr>api_url = ''https://m.x/jmap'', download_url = ''https://m.x/{accountId}/{blobId}/{name}'',
      upload_url = ''https://m.x/up/{accountId}'', primary_accounts = [(CAP_MAIL, ''a1'')],
      username = Some ''julian@a.x''\<rparr>"

theorem session_served_is_own_witness:
  "let ops = [Insert_Session 5 ''k'' sample_session, Evict_Session ''j'']
   in session_lookup 7 ''k'' (session_store.run ops) = Some sample_session
      \<and> length (session_store.run ops) \<le> 256"
proof -
  let ?ops = "[Insert_Session 5 ''k'' sample_session, Evict_Session ''j'']"
  have h: "session_lookup 7 ''k'' (session_store.run ?ops) = Some sample_session"
    by (simp add: session_store.run_def session_insert_def session_evict_def session_lookup_def
        session_fresh_def make_room_def SESSION_CAP_def SESSION_TTL_def)
  show ?thesis using h session_served_is_own [OF h] by (simp add: Let_def)
qed

section \<open>Outcomes of a call\<close>

lemma check_status_cases:
  "check_status X token resp s = (r, s') \<Longrightarrow>
     (r = Inr () \<and> s' = s \<and> is_success (rp_status resp) \<and> rp_status resp \<noteq> 401 \<and> rp_status resp \<noteq> 403)
     \<or> (r = Inl Unauthorized \<and> s' = s\<lparr>sessions := session_evict (hash_token X token) (sessions s)\<rparr>
        \<and> (rp_status resp = 401 \<or> rp_status resp = 403))
     \<or> (r = Inl (Upstream (rp_status resp)) \<and> s' = s \<and> \<not> is_success (rp_status resp))"
  by (auto simp: check_status_def comp_defs evict_def split: if_splits)

lemma method_responses_ok:
  "method_responses rs = Inr xs \<longleftrightarrow> list_all2 (\<lambda>r x. method_response r = Inr x) rs xs"
proof (induction rs arbitrary: xs)
  case Nil
  then show ?case by auto
next
  case (Cons r rs)
  show ?case
  proof
    assume "method_responses (r # rs) = Inr xs"
    then show "list_all2 (\<lambda>r x. method_response r = Inr x) (r # rs) xs"
      using Cons.IH by (auto split: sum.splits)
  next
    assume "list_all2 (\<lambda>r x. method_response r = Inr x) (r # rs) xs"
    then show "method_responses (r # rs) = Inr xs"
      using Cons.IH by (auto simp: list_all2_Cons1)
  qed
qed

lemma method_response_not_error: "method_response r = Inr (name, p, i) \<Longrightarrow> name \<noteq> ''error''"
  by (auto simp: method_response_def Let_def split: option.splits if_splits)

lemma jmap_call_Unauthorized_evicts:
  assumes "jmap_call X token use calls s = (Inl Unauthorized, s')"
  shows "map_of (sessions s') (hash_token X token) = None"
proof -
  have no: "method_responses rs \<noteq> Inl Unauthorized" for rs
  proof (induction rs)
    case (Cons r rs)
    have "method_response r \<noteq> Inl Unauthorized"
      by (auto simp: method_response_def Let_def split: option.splits if_splits)
    with Cons show ?case by (auto split: sum.splits)
  qed simp
  have sess: "session_for X token s = (Inl Unauthorized, s') \<Longrightarrow> map_of (sessions s') (hash_token X token) = None" for s'
    by (auto simp: session_for_def comp_defs check_status_def evict_def session_evict_def map_of_delete Let_def
        split: option.splits prod.splits sum.splits if_splits)
  obtain r1 s1 where s1: "session_for X token s = (r1, s1)" by (cases "session_for X token s")
  show ?thesis
    using assms sess s1 no
    by (auto simp: jmap_call_def bindE_def map_err_def need_def lift_def ret_def fail_def check_status_def evict_def
        modifies_def session_evict_def map_of_delete split: option.splits prod.splits sum.splits if_splits)
qed

text \<open>
  A refused credential does not keep its session: when a call ends with the credential
  refused, at discovery or at the call itself, the session cached for it is gone; and a call
  succeeds only with responses that answer the server's list one by one and in order, none of
  them an error.
\<close>

theorem jmap_call_outcome:
  assumes "jmap_call X token use calls s = (r, s')"
  shows "(r = Inl Unauthorized \<longrightarrow> map_of (sessions s') (hash_token X token) = None)
    \<and> (\<forall>resps. r = Inr resps \<longrightarrow>
         (\<exists>rs. list_all2 (\<lambda>j x. method_response j = Inr x) rs resps
            \<and> list_all (\<lambda>x. fst x \<noteq> ''error'') resps))"
proof (intro conjI impI allI)
  assume "r = Inl Unauthorized"
  then show "map_of (sessions s') (hash_token X token) = None"
    using jmap_call_Unauthorized_evicts assms by simp
next
  fix resps
  assume "r = Inr resps"
  then obtain rs where rs: "method_responses rs = Inr resps"
    using assms unfolding jmap_call_def by (auto simp: bindE_Inr lift_def)
  have "list_all2 (\<lambda>j x. method_response j = Inr x) rs resps" using rs method_responses_ok by blast
  moreover from this have "list_all (\<lambda>x. fst x \<noteq> ''error'') resps"
    by (induction rule: list_all2_induct) (auto dest: method_response_not_error)
  ultimately show "\<exists>rs. list_all2 (\<lambda>j x. method_response j = Inr x) rs resps
            \<and> list_all (\<lambda>x. fst x \<noteq> ''error'') resps" by blast
qed

text \<open>
  C35. A refusal heals by itself: after a call that ended with the credential refused, the next session
  lookup for that credential does not answer from the cache but asks the server again, and when the
  server then accepts the credential, its answer is the session that is used and cached.
\<close>

theorem refusal_recovers:
  assumes "jmap_call X token use calls s = (Inl Unauthorized, s1)"
    and "net_send X (get_request (discovery_url X) token) (world s1) = (Inr resp, w)"
    and "is_success (rp_status resp)"
    and "rp_json resp = Inr v" and "decode_session X v = Inr session"
  shows "\<exists>s2. session_for X token s1 = (Inr session, s2)
    \<and> trace s2 = trace s1 @ [get_request (discovery_url X) token]
    \<and> session_lookup (net_clock X w) (hash_token X token) (sessions s2) = Some session"
proof -
  have "map_of (sessions s1) (hash_token X token) = None" by (rule jmap_call_Unauthorized_evicts [OF assms(1)])
  then have miss: "session_lookup now (hash_token X token) (sessions s1) = None" for now
    by (simp add: session_lookup_def)
  have ok: "rp_status resp \<noteq> 401" "rp_status resp \<noteq> 403" using assms(3) by (auto simp: is_success_def)
  have "session_for X token s1 = (Inr session,
      s1\<lparr>world := w, trace := trace s1 @ [get_request (discovery_url X) token],
         sessions := session_insert (net_clock X w) (hash_token X token) session (sessions s1)\<rparr>)"
    using assms(2-5) ok miss
    by (simp add: session_for_def comp_defs send_def check_status_def now_of_def Let_def)
  moreover have "session_lookup now key (session_insert now key session m) = Some session" for now key m
    by (simp add: session_lookup_def session_insert_def update_conv' session_fresh_def SESSION_TTL_def Let_def)
  ultimately show ?thesis by auto
qed

text \<open>
  An attachment that is returned respects the caller's size cap, whatever length the server
  announced.
\<close>

theorem download_blob_bounded:
  assumes "download_blob X token blob_id ct name max_bytes s = (Inr bytes, s')"
  shows "length bytes \<le> max_bytes"
  using assms unfolding download_blob_def by (auto simp: bindE_Inr refuse_if_def ret_def fail_def split: if_splits)

definition refusing_net :: "unit jmap_client" where
  "refusing_net =
     \<lparr>net_send = (\<lambda>rq w. (Inr \<lparr>rp_status = (if rq_method rq = ''GET'' then 200 else 401),
          rp_json = Inr JNull, rp_bytes = Inr ''abc'', rp_length = None, rp_content_type = None,
          rp_chunks = []\<rparr>, w)),
      net_clock = (\<lambda>_. 0), net_system = (\<lambda>_. 0), discovery_url = ''https://m.x/.well-known/jmap'',
      sha256 = (\<lambda>t. t), decode_session = (\<lambda>_. Inr sample_session),
      decode_upload = (\<lambda>_. Inl ''no'')\<rparr>"

definition fresh_state :: "unit jmap_state" where
  "fresh_state = \<lparr>world = (), trace = [], sessions = []\<rparr>"

theorem jmap_call_outcome_witness:
  "let r = jmap_call refusing_net ''Bearer t'' [] [] fresh_state
   in fst r = Inl Unauthorized \<and> map_of (sessions (snd r)) (hash_token refusing_net ''Bearer t'') = None"
proof -
  obtain r s' where r: "jmap_call refusing_net ''Bearer t'' [] [] fresh_state = (r, s')"
    by (cases "jmap_call refusing_net ''Bearer t'' [] [] fresh_state")
  have "fst (jmap_call refusing_net ''Bearer t'' [] [] fresh_state) = Inl Unauthorized"
    by (simp add: jmap_call_def session_for_def comp_defs session_lookup_def fresh_state_def
        refusing_net_def send_def get_request_def post_json_def check_status_def is_success_def evict_def
        Let_def)
  then show ?thesis using r jmap_call_outcome [OF r] by (simp add: Let_def)
qed

theorem refusal_recovers_witness:
  "\<exists>s2. session_for refusing_net ''Bearer t'' (snd (jmap_call refusing_net ''Bearer t'' [] [] fresh_state))
     = (Inr sample_session, s2)"
proof -
  let ?r = "jmap_call refusing_net ''Bearer t'' [] [] fresh_state"
  have "fst ?r = Inl Unauthorized"
    by (simp add: jmap_call_def session_for_def comp_defs session_lookup_def fresh_state_def
        refusing_net_def send_def get_request_def post_json_def check_status_def is_success_def evict_def
        Let_def)
  then have run: "?r = (Inl Unauthorized, snd ?r)" by (metis prod.collapse)
  have "\<exists>s2. session_for refusing_net ''Bearer t'' (snd ?r) = (Inr sample_session, s2)
    \<and> trace s2 = trace (snd ?r) @ [get_request (discovery_url refusing_net) ''Bearer t'']
    \<and> session_lookup (net_clock refusing_net ()) (hash_token refusing_net ''Bearer t'') (sessions s2)
        = Some sample_session"
    by (rule refusal_recovers [OF run, where v = JNull])
      (simp add: refusing_net_def get_request_def, simp_all add: refusing_net_def is_success_def)
  then show ?thesis by blast
qed

theorem download_blob_bounded_witness:
  "fst (download_blob refusing_net ''Bearer t'' ''b'' ''text/plain'' ''n'' 3 fresh_state) = Inr ''abc''
   \<and> length ''abc'' \<le> 3"
proof -
  let ?r = "download_blob refusing_net ''Bearer t'' ''b'' ''text/plain'' ''n'' 3 fresh_state"
  have f: "fst ?r = Inr ''abc''"
    by (simp add: download_blob_def session_for_def comp_defs session_lookup_def fresh_state_def
        refusing_net_def send_def get_request_def check_status_def is_success_def evict_def
        sample_session_def mail_account_id_def Let_def)
  then have "?r = (Inr ''abc'', snd ?r)" by (metis prod.collapse)
  from download_blob_bounded [OF this] f show ?thesis by blast
qed

section \<open>Escaping\<close>

definition hex_value :: "char \<Rightarrow> nat" where
  "hex_value c = (let n = of_char c in if n < 58 then n - 48 else n - 55)"

fun url_unescape :: "string \<Rightarrow> string" where
  "url_unescape (c # a # b # s) =
     (if c = CHR ''%'' then char_of (hex_value a * 16 + hex_value b) # url_unescape s
      else c # url_unescape (a # b # s))"
| "url_unescape s = s"

lemma hex_value_digit: "n < 16 \<Longrightarrow> hex_value (hex_digit n) = n"
  by (auto simp: hex_value_def hex_digit_def Let_def)

lemma unreserved_not_percent: "unreserved c \<Longrightarrow> c \<noteq> CHR ''%''"
  by (auto simp: unreserved_def is_alphanumeric_def)

lemma url_unescape_plain: "c \<noteq> CHR ''%'' \<Longrightarrow> url_unescape (c # s) = c # url_unescape s"
  by (cases s rule: url_unescape.cases) auto

text \<open>
  Percent-encoding loses nothing and produces only unreserved characters and escapes, so an
  encoded value cannot add a path segment, a query or another placeholder to the template.
\<close>

theorem url_escape_roundtrip:
  "url_unescape (url_escape s) = s \<and> list_all (\<lambda>c. unreserved c \<or> c = CHR ''%'') (url_escape s)"
proof (induction s)
  case Nil
  then show ?case by (simp add: url_escape_def)
next
  case (Cons c s)
  have b: "of_char c div 16 < (16 :: nat)" "of_char c mod 16 < (16 :: nat)"
    using nat_of_char_less_256 [of c] by (simp_all add: less_mult_imp_div_less)
  have hex: "n < 16 \<Longrightarrow> unreserved (hex_digit n)" for n
    by (auto simp: unreserved_def is_alphanumeric_def hex_digit_def Let_def)
  show ?case
  proof (cases "unreserved c")
    case True
    then have "url_escape (c # s) = c # url_escape s" by (simp add: url_escape_def)
    then show ?thesis
      using Cons True url_unescape_plain [OF unreserved_not_percent [OF True]] by simp
  next
    case False
    then have "url_escape (c # s)
      = CHR ''%'' # hex_digit (of_char c div 16) # hex_digit (of_char c mod 16) # url_escape s"
      by (simp add: url_escape_def)
    then show ?thesis using Cons b hex by (simp add: hex_value_digit)
  qed
qed

section \<open>Policies on requests\<close>

text \<open>
  A policy is a predicate on requests, given the caller's credential. The client's operations
  satisfy it once the two shapes of request it makes do; \<open>calls_ok\<close> says which batches of
  method calls the policy allows, and \<open>uploads\<close> whether it allows raw uploads.
\<close>

locale request_policy =
  fixes P :: "string \<Rightarrow> http_request \<Rightarrow> bool"
    and calls_ok :: "method_call list \<Rightarrow> bool"
    and uploads :: bool
  assumes get_ok: "P tok (get_request url tok)"
    and call_ok: "calls_ok calls \<Longrightarrow> P tok (post_json url tok (call_body use calls))"
    and upload_ok: "uploads \<Longrightarrow>
      P tok \<lparr>rq_method = ''POST'', rq_url = url, rq_auth = Some tok, rq_content_type = Some ct,
             rq_body = Raw_Body bytes, rq_pinned = None\<rparr>"
begin

lemma emits_evict [emits_intros]: "emits (P tok) (evict X tok')"
  unfolding evict_def by (rule emits_modifies) simp

lemma emits_check_status [emits_intros]: "emits (P tok) (check_status X tok' resp)"
  unfolding check_status_def by (intro emits_intros)

lemma emits_session_for [emits_intros]: "emits (P tok) (session_for X tok)"
  unfolding session_for_def
  by (intro emits_intros emits_send get_ok emits_modifies) simp

lemma emits_account_id [emits_intros]: "emits (P tok) (account_id X tok)"
  unfolding account_id_def by (intro emits_intros)

lemma emits_jmap_call [emits_intros]:
  "calls_ok calls \<Longrightarrow> emits (P tok) (jmap_call X tok use calls)"
  unfolding jmap_call_def by (intro emits_intros emits_send call_ok)

lemma emits_download_blob [emits_intros]: "emits (P tok) (download_blob X tok b ct n m)"
  unfolding download_blob_def by (intro emits_intros emits_send get_ok)

lemma emits_upload_blob [emits_intros]: "uploads \<Longrightarrow> emits (P tok) (upload_blob X tok bytes ct)"
  unfolding upload_blob_def by (intro emits_intros emits_send upload_ok)

end

text \<open>Every request carries exactly the caller's credential.\<close>

definition carries :: "string \<Rightarrow> http_request \<Rightarrow> bool" where
  "carries tok r \<longleftrightarrow> rq_auth r = Some tok"

interpretation credential: request_policy carries "\<lambda>_. True" True
  by unfold_locales (simp_all add: carries_def get_request_def post_json_def)

text \<open>A request that changes nothing on the server: no \<^verbatim>\<open>/set\<close> method and no upload.\<close>

definition body_methods :: "json \<Rightarrow> string list" where
  "body_methods v =
     (case get_array v ''methodCalls'' of
        None \<Rightarrow> []
      | Some calls \<Rightarrow> List.map_filter (\<lambda>c. Option.bind (as_array c) (\<lambda>a. Option.bind (first_of a) as_str)) calls)"

definition read_only_request :: "http_request \<Rightarrow> bool" where
  "read_only_request r \<longleftrightarrow>
     (case rq_body r of
        No_Body \<Rightarrow> rq_method r = ''GET''
      | Json_Body v \<Rightarrow> list_all (\<lambda>m. \<not> ends_with m ''/set'') (body_methods v)
      | Raw_Body _ \<Rightarrow> False)"

definition reads_as :: "string \<Rightarrow> http_request \<Rightarrow> bool" where
  "reads_as tok r \<longleftrightarrow> carries tok r \<and> read_only_request r"

definition read_calls :: "method_call list \<Rightarrow> bool" where
  "read_calls calls \<longleftrightarrow> list_all (\<lambda>c. \<not> ends_with (fst c) ''/set'') calls"

lemma body_methods_call_body: "body_methods (call_body use calls) = map fst calls"
proof -
  have "get_array (call_body use calls) ''methodCalls''
        = Some (map (\<lambda>(name, args, i). JArr [JStr name, args, JStr i]) calls)"
    by (simp add: get_array_def call_body_def)
  then show ?thesis
    by (induction calls) (auto simp: body_methods_def map_filter_def first_of_def comp_def split: prod.splits)
qed

interpretation reading: request_policy reads_as read_calls False
  by unfold_locales
    (simp_all add: reads_as_def carries_def read_only_request_def read_calls_def get_request_def
      post_json_def body_methods_call_body list_all_iff)

section \<open>Relations on states\<close>

text \<open>
  A relation that the client's operations preserve: it holds over a request, over an eviction,
  and over the insertion of a session under the hash of a token whose discovery was sent.
\<close>

locale client_relation = state_relation R
  for R :: "('w, 'm) jmap_state_scheme \<Rightarrow> ('w, 'm) jmap_state_scheme \<Rightarrow> bool" +
  fixes X :: "('w, 'x) jmap_client_scheme"
  assumes send_step: "R s (s\<lparr>world := w, trace := trace s @ [rq]\<rparr>)"
    and evict_step: "R s (s\<lparr>sessions := session_evict k (sessions s)\<rparr>)"
    and discovered_step: "get_request (discovery_url X) token \<in> set (trace s)
      \<Longrightarrow> R s (s\<lparr>sessions := session_insert now (hash_token X token) session (sessions s)\<rparr>)"
begin

lemma preserves_send: "preserves R (send Y rq)"
  by (simp add: preserves_def send_def send_step split: prod.split)

lemma preserves_evict: "preserves R (evict Y token)"
  unfolding evict_def by (intro preserves_modifies evict_step)

lemma preserves_check_status: "preserves R (check_status Y token resp)"
  unfolding check_status_def by (intro preserves_intros preserves_evict)

lemma discovery_preserves:
  assumes sent: "get_request (discovery_url X) token \<in> set (trace s)"
  shows "R s (snd (bindE (check_status X token resp) (\<lambda>_.
           bindE (lift r) (\<lambda>session.
           bindE (modifies (\<lambda>s. s\<lparr>sessions := session_insert (now_of X s) (hash_token X token) session (sessions s)\<rparr>)) (\<lambda>_.
             ret session))) s))"
proof -
  obtain c s1 where c: "check_status X token resp s = (c, s1)" by (cases "check_status X token resp s")
  have R1: "R s s1" by (rule preservesD [OF preserves_check_status c])
  have "trace s1 = trace s"
    using c by (auto simp: check_status_def evict_def comp_defs split: if_splits)
  then have "R s1 (s1\<lparr>sessions := session_insert (now_of X s1) (hash_token X token) session (sessions s1)\<rparr>)" for session
    by (intro discovered_step) (simp add: sent)
  then show ?thesis
    using related_trans [OF R1] R1
    by (simp add: c bindE_def lift_def modifies_def ret_def split: sum.split)
qed

lemma preserves_session_for: "preserves R (session_for X token)"
proof -
  let ?q = "get_request (discovery_url X) token"
  have "?q \<in> set (trace s1)" if "map_err Http (send X ?q) s = (Inr resp, s1)" for s resp s1
    using that by (auto simp: map_err_def send_def split: prod.splits sum.splits)
  then show ?thesis unfolding session_for_def Let_def
    by (intro preserves_bindE preserves_branch preserves_basic
        preserves_bindE_with [OF preserves_map_err [OF preserves_send]])
      (rule discovery_preserves)
qed

lemma preserves_account_id: "preserves R (account_id X token)"
  unfolding account_id_def by (intro preserves_intros preserves_session_for)

lemma preserves_jmap_call: "preserves R (jmap_call X token use calls)"
  unfolding jmap_call_def
  by (intro preserves_intros preserves_send preserves_session_for preserves_check_status)

lemma preserves_blobs:
  "preserves R (download_blob X token b ct n m)" "preserves R (upload_blob X token bytes ct)"
  unfolding download_blob_def upload_blob_def
  by (intro preserves_intros preserves_send preserves_session_for preserves_check_status)+

end

end
