(* ===== verification/Logto_Oidc.thy ===== *)
theory Logto_Oidc
  imports Jmap_Client
begin

text \<open>
  \<^verbatim>\<open>src/logto_oidc.rs\<close>: validation of access tokens against the issuer's key set. Decoding a
  token's header, turning a key set into keys, and verifying a token (the \<^verbatim>\<open>jsonwebtoken\<close> crate)
  are parameters; verification is given the time, since it checks the expiry.
\<close>

section \<open>Definitions\<close>

definition MAX_CACHE_TTL :: nat where "MAX_CACHE_TTL = 60 * 10 ^ 9"
definition CACHE_CAP :: nat where "CACHE_CAP = 256"
definition JWKS_TTL :: nat where "JWKS_TTL = 3600 * 10 ^ 9"
definition JWKS_MIN_REFRESH_INTERVAL :: nat where "JWKS_MIN_REFRESH_INTERVAL = 30 * 10 ^ 9"

datatype aud_field = Single string | Multi "string list"

fun aud_matches :: "aud_field \<Rightarrow> string \<Rightarrow> bool" where
  "aud_matches (Single s) expected = (s = expected)"
| "aud_matches (Multi xs) expected = list_ex (\<lambda>s. s = expected) xs"

record logto_claims =
  cl_sub :: string
  cl_aud :: aud_field
  cl_exp :: int
  cl_email :: "string option"
  cl_name :: "string option"
  cl_username :: "string option"
  cl_scope :: "string option"

record authenticated_identity =
  user_id :: string
  email :: "string option"
  display_name :: "string option"
  exp_unix :: "int option"

datatype validation_error = Jwks_Http string | Jwks_Upstream nat

datatype algorithm =
    HS256 | HS384 | HS512 | ES256 | ES384 | RS256 | RS384 | RS512 | PS256 | PS384 | PS512 | EdDSA

text \<open>The algorithms are finitely many, so that a statement about all of them evaluates.\<close>

instantiation algorithm :: enum
begin

definition enum_algorithm :: "algorithm list" where
  "enum_algorithm = [HS256, HS384, HS512, ES256, ES384, RS256, RS384, RS512, PS256, PS384, PS512, EdDSA]"

definition enum_all_algorithm :: "(algorithm \<Rightarrow> bool) \<Rightarrow> bool" where
  "enum_all_algorithm P \<longleftrightarrow> list_all P Enum.enum"

definition enum_ex_algorithm :: "(algorithm \<Rightarrow> bool) \<Rightarrow> bool" where
  "enum_ex_algorithm P \<longleftrightarrow> list_ex P Enum.enum"

instance
proof
  show all: "(UNIV :: algorithm set) = set Enum.enum"
    unfolding enum_algorithm_def by (auto intro: algorithm.exhaust)
  show "distinct (Enum.enum :: algorithm list)"
    by (simp add: enum_algorithm_def)
  show "Enum.enum_all P \<longleftrightarrow> Ball UNIV P" for P :: "algorithm \<Rightarrow> bool"
    unfolding enum_all_algorithm_def list_all_iff all ..
  show "Enum.enum_ex P \<longleftrightarrow> Bex UNIV P" for P :: "algorithm \<Rightarrow> bool"
    unfolding enum_ex_algorithm_def list_ex_iff all ..
qed

end

record jwt_header =
  jh_alg :: algorithm
  jh_kid :: "string option"

record validation =
  va_algorithm :: algorithm
  va_audience :: "string list"
  va_issuer :: "string list"
  va_required :: "string list"

record cache_entry =
  ce_identity :: authenticated_identity
  ce_expires_at :: nat

type_synonym validation_cache = "(string \<times> cache_entry) list"

record ('w, 'k) logto_client = "'w jmap_client" +
  jwks_url :: string
  expected_audience :: string
  expected_issuer :: string
  jwt_decode_header :: "string \<Rightarrow> jwt_header option"
  jwks_decode :: "json \<Rightarrow> string + (string option \<times> 'k option) list"
  jwt_decode :: "int \<Rightarrow> string \<Rightarrow> 'k \<Rightarrow> validation \<Rightarrow> logto_claims option"

record ('w, 'k) logto_state = "'w jmap_state" +
  jwks_keys :: "(string \<times> 'k) list"
  jwks_fetched_at :: "nat option"
  jwks_attempted_at :: "nat option"
  vcache :: validation_cache

datatype 'k cached_key_status = Key 'k | Cooldown | Refresh

definition cached_key_status ::
  "nat \<Rightarrow> string \<Rightarrow> ('w, 'k, 'm) logto_state_scheme \<Rightarrow> 'k cached_key_status" where
  "cached_key_status now kid s =
     (let fresh = (case jwks_fetched_at s of None \<Rightarrow> False | Some t \<Rightarrow> now - t < JWKS_TTL);
          cooling_down = (case jwks_attempted_at s of
                            None \<Rightarrow> False | Some t \<Rightarrow> now - t < JWKS_MIN_REFRESH_INTERVAL)
      in case (if fresh then map_of (jwks_keys s) kid else None) of
           Some k \<Rightarrow> Key k
         | None \<Rightarrow> if cooling_down then Cooldown else Refresh)"

text \<open>Keys without an id or of an unsupported kind are skipped; a repeated id keeps the last.\<close>

definition collect_keys :: "(string option \<times> 'k option) list \<Rightarrow> (string \<times> 'k) list" where
  "collect_keys ks = fold (\<lambda>(kid, key) m.
     case (kid, key) of (Some i, Some k) \<Rightarrow> AList.update i k m | _ \<Rightarrow> m) ks []"

definition refresh_jwks ::
  "('w, 'k, 'x) logto_client_scheme \<Rightarrow> (('w, 'k, 'm) logto_state_scheme, validation_error, unit) comp" where
  "refresh_jwks X =
     bindE (map_err Jwks_Http (send X
              \<lparr>rq_method = ''GET'', rq_url = jwks_url X, rq_auth = None, rq_content_type = None,
               rq_body = No_Body, rq_pinned = None\<rparr>)) (\<lambda>resp.
     bindE (refuse_if (\<not> is_success (rp_status resp)) (Jwks_Upstream (rp_status resp))) (\<lambda>_.
     bindE (lift (case rp_json resp of
                    Inl e \<Rightarrow> Inl (Jwks_Http e)
                  | Inr v \<Rightarrow> (case jwks_decode X v of Inl e \<Rightarrow> Inl (Jwks_Http e) | Inr ks \<Rightarrow> Inr ks)))
       (\<lambda>ks.
       modifies (\<lambda>s. s\<lparr>jwks_keys := collect_keys ks, jwks_fetched_at := Some (now_of X s)\<rparr>))))"

text \<open>The status is read twice: before and after taking the refresh lock.\<close>

definition decoding_key_for ::
  "('w, 'k, 'x) logto_client_scheme \<Rightarrow> string
   \<Rightarrow> (('w, 'k, 'm) logto_state_scheme, validation_error, 'k option) comp" where
  "decoding_key_for X kid =
     bindE (gets (\<lambda>s. cached_key_status (now_of X s) kid s)) (\<lambda>status.
     case status of
       Key k \<Rightarrow> ret (Some k)
     | Cooldown \<Rightarrow> ret None
     | Refresh \<Rightarrow>
         bindE (gets (\<lambda>s. cached_key_status (now_of X s) kid s)) (\<lambda>status.
         case status of
           Key k \<Rightarrow> ret (Some k)
         | Cooldown \<Rightarrow> ret None
         | Refresh \<Rightarrow>
             bindE (modifies (\<lambda>s. s\<lparr>jwks_attempted_at := Some (now_of X s)\<rparr>)) (\<lambda>_.
             bindE (refresh_jwks X) (\<lambda>_.
               gets (\<lambda>s. map_of (jwks_keys s) kid)))))"

definition cache_lookup :: "nat \<Rightarrow> string \<Rightarrow> validation_cache \<Rightarrow> authenticated_identity option" where
  "cache_lookup now key m =
     (case map_of m key of
        None \<Rightarrow> None
      | Some e \<Rightarrow> if now < ce_expires_at e then Some (ce_identity e) else None)"

definition cache_ttl :: "int \<Rightarrow> int option \<Rightarrow> nat" where
  "cache_ttl unix exp =
     (case exp of
        None \<Rightarrow> MAX_CACHE_TTL
      | Some e \<Rightarrow> min (nat (max (e - unix) 0) * 10 ^ 9) MAX_CACHE_TTL)"

definition cache_insert ::
  "nat \<Rightarrow> int \<Rightarrow> string \<Rightarrow> authenticated_identity \<Rightarrow> int option \<Rightarrow> validation_cache \<Rightarrow> validation_cache" where
  "cache_insert now unix key identity exp m =
     (let entry = \<lparr>ce_identity = identity, ce_expires_at = now + cache_ttl unix exp\<rparr>;
          m1 = (if CACHE_CAP \<le> length m then filter (\<lambda>(_, e). now < ce_expires_at e) m else m)
      in AList.update key entry
           (make_room CACHE_CAP (min_by_key (ce_expires_at \<circ> snd) m1) key m1))"

definition cache_remove :: "string \<Rightarrow> validation_cache \<Rightarrow> validation_cache" where
  "cache_remove key m = AList.delete key m"

definition drop_token ::
  "('w, 'x) jmap_client_scheme \<Rightarrow> string \<Rightarrow> (('w, 'k, 'm) logto_state_scheme, 'e, unit) comp" where
  "drop_token X token = modifies (\<lambda>s. s\<lparr>vcache := cache_remove (hash_token X token) (vcache s)\<rparr>)"

definition allowed_algorithm :: "algorithm \<Rightarrow> bool" where
  "allowed_algorithm a \<longleftrightarrow> a \<in> {ES384, ES256, RS256, RS384, RS512, EdDSA}"

lemma allowed_algorithms: "\<forall>a. allowed_algorithm a \<longrightarrow> a \<notin> {HS256, HS384, HS512, PS256, PS384, PS512}"
  by code_simp

definition identity_of_claims :: "logto_claims \<Rightarrow> authenticated_identity" where
  "identity_of_claims c =
     \<lparr>user_id = cl_sub c,
      email = (case cl_email c of Some e \<Rightarrow> Some e | None \<Rightarrow> cl_username c),
      display_name = cl_name c, exp_unix = Some (cl_exp c)\<rparr>"

definition token_validation :: "('w, 'k, 'x) logto_client_scheme \<Rightarrow> algorithm \<Rightarrow> validation" where
  "token_validation X alg =
     \<lparr>va_algorithm = alg, va_audience = [expected_audience X], va_issuer = [expected_issuer X],
      va_required = [''exp'', ''aud'', ''iss'', ''sub'']\<rparr>"

definition validate_token ::
  "('w, 'k, 'x) logto_client_scheme \<Rightarrow> string
   \<Rightarrow> (('w, 'k, 'm) logto_state_scheme, validation_error, authenticated_identity option) comp" where
  "validate_token X token =
     (let key = hash_token X token in
      bindE (gets (\<lambda>s. cache_lookup (now_of X s) key (vcache s))) (\<lambda>hit.
      case hit of
        Some identity \<Rightarrow> ret (Some identity)
      | None \<Rightarrow>
      (case jwt_decode_header X token of
         None \<Rightarrow> ret None
       | Some header \<Rightarrow>
      (case jh_kid header of
         None \<Rightarrow> ret None
       | Some kid \<Rightarrow>
           bindE (decoding_key_for X kid) (\<lambda>decoding_key.
           case decoding_key of
             None \<Rightarrow> ret None
           | Some k \<Rightarrow>
               if \<not> allowed_algorithm (jh_alg header) then ret None
               else bindE (gets (\<lambda>s. jwt_decode X (net_unix X (world s)) token k
                                        (token_validation X (jh_alg header)))) (\<lambda>decoded.
                    case decoded of
                      None \<Rightarrow> ret None
                    | Some claims \<Rightarrow>
                        if \<not> aud_matches (cl_aud claims) (expected_audience X) then ret None
                        else bindE (modifies (\<lambda>s. s\<lparr>vcache :=
                                      cache_insert (now_of X s) (net_unix X (world s)) key
                                        (identity_of_claims claims) (Some (cl_exp claims)) (vcache s)\<rparr>))
                               (\<lambda>_. ret (Some (identity_of_claims claims)))))))))"

section \<open>The validation cache\<close>

datatype cache_op =
    Insert_Validation nat int string authenticated_identity int
  | Drop_Validation string

fun cache_op_key :: "cache_op \<Rightarrow> string" where
  "cache_op_key (Insert_Validation now unix k i e) = k"
| "cache_op_key (Drop_Validation k) = k"

fun cache_step :: "cache_op \<Rightarrow> validation_cache \<Rightarrow> validation_cache" where
  "cache_step (Insert_Validation now unix k i e) m = cache_insert now unix k i (Some e) m"
| "cache_step (Drop_Validation k) m = cache_remove k m"

lemma cache_insert_laws:
  assumes "distinct (keys m)"
  shows "distinct (keys (cache_insert now unix k i e m))"
    and "length m \<le> CACHE_CAP \<Longrightarrow> length (cache_insert now unix k i e m) \<le> CACHE_CAP"
    and "k \<noteq> k' \<Longrightarrow> map_of (cache_insert now unix k i e m) k' = Some v \<Longrightarrow> map_of m k' = Some v"
    and "map_of (cache_insert now unix k i e m) k
           = Some \<lparr>ce_identity = i, ce_expires_at = now + cache_ttl unix e\<rparr>"
proof -
  define m1 where "m1 = (if CACHE_CAP \<le> length m then filter (\<lambda>(_, e). now < ce_expires_at e) m else m)"
  have d: "distinct (keys m1)" using assms by (simp add: m1_def distinct_keys_filter)
  have len: "length m \<le> CACHE_CAP \<Longrightarrow> length m1 \<le> CACHE_CAP"
    by (auto simp: m1_def intro: le_trans [OF length_filter_le])
  have sub: "map_of m1 k' = Some v \<Longrightarrow> map_of m k' = Some v" for k' v
    using map_of_filter_Some [OF assms] by (auto simp: m1_def split: if_splits)
  note room = make_room_laws [OF d min_by_key_subset [of "ce_expires_at \<circ> snd" m1]]
  have eq: "cache_insert now unix k i e m
      = AList.update k \<lparr>ce_identity = i, ce_expires_at = now + cache_ttl unix e\<rparr>
          (make_room CACHE_CAP (min_by_key (ce_expires_at \<circ> snd) m1) k m1)"
    by (simp add: cache_insert_def m1_def Let_def)
  show "distinct (keys (cache_insert now unix k i e m))" unfolding eq by (rule room(1))
  show "length m \<le> CACHE_CAP \<Longrightarrow> length (cache_insert now unix k i e m) \<le> CACHE_CAP"
    unfolding eq by (rule room(2) [OF len]) (simp_all add: CACHE_CAP_def)
  show "k \<noteq> k' \<Longrightarrow> map_of (cache_insert now unix k i e m) k' = Some v \<Longrightarrow> map_of m k' = Some v"
    unfolding eq by (rule sub [OF room(3)])
  show "map_of (cache_insert now unix k i e m) k
           = Some \<lparr>ce_identity = i, ce_expires_at = now + cache_ttl unix e\<rparr>"
    unfolding eq by (simp add: update_conv')
qed

interpretation validation_store: capped_store CACHE_CAP cache_op_key cache_step
proof (unfold_locales, goal_cases)
  case (1 m opn)
  then show ?case by (cases opn) (simp_all add: cache_insert_laws(1) cache_remove_def distinct_delete)
next
  case (2 m opn)
  then show ?case
    by (cases opn) (auto simp: cache_insert_laws(2) cache_remove_def intro: le_trans [OF length_delete])
next
  case (3 m opn k v)
  then show ?case
    by (cases opn) (simp_all only: cache_step.simps cache_op_key.simps cache_remove_def
        cache_insert_laws(3) map_of_delete split: if_splits)
qed

lemma cache_ttl_bounds:
  "cache_ttl unix (Some e) \<le> 60 * 10 ^ 9" "int (cache_ttl unix (Some e)) \<le> max (e - unix) 0 * 10 ^ 9"
proof -
  show "cache_ttl unix (Some e) \<le> 60 * 10 ^ 9" by (simp add: cache_ttl_def MAX_CACHE_TTL_def)
  have "int (cache_ttl unix (Some e)) \<le> int (nat (max (e - unix) 0) * 10 ^ 9)"
    unfolding cache_ttl_def option.case by (rule of_nat_mono) simp
  also have "\<dots> = max (e - unix) 0 * 10 ^ 9" by simp
  finally show "int (cache_ttl unix (Some e)) \<le> max (e - unix) 0 * 10 ^ 9" .
qed

text \<open>
  C38. A cached validation is recent: an identity served from the cache was established for that
  very token less than 60 seconds ago, has not been dropped since, and the token's expiry had not passed
  when it was established; the cache never holds more than 256 entries.
\<close>

theorem cached_validation_is_recent:
  assumes "cache_lookup now k (validation_store.run ops) = Some i"
  shows "length (validation_store.run ops) \<le> 256
    \<and> (\<exists>before t unix e rest. ops = before @ Insert_Validation t unix k i e # rest
         \<and> now < t + 60 * 10 ^ 9 \<and> int now < int t + max (e - unix) 0 * 10 ^ 9
         \<and> list_all (\<lambda>o'. cache_op_key o' \<noteq> k) rest)"
proof -
  obtain c where c: "map_of (validation_store.run ops) k = Some c" "now < ce_expires_at c" "i = ce_identity c"
    using assms by (auto simp: cache_lookup_def split: option.splits if_splits)
  obtain before opn rest where o: "ops = before @ opn # rest" "cache_op_key opn = k"
      "\<forall>o' \<in> set rest. cache_op_key o' \<noteq> k" "map_of (validation_store.run (before @ [opn])) k = Some c"
    using validation_store.run_origin [OF c(1)] by blast
  have d: "distinct (keys (validation_store.run before))" using validation_store.run_invariant by blast
  obtain t unix e where "opn = Insert_Validation t unix k i e" "ce_expires_at c = t + cache_ttl unix (Some e)"
  proof (cases opn)
    case (Insert_Validation t unix k' i' e)
    then have "c = \<lparr>ce_identity = i', ce_expires_at = t + cache_ttl unix (Some e)\<rparr>"
      using o(2,4) cache_insert_laws(4) [OF d] unfolding validation_store.run_snoc by simp
    then show ?thesis using that Insert_Validation o(2) c(3) by simp
  next
    case (Drop_Validation k')
    then show ?thesis
      using o(2,4) unfolding validation_store.run_snoc by (simp add: cache_remove_def map_of_delete)
  qed
  moreover from this have "now < t + 60 * 10 ^ 9 \<and> int now < int t + max (e - unix) 0 * 10 ^ 9"
    using c(2) cache_ttl_bounds [of unix e] by linarith
  ultimately show ?thesis
    using o(1,3) validation_store.run_invariant [of ops]
    by (intro conjI exI) (auto simp: list_all_iff CACHE_CAP_def)
qed

section \<open>Acceptance\<close>

lemma ret_None_cases:
  "(case v of None \<Rightarrow> ret None | Some x \<Rightarrow> f x) s = (Inr (Some i), s')
     \<longleftrightarrow> (\<exists>x. v = Some x \<and> f x s = (Inr (Some i), s'))"
  "(if c then ret None else m) s = (Inr (Some i), s') \<longleftrightarrow> \<not> c \<and> m s = (Inr (Some i), s')"
  by (auto simp: ret_def split: option.splits)

text \<open>
  What a newly accepted token satisfies: its header names an allowed asymmetric algorithm
  and a key of the issuer's set, verification under exactly that key, algorithm, audience and
  issuer succeeded, the audience names this resource, and the identity is the one the verified
  claims state.
\<close>

theorem validate_token_accepts:
  assumes "validate_token X token s = (Inr (Some i), s')"
    and "cache_lookup (now_of X s) (hash_token X token) (vcache s) = None"
  shows "\<exists>header kid k w claims.
      jwt_decode_header X token = Some header \<and> jh_kid header = Some kid
      \<and> jh_alg header \<notin> {HS256, HS384, HS512, PS256, PS384, PS512}
      \<and> map_of (jwks_keys s') kid = Some k
      \<and> jwt_decode X (net_unix X w) token k (token_validation X (jh_alg header)) = Some claims
      \<and> aud_matches (cl_aud claims) (expected_audience X) \<and> i = identity_of_claims claims"
proof -
  obtain header kid dk s1 claims where
    h: "jwt_decode_header X token = Some header" "jh_kid header = Some kid"
    and dk: "decoding_key_for X kid s = (Inr (Some dk), s1)"
    and alg: "allowed_algorithm (jh_alg header)"
    and claims: "jwt_decode X (net_unix X (world s1)) token dk (token_validation X (jh_alg header)) = Some claims"
      "aud_matches (cl_aud claims) (expected_audience X)"
    and i: "i = identity_of_claims claims" "jwks_keys s' = jwks_keys s1"
    using assms(1) unfolding validate_token_def Let_def
    by (auto simp: bindE_Inr ret_None_cases gets_def modifies_def assms(2) simp del: split_paired_Ex)
      (auto simp: ret_def)
  have "map_of (jwks_keys s1) kid = Some dk"
    using dk
    by (auto simp: decoding_key_for_def bindE_Inr gets_def ret_def cached_key_status_def Let_def
        split: cached_key_status.splits option.splits if_splits)
  moreover have "jh_alg header \<notin> {HS256, HS384, HS512, PS256, PS384, PS512}"
    using alg allowed_algorithms by blast
  ultimately show ?thesis using h claims i by metis
qed

lemma send_keeps_attempted:
  fixes s :: "('w, 'k, 'm) logto_state_scheme"
  shows "jwks_attempted_at (snd (send X rq s)) = jwks_attempted_at s"
  by (simp add: send_def split: prod.split)

lemma refresh_keeps_attempted:
  fixes X :: "('w, 'k, 'x) logto_client_scheme" and s :: "('w, 'k, 'm) logto_state_scheme"
  shows "jwks_attempted_at (snd (refresh_jwks X s)) = jwks_attempted_at s"
proof -
  let ?rq = "\<lparr>rq_method = ''GET'', rq_url = jwks_url X, rq_auth = None, rq_content_type = None,
               rq_body = No_Body, rq_pinned = None\<rparr>"
  obtain r s1 where r: "send X ?rq s = (r, s1)" by (cases "send X ?rq s")
  have "jwks_attempted_at s1 = jwks_attempted_at s"
    using send_keeps_attempted [of X ?rq s] r by simp
  then show ?thesis
    unfolding refresh_jwks_def bindE_def map_err_def r
    by (auto simp: refuse_if_def ret_def fail_def lift_def modifies_def split: sum.splits)
qed


section \<open>Relations on states\<close>

text \<open>
  What the keys in the state say of a token, and a relation that validation preserves: it holds
  over a refresh with a decoded key set and over the insertion of what an accepted token claims.
\<close>

definition accepts ::
  "('w, 'k, 'x) logto_client_scheme \<Rightarrow> (string \<times> 'k) list \<Rightarrow> string \<Rightarrow> logto_claims \<Rightarrow> bool" where
  "accepts X ks token claims \<longleftrightarrow>
     (\<exists>header kid key unix. jwt_decode_header X token = Some header \<and> jh_kid header = Some kid
        \<and> map_of ks kid = Some key \<and> allowed_algorithm (jh_alg header)
        \<and> jwt_decode X unix token key (token_validation X (jh_alg header)) = Some claims
        \<and> aud_matches (cl_aud claims) (expected_audience X))"

locale validation_relation = client_relation R X
  for R :: "('w, 'k, 'm) logto_state_scheme \<Rightarrow> ('w, 'k, 'm) logto_state_scheme \<Rightarrow> bool"
    and X :: "('w, 'k, 'x) logto_client_scheme" +
  assumes attempted_step: "R s (s\<lparr>jwks_attempted_at := Some t\<rparr>)"
    and keys_step: "jwks_decode X v = Inr ks
      \<Longrightarrow> R s (s\<lparr>jwks_keys := collect_keys ks, jwks_fetched_at := Some t\<rparr>)"
    and accepted_step: "accepts X (jwks_keys s) token claims
      \<Longrightarrow> R s (s\<lparr>vcache := cache_insert now unix (hash_token X token) (identity_of_claims claims)
                      (Some (cl_exp claims)) (vcache s)\<rparr>)"
begin

lemma preserves_refresh: "preserves R (refresh_jwks X)"
  unfolding refresh_jwks_def
  by (intro preserves_bindE preserves_map_err preserves_send preserves_basic preserves_lift
      preserves_modifies) (auto intro: keys_step split: sum.splits)

lemma preserves_decoding_key: "preserves R (decoding_key_for X kid)"
proof -
  have case_key: "preserves R (case v of Key k \<Rightarrow> f k | Cooldown \<Rightarrow> c | Refresh \<Rightarrow> r)"
    if "\<And>k. preserves R (f k)" "preserves R c" "preserves R r"
    for f and c r :: "(('w, 'k, 'm) logto_state_scheme, validation_error, 'k option) comp" and v
    using that by (cases v) simp_all
  show ?thesis unfolding decoding_key_for_def
    by (intro preserves_bindE preserves_basic case_key preserves_modifies attempted_step preserves_refresh)
qed

lemma decoding_key_known:
  assumes "decoding_key_for X kid s = (Inr (Some k), s1)"
  shows "map_of (jwks_keys s1) kid = Some k"
proof -
  have known: "cached_key_status now kid s = Key k \<Longrightarrow> map_of (jwks_keys s) kid = Some k" for now
    by (auto simp: cached_key_status_def Let_def split: option.splits if_splits)
  show ?thesis
    using assms known
    by (auto simp: decoding_key_for_def bindE_Inr gets_def ret_def split: cached_key_status.splits)
qed

lemma validation_preserves:
  assumes "jwt_decode_header X token = Some header" "jh_kid header = Some kid"
    and "map_of (jwks_keys s) kid = Some key" "allowed_algorithm (jh_alg header)"
    and "jwt_decode X unix token key (token_validation X (jh_alg header)) = Some claims"
    and "aud_matches (cl_aud claims) (expected_audience X)"
  shows "R s (s\<lparr>vcache := cache_insert now unix1 (hash_token X token) (identity_of_claims claims)
                  (Some (cl_exp claims)) (vcache s)\<rparr>)"
  using assms unfolding accepts_def [symmetric] by (intro accepted_step) (auto simp: accepts_def)

lemma preserves_validate_token: "preserves R (validate_token X token)"
proof -
  have step: "R s (snd ((case v of None \<Rightarrow> ret None
      | Some k \<Rightarrow> if \<not> allowed_algorithm (jh_alg header) then ret None
          else bindE (gets (\<lambda>s. jwt_decode X (net_unix X (world s)) token k (token_validation X (jh_alg header))))
            (\<lambda>decoded. case decoded of
               None \<Rightarrow> ret None
             | Some claims \<Rightarrow>
                 if \<not> aud_matches (cl_aud claims) (expected_audience X) then ret None
                 else bindE (modifies (\<lambda>s. s\<lparr>vcache := cache_insert (now_of X s) (net_unix X (world s))
                          (hash_token X token) (identity_of_claims claims) (Some (cl_exp claims)) (vcache s)\<rparr>))
                        (\<lambda>_. ret (Some (identity_of_claims claims))))) s))"
    if "jwt_decode_header X token = Some header" "jh_kid header = Some kid" "decoding_key_for X kid s0 = (Inr v, s)"
    for header kid v s0 s
  proof -
    have known: "v = Some k \<Longrightarrow> map_of (jwks_keys s) kid = Some k" for k
      using that(3) decoding_key_known by blast
    show ?thesis
      using known by (auto simp: comp_defs related_refl intro: validation_preserves [OF that(1,2)] split: option.split)
  qed
  show ?thesis unfolding validate_token_def Let_def
    by (intro preserves_bindE preserves_branch preserves_basic preserves_bindE_with [OF preserves_decoding_key])
      (rule step)
qed

end

section \<open>Witnesses\<close>

definition sample_claims :: logto_claims where
  "sample_claims = \<lparr>cl_sub = ''u1'', cl_aud = Single ''https://m.x'', cl_exp = 100, cl_email = None,
     cl_name = None, cl_username = Some ''julian'', cl_scope = None\<rparr>"

definition sample_logto :: "(unit, unit) logto_client" where
  "sample_logto =
     \<lparr>net_send = (\<lambda>rq w. (Inr \<lparr>rp_status = 200, rp_json = Inr JNull, rp_bytes = Inr [],
          rp_length = None, rp_content_type = None,
          rp_chunks = []\<rparr>, w)),
      net_clock = (\<lambda>_. 0), net_system = (\<lambda>_. 0), discovery_url = ''https://m.x/.well-known/jmap'',
      sha256 = (\<lambda>t. t), decode_session = (\<lambda>_. Inl ''no''), decode_upload = (\<lambda>_. Inl ''no''),
      jwks_url = ''https://l.x/jwks'', expected_audience = ''https://m.x'',
      expected_issuer = ''https://l.x'',
      jwt_decode_header = (\<lambda>_. Some \<lparr>jh_alg = ES384, jh_kid = Some ''k1''\<rparr>),
      jwks_decode = (\<lambda>_. Inr [(Some ''k1'', Some ())]),
      jwt_decode = (\<lambda>unix token k v. Some sample_claims)\<rparr>"

definition sample_logto_state :: "(unit, unit) logto_state" where
  "sample_logto_state =
     \<lparr>world = (), trace = [], sessions = [], jwks_keys = [], jwks_fetched_at = None,
      jwks_attempted_at = None, vcache = []\<rparr>"

lemmas logto_eval = validate_token_def decoding_key_for_def refresh_jwks_def comp_defs send_def
  now_of_def cache_lookup_def cached_key_status_def collect_keys_def allowed_algorithm_def
  is_success_def sample_logto_def sample_logto_state_def sample_claims_def hash_token_def

theorem validate_token_accepts_witness:
  "fst (validate_token sample_logto ''t'' sample_logto_state) = Inr (Some (identity_of_claims sample_claims))
   \<and> aud_matches (cl_aud sample_claims) ''https://m.x''"
proof -
  let ?r = "validate_token sample_logto ''t'' sample_logto_state"
  have f: "fst ?r = Inr (Some (identity_of_claims sample_claims))"
    by (simp add: logto_eval Let_def)
  then have r: "?r = (Inr (Some (identity_of_claims sample_claims)), snd ?r)" by (metis prod.collapse)
  have c: "cache_lookup (now_of sample_logto sample_logto_state) (hash_token sample_logto ''t'')
      (vcache sample_logto_state) = None"
    by (simp add: logto_eval)
  obtain claims where "aud_matches (cl_aud claims) (expected_audience sample_logto)"
      "\<exists>w k v. jwt_decode sample_logto w ''t'' k v = Some claims"
    using validate_token_accepts [OF r c] by blast
  then show ?thesis using f by (simp add: sample_logto_def)
qed


theorem cached_validation_is_recent_witness:
  "let ops = [Insert_Validation 5 0 ''k'' (identity_of_claims sample_claims) 100, Drop_Validation ''j'']
   in cache_lookup 7 ''k'' (validation_store.run ops) = Some (identity_of_claims sample_claims)
      \<and> length (validation_store.run ops) \<le> 256"
proof -
  let ?ops = "[Insert_Validation 5 0 ''k'' (identity_of_claims sample_claims) 100, Drop_Validation ''j'']"
  have h: "cache_lookup 7 ''k'' (validation_store.run ?ops) = Some (identity_of_claims sample_claims)"
    by (simp add: validation_store.run_def cache_insert_def cache_remove_def cache_lookup_def
        make_room_def CACHE_CAP_def cache_ttl_def MAX_CACHE_TTL_def)
  show ?thesis using h cached_validation_is_recent [OF h] by (simp add: Let_def)
qed

end
