(* ===== verification/Ip_Parser.thy ===== *)
theory Ip_Parser
  imports Url
begin

text \<open>
  Parsing of IP addresses and socket addresses from text, as Rust's standard library does it
  (\<^verbatim>\<open>IpAddr::from_str\<close>, \<^verbatim>\<open>SocketAddr::from_str\<close>): used for the client address of a request, the
  bind addresses of the configuration and the connect-IP override. A parser consumes a prefix
  of its input and returns the rest; a failed parser consumes nothing.
\<close>

type_synonym 'a parser = "string \<Rightarrow> ('a \<times> string) option"

definition digit_of :: "nat \<Rightarrow> char \<Rightarrow> nat option" where
  "digit_of radix c =
     (let n = of_char c :: nat;
          d = (if 48 \<le> n \<and> n \<le> 57 then n - 48
               else if 65 \<le> n \<and> n \<le> 90 then n - 55
               else if 97 \<le> n \<and> n \<le> 122 then n - 87
               else radix)
      in if d < radix then Some d else None)"

text \<open>All leading digits: their number, their value, and the rest.\<close>

fun read_digits :: "nat \<Rightarrow> nat \<Rightarrow> nat \<Rightarrow> string \<Rightarrow> nat \<times> nat \<times> string" where
  "read_digits radix count acc [] = (count, acc, [])"
| "read_digits radix count acc (c # s) =
     (case digit_of radix c of
        None \<Rightarrow> (count, acc, c # s)
      | Some d \<Rightarrow> read_digits radix (count + 1) (acc * radix + d) s)"

text \<open>
  \<^verbatim>\<open>read_number\<close>: at least one digit, at most \<open>max_digits\<close> when that is given, no zero prefix
  unless allowed, and a value below \<open>limit\<close>.
\<close>

definition read_number :: "nat \<Rightarrow> nat option \<Rightarrow> bool \<Rightarrow> nat \<Rightarrow> nat parser" where
  "read_number radix max_digits allow_zero_prefix limit s =
     (case read_digits radix 0 0 s of
        (count, v, rest) \<Rightarrow>
          if count = 0 \<or> (case max_digits of None \<Rightarrow> False | Some m \<Rightarrow> m < count)
             \<or> (\<not> allow_zero_prefix \<and> hd s = CHR ''0'' \<and> 1 < count) \<or> limit \<le> v
          then None else Some (v, rest))"

fun read_given_char :: "char \<Rightarrow> unit parser" where
  "read_given_char c [] = None"
| "read_given_char c (x # xs) = (if x = c then Some ((), xs) else None)"

text \<open>A separator before every element but the first.\<close>

definition read_separator :: "char \<Rightarrow> nat \<Rightarrow> 'a parser \<Rightarrow> 'a parser" where
  "read_separator sep i p s =
     (if i = 0 then p s
      else Option.bind (read_given_char sep s) (\<lambda>(_, s). p s))"

definition read_octet :: "nat \<Rightarrow> nat parser" where
  "read_octet i = read_separator CHR ''.'' i (read_number 10 (Some 3) False 256)"

definition read_ipv4_addr :: "ipv4 parser" where
  "read_ipv4_addr s =
     Option.bind (read_octet 0 s) (\<lambda>(a, s).
     Option.bind (read_octet 1 s) (\<lambda>(b, s).
     Option.bind (read_octet 2 s) (\<lambda>(c, s).
     Option.bind (read_octet 3 s) (\<lambda>(d, s).
       Some (Ipv4 (of_nat a) (of_nat b) (of_nat c) (of_nat d), s)))))"

text \<open>
  \<^verbatim>\<open>read_groups\<close> from group \<open>i\<close> of \<open>i + n\<close>: the groups read, whether an embedded IPv4 address
  ended them, and the rest.
\<close>

fun read_groups :: "nat \<Rightarrow> nat \<Rightarrow> string \<Rightarrow> nat list \<times> bool \<times> string" where
  "read_groups i 0 s = ([], False, s)"
| "read_groups i (Suc n) s =
     (case (if n = 0 then None else read_separator CHR '':'' i read_ipv4_addr s) of
        Some (Ipv4 a b c d, rest) \<Rightarrow>
          ([unat a * 256 + unat b, unat c * 256 + unat d], True, rest)
      | None \<Rightarrow>
          (case read_separator CHR '':'' i (read_number 16 (Some 4) True 65536) s of
             None \<Rightarrow> ([], False, s)
           | Some (g, rest) \<Rightarrow>
               (case read_groups (i + 1) n rest of
                  (gs, v4, rest') \<Rightarrow> (g # gs, v4, rest'))))"

definition ipv6_of_groups :: "nat list \<Rightarrow> ipv6" where
  "ipv6_of_groups g =
     Ipv6 (of_nat (g ! 0)) (of_nat (g ! 1)) (of_nat (g ! 2)) (of_nat (g ! 3))
          (of_nat (g ! 4)) (of_nat (g ! 5)) (of_nat (g ! 6)) (of_nat (g ! 7))"

definition read_ipv6_addr :: "ipv6 parser" where
  "read_ipv6_addr s =
     (case read_groups 0 8 s of
        (hd_groups, hd_v4, rest) \<Rightarrow>
          if length hd_groups = 8 then Some (ipv6_of_groups hd_groups, rest)
          else if hd_v4 then None
          else
            Option.bind (read_given_char CHR '':'' rest) (\<lambda>(_, rest).
            Option.bind (read_given_char CHR '':'' rest) (\<lambda>(_, rest).
              case read_groups 0 (7 - length hd_groups) rest of
                (tl_groups, _, rest') \<Rightarrow>
                  Some (ipv6_of_groups
                          (hd_groups @ replicate (8 - length hd_groups - length tl_groups) 0
                           @ tl_groups), rest'))))"

definition read_ip_addr :: "ip_addr parser" where
  "read_ip_addr s =
     (case read_ipv4_addr s of
        Some (v4, rest) \<Rightarrow> Some (V4 v4, rest)
      | None \<Rightarrow> map_option (apfst V6) (read_ipv6_addr s))"

text \<open>\<^verbatim>\<open>parse_with\<close>: the whole input must be consumed.\<close>

definition parse_all :: "'a parser \<Rightarrow> string \<Rightarrow> 'a option" where
  "parse_all p s =
     (case p s of Some (a, []) \<Rightarrow> Some a | _ \<Rightarrow> None)"

definition parse_ip_addr :: "string \<Rightarrow> ip_addr option" where
  "parse_ip_addr = parse_all read_ip_addr"

text \<open>
  \<^verbatim>\<open>SocketAddr\<close>: an IPv4 address and a port, or a bracketed IPv6 address, with an optional
  scope, and a port. The scope is parsed and dropped.
\<close>

definition read_port :: "nat parser" where
  "read_port s =
     Option.bind (read_given_char CHR '':'' s) (\<lambda>(_, s). read_number 10 None True 65536 s)"

definition read_scope_id :: "string \<Rightarrow> string" where
  "read_scope_id s =
     (case Option.bind (read_given_char CHR ''%'' s)
             (\<lambda>(_, s). read_number 10 None True (2 ^ 32) s) of
        None \<Rightarrow> s
      | Some (_, rest) \<Rightarrow> rest)"

definition read_socket_addr :: "socket_addr parser" where
  "read_socket_addr s =
     (case Option.bind (read_ipv4_addr s) (\<lambda>(ip, s). map_option (apfst (Pair (V4 ip))) (read_port s)) of
        Some r \<Rightarrow> Some r
      | None \<Rightarrow>
          Option.bind (read_given_char CHR ''['' s) (\<lambda>(_, s).
          Option.bind (read_ipv6_addr s) (\<lambda>(ip, s).
          Option.bind (read_given_char CHR '']'' (read_scope_id s)) (\<lambda>(_, s).
            map_option (apfst (Pair (V6 ip))) (read_port s)))))"

definition parse_socket_addr :: "string \<Rightarrow> socket_addr option" where
  "parse_socket_addr = parse_all read_socket_addr"

end
