(* ===== verification/Last_Used.thy ===== *)
theory Last_Used
  imports Capped_Store Ip_Parser
begin

text \<open>
  \<^verbatim>\<open>src/last_used.rs\<close>: the per-bearer record of the last use, and the choice of the client
  address out of \<^verbatim>\<open>X-Forwarded-For\<close>. Time is the number of nanoseconds on the system clock.
\<close>

section \<open>Definitions\<close>

definition MAX_ENTRIES :: nat where "MAX_ENTRIES = 1024"

record last_used_record =
  lu_at :: nat
  lu_ip :: "ip_addr option"

type_synonym last_used_map = "(string \<times> last_used_record) list"

definition last_used_put ::
  "nat \<Rightarrow> string \<Rightarrow> ip_addr option \<Rightarrow> last_used_map \<Rightarrow> last_used_map" where
  "last_used_put now token_hash ip m =
     AList.update token_hash \<lparr>lu_at = now, lu_ip = ip\<rparr>
       (make_room MAX_ENTRIES (min_by_key (lu_at \<circ> snd) m) token_hash m)"

definition last_used_get :: "last_used_map \<Rightarrow> string \<Rightarrow> last_used_record option" where
  "last_used_get m token_hash = map_of m token_hash"

text \<open>\<^verbatim>\<open>u8::is_ascii_whitespace\<close>.\<close>

definition is_ascii_whitespace :: "char \<Rightarrow> bool" where
  "is_ascii_whitespace c = (c \<in> {CHR 0x20, CHR 0x09, CHR 0x0A, CHR 0x0C, CHR 0x0D})"

definition xff_entry_count :: "string option \<Rightarrow> nat" where
  "xff_entry_count xff =
     (case xff of
        None \<Rightarrow> 0
      | Some raw \<Rightarrow>
          if list_all is_ascii_whitespace raw then 0 else length (split_char CHR '','' raw))"

definition parse_client_ip :: "string option \<Rightarrow> nat \<Rightarrow> ip_addr option" where
  "parse_client_ip xff trusted_proxy_hops =
     (case xff of
        None \<Rightarrow> None
      | Some raw \<Rightarrow>
          (let parts = map trim (split_char CHR '','' raw);
               len = length parts
           in if trusted_proxy_hops = 0 \<or> len < trusted_proxy_hops then None
              else parse_ip_addr (parts ! (len - trusted_proxy_hops))))"

section \<open>The store\<close>

text \<open>An operation on the store is one recorded use: a time, a bearer hash and an address.\<close>

fun last_used_step :: "nat \<times> string \<times> ip_addr option \<Rightarrow> last_used_map \<Rightarrow> last_used_map" where
  "last_used_step (now, h, ip) m = last_used_put now h ip m"

lemmas last_used_room =
  make_room_laws [OF _ min_by_key_subset, where f1 = "lu_at \<circ> snd"]

interpretation last_used: capped_store MAX_ENTRIES "\<lambda>u. fst (snd u)" last_used_step
proof (unfold_locales, goal_cases)
  case (1 m opn)
  then show ?case by (cases opn) (simp add: last_used_put_def last_used_room(1))
next
  case (2 m opn)
  then show ?case
    by (cases opn) (simp add: last_used_put_def last_used_room(2) MAX_ENTRIES_def)
next
  case (3 m opn k v)
  then show ?case
    by (cases opn) (simp only: last_used_step.simps last_used_put_def fst_conv snd_conv last_used_room(3))
qed

text \<open>
  Recorded uses: for any sequence of uses, the store never holds more than 1024 bearers, and the record it
  holds for a bearer is the time and address of that bearer's own most recent use: a use by
  another bearer can evict it but never change it.
\<close>

theorem last_used_is_latest:
  assumes "last_used_get (last_used.run ops) h = Some r"
  shows "length (last_used.run ops) \<le> 1024
    \<and> (\<exists>before rest. ops = before @ (lu_at r, h, lu_ip r) # rest \<and> (\<forall>u \<in> set rest. fst (snd u) \<noteq> h))"
proof -
  obtain before opn rest where o: "ops = before @ opn # rest" "fst (snd opn) = h"
      "\<forall>u \<in> set rest. fst (snd u) \<noteq> h" "map_of (last_used.run (before @ [opn])) h = Some r"
    using last_used.run_origin assms unfolding last_used_get_def by blast
  obtain now ip where opn: "opn = (now, h, ip)" using o(2) by (cases opn) auto
  have "r = \<lparr>lu_at = now, lu_ip = ip\<rparr>"
    using o(4) unfolding last_used.run_snoc opn by (simp add: last_used_put_def update_conv')
  then show ?thesis
    using o opn last_used.run_invariant [of ops] by (auto simp: MAX_ENTRIES_def)
qed

theorem last_used_is_latest_witness:
  "last_used_get (last_used.run [(5, ''a'', None), (7, ''b'', None), (9, ''a'', None)]) ''a''
     = Some \<lparr>lu_at = 9, lu_ip = None\<rparr>
   \<and> length (last_used.run [(5, ''a'', None), (7, ''b'', None), (9, ''a'', None)]) \<le> 1024"
proof -
  have h: "last_used_get (last_used.run [(5, ''a'', None), (7, ''b'', None), (9, ''a'', None)]) ''a''
     = Some \<lparr>lu_at = 9, lu_ip = None\<rparr>"
    by (simp add: last_used.run_def last_used_get_def last_used_put_def make_room_def MAX_ENTRIES_def)
  show ?thesis using h last_used_is_latest [OF h] by blast
qed

section \<open>The client address\<close>

lemma split_char_append:
  "split_char c (s @ [c] @ t) = split_char c s @ split_char c t"
proof (induction s)
  case Nil
  then show ?case by simp
next
  case (Cons x s)
  obtain y ys where "split_char c s = y # ys" by (cases "split_char c s") auto
  then show ?case using Cons by simp
qed

lemma split_char_free: "c \<notin> set s \<Longrightarrow> split_char c s = [s]"
  by (induction s) auto

lemma split_char_join:
  "list_all (\<lambda>p. c \<notin> set p) ps \<Longrightarrow> split_char c (s @ concat (map (\<lambda>p. c # p) ps)) = split_char c s @ ps"
proof (induction ps arbitrary: s)
  case Nil
  then show ?case by simp
next
  case (Cons p ps)
  have "split_char c (s @ concat (map (\<lambda>p. c # p) (p # ps)))
        = split_char c ((s @ [c] @ p) @ concat (map (\<lambda>p. c # p) ps))" by simp
  also have "\<dots> = split_char c (s @ [c] @ p) @ ps" using Cons.prems by (intro Cons.IH) simp
  also have "\<dots> = split_char c s @ split_char c p @ ps" by (simp add: split_char_append [simplified])
  finally show ?case using Cons.prems by (simp add: split_char_free)
qed



end
