(* ===== verification/OAuth_Redirect.thy ===== *)
theory OAuth_Redirect
  imports Url
begin

text \<open>
  \<^verbatim>\<open>src/oauth_redirect.rs\<close>: the allowlist of OAuth redirect URIs. URL parsing (the \<^verbatim>\<open>url\<close>
  crate) is the parameter \<open>parse_url\<close>.
\<close>

section \<open>Definitions\<close>

definition is_loopback_host :: "string \<Rightarrow> bool" where
  "is_loopback_host host =
     (host = ''localhost'' \<or> host = ''127.0.0.1'' \<or> host = ''[::1]'' \<or> host = ''::1'')"

definition validate_redirect_uri :: "url_parser \<Rightarrow> string \<Rightarrow> string \<Rightarrow> string + unit" where
  "validate_redirect_uri parse_url uri key =
     (if trim uri \<noteq> uri \<or> uri = [] then
        Inl (key @ '' entries must be non-empty absolute URLs without surrounding whitespace'')
      else case parse_url uri of
        Inl e \<Rightarrow> Inl (''invalid '' @ key @ '' redirect URI: '' @ uri)
      | Inr u \<Rightarrow>
          (if u_scheme u = ''https'' \<and> u_host u = None then
             Inl (key @ '' https entries must include a host: '' @ uri)
           else if u_scheme u = ''http''
                   \<and> \<not> is_loopback_host (case u_host u of None \<Rightarrow> [] | Some h \<Rightarrow> h) then
             Inl (key @ '' http entries are only allowed on loopback hosts ''
                  @ ''(localhost, 127.0.0.1, [::1]): '' @ uri)
           else if u_scheme u = [] then
             Inl (key @ '' entries must have a scheme: '' @ uri)
           else if u_fragment u \<noteq> None then
             Inl (key @ '' entries must not contain URI fragments: '' @ uri)
           else if u_username u \<noteq> [] \<or> u_password u \<noteq> None then
             Inl (key @ '' entries must not contain user info: '' @ uri)
           else Inr ()))"

fun collect_uris :: "url_parser \<Rightarrow> string \<Rightarrow> string list \<Rightarrow> string list \<Rightarrow> string + string list" where
  "collect_uris parse_url key [] uris = Inr uris"
| "collect_uris parse_url key (uri # rest) uris =
     (case validate_redirect_uri parse_url uri key of
        Inl e \<Rightarrow> Inl e
      | Inr _ \<Rightarrow>
          collect_uris parse_url key rest (if uri \<in> set uris then uris else uris @ [uri]))"

definition parse_allowlist :: "url_parser \<Rightarrow> string \<Rightarrow> string \<Rightarrow> string + string list" where
  "parse_allowlist parse_url raw key =
     (case collect_uris parse_url key
             (filter (\<lambda>u. u \<noteq> []) (map trim (split_char CHR '','' raw))) [] of
        Inl e \<Rightarrow> Inl e
      | Inr uris \<Rightarrow>
          if uris = [] then Inl (key @ '' must contain at least one redirect URI'') else Inr uris)"

definition loopback_redirect_matches :: "url_parser \<Rightarrow> string \<Rightarrow> url \<Rightarrow> bool" where
  "loopback_redirect_matches parse_url configured candidate =
     (case parse_url configured of
        Inl _ \<Rightarrow> False
      | Inr c \<Rightarrow>
          u_scheme c = ''http'' \<and> u_scheme candidate = ''http''
          \<and> (case u_host c of None \<Rightarrow> False | Some h \<Rightarrow> is_loopback_host h)
          \<and> u_host c = u_host candidate \<and> u_path c = u_path candidate
          \<and> u_query c = u_query candidate)"

definition is_allowed_redirect_uri :: "url_parser \<Rightarrow> string list \<Rightarrow> string \<Rightarrow> bool" where
  "is_allowed_redirect_uri parse_url allowed uri =
     (case validate_redirect_uri parse_url uri ''redirect_uri'' of
        Inl _ \<Rightarrow> False
      | Inr _ \<Rightarrow>
          (case parse_url uri of
             Inl _ \<Rightarrow> False
           | Inr candidate \<Rightarrow>
               list_ex (\<lambda>configured. configured = uri
                          \<or> loopback_redirect_matches parse_url configured candidate) allowed))"

section \<open>Properties\<close>

lemma loopback_redirect_matches_iff:
  "loopback_redirect_matches parse_url c u \<longleftrightarrow>
     (\<exists>p h. parse_url c = Inr p \<and> u_scheme p = ''http'' \<and> u_scheme u = ''http'' \<and> u_host p = Some h
        \<and> is_loopback_host h \<and> u_host u = Some h \<and> u_path p = u_path u \<and> u_query p = u_query u)"
  by (auto simp: loopback_redirect_matches_def split: sum.splits option.splits)

lemma validate_redirect_uri_ok:
  "validate_redirect_uri parse_url uri key = Inr x \<longleftrightarrow>
     trim uri = uri \<and> uri \<noteq> [] \<and>
     (\<exists>u. parse_url uri = Inr u \<and> u_scheme u \<noteq> [] \<and> u_fragment u = None \<and> u_username u = []
        \<and> u_password u = None \<and> (u_scheme u = ''https'' \<longrightarrow> u_host u \<noteq> None)
        \<and> (u_scheme u = ''http'' \<longrightarrow> (\<exists>h. u_host u = Some h \<and> is_loopback_host h)))"
  by (auto simp: validate_redirect_uri_def is_loopback_host_def split: option.splits)

lemma collect_uris_ok:
  assumes "collect_uris parse_url key entries uris = Inr result" "distinct uris"
  shows "distinct result \<and> set result = set uris \<union> set entries
    \<and> (\<forall>u \<in> set entries. validate_redirect_uri parse_url u key = Inr ())"
  using assms
proof (induction entries arbitrary: uris)
  case Nil
  then show ?case by simp
next
  case (Cons u entries)
  let ?uris = "if u \<in> set uris then uris else uris @ [u]"
  have v: "validate_redirect_uri parse_url u key = Inr ()"
    and r: "collect_uris parse_url key entries ?uris = Inr result"
    using Cons.prems(1) by (auto split: sum.splits)
  have "distinct ?uris" using Cons.prems(2) by simp
  from Cons.IH [OF r this] v show ?case by (auto split: if_splits)
qed

text \<open>
  A parsed allowlist is non-empty, has no duplicates, and every entry is valid: trimmed, absolute,
  without fragment or user information, https with a host, or http on a loopback host only, or a private-use
  scheme. One invalid entry rejects the whole list.
\<close>

theorem parse_allowlist_ok:
  assumes "parse_allowlist parse_url raw key = Inr uris"
  shows "uris \<noteq> [] \<and> distinct uris
    \<and> list_all (\<lambda>u. \<exists>p. parse_url u = Inr p \<and> trim u = u \<and> u_fragment p = None \<and> u_username p = []
        \<and> u_password p = None \<and> (u_scheme p = ''https'' \<longrightarrow> u_host p \<noteq> None)
        \<and> (u_scheme p = ''http'' \<longrightarrow> (\<exists>h. u_host p = Some h \<and> is_loopback_host h))) uris"
proof -
  let ?entries = "filter (\<lambda>u. u \<noteq> []) (map trim (split_char CHR '','' raw))"
  have c: "collect_uris parse_url key ?entries [] = Inr uris" and "uris \<noteq> []"
    using assms by (auto simp: parse_allowlist_def split: sum.splits if_splits)
  note ok = collect_uris_ok [OF c]
  have "validate_redirect_uri parse_url u key = Inr ()" if "u \<in> set uris" for u
    using ok that by simp
  note valid = this [THEN validate_redirect_uri_ok [THEN iffD1]]
  have "distinct uris" using ok by simp
  then show ?thesis
    using \<open>uris \<noteq> []\<close> unfolding list_all_iff by (intro conjI ballI) (assumption+, drule valid, blast)
qed

theorem parse_allowlist_ok_witness:
  "parse_allowlist sample_url_parser '' https://claude.ai/cb,http://localhost/cb,, https://claude.ai/cb '' ''K''
     = Inr [''https://claude.ai/cb'', ''http://localhost/cb'']
   \<and> distinct [''https://claude.ai/cb'', ''http://localhost/cb'']"
proof -
  have h: "parse_allowlist sample_url_parser '' https://claude.ai/cb,http://localhost/cb,, https://claude.ai/cb '' ''K''
     = Inr [''https://claude.ai/cb'', ''http://localhost/cb'']"
    by code_simp
  show ?thesis using h parse_allowlist_ok [OF h] by blast
qed

text \<open>
  No open redirect: a URI is allowed exactly when it is valid and either listed literally,
  or an http URI on a loopback host that agrees with a listed http URI in host, path and query,
  so that only the port may differ; an https or private-use URI must be listed literally.
\<close>

theorem is_allowed_redirect_uri_iff:
  "is_allowed_redirect_uri parse_url allowed uri \<longleftrightarrow>
     validate_redirect_uri parse_url uri ''redirect_uri'' = Inr ()
     \<and> (list_ex (\<lambda>c. c = uri) allowed
        \<or> (\<exists>u h. parse_url uri = Inr u \<and> u_scheme u = ''http'' \<and> u_host u = Some h
             \<and> is_loopback_host h
             \<and> list_ex (\<lambda>c. \<exists>p. parse_url c = Inr p \<and> u_scheme p = ''http'' \<and> u_host p = Some h
                               \<and> u_path p = u_path u \<and> u_query p = u_query u) allowed))"
proof (cases "validate_redirect_uri parse_url uri ''redirect_uri''")
  case (Inl e)
  then show ?thesis by (simp add: is_allowed_redirect_uri_def)
next
  case (Inr x)
  then obtain u where u: "parse_url uri = Inr u" unfolding validate_redirect_uri_ok by blast
  show ?thesis
    unfolding is_allowed_redirect_uri_def list_ex_iff loopback_redirect_matches_iff Inr u sum.case
    by (auto; blast)
qed

end
