(* ===== verification/Config.thy ===== *)
theory Config
  imports From_Address OAuth_Redirect Ip_Parser
begin

text \<open>
  \<^verbatim>\<open>src/config.rs\<close>: the configuration and its loading from the environment. A process
  environment is a function from names to an outcome of \<^verbatim>\<open>std::env::var\<close>; an error is the text
  of the outermost context. URL parsing is a parameter, used for the redirect allowlist.
\<close>

section \<open>The environment\<close>

datatype env_var = Not_Present | Not_Unicode | Present string

type_synonym environment = "string \<Rightarrow> env_var"

fun env_ok :: "env_var \<Rightarrow> string option" where
  "env_ok (Present v) = Some v"
| "env_ok _ = None"

definition require_env :: "environment \<Rightarrow> string \<Rightarrow> string + string" where
  "require_env env key =
     (case env_ok (env key) of
        None \<Rightarrow> Inl (''required env var '' @ key @ '' is not set'')
      | Some v \<Rightarrow> Inr v)"

section \<open>URLs\<close>

definition strip_trailing_slash :: "string \<Rightarrow> string" where
  "strip_trailing_slash s = trim_end_matches CHR ''/'' s"

definition canonical_resource_origin :: "string \<Rightarrow> string" where
  "canonical_resource_origin raw =
     (let trimmed = strip_trailing_slash raw in
      case strip_suffix trimmed ''/mcp'' of
        Some origin \<Rightarrow>
          if contains origin ''://'' \<and> \<not> ends_with origin ''/'' then origin else trimmed
      | None \<Rightarrow> trimmed)"

definition validate_url :: "string \<Rightarrow> string \<Rightarrow> string + unit" where
  "validate_url url key =
     (if \<not> starts_with url ''https://'' \<and> \<not> starts_with url ''http://''
      then Inl (key @ '' must be an absolute http(s) URL, got: '' @ url) else Inr ())"

section \<open>Numbers and flags\<close>

definition parse_rate_limit :: "environment \<Rightarrow> string \<Rightarrow> nat \<Rightarrow> string + nat" where
  "parse_rate_limit env key dflt =
     (case env_ok (env key) of
        None \<Rightarrow> Inr dflt
      | Some raw \<Rightarrow>
          (case parse_uint (2 ^ 32) (trim raw) of
             None \<Rightarrow> Inl (key @ '' must be a positive integer, got: '' @ raw)
           | Some v \<Rightarrow> if v = 0 then Inl (key @ '' must be > 0'') else Inr v))"

definition parse_u64_env :: "environment \<Rightarrow> string \<Rightarrow> nat \<Rightarrow> string + nat" where
  "parse_u64_env env key dflt =
     (case env_ok (env key) of
        None \<Rightarrow> Inr dflt
      | Some raw \<Rightarrow>
          (case parse_uint (2 ^ 64) (trim raw) of
             None \<Rightarrow> Inl (key @ '' must be a non-negative integer, got: '' @ raw)
           | Some v \<Rightarrow> Inr v))"

definition parse_bool_env :: "environment \<Rightarrow> string \<Rightarrow> string + bool" where
  "parse_bool_env env name =
     (case env_ok (env name) of
        None \<Rightarrow> Inr False
      | Some raw \<Rightarrow>
          (let v = trim raw in
           if v = ''1'' \<or> v = ''true'' \<or> v = ''yes'' then Inr True
           else if v = ''0'' \<or> v = ''false'' \<or> v = ''no'' \<or> v = [] then Inr False
           else Inl (name @ '' must be one of 1/true/yes/0/false/no, got: '' @ v)))"

definition DEFAULT_TRUSTED_PROXY_HOPS :: nat where "DEFAULT_TRUSTED_PROXY_HOPS = 2"

definition parse_trusted_proxy_hops :: "environment \<Rightarrow> string + nat" where
  "parse_trusted_proxy_hops env =
     (case env_ok (env ''JMAP_MCP_TRUSTED_PROXY_HOPS'') of
        None \<Rightarrow> Inr DEFAULT_TRUSTED_PROXY_HOPS
      | Some raw \<Rightarrow>
          (case parse_uint (2 ^ 64) (trim raw) of
             None \<Rightarrow> Inl (''JMAP_MCP_TRUSTED_PROXY_HOPS must be a non-negative integer, got: '' @ raw)
           | Some v \<Rightarrow> Inr v))"

definition resolve_metrics_bind_addr :: "string option \<Rightarrow> string option \<Rightarrow> string + socket_addr" where
  "resolve_metrics_bind_addr explicit_addr pod_ip =
     (let addr_str = (case explicit_addr of
                        Some a \<Rightarrow> a
                      | None \<Rightarrow> (case pod_ip of None \<Rightarrow> ''127.0.0.1:9090'' | Some ip \<Rightarrow> ip @ '':9090''))
      in case parse_socket_addr addr_str of
           None \<Rightarrow> Inl (''invalid JMAP_MCP_METRICS_BIND_ADDR: '' @ addr_str)
         | Some a \<Rightarrow> Inr a)"

section \<open>The operator's sender addresses\<close>

definition EXTRA_FROM :: string where "EXTRA_FROM = ''JMAP_MCP_EXTRA_FROM_ADDRESSES''"

definition parse_one_address :: "string \<Rightarrow> string \<Rightarrow> string + string" where
  "parse_one_address entry raw_entry =
     (let addr = to_ascii_lowercase (trim entry) in
      case split_char CHR ''@'' addr of
        [local_part, domain] \<Rightarrow>
          if local_part = [] \<or> domain = [] \<or> CHR ''.'' \<notin> set domain then
            Inl (EXTRA_FROM @ '': '' @ raw_entry @ '' is not a valid user@domain address'')
          else if is_role_address addr then
            Inl (EXTRA_FROM @ '': '' @ raw_entry
                 @ '' is a shared role address and must never be configured as a personal From'')
          else Inr addr
      | _ \<Rightarrow> Inl (EXTRA_FROM @ '': '' @ raw_entry @ '' is not a single user@domain address''))"

record parsed_from_addresses =
  pf_owned :: "owned_from_address list"
  pf_unowned :: "string list"

fun parse_from_entries :: "string list \<Rightarrow> parsed_from_addresses \<Rightarrow> string + parsed_from_addresses" where
  "parse_from_entries [] acc = Inr acc"
| "parse_from_entries (raw # rest) acc =
     (let entry = trim raw in
      if entry = [] then parse_from_entries rest acc
      else case split_once CHR ''='' entry of
        None \<Rightarrow>
          (case parse_one_address entry entry of
             Inl e \<Rightarrow> Inl e
           | Inr addr \<Rightarrow>
               parse_from_entries rest
                 (if addr \<in> set (pf_unowned acc) then acc
                  else acc\<lparr>pf_unowned := pf_unowned acc @ [addr]\<rparr>))
      | Some (owner_raw, email_raw) \<Rightarrow>
          (case parse_one_address owner_raw entry of
             Inl e \<Rightarrow> Inl e
           | Inr account \<Rightarrow>
               (case parse_one_address email_raw entry of
                  Inl e \<Rightarrow> Inl e
                | Inr email \<Rightarrow>
                    (let candidate = \<lparr>ofa_owner = account, ofa_email = email\<rparr> in
                     parse_from_entries rest
                       (if candidate \<in> set (pf_owned acc) then acc
                        else acc\<lparr>pf_owned := pf_owned acc @ [candidate]\<rparr>)))))"

definition parse_extra_from_addresses :: "string \<Rightarrow> string + parsed_from_addresses" where
  "parse_extra_from_addresses raw =
     parse_from_entries
       (split_chars [CHR '','', CHR 0x0A, CHR 0x0D, CHR 0x09, CHR '' ''] raw)
       \<lparr>pf_owned = [], pf_unowned = []\<rparr>"

definition parse_extra_from_addresses_env :: "environment \<Rightarrow> string + parsed_from_addresses" where
  "parse_extra_from_addresses_env env =
     (case env EXTRA_FROM of
        Present raw \<Rightarrow> parse_extra_from_addresses raw
      | Not_Present \<Rightarrow> Inr \<lparr>pf_owned = [], pf_unowned = []\<rparr>
      | Not_Unicode \<Rightarrow> Inl (''invalid '' @ EXTRA_FROM))"

definition parse_redirect_uris_env :: "url_parser \<Rightarrow> environment \<Rightarrow> string + string list" where
  "parse_redirect_uris_env parse_url env =
     (case env ''JMAP_MCP_OAUTH_REDIRECT_URIS'' of
        Present raw \<Rightarrow> parse_allowlist parse_url raw ''JMAP_MCP_OAUTH_REDIRECT_URIS''
      | Not_Present \<Rightarrow> Inr []
      | Not_Unicode \<Rightarrow> Inl ''invalid JMAP_MCP_OAUTH_REDIRECT_URIS'')"

section \<open>The configuration\<close>

record introspection_credentials =
  ic_client_id :: string
  ic_client_secret :: string

record config =
  resource_url :: string
  authorization_server :: string
  stalwart_jmap_base_url :: string
  bind_addr :: socket_addr
  metrics_bind_addr :: socket_addr
  introspection :: "introspection_credentials option"
  rate_limit_reads_per_min :: nat
  rate_limit_writes_per_min :: nat
  download_max_bytes :: nat
  upload_max_bytes :: nat
  trusted_proxy_hops :: nat
  allow_app_password :: bool
  stalwart_connect_ip :: "string option"
  dcr_client_id :: "string option"
  oauth_redirect_uris :: "string list"
  extra_from_addresses :: "owned_from_address list"
  unowned_from_addresses :: "string list"

definition config_new :: "string \<Rightarrow> string \<Rightarrow> string \<Rightarrow> socket_addr \<Rightarrow> string + config" where
  "config_new resource_url0 authorization_server0 stalwart0 bind =
     (let resource = canonical_resource_origin resource_url0;
          authz = strip_trailing_slash authorization_server0;
          stalwart = strip_trailing_slash stalwart0
      in case validate_url resource ''JMAP_MCP_RESOURCE_URL'' of
           Inl e \<Rightarrow> Inl e
         | Inr _ \<Rightarrow>
      (case validate_url authz ''JMAP_MCP_AUTHORIZATION_SERVER'' of
           Inl e \<Rightarrow> Inl e
         | Inr _ \<Rightarrow>
      (case validate_url stalwart ''JMAP_MCP_STALWART_JMAP_BASE_URL'' of
           Inl e \<Rightarrow> Inl e
         | Inr _ \<Rightarrow>
             Inr \<lparr>resource_url = resource, authorization_server = authz,
                  stalwart_jmap_base_url = stalwart, bind_addr = bind,
                  metrics_bind_addr = (V4 (Ipv4 127 0 0 1), 9090), introspection = None,
                  rate_limit_reads_per_min = 60, rate_limit_writes_per_min = 30,
                  download_max_bytes = 5 * 1024 * 1024, upload_max_bytes = 10 * 1024 * 1024,
                  trusted_proxy_hops = DEFAULT_TRUSTED_PROXY_HOPS, allow_app_password = False,
                  stalwart_connect_ip = None, dcr_client_id = None, oauth_redirect_uris = [],
                  extra_from_addresses = [], unowned_from_addresses = []\<rparr>)))"

definition non_blank :: "string option \<Rightarrow> string option" where
  "non_blank v = (case v of None \<Rightarrow> None | Some s \<Rightarrow> if trim s = [] then None else Some s)"

definition from_env :: "url_parser \<Rightarrow> environment \<Rightarrow> string + config" where
  "from_env parse_url env =
     (case require_env env ''JMAP_MCP_RESOURCE_URL'' of Inl e \<Rightarrow> Inl e | Inr resource \<Rightarrow>
     (case require_env env ''JMAP_MCP_AUTHORIZATION_SERVER'' of Inl e \<Rightarrow> Inl e | Inr authz \<Rightarrow>
     (case require_env env ''JMAP_MCP_STALWART_JMAP_BASE_URL'' of Inl e \<Rightarrow> Inl e | Inr stalwart \<Rightarrow>
     (let bind_str = (case env_ok (env ''JMAP_MCP_BIND_ADDR'') of
                        None \<Rightarrow> ''0.0.0.0:3000'' | Some s \<Rightarrow> s) in
      case parse_socket_addr bind_str of
        None \<Rightarrow> Inl (''invalid JMAP_MCP_BIND_ADDR: '' @ bind_str) | Some bind \<Rightarrow>
     (case resolve_metrics_bind_addr (env_ok (env ''JMAP_MCP_METRICS_BIND_ADDR''))
             (env_ok (env ''POD_IP'')) of Inl e \<Rightarrow> Inl e | Inr metrics \<Rightarrow>
     (case config_new resource authz stalwart bind of Inl e \<Rightarrow> Inl e | Inr cfg \<Rightarrow>
     (case parse_rate_limit env ''JMAP_MCP_RATE_LIMIT_READS_PER_MIN'' 60 of
        Inl e \<Rightarrow> Inl e | Inr reads \<Rightarrow>
     (case parse_rate_limit env ''JMAP_MCP_RATE_LIMIT_WRITES_PER_MIN'' 30 of
        Inl e \<Rightarrow> Inl e | Inr writes \<Rightarrow>
     (case parse_u64_env env ''JMAP_MCP_DOWNLOAD_MAX_BYTES'' (5 * 1024 * 1024) of
        Inl e \<Rightarrow> Inl e | Inr download \<Rightarrow>
     (case parse_u64_env env ''JMAP_MCP_UPLOAD_MAX_BYTES'' (10 * 1024 * 1024) of
        Inl e \<Rightarrow> Inl e | Inr upload \<Rightarrow>
     (case parse_trusted_proxy_hops env of Inl e \<Rightarrow> Inl e | Inr hops \<Rightarrow>
     (case parse_bool_env env ''JMAP_MCP_ALLOW_STALWART_APP_PASSWORD'' of
        Inl e \<Rightarrow> Inl e | Inr app_password \<Rightarrow>
     (case parse_redirect_uris_env parse_url env of Inl e \<Rightarrow> Inl e | Inr uris \<Rightarrow>
     (case parse_extra_from_addresses_env env of Inl e \<Rightarrow> Inl e | Inr parsed \<Rightarrow>
        Inr (cfg\<lparr>metrics_bind_addr := metrics, rate_limit_reads_per_min := reads,
                 rate_limit_writes_per_min := writes, download_max_bytes := download,
                 upload_max_bytes := upload, trusted_proxy_hops := hops,
                 allow_app_password := app_password,
                 stalwart_connect_ip := non_blank (env_ok (env ''JMAP_MCP_STALWART_CONNECT_IP'')),
                 dcr_client_id := non_blank (env_ok (env ''JMAP_MCP_DCR_CLIENT_ID'')),
                 oauth_redirect_uris := uris, extra_from_addresses := pf_owned parsed,
                 unowned_from_addresses := pf_unowned parsed,
                 introspection :=
                   (case (env_ok (env ''JMAP_MCP_LOGTO_CLIENT_ID''),
                          env_ok (env ''JMAP_MCP_LOGTO_CLIENT_SECRET'')) of
                      (Some i, Some s) \<Rightarrow> Some \<lparr>ic_client_id = i, ic_client_secret = s\<rparr>
                    | _ \<Rightarrow> introspection cfg)\<rparr>)))))))))))))))"

section \<open>Properties\<close>

lemma canonical_resource_origin_slash: "\<not> ends_with (canonical_resource_origin raw) ''/''"
  using trim_end_matches_not_suffix [of "CHR ''/''" raw]
  by (auto simp: canonical_resource_origin_def strip_trailing_slash_def Let_def split: option.split)

definition personal_address :: "string \<Rightarrow> bool" where
  "personal_address a \<longleftrightarrow> to_ascii_lowercase a = a \<and> \<not> is_role_address a
     \<and> (\<exists>l d. split_char CHR ''@'' a = [l, d] \<and> l \<noteq> [] \<and> CHR ''.'' \<in> set d)"

lemma parse_one_address_ok: "parse_one_address e raw = Inr a \<Longrightarrow> personal_address a"
  by (auto simp: parse_one_address_def personal_address_def Let_def to_ascii_lowercase_idem
      split: list.splits if_splits)

definition parsed_ok :: "parsed_from_addresses \<Rightarrow> bool" where
  "parsed_ok p \<longleftrightarrow> distinct (pf_owned p) \<and> distinct (pf_unowned p)
     \<and> list_all (\<lambda>e. personal_address (ofa_owner e) \<and> personal_address (ofa_email e)) (pf_owned p)
     \<and> list_all personal_address (pf_unowned p)"

lemma parse_from_entries_ok:
  "parse_from_entries entries acc = Inr p \<Longrightarrow> parsed_ok acc \<Longrightarrow> parsed_ok p"
proof (induction entries arbitrary: acc)
  case (Cons raw rest)
  note run = Cons.prems(1) and ok = Cons.prems(2)
  show ?case
  proof (cases "trim raw = []")
    case True
    then show ?thesis using Cons by simp
  next
    case ne: False
    show ?thesis
    proof (cases "split_once CHR ''='' (trim raw)")
      case None
      then obtain addr where a: "parse_one_address (trim raw) (trim raw) = Inr addr"
        using run ne by (auto simp: Let_def)
      let ?acc = "if addr \<in> set (pf_unowned acc) then acc else acc\<lparr>pf_unowned := pf_unowned acc @ [addr]\<rparr>"
      have "parse_from_entries rest ?acc = Inr p" using run ne None a by (simp add: Let_def)
      moreover have "parsed_ok ?acc"
        using ok parse_one_address_ok [OF a] by (auto simp: parsed_ok_def)
      ultimately show ?thesis by (rule Cons.IH)
    next
      case (Some oe)
      obtain ow em where oe: "oe = (ow, em)" by (cases oe)
      obtain account where o: "parse_one_address ow (trim raw) = Inr account"
        using run ne Some oe by (auto simp: Let_def)
      obtain email where e: "parse_one_address em (trim raw) = Inr email"
        using run ne Some oe o by (auto simp: Let_def)
      let ?c = "\<lparr>ofa_owner = account, ofa_email = email\<rparr>"
      let ?acc = "if ?c \<in> set (pf_owned acc) then acc else acc\<lparr>pf_owned := pf_owned acc @ [?c]\<rparr>"
      have "parse_from_entries rest ?acc = Inr p" using run ne Some oe o e by (simp add: Let_def)
      moreover have "parsed_ok ?acc"
        using ok parse_one_address_ok [OF o] parse_one_address_ok [OF e] by (auto simp: parsed_ok_def)
      ultimately show ?thesis by (rule Cons.IH)
    qed
  qed
qed simp

text \<open>
  The operator's sender addresses: an accepted setting holds only lower-case, single-@
  addresses with a dotted domain, none of them a role address, owners included, and no
  duplicates; anything else rejects the setting as a whole.
\<close>

theorem parse_extra_from_addresses_ok:
  assumes "parse_extra_from_addresses raw = Inr p"
  shows "parsed_ok p"
proof -
  have "parsed_ok \<lparr>pf_owned = [], pf_unowned = []\<rparr>" by (simp add: parsed_ok_def)
  with assms show ?thesis
    unfolding parse_extra_from_addresses_def by (rule parse_from_entries_ok)
qed

theorem parse_extra_from_addresses_ok_witness:
  "parse_extra_from_addresses ''Julian@a.x=J@b.y, c@d.e julian@a.x=j@b.y''
     = Inr \<lparr>pf_owned = [\<lparr>ofa_owner = ''julian@a.x'', ofa_email = ''j@b.y''\<rparr>], pf_unowned = [''c@d.e'']\<rparr>
   \<and> parsed_ok \<lparr>pf_owned = [\<lparr>ofa_owner = ''julian@a.x'', ofa_email = ''j@b.y''\<rparr>], pf_unowned = [''c@d.e'']\<rparr>"
proof -
  have h: "parse_extra_from_addresses ''Julian@a.x=J@b.y, c@d.e julian@a.x=j@b.y''
     = Inr \<lparr>pf_owned = [\<lparr>ofa_owner = ''julian@a.x'', ofa_email = ''j@b.y''\<rparr>], pf_unowned = [''c@d.e'']\<rparr>"
    by code_simp
  show ?thesis using h parse_extra_from_addresses_ok [OF h] by (rule conjI)
qed

lemma parse_rate_limit_ok: "parse_rate_limit env key d = Inr v \<Longrightarrow> 0 < d \<Longrightarrow> d < 2 ^ 32 \<Longrightarrow> 0 < v \<and> v < 2 ^ 32"
  by (auto simp: parse_rate_limit_def dest: parse_uint_bound split: option.splits if_splits)

lemma parse_bool_env_True:
  "parse_bool_env env name = Inr True \<Longrightarrow>
     \<exists>raw. env name = Present raw \<and> trim raw \<in> {''1'', ''true'', ''yes''}"
  by (cases "env name") (auto simp: parse_bool_env_def Let_def split: if_splits)

lemma config_new_ok:
  "config_new r a st bind = Inr cfg \<Longrightarrow>
     \<not> ends_with (resource_url cfg) ''/'' \<and> \<not> ends_with (authorization_server cfg) ''/''
     \<and> \<not> ends_with (stalwart_jmap_base_url cfg) ''/''
     \<and> validate_url (resource_url cfg) ''JMAP_MCP_RESOURCE_URL'' = Inr ()
     \<and> introspection cfg = None"
  using canonical_resource_origin_slash trim_end_matches_not_suffix
  by (auto simp: config_new_def Let_def strip_trailing_slash_def)

definition config_ok :: "config \<Rightarrow> bool" where
  "config_ok cfg \<longleftrightarrow>
     \<not> ends_with (resource_url cfg) ''/'' \<and> \<not> ends_with (authorization_server cfg) ''/''
     \<and> \<not> ends_with (stalwart_jmap_base_url cfg) ''/''
     \<and> (starts_with (resource_url cfg) ''https://'' \<or> starts_with (resource_url cfg) ''http://'')
     \<and> 0 < rate_limit_reads_per_min cfg \<and> rate_limit_reads_per_min cfg < 2 ^ 32
     \<and> 0 < rate_limit_writes_per_min cfg \<and> rate_limit_writes_per_min cfg < 2 ^ 32
     \<and> parsed_ok \<lparr>pf_owned = extra_from_addresses cfg, pf_unowned = unowned_from_addresses cfg\<rparr>"

lemma from_env_parts:
  assumes "from_env parse_url env = Inr cfg"
  shows "\<exists>r a st bind cfg0 p.
      config_new r a st bind = Inr cfg0
      \<and> resource_url cfg = resource_url cfg0 \<and> authorization_server cfg = authorization_server cfg0
      \<and> stalwart_jmap_base_url cfg = stalwart_jmap_base_url cfg0
      \<and> parse_rate_limit env ''JMAP_MCP_RATE_LIMIT_READS_PER_MIN'' 60 = Inr (rate_limit_reads_per_min cfg)
      \<and> parse_rate_limit env ''JMAP_MCP_RATE_LIMIT_WRITES_PER_MIN'' 30 = Inr (rate_limit_writes_per_min cfg)
      \<and> parse_bool_env env ''JMAP_MCP_ALLOW_STALWART_APP_PASSWORD'' = Inr (allow_app_password cfg)
      \<and> parse_redirect_uris_env parse_url env = Inr (oauth_redirect_uris cfg)
      \<and> parse_extra_from_addresses_env env = Inr p
      \<and> extra_from_addresses cfg = pf_owned p \<and> unowned_from_addresses cfg = pf_unowned p"
  using assms unfolding from_env_def Let_def sum_case_Inr_iff option_case_Inr_iff
  by (elim exE conjE) (clarsimp, blast)

text \<open>
  A configuration that loads is well-formed: the resource, issuer and mail-server URLs have
  no trailing slash, both quotas are positive 32-bit numbers, the sender addresses are valid;
  the app-password path is open only when the environment says so in one of three words; and
  without a redirect setting the allowlist is empty.
\<close>

theorem from_env_ok:
  assumes "from_env parse_url env = Inr cfg"
  shows "config_ok cfg
    \<and> (allow_app_password cfg \<longrightarrow>
         (\<exists>raw. env ''JMAP_MCP_ALLOW_STALWART_APP_PASSWORD'' = Present raw
            \<and> trim raw \<in> {''1'', ''true'', ''yes''}))
    \<and> (env ''JMAP_MCP_OAUTH_REDIRECT_URIS'' = Not_Present \<longrightarrow> oauth_redirect_uris cfg = [])"
proof -
  from from_env_parts [OF assms] obtain r a st bind cfg0 p where
    new: "config_new r a st bind = Inr cfg0" "resource_url cfg = resource_url cfg0"
      "authorization_server cfg = authorization_server cfg0"
      "stalwart_jmap_base_url cfg = stalwart_jmap_base_url cfg0"
    and reads: "parse_rate_limit env ''JMAP_MCP_RATE_LIMIT_READS_PER_MIN'' 60 = Inr (rate_limit_reads_per_min cfg)"
    and writes: "parse_rate_limit env ''JMAP_MCP_RATE_LIMIT_WRITES_PER_MIN'' 30 = Inr (rate_limit_writes_per_min cfg)"
    and app: "parse_bool_env env ''JMAP_MCP_ALLOW_STALWART_APP_PASSWORD'' = Inr (allow_app_password cfg)"
    and uris: "parse_redirect_uris_env parse_url env = Inr (oauth_redirect_uris cfg)"
    and from_addrs: "parse_extra_from_addresses_env env = Inr p"
    and p: "extra_from_addresses cfg = pf_owned p" "unowned_from_addresses cfg = pf_unowned p"
    by blast
  have none: "parsed_ok \<lparr>pf_owned = [], pf_unowned = []\<rparr>" by (simp add: parsed_ok_def)
  have "parsed_ok p"
    using from_addrs none parse_from_entries_ok [OF _ none]
    by (auto simp: parse_extra_from_addresses_env_def parse_extra_from_addresses_def split: env_var.splits)
  then have "parsed_ok \<lparr>pf_owned = extra_from_addresses cfg, pf_unowned = unowned_from_addresses cfg\<rparr>"
    using p by (simp add: parsed_ok_def)
  then have "config_ok cfg"
    using config_new_ok [OF new(1)] new parse_rate_limit_ok [OF reads] parse_rate_limit_ok [OF writes]
    by (simp add: config_ok_def validate_url_def split: if_splits)
  moreover have "env ''JMAP_MCP_OAUTH_REDIRECT_URIS'' = Not_Present \<longrightarrow> oauth_redirect_uris cfg = []"
    using uris by (auto simp: parse_redirect_uris_env_def)
  ultimately show ?thesis using parse_bool_env_True app by auto
qed

definition sample_env :: environment where
  "sample_env = (\<lambda>_. Not_Present)(
     ''JMAP_MCP_RESOURCE_URL'' := Present ''https://m.x/mcp/'',
     ''JMAP_MCP_AUTHORIZATION_SERVER'' := Present ''https://l.x/oidc'',
     ''JMAP_MCP_STALWART_JMAP_BASE_URL'' := Present ''https://s.x/'',
     ''JMAP_MCP_ALLOW_STALWART_APP_PASSWORD'' := Present ''yes'')"

lemma sample_addresses:
  "parse_socket_addr ''0.0.0.0:3000'' = Some (V4 (Ipv4 0 0 0 0), 3000)"
  "parse_socket_addr ''127.0.0.1:9090'' = Some (V4 (Ipv4 127 0 0 1), 9090)"
  by (simp_all add: parse_socket_addr_def parse_all_def read_socket_addr_def read_ipv4_addr_def
      read_octet_def read_separator_def read_number_def digit_of_def read_port_def)

lemma sample_urls:
  "canonical_resource_origin ''https://m.x/mcp/'' = ''https://m.x''"
  "strip_trailing_slash ''https://l.x/oidc'' = ''https://l.x/oidc''"
  "strip_trailing_slash ''https://s.x/'' = ''https://s.x''"
  "trim ''yes'' = ''yes''"
  by code_simp+

theorem from_env_ok_witness:
  "let r = from_env sample_url_parser sample_env
   in r = Inr (projr r) \<and> resource_url (projr r) = ''https://m.x'' \<and> config_ok (projr r)"
proof -
  let ?r = "from_env sample_url_parser sample_env"
  have "?r = Inr (projr ?r) \<and> resource_url (projr ?r) = ''https://m.x''"
    by (simp add: from_env_def sample_env_def require_env_def sample_addresses sample_urls
        resolve_metrics_bind_addr_def config_new_def validate_url_def parse_rate_limit_def
        parse_u64_env_def parse_trusted_proxy_hops_def parse_bool_env_def
        parse_redirect_uris_env_def parse_extra_from_addresses_env_def EXTRA_FROM_def Let_def)
  then show ?thesis using from_env_ok [of sample_url_parser sample_env "projr ?r"] by (simp add: Let_def)
qed

end
