(* ===== verification/OAuth_Metadata.thy ===== *)
theory OAuth_Metadata
  imports Config Http
begin

text \<open>
  \<^verbatim>\<open>src/oauth_metadata.rs\<close>: the metadata documents, the registration shim, and the challenge
  of a 401 answer.
\<close>

section \<open>Definitions\<close>

definition scopes_supported :: "string list" where
  "scopes_supported = [''openid'', ''profile'', ''email'', ''offline_access'']"

definition mcp_resource :: "string \<Rightarrow> string" where
  "mcp_resource url = trim_end_matches CHR ''/'' url @ ''/mcp''"

record protected_resource_metadata =
  pr_resource :: string
  pr_authorization_servers :: "string list"
  pr_bearer_methods_supported :: "string list"
  pr_scopes_supported :: "string list"

definition protected_resource_from_config :: "config \<Rightarrow> protected_resource_metadata" where
  "protected_resource_from_config cfg =
     \<lparr>pr_resource = mcp_resource (resource_url cfg),
      pr_authorization_servers = [resource_url cfg],
      pr_bearer_methods_supported = [''header''],
      pr_scopes_supported = scopes_supported\<rparr>"

record authorization_server_metadata =
  as_issuer :: string
  as_authorization_endpoint :: string
  as_token_endpoint :: string
  as_jwks_uri :: string
  as_userinfo_endpoint :: string
  as_registration_endpoint :: "string option"
  as_response_types_supported :: "string list"
  as_grant_types_supported :: "string list"
  as_code_challenge_methods_supported :: "string list"
  as_token_endpoint_auth_methods_supported :: "string list"
  as_scopes_supported :: "string list"

definition authorization_server_from_config :: "config \<Rightarrow> authorization_server_metadata" where
  "authorization_server_from_config cfg =
     (let logto = authorization_server cfg; us = resource_url cfg in
      \<lparr>as_issuer = us,
       as_authorization_endpoint = us @ ''/authorize'',
       as_token_endpoint = us @ ''/token'',
       as_jwks_uri = logto @ ''/jwks'',
       as_userinfo_endpoint = logto @ ''/me'',
       as_registration_endpoint = map_option (\<lambda>_. us @ ''/register'') (dcr_client_id cfg),
       as_response_types_supported = [''code''],
       as_grant_types_supported = [''authorization_code'', ''refresh_token''],
       as_code_challenge_methods_supported = [''S256''],
       as_token_endpoint_auth_methods_supported = [''none''],
       as_scopes_supported = scopes_supported\<rparr>)"

definition requested_redirect_uris :: "json option \<Rightarrow> string list" where
  "requested_redirect_uris body =
     (case Option.bind body (\<lambda>v. get_array v ''redirect_uris'') of
        None \<Rightarrow> []
      | Some a \<Rightarrow> List.map_filter as_str a)"

text \<open>\<open>issued_at\<close> is the Unix time as a JSON number.\<close>

definition register :: "url_parser \<Rightarrow> number \<Rightarrow> config \<Rightarrow> json option \<Rightarrow> response" where
  "register parse_url issued_at cfg body =
     (case dcr_client_id cfg of
        None \<Rightarrow> plain 404 (''dynamic client registration is not configured'' @ newline)
      | Some client_id \<Rightarrow>
          (let redirect_uris = requested_redirect_uris body in
           if list_ex (\<lambda>uri. \<not> is_allowed_redirect_uri parse_url (oauth_redirect_uris cfg) uri) redirect_uris
           then plain 400 (''unregistered redirect_uri'' @ newline)
           else
             \<lparr>rs_status = 201, rs_location = None, rs_content_type = Some ''application/json'',
              rs_www_authenticate = None,
              rs_body = Json_Text (jobj
                [(''client_id'', JStr client_id),
                 (''token_endpoint_auth_method'', JStr ''none''),
                 (''grant_types'', JArr [JStr ''authorization_code'', JStr ''refresh_token'']),
                 (''response_types'', JArr [JStr ''code'']),
                 (''redirect_uris'', JArr (map JStr redirect_uris)),
                 (''scope'', JStr ''openid profile email offline_access''),
                 (''client_id_issued_at'', JNum issued_at)])\<rparr>))"

definition quoted :: "string \<Rightarrow> string" where
  "quoted s = [CHR 0x22] @ s @ [CHR 0x22]"

definition challenge :: "string \<Rightarrow> string option \<Rightarrow> string" where
  "challenge url error =
     (let base = trim_end_matches CHR ''/'' url in
      ''Bearer resource_metadata='' @ quoted (base @ ''/.well-known/oauth-protected-resource/mcp'')
      @ (case error of
           None \<Rightarrow> []
         | Some e \<Rightarrow>
             '', error='' @ quoted e @ '', error_description=''
             @ quoted (''The access token is expired, revoked, or was issued for a different ''
                       @ ''resource.'')))"

definition www_authenticate_header :: "string \<Rightarrow> string" where
  "www_authenticate_header url = challenge url None"

definition www_authenticate_invalid_token :: "string \<Rightarrow> string" where
  "www_authenticate_invalid_token url = challenge url (Some ''invalid_token'')"

section \<open>Properties\<close>

text \<open>
  Registration is no side door: a registration is granted only when a client id is
  configured and every redirect URI it asks for is on the allowlist, and the answer echoes
  exactly the requested URIs.
\<close>

theorem register_granted_iff:
  "rs_status (register parse_url issued_at cfg body) = 201 \<longleftrightarrow>
     dcr_client_id cfg \<noteq> None
     \<and> list_all (is_allowed_redirect_uri parse_url (oauth_redirect_uris cfg)) (requested_redirect_uris body)"
  by (auto simp: register_def plain_def Let_def list_ex_iff list_all_iff split: option.split)

end
