(* ===== verification/Metrics.thy ===== *)
theory Metrics
  imports Http
begin

text \<open>
  \<^verbatim>\<open>src/metrics.rs\<close>: the metric families and what is recorded in them. The registry and the text encoder are
  the Prometheus library: a registry is here the sequence of what was recorded in it, and what the
  encoder makes of that is a parameter. A duration is in nanoseconds.
\<close>

section \<open>The families\<close>

datatype metric_family =
    Tool_Calls_Total | Tool_Latency_Seconds | Introspect_Total | Introspect_Latency_Seconds
  | Setup_Events_Total | Active_Clients

definition metric_name :: "metric_family \<Rightarrow> string" where
  "metric_name f =
     (case f of
        Tool_Calls_Total \<Rightarrow> ''jmap_mcp_tool_calls_total''
      | Tool_Latency_Seconds \<Rightarrow> ''jmap_mcp_tool_latency_seconds''
      | Introspect_Total \<Rightarrow> ''jmap_mcp_introspect_total''
      | Introspect_Latency_Seconds \<Rightarrow> ''jmap_mcp_introspect_latency_seconds''
      | Setup_Events_Total \<Rightarrow> ''jmap_mcp_setup_events_total''
      | Active_Clients \<Rightarrow> ''jmap_mcp_active_clients'')"

definition metric_labels :: "metric_family \<Rightarrow> string list" where
  "metric_labels f =
     (case f of
        Tool_Calls_Total \<Rightarrow> [''tool'', ''outcome'']
      | Tool_Latency_Seconds \<Rightarrow> [''tool'']
      | Introspect_Total \<Rightarrow> [''outcome'']
      | Introspect_Latency_Seconds \<Rightarrow> [''outcome'']
      | Setup_Events_Total \<Rightarrow> [''step'', ''outcome'']
      | Active_Clients \<Rightarrow> [])"

text \<open>The bounds of the buckets, in milliseconds.\<close>

definition TOOL_LATENCY_BUCKETS :: "nat list" where
  "TOOL_LATENCY_BUCKETS = [5, 10, 25, 50, 100, 250, 500, 1000, 2500, 5000, 10000]"

definition INTROSPECT_LATENCY_BUCKETS :: "nat list" where
  "INTROSPECT_LATENCY_BUCKETS = [1, 5, 10, 25, 50, 100, 250, 500, 1000]"

definition metric_buckets :: "metric_family \<Rightarrow> nat list" where
  "metric_buckets f =
     (case f of
        Tool_Latency_Seconds \<Rightarrow> TOOL_LATENCY_BUCKETS
      | Introspect_Latency_Seconds \<Rightarrow> INTROSPECT_LATENCY_BUCKETS
      | _ \<Rightarrow> [])"

text \<open>
  Registering a name twice is an error, on which the program panics: \<open>None\<close>. A family that is forced again is not
  registered again.
\<close>

definition register_family :: "metric_family \<Rightarrow> metric_family list \<Rightarrow> metric_family list option" where
  "register_family f done =
     (if f \<in> set done then Some done
      else if metric_name f \<in> set (List.map metric_name done) then None
      else Some (f # done))"

definition metrics_init :: "metric_family list \<Rightarrow> metric_family list option" where
  "metrics_init done =
     fold (\<lambda>f r. Option.bind r (register_family f))
       [Tool_Calls_Total, Tool_Latency_Seconds, Introspect_Total, Introspect_Latency_Seconds,
        Setup_Events_Total, Active_Clients] (Some done)"

section \<open>What is recorded\<close>

datatype observation =
    Inc metric_family "string list"
  | Observe metric_family "string list" nat

type_synonym registry = "observation list"

definition record_tool_call :: "string \<Rightarrow> string \<Rightarrow> nat \<Rightarrow> registry \<Rightarrow> registry" where
  "record_tool_call tool outcome elapsed m =
     m @ [Inc Tool_Calls_Total [tool, outcome], Observe Tool_Latency_Seconds [tool] elapsed]"

definition record_introspect :: "string \<Rightarrow> nat \<Rightarrow> registry \<Rightarrow> registry" where
  "record_introspect outcome elapsed m =
     m @ [Inc Introspect_Total [outcome], Observe Introspect_Latency_Seconds [outcome] elapsed]"

definition record_setup_event :: "string \<Rightarrow> string \<Rightarrow> registry \<Rightarrow> registry" where
  "record_setup_event step outcome m = m @ [Inc Setup_Events_Total [step, outcome]]"

text \<open>The value of a counter, and the observations of a histogram.\<close>

definition counter :: "metric_family \<Rightarrow> string list \<Rightarrow> registry \<Rightarrow> nat" where
  "counter f labels m = length (filter (\<lambda>x. x = Inc f labels) m)"

fun well_labelled :: "observation \<Rightarrow> bool" where
  "well_labelled (Inc f labels) \<longleftrightarrow> length labels = length (metric_labels f) \<and> metric_buckets f = []"
| "well_labelled (Observe f labels d) \<longleftrightarrow> length labels = length (metric_labels f) \<and> metric_buckets f \<noteq> []"

section \<open>The metrics page\<close>

text \<open>\<^verbatim>\<open>String::from_utf8(buf).unwrap_or_default()\<close>: \<open>utf8\<close> is the library's reading of bytes as text.\<close>

definition metrics_handler ::
  "(registry \<Rightarrow> string + string) \<Rightarrow> (string \<Rightarrow> string option) \<Rightarrow> registry \<Rightarrow> response" where
  "metrics_handler encode utf8 m =
     (case encode m of
        Inl e \<Rightarrow> plain 500 (''encode error'' @ newline)
      | Inr buf \<Rightarrow>
          (plain 200 (case utf8 buf of None \<Rightarrow> [] | Some t \<Rightarrow> t))
            \<lparr>rs_content_type := Some ''text/plain; version=0.0.4; charset=utf-8''\<rparr>)"

section \<open>Laws\<close>

lemma counter_append [simp]: "counter f ls (m @ n) = counter f ls m + counter f ls n"
  by (simp add: counter_def)

lemma counter_Nil [simp]: "counter f ls [] = 0"
  by (simp add: counter_def)

lemma counter_Cons [simp]:
  "counter f ls (x # m) = (if x = Inc f ls then 1 else 0) + counter f ls m"
  by (simp add: counter_def)

lemma metric_name_inject: "metric_name f = metric_name g \<longleftrightarrow> f = g"
  by (cases f; cases g; simp add: metric_name_def)

lemma register_family_total: "register_family f done = Some (List.insert f done)"
  by (auto simp: register_family_def metric_name_inject)

text \<open>
  Start-up registers every family and never panics, and doing it again changes nothing.
\<close>

theorem metrics_init_idempotent:
  obtains all where "metrics_init done = Some all" "set all = UNIV" "metrics_init all = Some all"
proof -
  let ?all = "fold List.insert [Tool_Calls_Total, Tool_Latency_Seconds, Introspect_Total,
    Introspect_Latency_Seconds, Setup_Events_Total, Active_Clients] done"
  have "f \<in> set ?all" for f by (cases f) simp_all
  then have "set ?all = UNIV" by blast
  then show ?thesis
    by (intro that [of ?all]) (simp_all add: metrics_init_def register_family_total)
qed

end
