(* ===== verification/Auth.thy ===== *)
theory Auth
  imports Logto_Oidc Last_Used OAuth_Metadata Metrics
begin

text \<open>
  \<^verbatim>\<open>src/auth.rs\<close>: the authentication middleware. A request is admitted with an identity and
  the credential it presented, scheme included, or answered with a rejection.
\<close>

section \<open>Credentials\<close>

datatype auth_scheme = Bearer | Basic

fun scheme_text :: "auth_scheme \<Rightarrow> string" where
  "scheme_text Bearer = ''Bearer''"
| "scheme_text Basic = ''Basic''"

record access_token =
  at_scheme :: auth_scheme
  at_secret :: string

definition header_value :: "access_token \<Rightarrow> string" where
  "header_value t = scheme_text (at_scheme t) @ '' '' @ at_secret t"

datatype presented = Jwt string | App_Password string

text \<open>\<^verbatim>\<open>HeaderValue::to_str\<close>: visible ASCII, blanks and tabs only.\<close>

definition header_to_str :: "string \<Rightarrow> string option" where
  "header_to_str h =
     (if list_all (\<lambda>c. let n = of_char c :: nat in n = 9 \<or> (32 \<le> n \<and> n < 127)) h
      then Some h else None)"

definition extract_scheme :: "string \<Rightarrow> string option \<Rightarrow> string option" where
  "extract_scheme expected header =
     Option.bind (Option.bind header header_to_str) (\<lambda>raw.
     Option.bind (split_once CHR '' '' (trim raw)) (\<lambda>(scheme, v).
       if scheme \<noteq> expected then None
       else if trim v = [] then None
       else Some (trim v)))"

definition extract_bearer :: "string option \<Rightarrow> string option" where
  "extract_bearer header = extract_scheme ''Bearer'' header"

definition extract_basic :: "string option \<Rightarrow> string option" where
  "extract_basic header = extract_scheme ''Basic'' header"

definition extract_credential :: "string option \<Rightarrow> bool \<Rightarrow> presented option" where
  "extract_credential header allow =
     (case extract_bearer header of
        Some t \<Rightarrow> Some (Jwt t)
      | None \<Rightarrow> if allow then map_option App_Password (extract_basic header) else None)"

section \<open>The middleware\<close>

record incoming =
  in_authorization :: "string option"
  in_forwarded_for :: "string option"
  in_path :: string

record ('w, 'k) auth_net = "('w, 'k) logto_client" +
  auth_config :: config

record introspect_event =
  ie_token_hash :: string
  ie_outcome :: string
  ie_latency_ms :: u64
  ie_user :: "string option"

record ('w, 'k) auth_state = "('w, 'k) logto_state" +
  last_used_entries :: last_used_map
  introspect_log :: "introspect_event list"
  metrics :: registry

datatype admission = Admitted authenticated_identity access_token | Rejected response

text \<open>\<^verbatim>\<open>audit::token_hash\<close>: the first eight bytes of the digest, in lower-case hexadecimal.\<close>

definition hex_lower :: "nat \<Rightarrow> char" where
  "hex_lower n = (if n < 10 then char_of (48 + n) else char_of (87 + n))"

definition hex_encode :: "string \<Rightarrow> string" where
  "hex_encode s = concat (map (\<lambda>c. [hex_lower (of_char c div 16), hex_lower (of_char c mod 16)]) s)"

definition token_hash :: "('w, 'x) jmap_client_scheme \<Rightarrow> string \<Rightarrow> string" where
  "token_hash X secret = hex_encode (take 8 (sha256 X secret))"

text \<open>\<^verbatim>\<open>HeaderValue::from_str\<close> refuses control characters.\<close>

definition valid_header_value :: "string \<Rightarrow> bool" where
  "valid_header_value h \<longleftrightarrow> list_all (\<lambda>c. let n = of_char c :: nat in n = 9 \<or> (32 \<le> n \<and> n \<noteq> 127)) h"

definition unauthorized :: "string \<Rightarrow> response" where
  "unauthorized chal =
     (let v = (if valid_header_value chal then chal else ''Bearer'')
      in (plain 401 (''unauthorized'' @ newline))\<lparr>rs_www_authenticate := Some v\<rparr>)"

definition upstream_failure :: response where
  "upstream_failure = plain 500 (''token validation upstream error'' @ newline)"

text \<open>\<^verbatim>\<open>u64::try_from(elapsed.as_millis()).unwrap_or(u64::MAX)\<close>.\<close>

definition latency_ms :: "nat \<Rightarrow> u64" where
  "latency_ms elapsed = of_nat (min (elapsed div 10 ^ 6) (2 ^ 64 - 1))"

definition log_introspect ::
  "('w, 'k, 'x) auth_net_scheme \<Rightarrow> string \<Rightarrow> string \<Rightarrow> nat \<Rightarrow> string option
   \<Rightarrow> ('w, 'k, 'm) auth_state_scheme \<Rightarrow> ('w, 'k, 'm) auth_state_scheme" where
  "log_introspect X h out started user s =
     (let elapsed = now_of X s - started
      in s\<lparr>introspect_log := introspect_log s
             @ [\<lparr>ie_token_hash = h, ie_outcome = out, ie_latency_ms = latency_ms elapsed, ie_user = user\<rparr>],
           metrics := record_introspect out elapsed (metrics s)\<rparr>)"

definition record_ingress ::
  "('w, 'k, 'x) auth_net_scheme \<Rightarrow> incoming \<Rightarrow> string
   \<Rightarrow> ('w, 'k, 'm) auth_state_scheme \<Rightarrow> ('w, 'k, 'm) auth_state_scheme" where
  "record_ingress X rq h s =
     (let client_ip = parse_client_ip (Option.bind (in_forwarded_for rq) header_to_str)
                        (trusted_proxy_hops (auth_config X))
      in s\<lparr>last_used_entries :=
             last_used_put (net_system X (world s)) h client_ip (last_used_entries s)\<rparr>)"

definition is_introspect_path :: "incoming \<Rightarrow> bool" where
  "is_introspect_path rq \<longleftrightarrow> in_path rq = ''/token/introspect''"

definition app_password_identity :: "jmap_session \<Rightarrow> authenticated_identity" where
  "app_password_identity session =
     \<lparr>user_id = (case username session of None \<Rightarrow> [] | Some u \<Rightarrow> u), email = username session,
      display_name = None, exp_unix = None\<rparr>"

definition app_password_auth ::
  "('w, 'k, 'x) auth_net_scheme \<Rightarrow> incoming \<Rightarrow> string
   \<Rightarrow> ('w, 'k, 'm) auth_state_scheme \<Rightarrow> admission \<times> ('w, 'k, 'm) auth_state_scheme" where
  "app_password_auth X rq secret s =
     (let started = now_of X s;
          tok = \<lparr>at_scheme = Basic, at_secret = secret\<rparr>;
          h = token_hash X secret;
          refused = unauthorized (www_authenticate_invalid_token (resource_url (auth_config X)))
      in case session_for X (header_value tok) s of
           (Inr session, s1) \<Rightarrow>
             if is_authenticated session then
               (let s2 = log_introspect X h ''active'' started (username session) s1;
                    s3 = (if is_introspect_path rq then s2 else record_ingress X rq h s2)
                in (Admitted (app_password_identity session) tok, s3))
             else (Rejected refused, log_introspect X h ''inactive'' started None s1)
         | (Inl e, s1) \<Rightarrow>
             if e = Unauthorized then (Rejected refused, log_introspect X h ''inactive'' started None s1)
             else (Rejected upstream_failure, log_introspect X h ''error'' started None s1))"

definition bearer_auth ::
  "('w, 'k, 'x) auth_net_scheme \<Rightarrow> incoming
   \<Rightarrow> ('w, 'k, 'm) auth_state_scheme \<Rightarrow> admission \<times> ('w, 'k, 'm) auth_state_scheme" where
  "bearer_auth X rq s =
     (case extract_credential (in_authorization rq) (allow_app_password (auth_config X)) of
        None \<Rightarrow> (Rejected (unauthorized (www_authenticate_header (resource_url (auth_config X)))), s)
      | Some (App_Password secret) \<Rightarrow> app_password_auth X rq secret s
      | Some (Jwt t) \<Rightarrow>
          (let started = now_of X s;
               h = token_hash X t in
           case validate_token X t s of
             (Inr (Some identity), s1) \<Rightarrow>
               (let s2 = log_introspect X h ''active'' started (email identity) s1;
                    s3 = (if is_introspect_path rq then s2 else record_ingress X rq h s2)
                in (Admitted identity \<lparr>at_scheme = Bearer, at_secret = t\<rparr>, s3))
           | (Inr None, s1) \<Rightarrow>
               (Rejected (unauthorized (www_authenticate_invalid_token (resource_url (auth_config X)))),
                log_introspect X h ''inactive'' started None s1)
           | (Inl e, s1) \<Rightarrow> (Rejected upstream_failure, log_introspect X h ''error'' started None s1)))"

text \<open>\<^verbatim>\<open>src/token_introspect.rs\<close>: what the caller learns about its own credential.\<close>

record token_introspect_response =
  ti_user_id :: string
  ti_email :: "string option"
  ti_name :: "string option"
  ti_exp :: "int option"
  ti_token_hash :: string
  ti_last_used :: "last_used_record option"
  ti_auth_method :: string

definition introspect_handler ::
  "('w, 'k, 'x) auth_net_scheme \<Rightarrow> authenticated_identity option \<Rightarrow> access_token option
   \<Rightarrow> ('w, 'k, 'm) auth_state_scheme \<Rightarrow> response + token_introspect_response" where
  "introspect_handler X identity tok s =
     (case identity of
        None \<Rightarrow> Inl (plain 500 (''auth middleware did not populate identity'' @ newline))
      | Some i \<Rightarrow>
     (case tok of
        None \<Rightarrow> Inl (plain 500 (''auth middleware did not populate access token'' @ newline))
      | Some t \<Rightarrow>
          (let h = token_hash X (at_secret t) in
           Inr \<lparr>ti_user_id = user_id i, ti_email = email i, ti_name = display_name i,
                ti_exp = exp_unix i, ti_token_hash = h,
                ti_last_used = last_used_get (last_used_entries s) h,
                ti_auth_method = scheme_text (at_scheme t)\<rparr>)))"

section \<open>Properties\<close>

lemma extract_credential_cases:
  "extract_credential header allow = Some (Jwt t) \<longleftrightarrow> extract_bearer header = Some t"
  "extract_credential header allow = Some (App_Password b) \<longleftrightarrow>
     allow \<and> extract_bearer header = None \<and> extract_basic header = Some b"
  by (auto simp: extract_credential_def split: option.splits)

text \<open>The two schemes exclude each other.\<close>

lemma extract_scheme_unique:
  "extract_scheme a header = Some x \<Longrightarrow> extract_scheme b header = Some y \<Longrightarrow> a = b"
  by (auto simp: extract_scheme_def split: bind_splits if_splits)

lemma admission_cases:
  assumes "bearer_auth X rq s = (Admitted i tok, s')"
  shows "(at_scheme tok = Bearer \<and> extract_bearer (in_authorization rq) = Some (at_secret tok)
          \<and> fst (validate_token X (at_secret tok) s) = Inr (Some i))
    \<or> (at_scheme tok = Basic \<and> allow_app_password (auth_config X)
       \<and> extract_basic (in_authorization rq) = Some (at_secret tok)
       \<and> (\<exists>session. fst (session_for X (header_value tok) s) = Inr session
            \<and> is_authenticated session \<and> i = app_password_identity session))"
proof (cases "extract_credential (in_authorization rq) (allow_app_password (auth_config X))")
  case None
  then show ?thesis using assms by (simp add: bearer_auth_def)
next
  case (Some p)
  show ?thesis
  proof (cases p)
    case (Jwt t)
    then have "extract_bearer (in_authorization rq) = Some t"
      using Some extract_credential_cases(1) by blast
    then show ?thesis
      using assms Some Jwt
      by (auto simp: bearer_auth_def Let_def split: prod.splits sum.splits option.splits)
  next
    case (App_Password b)
    then have "allow_app_password (auth_config X)" "extract_basic (in_authorization rq) = Some b"
      using Some extract_credential_cases(2) by blast+
    then show ?thesis
      using assms Some App_Password
      by (auto simp: bearer_auth_def app_password_auth_def Let_def split: prod.splits sum.splits if_splits)
  qed
qed

text \<open>
  C10. Admission is sound: a request is admitted only with the credential it presented, and only
  if that credential's own validator accepted it. A Bearer credential was accepted by
  the token validation; a Basic credential is admitted only when the deployment allows app passwords, and the mail server
  returned a session that belongs to somebody for exactly that credential.
\<close>

theorem admission_sound:
  assumes "bearer_auth X rq s = (Admitted i tok, s')"
  shows "(at_scheme tok = Bearer \<and> extract_bearer (in_authorization rq) = Some (at_secret tok)
          \<and> fst (validate_token X (at_secret tok) s) = Inr (Some i))
    \<or> (at_scheme tok = Basic \<and> allow_app_password (auth_config X)
       \<and> extract_basic (in_authorization rq) = Some (at_secret tok)
       \<and> (\<exists>session. fst (session_for X (header_value tok) s) = Inr session
            \<and> is_authenticated session \<and> i = app_password_identity session))"
  using admission_cases [OF assms] .

lemma record_ingress_trace [simp]: "trace (record_ingress X rq h s) = trace s"
  by (simp add: record_ingress_def Let_def)

lemma log_introspect_trace [simp]: "trace (log_introspect X h out t u s) = trace s"
  by (simp add: log_introspect_def Let_def)

definition anonymous :: "http_request \<Rightarrow> bool" where
  "anonymous r \<longleftrightarrow> rq_auth r = None"

lemma emits_case_key_status:
  "(\<And>k. v = Key k \<Longrightarrow> emits P (f k)) \<Longrightarrow> (v = Cooldown \<Longrightarrow> emits P c) \<Longrightarrow> (v = Refresh \<Longrightarrow> emits P r)
   \<Longrightarrow> emits P (case v of Key k \<Rightarrow> f k | Cooldown \<Rightarrow> c | Refresh \<Rightarrow> r)"
  by (cases v) simp_all

lemma emits_refresh_jwks:
  fixes X :: "('w, 'k, 'x) logto_client_scheme"
  shows "emits anonymous (refresh_jwks X :: (('w, 'k, 'm) logto_state_scheme, validation_error, unit) comp)"
  unfolding refresh_jwks_def
  by (intro emits_intros emits_send emits_modifies) (simp_all add: anonymous_def)

lemma emits_validate_token:
  fixes X :: "('w, 'k, 'x) logto_client_scheme"
  shows "emits anonymous (validate_token X t :: (('w, 'k, 'm) logto_state_scheme, validation_error, authenticated_identity option) comp)"
  unfolding validate_token_def decoding_key_for_def
  by (intro emits_intros emits_modifies emits_case_key_status emits_refresh_jwks) simp_all

lemma authentication_requests:
  fixes X :: "('w, 'k, 'x) auth_net_scheme" and s :: "('w, 'k, 'm) auth_state_scheme"
  assumes "bearer_auth X rq s = (a, s')"
  shows "\<exists>new. trace s' = trace s @ new
    \<and> (case extract_credential (in_authorization rq) (allow_app_password (auth_config X)) of
         None \<Rightarrow> new = []
       | Some (Jwt t) \<Rightarrow> list_all (\<lambda>r. rq_auth r = None) new
       | Some (App_Password b) \<Rightarrow> list_all (\<lambda>r. rq_auth r = Some (''Basic '' @ b)) new)"
proof (cases "extract_credential (in_authorization rq) (allow_app_password (auth_config X))")
  case None
  then show ?thesis using assms by (simp add: bearer_auth_def)
next
  case (Some p)
  show ?thesis
  proof (cases p)
    case (Jwt t)
    obtain r s1 where r: "validate_token X t s = (r, s1)" by (cases "validate_token X t s")
    obtain new where new: "trace s1 = trace s @ new" "list_all anonymous new"
      using emitsD [OF emits_validate_token r] by blast
    have "trace s' = trace s1"
      using assms Some Jwt r by (auto simp: bearer_auth_def Let_def split: sum.splits option.splits)
    then show ?thesis using new Some Jwt by (auto simp: anonymous_def [abs_def])
  next
    case (App_Password b)
    let ?h = "''Basic '' @ b"
    obtain r s1 where r: "session_for X ?h s = (r, s1)" by (cases "session_for X ?h s")
    obtain new where new: "trace s1 = trace s @ new" "list_all (carries ?h) new"
      using emitsD [OF credential.emits_session_for r] by blast
    have "trace s' = trace s1"
      using assms Some App_Password r
      by (auto simp: bearer_auth_def app_password_auth_def header_value_def Let_def split: sum.splits if_splits)
    then show ?thesis using new Some App_Password by (auto simp: carries_def [abs_def])
  qed
qed

text \<open>
  No credential leaks from authentication: while a request is authenticated, a Bearer
  credential is sent to nobody, since every request made carries no credential at all, and an app
  password is sent only as Basic; a request without a usable credential causes no request.
\<close>

theorem authentication_leaks_nothing:
  fixes X :: "('w, 'k, 'x) auth_net_scheme" and s :: "('w, 'k, 'm) auth_state_scheme"
  assumes "bearer_auth X rq s = (a, s')"
  shows "\<exists>new. trace s' = trace s @ new
    \<and> (case extract_credential (in_authorization rq) (allow_app_password (auth_config X)) of
         None \<Rightarrow> new = []
       | Some (Jwt t) \<Rightarrow> list_all (\<lambda>r. rq_auth r = None) new
       | Some (App_Password b) \<Rightarrow> list_all (\<lambda>r. rq_auth r = Some (''Basic '' @ b)) new)"
  using authentication_requests [OF assms] .

text \<open>
  A relation that authentication preserves: one that validation preserves, and that holds over a
  recorded use and a logged outcome.
\<close>

locale auth_relation = validation_relation R X
  for R :: "('w, 'k, 'm) auth_state_scheme \<Rightarrow> ('w, 'k, 'm) auth_state_scheme \<Rightarrow> bool"
    and X :: "('w, 'k, 'x) auth_net_scheme" +
  assumes use_step: "R s (s\<lparr>last_used_entries := last_used_put now h ip (last_used_entries s)\<rparr>)"
    and log_step: "ie_outcome e \<in> {''active'', ''inactive'', ''error''}
      \<Longrightarrow> R s (s\<lparr>introspect_log := introspect_log s @ [e],
               metrics := record_introspect (ie_outcome e) elapsed (metrics s)\<rparr>)"
begin

lemma log_introspect_related:
  "out \<in> {''active'', ''inactive'', ''error''} \<Longrightarrow> R s (log_introspect X h out t u s)"
  using log_step [of "\<lparr>ie_token_hash = h, ie_outcome = out, ie_latency_ms = latency_ms (now_of X s - t), ie_user = u\<rparr>"
      s "now_of X s - t"]
  by (simp add: log_introspect_def Let_def)

lemma admission_related:
  "out \<in> {''active'', ''inactive'', ''error''}
   \<Longrightarrow> R s (if is_introspect_path rq then log_introspect X h out t u s
            else record_ingress X rq h (log_introspect X h out t u s))"
  by (auto simp: record_ingress_def Let_def
      intro: log_introspect_related related_trans [OF log_introspect_related use_step])

lemma bearer_auth_related:
  assumes "bearer_auth X rq s = (a, s')"
  shows "R s s'"
proof -
  have app: "R s (snd (app_password_auth X rq secret s))" for secret
  proof -
    let ?tok = "header_value \<lparr>at_scheme = Basic, at_secret = secret\<rparr>"
    obtain r s1 where r: "session_for X ?tok s = (r, s1)" by (cases "session_for X ?tok s")
    have "R s1 (snd (app_password_auth X rq secret s))"
      using r by (auto simp: app_password_auth_def Let_def admission_related log_introspect_related split: sum.split)
    with preservesD [OF preserves_session_for r] show ?thesis by (rule related_trans)
  qed
  have token: "R s s1" if "validate_token X t s = (r, s1)" for t r s1
    by (rule preservesD [OF preserves_validate_token that])
  show ?thesis
  proof (cases "extract_credential (in_authorization rq) (allow_app_password (auth_config X))")
    case None
    then show ?thesis using assms by (simp add: bearer_auth_def related_refl)
  next
    case (Some p)
    show ?thesis
    proof (cases p)
      case (Jwt t)
      obtain r s1 where r: "validate_token X t s = (r, s1)" by (cases "validate_token X t s")
      have "R s1 s'"
        using assms Some Jwt r admission_related log_introspect_related
        by (auto simp: bearer_auth_def Let_def split: sum.splits option.splits)
      with token [OF r] show ?thesis by (rule related_trans)
    next
      case (App_Password b)
      then show ?thesis using assms Some app [of b] by (simp add: bearer_auth_def)
    qed
  qed
qed

end

interpretation use_records: validation_relation "\<lambda>s s1. last_used_entries s1 = last_used_entries s" X
  for X :: "('w, 'k, 'x) auth_net_scheme"
  by unfold_locales simp_all

text \<open>
  Looking does not count as use: a request to the introspection endpoint leaves every
  last-used record as it was, so the use it reports is the last real one, and so does every rejected request.
\<close>

theorem introspection_is_not_use:
  fixes X :: "('w, 'k, 'x) auth_net_scheme" and s :: "('w, 'k, 'm) auth_state_scheme"
  assumes "bearer_auth X rq s = (a, s')"
    and "is_introspect_path rq \<or> (\<exists>r. a = Rejected r)"
  shows "last_used_entries s' = last_used_entries s"
proof (cases "extract_credential (in_authorization rq) (allow_app_password (auth_config X))")
  case None
  then show ?thesis using assms by (simp add: bearer_auth_def)
next
  case (Some p)
  show ?thesis
  proof (cases p)
    case (Jwt t)
    obtain r s1 where r: "validate_token X t s = (r, s1)" by (cases "validate_token X t s")
    have "last_used_entries s1 = last_used_entries s" by (rule preservesD [OF use_records.preserves_validate_token r])
    then show ?thesis
      using assms Some Jwt r
      by (auto simp: bearer_auth_def log_introspect_def Let_def split: sum.splits option.splits)
  next
    case (App_Password b)
    let ?h = "header_value \<lparr>at_scheme = Basic, at_secret = b\<rparr>"
    obtain r s1 where r: "session_for X ?h s = (r, s1)" by (cases "session_for X ?h s")
    have "last_used_entries s1 = last_used_entries s"
      by (rule preservesD [OF use_records.preserves_session_for r])
    then show ?thesis
      using assms Some App_Password r
      by (auto simp: bearer_auth_def app_password_auth_def log_introspect_def Let_def
          split: sum.splits if_splits)
  qed
qed

text \<open>
  App-password callers without a username are not told apart: two sessions that name no
  user are admitted under the same empty user id, the key of the rate limits, of the audit
  mailbox designations and of the subject everywhere else.
\<close>

theorem nameless_sessions_share_user_id:
  "\<exists>a b. a \<noteq> b \<and> is_authenticated a \<and> is_authenticated b
     \<and> user_id (app_password_identity a) = [] \<and> user_id (app_password_identity b) = []"
proof -
  let ?a = "sample_session\<lparr>username := None\<rparr>"
  let ?b = "?a\<lparr>primary_accounts := [(CAP_MAIL, ''a2'')]\<rparr>"
  have "?a \<noteq> ?b" by (simp add: sample_session_def)
  then show ?thesis
    by (intro exI [of _ ?a] exI [of _ ?b])
      (simp add: is_authenticated_def app_password_identity_def sample_session_def)
qed

section \<open>Witnesses\<close>

definition sample_config :: config where
  "sample_config = projr (config_new ''https://m.x'' ''https://l.x'' ''https://s.x'' (V4 (Ipv4 0 0 0 0), 80))"

definition sample_auth :: "(unit, unit) auth_net" where
  "sample_auth =
     \<lparr>net_send = net_send sample_logto, net_clock = (\<lambda>_. 0), net_system = (\<lambda>_. 0),
      discovery_url = [], sha256 = (\<lambda>t. t), decode_session = (\<lambda>_. Inr sample_session),
      decode_upload = (\<lambda>_. Inl []), jwks_url = [], expected_audience = ''https://m.x'',
      expected_issuer = ''https://l.x'', jwt_decode_header = jwt_decode_header sample_logto,
      jwks_decode = jwks_decode sample_logto, jwt_decode = jwt_decode sample_logto,
      auth_config = sample_config\<rparr>"

definition sample_auth_state :: "(unit, unit) auth_state" where
  "sample_auth_state =
     \<lparr>world = (), trace = [], sessions = [], jwks_keys = [], jwks_fetched_at = None,
      jwks_attempted_at = None, vcache = [], last_used_entries = [], introspect_log = [], metrics = []\<rparr>"

definition sample_incoming :: incoming where
  "sample_incoming = \<lparr>in_authorization = Some ''Bearer t'', in_forwarded_for = None,
     in_path = ''/token/introspect''\<rparr>"

lemma sample_credential:
  "extract_bearer (Some ''Bearer t'') = Some ''t''"
  by code_simp

lemma sample_admission:
  "fst (bearer_auth sample_auth sample_incoming sample_auth_state)
     = Admitted (identity_of_claims sample_claims) \<lparr>at_scheme = Bearer, at_secret = ''t''\<rparr>"
  by (simp add: bearer_auth_def extract_credential_def sample_incoming_def sample_credential
      sample_auth_def sample_auth_state_def logto_eval is_introspect_path_def Let_def)

theorem admission_sound_witness:
  "fst (bearer_auth sample_auth sample_incoming sample_auth_state)
     = Admitted (identity_of_claims sample_claims) \<lparr>at_scheme = Bearer, at_secret = ''t''\<rparr>
   \<and> fst (validate_token sample_auth ''t'' sample_auth_state) = Inr (Some (identity_of_claims sample_claims))"
proof -
  obtain s' where "bearer_auth sample_auth sample_incoming sample_auth_state
      = (Admitted (identity_of_claims sample_claims) \<lparr>at_scheme = Bearer, at_secret = ''t''\<rparr>, s')"
    using sample_admission by (metis prod.collapse)
  from admission_sound [OF this] sample_admission show ?thesis by simp
qed

theorem authentication_leaks_nothing_witness:
  "\<exists>new. trace (snd (bearer_auth sample_auth sample_incoming sample_auth_state)) = new
     \<and> list_all (\<lambda>r. rq_auth r = None) new"
proof -
  obtain a s' where r: "bearer_auth sample_auth sample_incoming sample_auth_state = (a, s')"
    by (cases "bearer_auth sample_auth sample_incoming sample_auth_state")
  have "extract_credential (in_authorization sample_incoming) (allow_app_password (auth_config sample_auth))
      = Some (Jwt ''t'')"
    by (simp add: extract_credential_def sample_incoming_def sample_credential)
  with authentication_leaks_nothing [OF r] r show ?thesis by (auto simp: sample_auth_state_def)
qed

theorem introspection_is_not_use_witness:
  "last_used_entries (snd (bearer_auth sample_auth sample_incoming sample_auth_state)) = []"
proof -
  obtain a s' where r: "bearer_auth sample_auth sample_incoming sample_auth_state = (a, s')"
    by (cases "bearer_auth sample_auth sample_incoming sample_auth_state")
  have "is_introspect_path sample_incoming" by (simp add: is_introspect_path_def sample_incoming_def)
  with introspection_is_not_use [OF r] r show ?thesis by (simp add: sample_auth_state_def)
qed

end
