(* ===== verification/Rate_Limit.thy ===== *)
theory Rate_Limit
  imports Capped_Store
begin

text \<open>
  \<^verbatim>\<open>src/rate_limit.rs\<close>: one token bucket per bearer hash and per subject, for reads and for
  writes, and the limiter of session creation. The token bucket itself is the \<^verbatim>\<open>governor\<close>
  crate: \<open>bucket_new\<close> makes a full bucket for a quota and \<open>bucket_check\<close> asks it for one token at
  an instant, answering whether it was granted and with the bucket afterwards.
\<close>

section \<open>Definitions\<close>

definition MAX_INITIALIZES_PER_IDENTITY :: nat where "MAX_INITIALIZES_PER_IDENTITY = 32"

definition INITIALIZE_REFILL_INTERVAL :: nat where "INITIALIZE_REFILL_INTERVAL = 60 * 10 ^ 9"

definition LIMITER_KEY_CAP :: nat where "LIMITER_KEY_CAP = 4096"

text \<open>
  A quota as the code asks for it: \<^verbatim>\<open>Quota::per_minute(n)\<close>, or \<^verbatim>\<open>Quota::with_period(p)\<close> with
  \<^verbatim>\<open>allow_burst(n)\<close>; durations in nanoseconds.
\<close>

datatype quota = Per_Minute nat | With_Period nat nat

record 'b governor =
  bucket_new :: "quota \<Rightarrow> 'b"
  bucket_check :: "nat \<Rightarrow> 'b \<Rightarrow> bool \<times> 'b"

record 'b bucket_entry =
  be_bucket :: 'b
  be_last_seen :: nat

type_synonym 'b bucket_map = "(string \<times> 'b bucket_entry) list"

datatype category = Read | Write

record 'b limiter =
  reads_per_min :: nat
  writes_per_min :: nat
  bearer_read :: "'b bucket_map"
  bearer_write :: "'b bucket_map"
  sub_read :: "'b bucket_map"
  sub_write :: "'b bucket_map"

definition limiter_new :: "nat \<Rightarrow> nat \<Rightarrow> 'b limiter option" where
  "limiter_new reads writes =
     (if reads = 0 then None
      else if writes = 0 then None
      else Some \<lparr>reads_per_min = reads, writes_per_min = writes, bearer_read = [],
                 bearer_write = [], sub_read = [], sub_write = []\<rparr>)"

definition get_or_insert_with_quota ::
  "'b governor \<Rightarrow> nat \<Rightarrow> string \<Rightarrow> quota \<Rightarrow> 'b bucket_map \<Rightarrow> 'b \<times> 'b bucket_map" where
  "get_or_insert_with_quota gv now k q m =
     (case map_of m k of
        Some entry \<Rightarrow> (be_bucket entry, AList.update k (entry\<lparr>be_last_seen := now\<rparr>) m)
      | None \<Rightarrow>
          (let b = bucket_new gv q
           in (b, AList.update k \<lparr>be_bucket = b, be_last_seen = now\<rparr>
                    (make_room LIMITER_KEY_CAP (min_by_key (be_last_seen \<circ> snd) m) k m))))"

text \<open>
  The bucket is shared with the map (an \<^verbatim>\<open>Arc\<close>), so the token taken from it is taken from the
  map's entry.
\<close>

definition store_bucket :: "string \<Rightarrow> 'b \<Rightarrow> 'b bucket_map \<Rightarrow> 'b bucket_map" where
  "store_bucket k b m =
     (case map_of m k of
        None \<Rightarrow> m
      | Some entry \<Rightarrow> AList.update k (entry\<lparr>be_bucket := b\<rparr>) m)"

definition charge ::
  "'b governor \<Rightarrow> nat \<Rightarrow> string \<Rightarrow> quota \<Rightarrow> 'b bucket_map \<Rightarrow> bool \<times> 'b bucket_map" where
  "charge gv now k q m =
     (case get_or_insert_with_quota gv now k q m of
        (b, m1) \<Rightarrow>
          (case bucket_check gv now b of
             (granted, b1) \<Rightarrow> (granted, store_bucket k b1 m1)))"

text \<open>The bearer's bucket first; the subject's only when the bearer's granted.\<close>

definition check_both ::
  "'b governor \<Rightarrow> nat \<Rightarrow> quota \<Rightarrow> string \<Rightarrow> string option \<Rightarrow> 'b bucket_map \<Rightarrow> 'b bucket_map
   \<Rightarrow> bool \<times> 'b bucket_map \<times> 'b bucket_map" where
  "check_both gv now q bearer_hash sub bearer_map sub_map =
     (case charge gv now bearer_hash q bearer_map of
        (granted, bearer_map1) \<Rightarrow>
          if \<not> granted then (False, bearer_map1, sub_map)
          else (case sub of
                  None \<Rightarrow> (True, bearer_map1, sub_map)
                | Some s \<Rightarrow>
                    (case charge gv now s q sub_map of
                       (granted1, sub_map1) \<Rightarrow> (granted1, bearer_map1, sub_map1))))"

definition limiter_check ::
  "'b governor \<Rightarrow> nat \<Rightarrow> string \<Rightarrow> string option \<Rightarrow> category \<Rightarrow> 'b limiter \<Rightarrow> bool \<times> 'b limiter" where
  "limiter_check gv now bearer_hash sub cat l =
     (case cat of
        Read \<Rightarrow>
          (case check_both gv now (Per_Minute (reads_per_min l)) bearer_hash sub
                  (bearer_read l) (sub_read l) of
             (granted, bm, sm) \<Rightarrow> (granted, l\<lparr>bearer_read := bm, sub_read := sm\<rparr>))
      | Write \<Rightarrow>
          (case check_both gv now (Per_Minute (writes_per_min l)) bearer_hash sub
                  (bearer_write l) (sub_write l) of
             (granted, bm, sm) \<Rightarrow> (granted, l\<lparr>bearer_write := bm, sub_write := sm\<rparr>)))"

record 'b initialize_limiter =
  il_quota :: quota
  il_bearer :: "'b bucket_map"
  il_sub :: "'b bucket_map"

text \<open>\<^verbatim>\<open>Quota::with_period\<close> refuses a zero period.\<close>

definition initialize_limiter_new :: "nat \<Rightarrow> nat \<Rightarrow> 'b initialize_limiter" where
  "initialize_limiter_new replenish_1_per burst =
     (let burst = (if burst = 0 then 1 else burst);
          q = (if replenish_1_per = 0 then With_Period (60 * 10 ^ 9) burst
               else With_Period replenish_1_per burst)
      in \<lparr>il_quota = q, il_bearer = [], il_sub = []\<rparr>)"

definition initialize_check ::
  "'b governor \<Rightarrow> nat \<Rightarrow> string \<Rightarrow> string option \<Rightarrow> 'b initialize_limiter
   \<Rightarrow> bool \<times> 'b initialize_limiter" where
  "initialize_check gv now bearer_hash sub l =
     (case check_both gv now (il_quota l) bearer_hash sub (il_bearer l) (il_sub l) of
        (granted, bm, sm) \<Rightarrow> (granted, l\<lparr>il_bearer := bm, il_sub := sm\<rparr>))"

section \<open>The bucket store\<close>

lemma store_bucket_laws:
  "distinct (keys m) \<Longrightarrow> distinct (keys (store_bucket k b m))"
  "length (store_bucket k b m) = length m"
  "map_of (store_bucket k b m) k' =
     (if k' = k then map_option (\<lambda>e. e\<lparr>be_bucket := b\<rparr>) (map_of m k) else map_of m k')"
  by (auto simp: store_bucket_def distinct_update length_update_found update_conv'
      split: option.split)

lemma get_or_insert_laws:
  assumes "distinct (keys m)" and "get_or_insert_with_quota gv now k q m = (b, m')"
  shows "distinct (keys m')"
    and "length m \<le> LIMITER_KEY_CAP \<Longrightarrow> length m' \<le> LIMITER_KEY_CAP"
    and "k \<noteq> k' \<Longrightarrow> map_of m' k' = Some w \<Longrightarrow> map_of m k' = Some w"
    and "map_of m' k = Some \<lparr>be_bucket = b, be_last_seen = now\<rparr>"
proof -
  note room = make_room_laws [OF assms(1) min_by_key_subset [of "be_last_seen \<circ> snd" m]]
  show "distinct (keys m')"
    using assms room(1) by (auto simp: get_or_insert_with_quota_def Let_def distinct_update split: option.splits)
  show "k \<noteq> k' \<Longrightarrow> map_of m' k' = Some w \<Longrightarrow> map_of m k' = Some w"
    using assms(2) room(3)
    by (auto simp only: get_or_insert_with_quota_def Let_def update_conv' fun_upd_apply prod.inject
        split: option.splits if_splits)
  show "map_of m' k = Some \<lparr>be_bucket = b, be_last_seen = now\<rparr>"
    using assms(2)
    by (auto simp: get_or_insert_with_quota_def Let_def update_conv' split: option.splits)
  show "length m \<le> LIMITER_KEY_CAP \<Longrightarrow> length m' \<le> LIMITER_KEY_CAP"
    using assms(2) room(2) [of LIMITER_KEY_CAP k]
    by (auto simp: get_or_insert_with_quota_def Let_def length_update_found LIMITER_KEY_CAP_def
        split: option.splits)
qed

lemma charge_laws:
  assumes "distinct (keys m)" and "charge gv now k q m = (g, m')"
  shows "distinct (keys m')"
    and "length m \<le> LIMITER_KEY_CAP \<Longrightarrow> length m' \<le> LIMITER_KEY_CAP"
    and "k \<noteq> k' \<Longrightarrow> map_of m' k' = Some w \<Longrightarrow> map_of m k' = Some w"
proof -
  obtain b m1 where g: "get_or_insert_with_quota gv now k q m = (b, m1)"
    by (cases "get_or_insert_with_quota gv now k q m")
  obtain g1 b1 where "bucket_check gv now b = (g1, b1)" by (cases "bucket_check gv now b")
  then have m': "m' = store_bucket k b1 m1" using assms(2) g by (simp add: charge_def)
  note l = get_or_insert_laws [OF assms(1) g]
  show "distinct (keys m')" using l(1) m' by (simp add: store_bucket_laws(1))
  show "length m \<le> LIMITER_KEY_CAP \<Longrightarrow> length m' \<le> LIMITER_KEY_CAP"
    using l(2) m' by (simp add: store_bucket_laws(2))
  show "k \<noteq> k' \<Longrightarrow> map_of m' k' = Some w \<Longrightarrow> map_of m k' = Some w"
    using l(3) [of k' w] m' store_bucket_laws(3) [of k b1 m1 k'] by (auto split: if_splits)
qed

lemma charge_others:
  assumes "distinct (keys m)" and "charge gv now k q m = (g, m')" and "k \<noteq> k'"
  shows "map_of m' k' \<in> {None, map_of m k'}"
  using charge_laws(3) [OF assms] by (cases "map_of m' k'") auto

text \<open>An operation on a bucket map is one charge: an instant, a key and a quota.\<close>

definition charge_step ::
  "'b governor \<Rightarrow> nat \<times> string \<times> quota \<Rightarrow> 'b bucket_map \<Rightarrow> 'b bucket_map" where
  "charge_step gv u m = snd (charge gv (fst u) (fst (snd u)) (snd (snd u)) m)"

interpretation buckets: capped_store LIMITER_KEY_CAP "\<lambda>u. fst (snd u)" "charge_step gv"
  for gv :: "'b governor"
proof (unfold_locales, goal_cases)
  case (1 m u)
  then show ?case unfolding charge_step_def using charge_laws(1) surjective_pairing by blast
next
  case (2 m u)
  then show ?case unfolding charge_step_def using charge_laws(2) surjective_pairing by blast
next
  case (3 m u k v)
  then show ?case unfolding charge_step_def using charge_laws(3) surjective_pairing by blast
qed

section \<open>Isolation\<close>

text \<open>
  One caller's calls do not spend another caller's allowance: a check changes only the two
  maps of its category, and in them the bucket of any other bearer or subject is unchanged, or
  gone when the map was full; a check the bearer's bucket denies does not touch the subjects.
\<close>

theorem limiter_check_isolated:
  assumes "distinct (keys (bearer_read l))" "distinct (keys (sub_read l))"
    and "limiter_check gv now h sub Read l = (granted, l')"
  shows "bearer_write l' = bearer_write l \<and> sub_write l' = sub_write l
    \<and> (h' \<noteq> h \<longrightarrow> map_of (bearer_read l') h' \<in> {None, map_of (bearer_read l) h'})
    \<and> (sub \<noteq> Some s' \<longrightarrow> map_of (sub_read l') s' \<in> {None, map_of (sub_read l) s'})
    \<and> (\<not> fst (charge gv now h (Per_Minute (reads_per_min l)) (bearer_read l)) \<longrightarrow>
         \<not> granted \<and> sub_read l' = sub_read l)"
proof -
  let ?q = "Per_Minute (reads_per_min l)"
  obtain g1 bm where b: "charge gv now h ?q (bearer_read l) = (g1, bm)"
    by (cases "charge gv now h ?q (bearer_read l)")
  have bearer: "h' \<noteq> h \<longrightarrow> map_of bm h' \<in> {None, map_of (bearer_read l) h'}"
    using charge_others [OF assms(1) b, of h'] by blast
  note d = assms(3) [unfolded limiter_check_def check_both_def] b
  show ?thesis
  proof (cases "g1 \<and> sub \<noteq> None")
    case False
    then show ?thesis using d bearer by (auto split: if_splits)
  next
    case True
    then obtain s where s: "g1" "sub = Some s" by auto
    obtain g2 sm where c: "charge gv now s ?q (sub_read l) = (g2, sm)"
      by (cases "charge gv now s ?q (sub_read l)")
    have "sub \<noteq> Some s' \<longrightarrow> map_of sm s' \<in> {None, map_of (sub_read l) s'}"
      using charge_others [OF assms(2) c, of s'] s by simp
    then show ?thesis using d bearer s c by auto
  qed
qed

section \<open>The burst bound\<close>

text \<open>
  At one instant, how many requests of a list are granted; \<open>tokens\<close> is the number of tokens a
  bucket holds.
\<close>

fun run_checks ::
  "'b governor \<Rightarrow> nat \<Rightarrow> (string \<times> string option \<times> category) list \<Rightarrow> 'b limiter
   \<Rightarrow> bool list \<times> 'b limiter" where
  "run_checks gv now [] l = ([], l)"
| "run_checks gv now ((h, s, c) # rs) l =
     (case limiter_check gv now h s c l of
        (g, l1) \<Rightarrow> (case run_checks gv now rs l1 of (gs, l2) \<Rightarrow> (g # gs, l2)))"

definition granted_to ::
  "(string \<times> string option \<times> category \<Rightarrow> bool) \<Rightarrow> (string \<times> string option \<times> category) list
   \<Rightarrow> bool list \<Rightarrow> nat" where
  "granted_to who rs gs = length (filter (\<lambda>(r, g). g \<and> who r) (zip rs gs))"

definition fair_bucket :: "'b governor \<Rightarrow> nat \<Rightarrow> ('b \<Rightarrow> nat) \<Rightarrow> bool" where
  "fair_bucket gv now tokens \<longleftrightarrow>
     (\<forall>n. tokens (bucket_new gv (Per_Minute n)) \<le> n)
     \<and> (\<forall>b. tokens (snd (bucket_check gv now b)) + (if fst (bucket_check gv now b) then 1 else 0)
            \<le> tokens b)"

definition within_budget :: "('b \<Rightarrow> nat) \<Rightarrow> nat \<Rightarrow> string \<Rightarrow> 'b bucket_map \<Rightarrow> nat \<Rightarrow> bool" where
  "within_budget tokens n k m spent =
     (case map_of m k of
        None \<Rightarrow> spent = 0
      | Some e \<Rightarrow> tokens (be_bucket e) + spent \<le> n)"

lemma charge_within_budget:
  assumes fair: "fair_bucket gv now tokens"
    and dist: "distinct (keys m)" and room: "length m < LIMITER_KEY_CAP"
    and inv: "within_budget tokens n k m spent"
    and ch: "charge gv now k' (Per_Minute n) m = (g, m')"
  shows "within_budget tokens n k m' (spent + (if g \<and> k' = k then 1 else 0))
    \<and> length m' \<le> Suc (length m) \<and> distinct (keys m')"
proof -
  have no_evict: "make_room LIMITER_KEY_CAP e k' m = m" for e
    using room by (simp add: make_room_def)
  have d: "distinct (keys m')" using charge_laws(1) [OF dist ch] .
  show ?thesis
  proof (cases "map_of m k'")
    case None
    let ?b = "bucket_new gv (Per_Minute n)"
    obtain g1 b1 where c: "bucket_check gv now ?b = (g1, b1)" by (cases "bucket_check gv now ?b")
    have t: "tokens b1 + (if g1 then 1 else 0) \<le> n"
      using fair c unfolding fair_bucket_def by (metis fst_conv snd_conv le_trans)
    have m': "g = g1" "m' = AList.update k' \<lparr>be_bucket = b1, be_last_seen = now\<rparr>
        (AList.update k' \<lparr>be_bucket = ?b, be_last_seen = now\<rparr> m)"
      using ch None c
      by (auto simp: charge_def get_or_insert_with_quota_def Let_def no_evict store_bucket_def update_conv')
    show ?thesis
      using d m' t inv None
      by (auto simp: within_budget_def update_conv' length_update split: if_splits option.splits)
  next
    case (Some e)
    obtain g1 b1 where c: "bucket_check gv now (be_bucket e) = (g1, b1)"
      by (cases "bucket_check gv now (be_bucket e)")
    have t: "tokens b1 + (if g1 then 1 else 0) \<le> tokens (be_bucket e)"
      using fair c unfolding fair_bucket_def by (metis fst_conv snd_conv)
    have m': "g = g1" "m' = AList.update k' (e\<lparr>be_last_seen := now, be_bucket := b1\<rparr>)
        (AList.update k' (e\<lparr>be_last_seen := now\<rparr>) m)"
      using ch Some c
      by (auto simp: charge_def get_or_insert_with_quota_def store_bucket_def update_conv')
    show ?thesis
      using d m' t inv Some
      by (auto simp: within_budget_def update_conv' length_update split: if_splits option.splits)
  qed
qed

fun bearer_map :: "category \<Rightarrow> 'b limiter \<Rightarrow> 'b bucket_map" where
  "bearer_map Read l = bearer_read l"
| "bearer_map Write l = bearer_write l"

fun sub_map :: "category \<Rightarrow> 'b limiter \<Rightarrow> 'b bucket_map" where
  "sub_map Read l = sub_read l"
| "sub_map Write l = sub_write l"

fun quota_of :: "category \<Rightarrow> 'b limiter \<Rightarrow> nat" where
  "quota_of Read l = reads_per_min l"
| "quota_of Write l = writes_per_min l"

lemma limiter_check_step:
  assumes "limiter_check gv now h s c l = (g, l1)"
  shows "quota_of c' l1 = quota_of c' l"
    and "c' \<noteq> c \<Longrightarrow> bearer_map c' l1 = bearer_map c' l \<and> sub_map c' l1 = sub_map c' l"
    and "\<exists>g1 bm. charge gv now h (Per_Minute (quota_of c l)) (bearer_map c l) = (g1, bm)
           \<and> bearer_map c l1 = bm \<and> (g \<longrightarrow> g1)
           \<and> ((\<not> g1 \<or> s = None) \<and> sub_map c l1 = sub_map c l
              \<or> (\<exists>s'. s = Some s' \<and> charge gv now s' (Per_Minute (quota_of c l)) (sub_map c l)
                        = (g, sub_map c l1)))"
  using assms
  by (cases c; cases c'; cases s;
      auto simp: limiter_check_def check_both_def split: prod.splits if_splits)+

lemma budget_mono: "within_budget tokens n k m spent \<Longrightarrow> spent' \<le> spent \<Longrightarrow> within_budget tokens n k m spent'"
  by (auto simp: within_budget_def split: option.splits)

text \<open>All that the burst bound needs to know of a limiter, for one key of each kind.\<close>

definition limiter_inv :: "('b \<Rightarrow> nat) \<Rightarrow> category \<Rightarrow> string \<Rightarrow> string \<Rightarrow> 'b limiter \<Rightarrow> nat \<Rightarrow> nat \<Rightarrow> nat \<Rightarrow> bool" where
  "limiter_inv tokens c h s l gh gs left \<longleftrightarrow>
     distinct (keys (bearer_map c l)) \<and> distinct (keys (sub_map c l))
     \<and> length (bearer_map c l) + left \<le> LIMITER_KEY_CAP \<and> length (sub_map c l) + left \<le> LIMITER_KEY_CAP
     \<and> within_budget tokens (quota_of c l) h (bearer_map c l) gh
     \<and> within_budget tokens (quota_of c l) s (sub_map c l) gs"

lemma limiter_inv_step:
  assumes fair: "fair_bucket gv now tokens"
    and inv: "limiter_inv tokens c h s l gh gs (Suc left)"
    and ch: "limiter_check gv now h' s' c' l = (g, l1)"
  shows "limiter_inv tokens c h s l1 (gh + (if g \<and> h' = h \<and> c' = c then 1 else 0))
           (gs + (if g \<and> s' = Some s \<and> c' = c then 1 else 0)) left"
proof (cases "c' = c")
  case False
  then show ?thesis
    using inv limiter_check_step(1,2) [OF ch, of c] by (auto simp: limiter_inv_def)
next
  case True
  note i = inv [unfolded limiter_inv_def]
  have room: "length (bearer_map c l) < LIMITER_KEY_CAP" "length (sub_map c l) < LIMITER_KEY_CAP"
    using i by auto
  obtain g1 where b: "charge gv now h' (Per_Minute (quota_of c l)) (bearer_map c l) = (g1, bearer_map c l1)"
      "g \<longrightarrow> g1"
    and sub: "(\<not> g1 \<or> s' = None) \<and> sub_map c l1 = sub_map c l
              \<or> (\<exists>s''. s' = Some s'' \<and> charge gv now s'' (Per_Minute (quota_of c l)) (sub_map c l)
                        = (g, sub_map c l1))"
    using limiter_check_step(3) [OF ch] True by auto
  have B: "within_budget tokens (quota_of c l) h (bearer_map c l1) (gh + (if g1 \<and> h' = h then 1 else 0))"
      "length (bearer_map c l1) \<le> Suc (length (bearer_map c l))" "distinct (keys (bearer_map c l1))"
    using charge_within_budget [OF fair _ room(1) _ b(1)] i by auto
  have B1: "within_budget tokens (quota_of c l) h (bearer_map c l1) (gh + (if g \<and> h' = h \<and> c' = c then 1 else 0))"
    by (rule budget_mono [OF B(1)]) (use b(2) in auto)
  have S: "within_budget tokens (quota_of c l) s (sub_map c l1) (gs + (if g \<and> s' = Some s \<and> c' = c then 1 else 0))
      \<and> length (sub_map c l1) \<le> Suc (length (sub_map c l)) \<and> distinct (keys (sub_map c l1))"
    using sub
  proof
    assume "(\<not> g1 \<or> s' = None) \<and> sub_map c l1 = sub_map c l"
    then show ?thesis using i b(2) by auto
  next
    assume "\<exists>s''. s' = Some s'' \<and> charge gv now s'' (Per_Minute (quota_of c l)) (sub_map c l) = (g, sub_map c l1)"
    then obtain s'' where s'': "s' = Some s''"
        "charge gv now s'' (Per_Minute (quota_of c l)) (sub_map c l) = (g, sub_map c l1)" by blast
    show ?thesis
      using charge_within_budget [OF fair _ room(2) _ s''(2), of s gs] i s''(1) True by simp
  qed
  show ?thesis
    unfolding limiter_inv_def limiter_check_step(1) [OF ch]
    using B B1 S i by auto
qed

lemma granted_to_Cons:
  "granted_to P (r # rs) (g # gs) = (if g \<and> P r then 1 else 0) + granted_to P rs gs"
  by (simp add: granted_to_def)

lemma limiter_inv_run:
  assumes fair: "fair_bucket gv now tokens"
    and "limiter_inv tokens c h s l gh gs (length rs)"
    and "run_checks gv now rs l = (grants, l')"
  shows "limiter_inv tokens c h s l'
    (gh + granted_to (\<lambda>r. fst r = h \<and> snd (snd r) = c) rs grants)
    (gs + granted_to (\<lambda>r. fst (snd r) = Some s \<and> snd (snd r) = c) rs grants) 0"
  using assms(2,3)
proof (induction rs arbitrary: l gh gs grants)
  case Nil
  then show ?case by (simp add: granted_to_def)
next
  case (Cons r rs)
  obtain h' s' c' where r: "r = (h', s', c')" by (cases r)
  obtain g l1 where ch: "limiter_check gv now h' s' c' l = (g, l1)"
    by (cases "limiter_check gv now h' s' c' l")
  obtain gs1 l2 where rest: "run_checks gv now rs l1 = (gs1, l2)" by (cases "run_checks gv now rs l1")
  have grants: "grants = g # gs1" "l2 = l'" using Cons.prems(2) r ch rest by auto
  note step = limiter_inv_step [OF fair Cons.prems(1) [simplified] ch]
  show ?case
    using Cons.IH [OF step rest [unfolded grants(2)]]
    by (simp add: grants granted_to_Cons r add.assoc)
qed


definition counting_governor :: "nat governor" where
  "counting_governor =
     \<lparr>bucket_new = (\<lambda>q. case q of Per_Minute n \<Rightarrow> n | With_Period _ n \<Rightarrow> n),
      bucket_check = (\<lambda>now b. (0 < b, b - 1))\<rparr>"


theorem limiter_check_isolated_witness:
  "let l = the (limiter_new 1 1) :: nat limiter;
       r = limiter_check counting_governor 0 ''t'' (Some ''u'') Read l
   in fst r \<and> map_of (bearer_read (snd r)) ''other'' = None
      \<and> bearer_write (snd r) = bearer_write l"
proof -
  let ?l = "the (limiter_new 1 1) :: nat limiter"
  obtain g l' where r: "limiter_check counting_governor 0 ''t'' (Some ''u'') Read ?l = (g, l')"
    by (cases "limiter_check counting_governor 0 ''t'' (Some ''u'') Read ?l")
  have d: "distinct (keys (bearer_read ?l))" "distinct (keys (sub_read ?l))"
    and o: "map_of (bearer_read ?l) ''other'' = None"
    by (simp_all add: limiter_new_def)
  have "g" using r
    by (auto simp: limiter_new_def limiter_check_def check_both_def charge_def store_bucket_def
        get_or_insert_with_quota_def make_room_def LIMITER_KEY_CAP_def counting_governor_def Let_def)
  then show ?thesis
    using limiter_check_isolated [OF d r, of "''other''" "''x''"] r o by (auto simp: Let_def)
qed

end
