(* ===== verification/Content_Sandbox.thy ===== *)
theory Content_Sandbox
  imports Prelude
begin

text \<open>
  \<^verbatim>\<open>src/content_sandbox.rs\<close>: escaping of role-control markers in untrusted text, the
  \<^verbatim>\<open><email:message>\<close> wrapper and the prompt-injection heuristics. The lemmas say that
  no marker survives the escaping, that the wrapper cannot be closed from inside,
  and how the escape table and the suspicion table relate.
\<close>

section \<open>Marker tables\<close>

definition ANGLE_ROLE_TOKENS :: "string list" where
  "ANGLE_ROLE_TOKENS =
     [''<system>'', ''</system>'', ''<assistant>'', ''</assistant>'', ''<user>'', ''</user>'',
      ''<|im_start|>'', ''<|im_end|>'']"

definition BRACKET_ROLE_TOKENS :: "string list" where
  "BRACKET_ROLE_TOKENS = [''[INST]'', ''[/INST]'']"

definition INSTRUCTION_OVERRIDE_PHRASES :: "string list" where
  "INSTRUCTION_OVERRIDE_PHRASES =
     [''ignore previous instructions'', ''ignore the previous instructions'',
      ''ignore prior instructions'', ''ignore your instructions'',
      ''disregard previous instructions'', ''disregard the previous instructions'',
      ''disregard prior instructions'', ''forget previous instructions'',
      ''new instructions:'', ''system prompt:'']"

definition SUSPICIOUS_ROLE_MARKERS :: "string list" where
  "SUSPICIOUS_ROLE_MARKERS =
     [''<system>'', ''</system>'', ''<assistant>'', ''</assistant>'', ''<|im_start|>'',
      ''<|im_end|>'', ''[inst]'', ''[/inst]'']"

record verdict =
  wrapped :: string
  suspicious :: bool

section \<open>Case-insensitive replacement\<close>

text \<open>\<^verbatim>\<open>str::replace(char, &str)\<close>.\<close>

definition replace_char :: "char \<Rightarrow> string \<Rightarrow> string \<Rightarrow> string" where
  "replace_char c r s = concat (map (\<lambda>x. if x = c then r else [x]) s)"

text \<open>
  The loop of \<^verbatim>\<open>replace_ascii_case_insensitive\<close> with its variables: the lower-cased
  haystack and needle, the output built so far and the byte offset \<open>start\<close>. An empty
  needle matches at \<open>start\<close> for ever, so the loop is partial.
\<close>

partial_function (option) replace_loop ::
  "string \<Rightarrow> string \<Rightarrow> string \<Rightarrow> string \<Rightarrow> string \<Rightarrow> nat \<Rightarrow> string option" where
  "replace_loop input lower needle replacement out start =
     (case find_sub needle (drop start lower) of
        Some relative \<Rightarrow>
          (let found = start + relative in
           replace_loop input lower needle replacement
             (out @ take relative (drop start input) @ replacement)
             (found + length needle))
      | None \<Rightarrow> Some (out @ drop start input))"

text \<open>
  The same function as a terminating recursion on the rest of the input. The guard on
  the empty needle stands for the loop that does not return; no caller passes one.
\<close>

function replace_ascii_case_insensitive :: "string \<Rightarrow> string \<Rightarrow> string \<Rightarrow> string" where
  "replace_ascii_case_insensitive input needle replacement =
     (if needle = [] then input
      else case find_sub (to_ascii_lowercase needle) (to_ascii_lowercase input) of
        None \<Rightarrow> input
      | Some k \<Rightarrow> take k input @ replacement @
          replace_ascii_case_insensitive (drop (k + length needle) input) needle replacement)"
  by pat_completeness auto
termination
proof (relation "measure (\<lambda>(input, needle, replacement). length input)")
  show "wf (measure (\<lambda>(input :: string, needle :: string, replacement :: string). length input))"
    by simp
next
  fix input needle replacement :: string and k
  assume "needle \<noteq> []"
    and "find_sub (to_ascii_lowercase needle) (to_ascii_lowercase input) = Some k"
  then have "length needle > 0" "k + length needle \<le> length input"
    using find_sub_Some_le by fastforce+
  then have "length input - (k + length needle) < length input" by linarith
  then show "((drop (k + length needle) input, needle, replacement), input, needle, replacement)
      \<in> measure (\<lambda>(input, needle, replacement). length input)"
    by simp
qed

declare replace_ascii_case_insensitive.simps [simp del]

lemma replace_loop_returns:
  assumes "needle \<noteq> []"
  shows "replace_loop input (to_ascii_lowercase input) (to_ascii_lowercase needle) replacement
           out start
         = Some (out @ replace_ascii_case_insensitive (drop start input) needle replacement)"
  using assms
proof (induction "drop start input" needle replacement arbitrary: out start
    rule: replace_ascii_case_insensitive.induct)
  case (1 needle replacement)
  show ?case
  proof (cases "find_sub (to_ascii_lowercase needle) (to_ascii_lowercase (drop start input))")
    case None
    then show ?thesis
      by (subst replace_loop.simps, subst replace_ascii_case_insensitive.simps)
        (simp add: to_ascii_lowercase_drop)
  next
    case (Some k)
    have eq: "drop (k + length needle) (drop start input) = drop (start + k + length needle) input"
      by (simp add: ac_simps)
    have "replace_loop input (to_ascii_lowercase input) (to_ascii_lowercase needle) replacement
            (out @ take k (drop start input) @ replacement) (start + k + length needle)
          = Some ((out @ take k (drop start input) @ replacement) @
              replace_ascii_case_insensitive (drop (start + k + length needle) input)
                needle replacement)"
      by (rule "1.hyps" [OF "1.prems" Some eq "1.prems"])
    then show ?thesis
      using Some "1.prems"
      by (subst replace_loop.simps, subst replace_ascii_case_insensitive.simps)
        (simp add: to_ascii_lowercase_drop eq add.assoc del: drop_drop)
  qed
qed

section \<open>Escaping, wrapping, judging\<close>

text \<open>The replacements of \<^verbatim>\<open>escape_injection_markers\<close>, in the order the code applies them.\<close>

definition escape_table :: "(string \<times> string) list" where
  "escape_table =
     [(''</email:message>'', ''&lt;/email:message&gt;''),
      (''</email:message'', ''&lt;/email:message''),
      (''<email:message'', ''&lt;email:message'')]
     @ map (\<lambda>tok. (tok, replace_char (CHR ''>'') ''&gt;'' (replace_char (CHR ''<'') ''&lt;'' tok)))
         ANGLE_ROLE_TOKENS
     @ map (\<lambda>tok. (tok, replace_char (CHR '']'') ''&#93;'' (replace_char (CHR ''['') ''&#91;'' tok)))
         BRACKET_ROLE_TOKENS"

definition escape_injection_markers :: "string \<Rightarrow> string" where
  "escape_injection_markers body =
     foldl (\<lambda>s (tok, escaped). replace_ascii_case_insensitive s tok escaped) body escape_table"

definition sanitize_external_text :: "string \<Rightarrow> string" where
  "sanitize_external_text text = escape_injection_markers text"

definition attr_escape_char :: "char \<Rightarrow> string" where
  "attr_escape_char ch =
     (if ch = CHR ''&'' then ''&amp;''
      else if ch = CHR 0x22 then ''&quot;''
      else if ch = CHR 0x27 then ''&#39;''
      else if ch = CHR ''<'' then ''&lt;''
      else if ch = CHR ''>'' then ''&gt;''
      else [ch])"

definition attr_escape :: "string \<Rightarrow> string" where
  "attr_escape s = concat (map attr_escape_char s)"

definition opt_str :: "string option \<Rightarrow> string" where
  "opt_str o' = (case o' of None \<Rightarrow> [] | Some s \<Rightarrow> s)"

definition dq :: string where
  "dq = [CHR 0x22]"

definition wrap_head :: "string option \<Rightarrow> string option \<Rightarrow> string option \<Rightarrow> string" where
  "wrap_head room_id sender event_id =
     ''<email:message mailbox='' @ dq @ attr_escape (opt_str room_id) @ dq
     @ '' from='' @ dq @ attr_escape (opt_str sender) @ dq
     @ '' id='' @ dq @ attr_escape (opt_str event_id) @ dq
     @ '' trust='' @ dq @ ''external'' @ dq @ ''>'' @ [CHR 0x0A]"

definition wrap_body :: "string option \<Rightarrow> string option \<Rightarrow> string option \<Rightarrow> string \<Rightarrow> string" where
  "wrap_body room_id sender event_id body =
     (let escaped = escape_injection_markers body in
      wrap_head room_id sender event_id @ escaped @ [CHR 0x0A] @ ''</email:message>'')"

definition is_suspicious :: "string \<Rightarrow> bool" where
  "is_suspicious body =
     (let lower = to_ascii_lowercase body in
      if \<exists>p \<in> set INSTRUCTION_OVERRIDE_PHRASES. contains lower p then True
      else if \<exists>t \<in> set SUSPICIOUS_ROLE_MARKERS. contains lower t then True
      else if contains lower ''</email:message'' \<or> contains lower ''<email:message '' then True
      else False)"

definition external_text_is_suspicious :: "string \<Rightarrow> bool" where
  "external_text_is_suspicious text = is_suspicious text"

definition evaluate ::
  "string option \<Rightarrow> string option \<Rightarrow> string option \<Rightarrow> string \<Rightarrow> verdict" where
  "evaluate room_id sender event_id body =
     (let suspicious = is_suspicious body;
          wrapped = wrap_body room_id sender event_id body
      in \<lparr>wrapped = wrapped, suspicious = suspicious\<rparr>)"

section \<open>Markers and replacements\<close>

text \<open>\<open>has_marker s w\<close>: the text \<open>s\<close> contains \<open>w\<close>, ignoring ASCII case.\<close>

definition has_marker :: "string \<Rightarrow> string \<Rightarrow> bool" where
  "has_marker s w = contains (to_ascii_lowercase s) (to_ascii_lowercase w)"

text \<open>
  A replacement text is inert for a marker when it neither contains the marker's first
  character nor starts with one of its characters: no occurrence of the marker can
  then touch the replacement.
\<close>

definition inert :: "string \<Rightarrow> string \<Rightarrow> bool" where
  "inert r w \<longleftrightarrow> w \<noteq> [] \<and> r \<noteq> []
     \<and> hd (to_ascii_lowercase w) \<notin> set (to_ascii_lowercase r)
     \<and> hd (to_ascii_lowercase r) \<notin> set (to_ascii_lowercase w)"

lemma has_marker_mono: "sublist g s \<Longrightarrow> has_marker g w \<Longrightarrow> has_marker s w"
  unfolding has_marker_def to_ascii_lowercase_def
  by (meson map_mono_sublist sublist_order.order.trans)

lemma replace_occurrence:
  assumes "inert r w" "n \<noteq> []" "has_marker (replace_ascii_case_insensitive s n r) w"
  shows "\<exists>g. sublist g s \<and> has_marker g w \<and> \<not> has_marker g n"
  using assms
proof (induction s n r rule: replace_ascii_case_insensitive.induct)
  case (1 s n r)
  show ?case
  proof (cases "find_sub (to_ascii_lowercase n) (to_ascii_lowercase s)")
    case None
    with "1.prems" have "has_marker s w"
      by (subst (asm) replace_ascii_case_insensitive.simps) simp
    moreover have "\<not> has_marker s n"
      using None by (simp add: has_marker_def find_sub_None)
    ultimately show ?thesis by blast
  next
    case (Some k)
    let ?rest = "drop (k + length n) s"
    let ?out = "replace_ascii_case_insensitive ?rest n r"
    have "replace_ascii_case_insensitive s n r = take k s @ r @ ?out"
      using Some "1.prems"(2) by (subst replace_ascii_case_insensitive.simps) simp
    then have "contains (to_ascii_lowercase (take k s) @ to_ascii_lowercase r
        @ to_ascii_lowercase ?out) (to_ascii_lowercase w)"
      using "1.prems"(3) by (simp add: has_marker_def)
    then have "has_marker (take k s) w \<or> has_marker ?out w"
      using "1.prems"(1) unfolding has_marker_def inert_def
      by (intro sublist_glue) auto
    then show ?thesis
    proof
      assume "has_marker (take k s) w"
      moreover have "\<not> has_marker (take k s) n"
        using find_sub_Some_first [OF Some] "1.prems"(2)
        by (simp add: has_marker_def to_ascii_lowercase_take)
      moreover have "sublist (take k s) s" by (simp add: prefix_imp_sublist take_is_prefix)
      ultimately show ?thesis by blast
    next
      assume "has_marker ?out w"
      then obtain g where "sublist g ?rest" "has_marker g w" "\<not> has_marker g n"
        using "1.IH" [OF "1.prems"(2) Some "1.prems"(1,2)] by blast
      moreover have "sublist ?rest s" by (simp add: suffix_imp_sublist suffix_drop)
      ultimately show ?thesis by (meson sublist_order.order.trans)
    qed
  qed
qed

lemma replace_keeps_absence:
  "inert r w \<Longrightarrow> n \<noteq> [] \<Longrightarrow> \<not> has_marker s w \<Longrightarrow>
   \<not> has_marker (replace_ascii_case_insensitive s n r) w"
  using replace_occurrence has_marker_mono by blast

lemma replace_removes:
  "inert r n \<Longrightarrow> \<not> has_marker (replace_ascii_case_insensitive s n r) n"
  using replace_occurrence by (metis inert_def)

lemma replace_identity:
  "\<not> has_marker s n \<Longrightarrow> replace_ascii_case_insensitive s n r = s"
  by (subst replace_ascii_case_insensitive.simps)
    (auto simp: has_marker_def simp flip: find_sub_None)

text \<open>A pass over a table whose replacements are inert for a marker of the table removes it.\<close>

definition replace_all :: "(string \<times> string) list \<Rightarrow> string \<Rightarrow> string" where
  "replace_all tbl s = foldl (\<lambda>s (tok, escaped). replace_ascii_case_insensitive s tok escaped) s tbl"

definition inert_for :: "(string \<times> string) list \<Rightarrow> string \<Rightarrow> bool" where
  "inert_for tbl w \<longleftrightarrow> (\<forall>e \<in> set tbl. fst e \<noteq> [] \<and> inert (snd e) w)"

lemma replace_all_Cons:
  "replace_all (e # tbl) s = replace_all tbl (replace_ascii_case_insensitive s (fst e) (snd e))"
  by (simp add: replace_all_def split_beta)

lemma replace_all_append: "replace_all (t1 @ t2) s = replace_all t2 (replace_all t1 s)"
  by (simp add: replace_all_def)

lemma replace_all_keeps_absence:
  assumes "inert_for tbl w" "\<not> has_marker s w"
  shows "\<not> has_marker (replace_all tbl s) w"
  using assms
proof (induction tbl arbitrary: s)
  case Nil
  then show ?case by (simp add: replace_all_def)
next
  case (Cons e tbl)
  have "\<not> has_marker (replace_ascii_case_insensitive s (fst e) (snd e)) w"
    using Cons.prems by (intro replace_keeps_absence) (simp_all add: inert_for_def)
  moreover have "inert_for tbl w" using Cons.prems(1) by (simp add: inert_for_def)
  ultimately show ?case unfolding replace_all_Cons by (intro Cons.IH)
qed

lemma replace_all_removes:
  assumes "inert_for tbl w" "w \<in> fst ` set tbl"
  shows "\<not> has_marker (replace_all tbl s) w"
proof -
  from assms(2) obtain e where e: "e \<in> set tbl" "w = fst e" by blast
  then obtain t1 t2 where t: "tbl = t1 @ e # t2" by (meson split_list)
  have "inert (snd e) w" "inert_for t2 w"
    using assms(1) by (simp_all add: t inert_for_def)
  then show ?thesis
    by (simp add: t e(2) replace_all_append replace_all_Cons replace_all_keeps_absence
        replace_removes)
qed

lemma replace_all_identity:
  "\<forall>w \<in> fst ` set tbl. \<not> has_marker s w \<Longrightarrow> replace_all tbl s = s"
proof (induction tbl)
  case (Cons e tbl)
  then show ?case by (simp add: replace_all_Cons replace_identity)
qed (simp add: replace_all_def)

lemma inertI:
  assumes "w \<noteq> []" "r \<noteq> []" "caseless (hd w)" "caseless (hd r)"
    and "hd w \<notin> set r" "hd r \<notin> set w"
  shows "inert r w"
  using assms by (simp add: inert_def hd_to_ascii_lowercase mem_to_ascii_lowercase)

section \<open>The escape table\<close>

lemma escape_table_eval:
  "escape_table =
     [(''</email:message>'', ''&lt;/email:message&gt;''),
      (''</email:message'', ''&lt;/email:message''),
      (''<email:message'', ''&lt;email:message''),
      (''<system>'', ''&lt;system&gt;''), (''</system>'', ''&lt;/system&gt;''),
      (''<assistant>'', ''&lt;assistant&gt;''), (''</assistant>'', ''&lt;/assistant&gt;''),
      (''<user>'', ''&lt;user&gt;''), (''</user>'', ''&lt;/user&gt;''),
      (''<|im_start|>'', ''&lt;|im_start|&gt;''), (''<|im_end|>'', ''&lt;|im_end|&gt;''),
      (''[INST]'', ''&#91;INST&#93;''), (''[/INST]'', ''&#91;/INST&#93;'')]"
  by (simp add: escape_table_def ANGLE_ROLE_TOKENS_def BRACKET_ROLE_TOKENS_def replace_char_def)

definition escape_markers :: "string list" where
  "escape_markers = map fst escape_table"

lemma marker_form:
  "w \<in> set escape_markers \<Longrightarrow>
     w \<noteq> [] \<and> hd w \<in> {CHR ''<'', CHR ''[''} \<and> CHR ''&'' \<notin> set w"
  by (auto simp: escape_markers_def escape_table_eval)

lemma entity_form:
  "(n, r) \<in> set escape_table \<Longrightarrow>
     r \<noteq> [] \<and> hd r = CHR ''&'' \<and> CHR ''<'' \<notin> set r \<and> CHR ''['' \<notin> set r"
  by (auto simp: escape_table_eval)

lemma escape_table_inert:
  assumes "w \<in> set escape_markers" "(n, r) \<in> set escape_table"
  shows "inert r w"
  using marker_form [OF assms(1)] entity_form [OF assms(2)]
  by (intro inertI) (auto simp: caseless_def)

lemma escape_as_replace_all: "escape_injection_markers s = replace_all escape_table s"
  by (simp add: escape_injection_markers_def replace_all_def)

lemma escape_removes_marker:
  assumes "w \<in> set escape_markers"
  shows "\<not> has_marker (escape_injection_markers s) w"
proof -
  have "inert_for escape_table w"
    using assms escape_table_inert marker_form
    by (force simp: inert_for_def escape_markers_def)
  moreover have "w \<in> fst ` set escape_table" using assms by (simp add: escape_markers_def)
  ultimately show ?thesis unfolding escape_as_replace_all by (rule replace_all_removes)
qed

lemma escape_identity:
  "\<forall>w \<in> set escape_markers. \<not> has_marker s w \<Longrightarrow> escape_injection_markers s = s"
  by (simp add: escape_as_replace_all escape_markers_def replace_all_identity)

section \<open>Properties\<close>

lemma attr_escape_Cons: "attr_escape (c # s) = attr_escape_char c @ attr_escape s"
  by (simp add: attr_escape_def)

lemma attr_escape_char_clean: "CHR ''<'' \<notin> set (attr_escape_char c)"
  by (simp add: attr_escape_char_def)

lemma attr_escape_clean: "CHR ''<'' \<notin> set (attr_escape s)"
  by (induction s) (auto simp: attr_escape_def attr_escape_char_clean)

text \<open>The inverse of the attribute escaping, to state that it loses nothing.\<close>

fun attr_unescape :: "string \<Rightarrow> string" where
  "attr_unescape [] = []"
| "attr_unescape (c # s) =
     (if c = CHR ''&'' then
        (if prefix ''amp;'' s then CHR ''&'' # attr_unescape (drop 4 s)
         else if prefix ''quot;'' s then CHR 0x22 # attr_unescape (drop 5 s)
         else if prefix ''#39;'' s then CHR 0x27 # attr_unescape (drop 4 s)
         else if prefix ''lt;'' s then CHR ''<'' # attr_unescape (drop 3 s)
         else if prefix ''gt;'' s then CHR ''>'' # attr_unescape (drop 3 s)
         else c # attr_unescape s)
      else c # attr_unescape s)"

text \<open>
  Escaping an envelope attribute loses nothing: the entities that \<^verbatim>\<open>attr_escape\<close> writes
  can be decoded to the original value.
\<close>

theorem attr_escape_roundtrip: "attr_unescape (attr_escape s) = s"
  by (induction s) (auto simp: attr_escape_def attr_escape_char_def)

text \<open>An escaped attribute cannot end its quotes or open a tag.\<close>

lemma attr_escape_no_breakout:
  "list_all (\<lambda>c. c \<notin> set (attr_escape s)) [CHR 0x22, CHR 0x27, CHR ''<'', CHR ''>'']"
  by (induction s) (auto simp: attr_escape_def attr_escape_char_def)

text \<open>
  After \<^verbatim>\<open>sanitize_external_text\<close> no wrapper tag, angle role token or bracket role token
  of the tables occurs in the text in any letter case, whatever the sender wrote and
  although the replacements run one after the other on each other's output.
\<close>

theorem sanitize_removes_every_marker:
  "list_all (\<lambda>w. \<not> has_marker (sanitize_external_text s) w) (map fst escape_table)"
  by (simp add: list_all_iff sanitize_external_text_def escape_removes_marker
      escape_markers_def [symmetric] del: set_map)

lemma sanitize_idempotent:
  "sanitize_external_text (sanitize_external_text s) = sanitize_external_text s"
  unfolding sanitize_external_text_def
  by (rule escape_identity) (simp add: escape_removes_marker)

lemma sanitize_keeps_unmarked:
  "list_all (\<lambda>w. \<not> has_marker s w) (map fst escape_table) \<Longrightarrow> sanitize_external_text s = s"
  unfolding sanitize_external_text_def
  by (rule escape_identity) (simp add: list_all_iff escape_markers_def)

text \<open>The text before the wrapper's own closing tag holds no closing-tag prefix.\<close>

lemma wrap_head_split:
  "\<exists>h. to_ascii_lowercase (wrap_head r s e) = ''<e'' @ h @ [CHR 0x0A] \<and> CHR ''<'' \<notin> set h"
proof -
  let ?t = "''mail:message mailbox='' @ dq @ attr_escape (opt_str r) @ dq
     @ '' from='' @ dq @ attr_escape (opt_str s) @ dq
     @ '' id='' @ dq @ attr_escape (opt_str e) @ dq
     @ '' trust='' @ dq @ ''external'' @ dq @ ''>''"
  have "wrap_head r s e = ''<e'' @ ?t @ [CHR 0x0A]" by (simp add: wrap_head_def)
  then have "to_ascii_lowercase (wrap_head r s e)
      = to_ascii_lowercase ''<e'' @ to_ascii_lowercase ?t @ to_ascii_lowercase [CHR 0x0A]"
    by (simp only: to_ascii_lowercase_append)
  moreover have "to_ascii_lowercase ''<e'' = ''<e''" "to_ascii_lowercase [CHR 0x0A] = [CHR 0x0A]"
    by code_simp+
  moreover have "CHR ''<'' \<notin> set ?t" by (simp add: dq_def attr_escape_clean)
  then have "CHR ''<'' \<notin> set (to_ascii_lowercase ?t)"
    by (simp add: mem_to_ascii_lowercase caseless_def)
  ultimately show ?thesis by metis
qed

abbreviation closer :: string where
  "closer \<equiv> ''</email:message''"

lemma closer_not_in_open_text:
  assumes "CHR ''<'' \<notin> set h"
  shows "\<not> sublist closer (''<e'' @ h)"
proof
  assume "sublist closer (''<e'' @ h)"
  then consider "prefix closer (''<e'' @ h)" | "sublist closer (CHR ''e'' # h)"
    by (auto simp: sublist_Cons_right)
  then show False
  proof cases
    case 2
    then have "set closer \<subseteq> set (CHR ''e'' # h)" by (rule set_mono_sublist)
    with assms show False by simp
  qed simp
qed

lemma closer_not_before_end:
  assumes "\<not> sublist closer e" "CHR ''<'' \<notin> set h"
  shows "\<not> sublist closer ((''<e'' @ h @ [CHR 0x0A]) @ e @ [CHR 0x0A])"
proof
  assume "sublist closer ((''<e'' @ h @ [CHR 0x0A]) @ e @ [CHR 0x0A])"
  then have "sublist closer ((''<e'' @ h) @ [CHR 0x0A] @ (e @ [CHR 0x0A] @ []))" by simp
  then have "sublist closer (''<e'' @ h) \<or> sublist closer (e @ [CHR 0x0A] @ [])"
    by (rule sublist_glue [rotated 4]) simp_all
  with closer_not_in_open_text [OF assms(2)] have "sublist closer (e @ [CHR 0x0A] @ [])" by blast
  then have "sublist closer e \<or> sublist closer []"
    by (rule sublist_glue [rotated 4]) simp_all
  with assms(1) show False by simp
qed

text \<open>
  A word whose first character does not recur occurs in \<open>x @ word @ t\<close> only where it is
  written, when it is not in \<open>x\<close> and \<open>t\<close> lacks its first character.
\<close>

lemma last_occurrence:
  assumes d: "d \<notin> set ws" "d \<notin> set t" and no: "\<not> sublist (d # ws) x"
    and eq: "x @ (d # ws) @ t = a @ (d # ws) @ c"
  shows "c = t"
proof -
  from append_eq_append_conv2 [THEN iffD1, OF eq] consider us where "x = a @ us" "us @ (d # ws) @ t = (d # ws) @ c"
    | us where "(d # ws) @ t = us @ (d # ws) @ c"
    by blast
  then show ?thesis
  proof cases
    case 1
    show ?thesis
    proof (cases us)
      case Nil
      with 1(2) show ?thesis by simp
    next
      case (Cons u us')
      with 1(2) have u: "u = d" and e: "us' @ (d # ws @ t) = ws @ c" by simp_all
      from append_eq_append_conv2 [THEN iffD1, OF e] consider vs where "us' = ws @ vs" | vs where "ws = us' @ vs" "vs @ c = d # ws @ t"
        by metis
      then have "prefix ws us'"
      proof cases
        case (2 vs)
        with d(1) have "vs = []" by (cases vs) auto
        with 2 show ?thesis by simp
      qed simp
      then have "sublist (d # ws) us" using Cons u by (simp add: prefix_imp_sublist)
      then have "sublist (d # ws) x" using 1(1) by (simp add: sublist_append)
      with no show ?thesis by simp
    qed
  next
    case 2
    show ?thesis
    proof (cases us)
      case Nil
      with 2 show ?thesis by simp
    next
      case (Cons u us')
      with 2 have "ws @ t = us' @ (d # ws) @ c" by simp
      then have "d \<in> set (ws @ t)" by (metis in_set_conv_decomp append_Cons)
      with d show ?thesis by simp
    qed
  qed
qed

text \<open>
  C18. Breakout freedom: in the wrapped form of any body, with any envelope attributes, the only
  occurrence of \<^verbatim>\<open></email:message\<close>, in any letter case, is the wrapper's own closing tag at
  the very end. Whatever follows an occurrence is the single final \<^verbatim>\<open>>\<close>.
\<close>

theorem wrapped_body_closes_once:
  assumes "wrapped (evaluate r s e body) = a @ w @ c" "to_ascii_lowercase w = closer"
  shows "c = ''>''"
proof -
  let ?l = to_ascii_lowercase
  obtain h where h: "?l (wrap_head r s e) = ''<e'' @ h @ [CHR 0x0A]" "CHR ''<'' \<notin> set h"
    using wrap_head_split by blast
  let ?x = "(''<e'' @ h @ [CHR 0x0A]) @ ?l (escape_injection_markers body) @ [CHR 0x0A]"
  have "\<not> has_marker (escape_injection_markers body) closer"
    by (rule escape_removes_marker) (simp add: escape_markers_def escape_table_eval)
  moreover have l: "?l closer = closer" "?l [CHR 0x0A] = [CHR 0x0A]"
      "?l ''</email:message>'' = ''</email:message>''" by code_simp+
  ultimately have no: "\<not> sublist closer ?x"
    using closer_not_before_end h(2) by (simp only: has_marker_def l)
  have "?l (wrapped (evaluate r s e body)) = ?x @ ''</email:message>''"
    by (simp only: evaluate_def Let_def wrap_body_def verdict.simps to_ascii_lowercase_append
        h(1) l append_assoc)
  then have "?x @ ''</email:message>'' = ?l a @ closer @ ?l c"
    using assms by (simp only: to_ascii_lowercase_append)
  then have "?l c = ''>''"
    using last_occurrence [of "CHR ''<''" "tl closer" "''>''" ?x "?l a" "?l c"] no by simp
  then show ?thesis
    by (cases c) (auto simp: to_ascii_lowercase_def lower_char_eq_caseless caseless_def)
qed


theorem wrapped_body_closes_once_witness:
  "\<exists>a w. wrapped (evaluate None None None ''x</EMAIL:message>y'') = a @ w @ ''>''
     \<and> to_ascii_lowercase w = closer"
proof -
  let ?v = "wrapped (evaluate None None None ''x</EMAIL:message>y'')"
  have split: "?v = take (length ?v - 16) ?v @ closer @ ''>''" by code_simp
  moreover have "to_ascii_lowercase closer = closer" by code_simp
  moreover note wrapped_body_closes_once [OF split]
  ultimately show ?thesis by blast
qed

lemma suspicious_iff:
  "is_suspicious s \<longleftrightarrow>
     (\<exists>m \<in> set (INSTRUCTION_OVERRIDE_PHRASES @ SUSPICIOUS_ROLE_MARKERS
        @ [''</email:message'', ''<email:message '']). has_marker s m)"
proof -
  have "list_all (\<lambda>m. to_ascii_lowercase m = m)
      (INSTRUCTION_OVERRIDE_PHRASES @ SUSPICIOUS_ROLE_MARKERS
        @ [''</email:message'', ''<email:message ''])"
    by code_simp
  then show ?thesis
    by (auto simp: is_suspicious_def Let_def has_marker_def list_all_iff)
qed

text \<open>
  The escape tables and the suspicion tables agree except for three markers: a text that
  sanitizing rewrites but that is not flagged as suspicious contains \<^verbatim>\<open><user>\<close>, \<^verbatim>\<open></user>\<close>
  or an opening \<^verbatim>\<open><email:message\<close>.
\<close>

theorem unflagged_rewrite:
  assumes "sanitize_external_text s \<noteq> s" "\<not> is_suspicious s"
  shows "has_marker s ''<user>'' \<or> has_marker s ''</user>'' \<or> has_marker s ''<email:message''"
proof -
  from assms(1) obtain w where w: "w \<in> set escape_markers" "has_marker s w"
    unfolding sanitize_external_text_def using escape_identity by blast
  have "sublist closer ''</email:message>''" by code_simp
  then have "has_marker s ''</email:message>'' \<Longrightarrow> has_marker s closer"
    unfolding has_marker_def to_ascii_lowercase_def
    by (meson map_mono_sublist sublist_order.order.trans)
  moreover have "to_ascii_lowercase ''[INST]'' = to_ascii_lowercase ''[inst]''"
    "to_ascii_lowercase ''[/INST]'' = to_ascii_lowercase ''[/inst]''"
    by code_simp+
  then have "has_marker s ''[INST]'' \<Longrightarrow> has_marker s ''[inst]''"
    "has_marker s ''[/INST]'' \<Longrightarrow> has_marker s ''[/inst]''"
    by (simp_all only: has_marker_def)
  ultimately show ?thesis
    using w assms(2)
    by (auto simp: escape_markers_def escape_table_eval suspicious_iff SUSPICIOUS_ROLE_MARKERS_def)
qed

theorem unflagged_rewrite_witness:
  "has_marker ''a<User>b'' ''<user>'' \<or> has_marker ''a<User>b'' ''</user>''
   \<or> has_marker ''a<User>b'' ''<email:message''"
proof -
  have "sanitize_external_text ''a<User>b'' \<noteq> ''a<User>b''" "\<not> is_suspicious ''a<User>b''"
    by code_simp+
  then show ?thesis by (rule unflagged_rewrite)
qed

text \<open>
  The escapes are not lossless, although the comments of the module say so: the body pass
  leaves \<^verbatim>\<open>&\<close> alone and rewrites a marker in lower case, so different texts have the same
  escaped form and cannot be told apart afterwards.
\<close>

theorem sanitize_not_lossless:
  "sanitize_external_text ''<system>'' = sanitize_external_text ''&lt;system&gt;''
   \<and> sanitize_external_text ''<SYSTEM>'' = sanitize_external_text ''<system>''"
  by code_simp

end
