(* ===== verification/Url_Safety.thy ===== *)
theory Url_Safety
  imports Url
begin

text \<open>
  \<^verbatim>\<open>src/url_safety.rs\<close>: the guard against server-side request forgery. The address test is
  shown equal to membership in a list of networks, and the URL check to accept only
  addresses that pass it, pinned for the fetch.
\<close>

unbundle bit_operations_syntax

section \<open>Definitions\<close>

fun v4_is_private_or_local :: "ipv4 \<Rightarrow> bool" where
  "v4_is_private_or_local (Ipv4 a b c d) =
     (let v4 = Ipv4 a b c d in
      v4_is_loopback v4 \<or> v4_is_private v4 \<or> v4_is_link_local v4 \<or> v4_is_broadcast v4
      \<or> v4_is_documentation v4 \<or> v4_is_unspecified v4 \<or> v4_is_multicast v4
      \<or> (a = 100 \<and> b AND 0xc0 = 0x40)
      \<or> a = 0
      \<or> (a = 198 \<and> b AND 0xfe = 18)
      \<or> 240 \<le> a
      \<or> (a = 192 \<and> b = 88 \<and> c = 99))"

text \<open>The IPv6 arm recurses once, into the IPv4 arm, for an IPv4-mapped address.\<close>

fun v6_is_private_or_local :: "ipv6 \<Rightarrow> bool" where
  "v6_is_private_or_local (Ipv6 s0 s1 s2 s3 s4 s5 s6 s7) =
     (let v6 = Ipv6 s0 s1 s2 s3 s4 s5 s6 s7 in
      v6_is_loopback v6 \<or> v6_is_unspecified v6 \<or> v6_is_multicast v6
      \<or> (s0 AND 0xfe00 = 0xfc00 \<or> s0 AND 0xffc0 = 0xfe80 \<or> (s0 = 0x2001 \<and> s1 = 0x0db8))
      \<or> (case to_ipv4_mapped v6 of None \<Rightarrow> False | Some v4 \<Rightarrow> v4_is_private_or_local v4))"

fun is_private_or_local_ip :: "ip_addr \<Rightarrow> bool" where
  "is_private_or_local_ip (V4 v4) = v4_is_private_or_local v4"
| "is_private_or_local_ip (V6 v6) = v6_is_private_or_local v6"

record validated_https_url =
  v_url :: url
  v_host :: string
  v_addrs :: "socket_addr list"
  v_is_domain :: bool

text \<open>
  \<open>lookup_host\<close> is the resolver (\<^verbatim>\<open>tokio::net::lookup_host\<close>): an error text, or the
  addresses of one resolution. \<open>show_ip\<close> is the \<^verbatim>\<open>Display\<close> of an address.
\<close>

fun check_addrs :: "(ip_addr \<Rightarrow> string) \<Rightarrow> string \<Rightarrow> socket_addr list \<Rightarrow> string + unit" where
  "check_addrs show_ip host [] = Inr ()"
| "check_addrs show_ip host (sa # addrs) =
     (if is_private_or_local_ip (fst sa)
      then Inl (''refusing to fetch from '' @ host @ '' (resolves to non-public IP ''
                @ show_ip (fst sa) @ '')'')
      else check_addrs show_ip host addrs)"

definition resolve_public_host ::
  "(string \<Rightarrow> nat \<Rightarrow> string + socket_addr list) \<Rightarrow> (ip_addr \<Rightarrow> string) \<Rightarrow> string \<Rightarrow> nat
   \<Rightarrow> string + socket_addr list" where
  "resolve_public_host lookup_host show_ip host port =
     (let target = host @ '':'' @ show_nat port in
      case lookup_host host port of
        Inl e \<Rightarrow> Inl (''DNS lookup for '' @ target @ '' failed: '' @ e)
      | Inr addrs \<Rightarrow>
          (if addrs = [] then Inl (''DNS lookup for '' @ target @ '' returned no addresses'')
           else (case check_addrs show_ip host addrs of
                   Inl e \<Rightarrow> Inl e
                 | Inr _ \<Rightarrow> Inr addrs)))"

definition validate_https_url ::
  "url_parser \<Rightarrow> (string \<Rightarrow> nat \<Rightarrow> string + socket_addr list) \<Rightarrow> (ip_addr \<Rightarrow> string) \<Rightarrow> string
   \<Rightarrow> string + validated_https_url" where
  "validate_https_url parse_url lookup_host show_ip url =
     (if \<not> starts_with url ''https://'' then
        Inl ''url must be HTTPS (http:// is rejected to prevent credential exposure over cleartext)''
      else case parse_url url of
        Inl e \<Rightarrow> Inl (''failed to parse URL '' @ url @ '': '' @ e)
      | Inr parsed \<Rightarrow>
          (case u_host parsed of
             None \<Rightarrow> Inl (''URL '' @ url @ '' has no host'')
           | Some host \<Rightarrow>
               (let port = (case u_port parsed of None \<Rightarrow> 443 | Some p \<Rightarrow> p) in
                case resolve_public_host lookup_host show_ip host port of
                  Inl e \<Rightarrow> Inl e
                | Inr addrs \<Rightarrow>
                    Inr \<lparr>v_url = parsed, v_host = host, v_addrs = addrs,
                         v_is_domain = u_is_domain parsed\<rparr>)))"

section \<open>The networks that are refused\<close>

definition v4_value :: "ipv4 \<Rightarrow> nat" where
  "v4_value ip = (case ip of Ipv4 a b c d \<Rightarrow>
     unat a * 2 ^ 24 + unat b * 2 ^ 16 + unat c * 2 ^ 8 + unat d)"

definition in_net :: "nat \<Rightarrow> (nat \<times> nat \<times> nat \<times> nat) \<times> nat \<Rightarrow> bool" where
  "in_net v net = (case net of ((a, b, c, d), len) \<Rightarrow>
     v div 2 ^ (32 - len) = (a * 2 ^ 24 + b * 2 ^ 16 + c * 2 ^ 8 + d) div 2 ^ (32 - len))"

definition refused_v4_nets :: "((nat \<times> nat \<times> nat \<times> nat) \<times> nat) list" where
  "refused_v4_nets =
     [((0, 0, 0, 0), 8), ((10, 0, 0, 0), 8), ((100, 64, 0, 0), 10), ((127, 0, 0, 0), 8),
      ((169, 254, 0, 0), 16), ((172, 16, 0, 0), 12), ((192, 0, 2, 0), 24), ((192, 88, 99, 0), 24),
      ((192, 168, 0, 0), 16), ((198, 18, 0, 0), 15), ((198, 51, 100, 0), 24),
      ((203, 0, 113, 0), 24), ((224, 0, 0, 0), 4), ((240, 0, 0, 0), 4)]"

section \<open>Bit masks as divisions\<close>

lemma less_8: "(\<forall>n<8. P n) \<longleftrightarrow> P 0 \<and> P (1::nat) \<and> P 2 \<and> P 3 \<and> P 4 \<and> P 5 \<and> P 6 \<and> P 7"
proof -
  have "(\<forall>n<8. P n) \<longleftrightarrow> (\<forall>n \<in> set [0..<8]. P n)" by auto
  also have "[0..<8] = [0, 1, 2, 3, 4, 5, 6, 7 :: nat]" by (simp add: upt_conv_Cons)
  finally show ?thesis by simp
qed

lemma u8_eq_iff: "a = b \<longleftrightarrow> (\<forall>n<8. bit a n = bit b n)" for a b :: u8
  by (auto intro: bit_word_eqI)

lemma u8_beyond: "8 \<le> n \<Longrightarrow> \<not> bit b n" for b :: u8
  by (auto dest: bit_imp_le_length)

lemma octets: "unat a < 256" for a :: u8
  using unsigned_less [of a] by simp

lemma mask_benchmark: "b AND 0xfe = 18 \<longleftrightarrow> unat b div 2 = 9" for b :: u8
proof -
  have "b AND 0xfe = 18 \<longleftrightarrow> drop_bit 1 b = 9"
    unfolding u8_eq_iff less_8
    by (simp add: bit_and_iff bit_drop_bit_eq u8_beyond)
      (simp add: numeral_2_eq_2 numeral_3_eq_3)
  also have "\<dots> \<longleftrightarrow> unat b div 2 = 9"
    by (simp add: word_unat_eq_iff unat_drop_bit_eq drop_bit_eq_div unat_div_distrib)
  finally show ?thesis .
qed

lemma mask_shared: "b AND 0xc0 = 0x40 \<longleftrightarrow> unat b div 64 = 1" for b :: u8
proof -
  have "b AND 0xc0 = 0x40 \<longleftrightarrow> drop_bit 6 b = 1"
    unfolding u8_eq_iff less_8 by (simp add: bit_and_iff bit_drop_bit_eq u8_beyond)
  also have "\<dots> \<longleftrightarrow> unat b div 64 = 1"
    by (simp add: word_unat_eq_iff unat_drop_bit_eq drop_bit_eq_div unat_div_distrib)
  finally show ?thesis .
qed

lemma v4_value_div:
  "v4_value (Ipv4 a b c d) div 2 ^ 24 = unat a"
  "v4_value (Ipv4 a b c d) div 2 ^ 16 = unat a * 256 + unat b"
  "v4_value (Ipv4 a b c d) div 2 ^ 8 = (unat a * 256 + unat b) * 256 + unat c"
  "v4_value (Ipv4 a b c d) div 2 ^ 22 = unat a * 4 + unat b div 64"
  "v4_value (Ipv4 a b c d) div 2 ^ 20 = unat a * 16 + unat b div 16"
  "v4_value (Ipv4 a b c d) div 2 ^ 17 = unat a * 128 + unat b div 2"
  "v4_value (Ipv4 a b c d) div 2 ^ 28 = unat a div 16"
  using octets [of a] octets [of b] octets [of c] octets [of d]
  by (simp_all add: v4_value_def)

lemma pair_eq:
  fixes a b :: nat
  assumes "b < k" "j < k"
  shows "a * k + b = k * i + j \<longleftrightarrow> a = i \<and> b = j"
proof
  assume eq: "a * k + b = k * i + j"
  have "(a * k + b) div k = (k * i + j) div k" "(a * k + b) mod k = (k * i + j) mod k"
    using eq by simp_all
  then show "a = i \<and> b = j" using assms by simp
qed simp

lemma in_net_prefix:
  "in_net (v4_value (Ipv4 a b c d)) ((i, 0, 0, 0), 8) \<longleftrightarrow> unat a = i"
  "j < 256 \<Longrightarrow> in_net (v4_value (Ipv4 a b c d)) ((i, j, 0, 0), 16) \<longleftrightarrow> unat a = i \<and> unat b = j"
  "j < 256 \<Longrightarrow> k < 256 \<Longrightarrow> in_net (v4_value (Ipv4 a b c d)) ((i, j, k, 0), 24)
     \<longleftrightarrow> unat a = i \<and> unat b = j \<and> unat c = k"
  "in_net (v4_value (Ipv4 a b c d)) ((100, 64, 0, 0), 10) \<longleftrightarrow> unat a = 100 \<and> unat b div 64 = 1"
  "in_net (v4_value (Ipv4 a b c d)) ((172, 16, 0, 0), 12) \<longleftrightarrow> unat a = 172 \<and> unat b div 16 = 1"
  "in_net (v4_value (Ipv4 a b c d)) ((198, 18, 0, 0), 15) \<longleftrightarrow> unat a = 198 \<and> unat b div 2 = 9"
  "in_net (v4_value (Ipv4 a b c d)) ((i, 0, 0, 0), 4) \<longleftrightarrow> unat a div 16 = i div 16"
proof -
  have b: "unat b div 64 < 4" "unat b div 16 < 16" "unat b div 2 < 128"
    using octets [of b] by auto
  show "in_net (v4_value (Ipv4 a b c d)) ((i, 0, 0, 0), 8) \<longleftrightarrow> unat a = i"
    using v4_value_div(1) [of a b c d] by (simp add: in_net_def)
  show "in_net (v4_value (Ipv4 a b c d)) ((i, 0, 0, 0), 4) \<longleftrightarrow> unat a div 16 = i div 16"
    using v4_value_div(7) [of a b c d] by (simp add: in_net_def)
  show "in_net (v4_value (Ipv4 a b c d)) ((100, 64, 0, 0), 10) \<longleftrightarrow> unat a = 100 \<and> unat b div 64 = 1"
    using v4_value_div(4) [of a b c d] pair_eq [OF b(1), of 1 "unat a" 100]
    by (simp add: in_net_def)
  show "in_net (v4_value (Ipv4 a b c d)) ((172, 16, 0, 0), 12) \<longleftrightarrow> unat a = 172 \<and> unat b div 16 = 1"
    using v4_value_div(5) [of a b c d] pair_eq [OF b(2), of 1 "unat a" 172]
    by (simp add: in_net_def)
  show "in_net (v4_value (Ipv4 a b c d)) ((198, 18, 0, 0), 15) \<longleftrightarrow> unat a = 198 \<and> unat b div 2 = 9"
    using v4_value_div(6) [of a b c d] pair_eq [OF b(3), of 9 "unat a" 198]
    by (simp add: in_net_def)
  assume j: "j < 256"
  show "in_net (v4_value (Ipv4 a b c d)) ((i, j, 0, 0), 16) \<longleftrightarrow> unat a = i \<and> unat b = j"
    using v4_value_div(2) [of a b c d] pair_eq [OF octets [of b] j, of "unat a" i]
    by (simp add: in_net_def)
  assume k: "k < 256"
  show "in_net (v4_value (Ipv4 a b c d)) ((i, j, k, 0), 24) \<longleftrightarrow> unat a = i \<and> unat b = j \<and> unat c = k"
    using v4_value_div(3) [of a b c d] pair_eq [OF octets [of b] j, of "unat a" i]
       pair_eq [OF octets [of c] k, of "unat a * 256 + unat b" "256 * i + j"] pair_eq [OF octets [of b] j, of "unat a" i] k
    by (simp add: in_net_def)
qed

lemma less_16: "(\<forall>n<16. P n) \<longleftrightarrow> (\<forall>n<8. P n) \<and> (\<forall>n<8. P (n + 8))" for P :: "nat \<Rightarrow> bool"
proof -
  have "n < 16 \<Longrightarrow> n < 8 \<or> (\<exists>m<8. n = m + 8)" for n :: nat by presburger
  then show ?thesis by fastforce
qed

lemma u16_eq_iff: "a = b \<longleftrightarrow> (\<forall>n<16. bit a n = bit b n)" for a b :: u16
  by (auto intro: bit_word_eqI)

lemma u16_beyond: "16 \<le> n \<Longrightarrow> \<not> bit b n" for b :: u16
  by (auto dest: bit_imp_le_length)

lemma drop_bit_group: "drop_bit k s = v \<longleftrightarrow> unat s div 2 ^ k = unat v" for s v :: u16
  by (simp only: word_unat_eq_iff unat_drop_bit_eq) (simp add: drop_bit_eq_div)

lemma group_masks:
  fixes s :: u16
  shows "s AND 0xfe00 = 0xfc00 \<longleftrightarrow> unat s div 2 ^ 9 = 0x7e"
    and "s AND 0xffc0 = 0xfe80 \<longleftrightarrow> unat s div 2 ^ 6 = 0x3fa"
    and "s AND 0xff00 = 0xff00 \<longleftrightarrow> unat s div 2 ^ 8 = 0xff"
proof -
  have "s AND 0xfe00 = 0xfc00 \<longleftrightarrow> drop_bit 9 s = 0x7e"
    unfolding u16_eq_iff less_16 less_8
    by (simp add: bit_and_iff bit_drop_bit_eq u16_beyond) 
  then show "s AND 0xfe00 = 0xfc00 \<longleftrightarrow> unat s div 2 ^ 9 = 0x7e"
    unfolding drop_bit_group by simp
  have "s AND 0xffc0 = 0xfe80 \<longleftrightarrow> drop_bit 6 s = 0x3fa"
    unfolding u16_eq_iff less_16 less_8
    by (simp add: bit_and_iff bit_drop_bit_eq u16_beyond) 
  then show "s AND 0xffc0 = 0xfe80 \<longleftrightarrow> unat s div 2 ^ 6 = 0x3fa"
    unfolding drop_bit_group by simp
  have "s AND 0xff00 = 0xff00 \<longleftrightarrow> drop_bit 8 s = 0xff"
    unfolding u16_eq_iff less_16 less_8
    by (simp add: bit_and_iff bit_drop_bit_eq u16_beyond) 
  then show "s AND 0xff00 = 0xff00 \<longleftrightarrow> unat s div 2 ^ 8 = 0xff"
    unfolding drop_bit_group by simp
qed

section \<open>Which addresses are refused\<close>

lemma is_private_or_local_v4:
  "is_private_or_local_ip (V4 ip) \<longleftrightarrow> list_ex (in_net (v4_value ip)) refused_v4_nets"
proof (cases ip)
  case (Ipv4 a b c d)
  have a: "unat a div 16 = 14 \<longleftrightarrow> 224 \<le> unat a \<and> unat a \<le> 239" "unat a div 16 = 15 \<longleftrightarrow> 240 \<le> unat a"
    and b: "unat b div 16 = Suc 0 \<longleftrightarrow> 16 \<le> unat b \<and> unat b \<le> 31"
    using octets [of a] octets [of b] by auto
  note masks = mask_shared [of b, unfolded word_unat_eq_iff, simplified]
    mask_benchmark [of b, unfolded word_unat_eq_iff, simplified]
  show ?thesis
    unfolding Ipv4 
    by (simp add: refused_v4_nets_def in_net_prefix masks Let_def a b word_unat_eq_iff word_le_nat_alt)
      (rule iffI; elim disjE conjE; simp)
qed

lemma is_private_or_local_v6:
  "is_private_or_local_ip (V6 (Ipv6 s0 s1 s2 s3 s4 s5 s6 s7)) \<longleftrightarrow>
     (s0 = 0 \<and> s1 = 0 \<and> s2 = 0 \<and> s3 = 0 \<and> s4 = 0 \<and> s5 = 0 \<and> s6 = 0 \<and> (s7 = 0 \<or> s7 = 1))
     \<or> unat s0 div 2 ^ 9 = 0xfc00 div 2 ^ 9 \<or> unat s0 div 2 ^ 6 = 0xfe80 div 2 ^ 6
     \<or> unat s0 div 2 ^ 8 = 0xff00 div 2 ^ 8 \<or> (s0 = 0x2001 \<and> s1 = 0x0db8)
     \<or> (s0 = 0 \<and> s1 = 0 \<and> s2 = 0 \<and> s3 = 0 \<and> s4 = 0 \<and> s5 = 0xffff
        \<and> is_private_or_local_ip
             (V4 (Ipv4 (ucast (drop_bit 8 s6)) (ucast s6) (ucast (drop_bit 8 s7)) (ucast s7))))"
  by (auto simp: Let_def group_masks)

text \<open>
  C29. The address test is membership in a list of networks. An IPv4 address is refused exactly when one of the
  fourteen networks of \<open>refused_v4_nets\<close> contains it, masks, ranges and single octets of
  the code included. An IPv6 address is refused exactly when it is the loopback or the unspecified
  address, lies in fc00::/7, fe80::/10, ff00::/8 or 2001:db8::/32, or is an IPv4-mapped
  address whose embedded IPv4 address is refused: wrapping an internal IPv4 address as
  ::ffff:a.b.c.d does not get it past the test.
\<close>

theorem refused_addresses:
  "is_private_or_local_ip ip \<longleftrightarrow>
     (case ip of
        V4 v \<Rightarrow> list_ex (in_net (v4_value v)) refused_v4_nets
      | V6 (Ipv6 s0 s1 s2 s3 s4 s5 s6 s7) \<Rightarrow>
          (s0 = 0 \<and> s1 = 0 \<and> s2 = 0 \<and> s3 = 0 \<and> s4 = 0 \<and> s5 = 0 \<and> s6 = 0 \<and> (s7 = 0 \<or> s7 = 1))
          \<or> unat s0 div 2 ^ 9 = 0xfc00 div 2 ^ 9 \<or> unat s0 div 2 ^ 6 = 0xfe80 div 2 ^ 6
          \<or> unat s0 div 2 ^ 8 = 0xff00 div 2 ^ 8 \<or> (s0 = 0x2001 \<and> s1 = 0x0db8)
          \<or> (s0 = 0 \<and> s1 = 0 \<and> s2 = 0 \<and> s3 = 0 \<and> s4 = 0 \<and> s5 = 0xffff
             \<and> list_ex (in_net (v4_value
                  (Ipv4 (ucast (drop_bit 8 s6)) (ucast s6) (ucast (drop_bit 8 s7)) (ucast s7))))
                refused_v4_nets))"
proof (cases ip)
  case (V4 v)
  then show ?thesis by (simp only: is_private_or_local_v4 ip_addr.case)
next
  case (V6 v)
  then show ?thesis
    by (cases v) (simp only: is_private_or_local_v6 is_private_or_local_v4 ip_addr.case ipv6.case)
qed

section \<open>The URL check\<close>

lemma check_addrs_ok: "check_addrs show_ip host addrs = Inr u \<longleftrightarrow> \<not> list_ex (is_private_or_local_ip \<circ> fst) addrs"
  by (induction addrs) auto

lemma resolve_public_host_ok:
  "resolve_public_host lookup_host show_ip host port = Inr addrs \<longleftrightarrow>
     lookup_host host port = Inr addrs \<and> addrs \<noteq> [] \<and> \<not> list_ex (is_private_or_local_ip \<circ> fst) addrs"
  using check_addrs_ok [of show_ip host]
  by (auto simp: resolve_public_host_def Let_def)

text \<open>
  The URL check accepts a URL exactly when it starts with the https scheme, parses, has a host,
  and the one resolution made is non-empty and free of refused addresses; the
  addresses it returns, which the fetch is pinned to, are exactly that resolution.
\<close>

theorem validate_https_url_iff:
  "validate_https_url parse_url lookup_host show_ip url = Inr v \<longleftrightarrow>
     starts_with url ''https://'' \<and> parse_url url = Inr (v_url v)
     \<and> u_host (v_url v) = Some (v_host v) \<and> v_is_domain v = u_is_domain (v_url v)
     \<and> lookup_host (v_host v) (case u_port (v_url v) of None \<Rightarrow> 443 | Some p \<Rightarrow> p) = Inr (v_addrs v)
     \<and> v_addrs v \<noteq> [] \<and> \<not> list_ex (is_private_or_local_ip \<circ> fst) (v_addrs v)"
proof (cases v)
  case (fields pu h as d)
  show ?thesis
    unfolding fields validate_https_url_def Let_def
    using resolve_public_host_ok [of lookup_host show_ip]
    by (auto split: option.split)
qed

text \<open>
  The test does not cover every special-purpose network: addresses of the IETF protocol
  assignments 192.0.0.0/24, the deprecated site-local fec0::/10, the discard-only
  100::/64 and the NAT64 form 64:ff9b::10.0.0.1 of a private address pass.
\<close>

theorem special_addresses_not_refused:
  "\<not> is_private_or_local_ip (V4 (Ipv4 192 0 0 8))
   \<and> \<not> is_private_or_local_ip (V6 (Ipv6 0xfec0 0 0 0 0 0 0 1))
   \<and> \<not> is_private_or_local_ip (V6 (Ipv6 0x100 0 0 0 0 0 0 1))
   \<and> \<not> is_private_or_local_ip (V6 (Ipv6 0x64 0xff9b 0 0 0 0 0x0a00 1))"
  by simp

end
