(* ===== verification/Service.thy ===== *)
theory Service
  imports Auth Rate_Limit Content_Sandbox Url_Safety
begin

text \<open>
  The service of \<^verbatim>\<open>src/mcp.rs\<close> that every tool runs in, with the audit trail of
  \<^verbatim>\<open>src/audit.rs\<close> and \<^verbatim>\<open>src/audit_mailbox.rs\<close>: rate limiting, the reaction to a refused
  credential, the audit event, the audit note of a write, and the addresses of the mailbox.
  Rendering a JSON value as text, the URL parser,
  the resolver and base64 are parameters. Spans are left out.
\<close>

section \<open>State\<close>

record request_ctx =
  cx_identity :: "authenticated_identity option"
  cx_token :: "access_token option"

record tool_event =
  te_method :: string
  te_user :: string
  te_resource :: "string option"
  te_outcome :: string
  te_latency_ms :: u64
  te_result_count :: "nat option"
  te_error_class :: "string option"

record audit_note =
  an_token :: string
  an_mailbox_id :: string
  an_from_addr :: string
  an_method :: string
  an_resource :: "string option"
  an_outcome :: string

record ('w, 'k, 'b) service = "('w, 'k) auth_net" +
  sv_governor :: "'b governor"
  sv_download_max_bytes :: nat
  sv_upload_max_bytes :: nat
  sv_extra_from_addresses :: "owned_from_address list"
  show_json :: "json \<Rightarrow> string"
  parse_url :: url_parser
  lookup_host :: "'w \<Rightarrow> string \<Rightarrow> nat \<Rightarrow> string + socket_addr list"
  show_ip :: "ip_addr \<Rightarrow> string"
  base64_encode :: "string \<Rightarrow> string"
  base64_decode :: "string \<Rightarrow> string + string"

record ('w, 'k, 'b) service_state = "('w, 'k) auth_state" +
  limiter :: "'b limiter"
  audit_registry :: "(string \<times> string) list"
  spawned :: "audit_note list"
  audit_log :: "tool_event list"

type_synonym ('w, 'k, 'b, 'a) tool = "(('w, 'k, 'b) service_state, error_data, 'a) comp"

definition CAP_STALWART :: string where "CAP_STALWART = ''urn:stalwart:jmap''"

definition MAX_EMAIL_LIMIT :: u32 where "MAX_EMAIL_LIMIT = 50"
definition MAX_BODY_VALUE_BYTES :: u64 where "MAX_BODY_VALUE_BYTES = 512 * 1024"
definition MAX_TEXT_BODY_BYTES :: nat where "MAX_TEXT_BODY_BYTES = 256 * 1024"
definition EXPIRY_SKEW_SECS :: int where "EXPIRY_SKEW_SECS = 60"

section \<open>Audit\<close>

definition is_safe_id :: "string \<Rightarrow> bool" where
  "is_safe_id i \<longleftrightarrow>
     i \<noteq> [] \<and> length i \<le> 255 \<and> list_all (\<lambda>c. is_alphanumeric c \<or> c \<in> set ''-_.@:'') i"

definition tool_call_event ::
  "string \<Rightarrow> string \<Rightarrow> string option \<Rightarrow> string \<Rightarrow> nat \<Rightarrow> nat option \<Rightarrow> string option \<Rightarrow> tool_event" where
  "tool_call_event tool user resource outcome elapsed result_count err_class =
     \<lparr>te_method = tool, te_user = user,
      te_resource = map_option (\<lambda>r. if is_safe_id r then r else ''<invalid>'') resource,
      te_outcome = outcome, te_latency_ms = latency_ms elapsed, te_result_count = result_count,
      te_error_class = err_class\<rparr>"

definition tool_call ::
  "('w, 'k, 'b) service \<Rightarrow> string \<Rightarrow> string \<Rightarrow> string option \<Rightarrow> string \<Rightarrow> nat \<Rightarrow> nat option \<Rightarrow> string option
   \<Rightarrow> ('w, 'k, 'b) service_state \<Rightarrow> ('w, 'k, 'b) service_state" where
  "tool_call X tool user resource outcome started result_count err_class s =
     (let elapsed = now_of X s - started
      in s\<lparr>audit_log := audit_log s @ [tool_call_event tool user resource outcome elapsed result_count err_class],
           metrics := record_tool_call tool outcome elapsed (metrics s)\<rparr>)"

definition tool_outcome :: "error_data + 'a \<Rightarrow> string \<times> string option" where
  "tool_outcome result =
     (case result of
        Inr _ \<Rightarrow> (''ok'', None)
      | Inl e \<Rightarrow>
          (if err_code e = RATE_LIMITED_CODE then ''rate_limited'' else ''error'',
           Some (error_class e)))"

definition emit_tool_audit ::
  "('w, 'k, 'b) service \<Rightarrow> string \<Rightarrow> string \<Rightarrow> string option \<Rightarrow> nat \<Rightarrow> nat option \<Rightarrow> error_data + 'a
   \<Rightarrow> (('w, 'k, 'b) service_state, 'e, unit) comp" where
  "emit_tool_audit X tool user resource started result_count result =
     modifies (tool_call X tool user resource (fst (tool_outcome result)) started result_count
       (snd (tool_outcome result)))"

definition registry_set :: "string \<Rightarrow> string \<Rightarrow> (string \<times> string) list \<Rightarrow> (string \<times> string) list" where
  "registry_set uid mailbox_id m = AList.update uid mailbox_id m"

definition registry_get :: "(string \<times> string) list \<Rightarrow> string \<Rightarrow> string option" where
  "registry_get m uid = map_of m uid"

text \<open>
  The note a finished write leaves to be written. \<^verbatim>\<open>tokio::spawn\<close> puts it in the state's
  \<open>spawned\<close>; the runtime then runs \<open>emit_audit_message\<close> on it at a time of its choosing.
\<close>

definition audit_note_for ::
  "(string \<times> string) list \<Rightarrow> request_ctx \<Rightarrow> string \<Rightarrow> string option \<Rightarrow> error_data + 'a
   \<Rightarrow> audit_note option" where
  "audit_note_for registry ctx meth resource result =
     (if (case result of
            Inl e \<Rightarrow> err_code e = RATE_LIMITED_CODE \<or> err_code e = AUTH_EXPIRED_CODE
                     \<or> err_code e = UPSTREAM_AUTH_REJECTED_CODE
          | Inr _ \<Rightarrow> False) then None
      else
        Option.bind (cx_identity ctx) (\<lambda>ident.
        Option.bind (registry_get registry (user_id ident)) (\<lambda>mailbox_id.
        Option.bind (cx_token ctx) (\<lambda>tok.
        Option.bind (email ident) (\<lambda>from.
          Some \<lparr>an_token = header_value tok, an_mailbox_id = mailbox_id, an_from_addr = from,
                an_method = meth, an_resource = resource,
                an_outcome = (case result of Inr _ \<Rightarrow> ''ok'' | Inl _ \<Rightarrow> ''error'')\<rparr>)))))"

definition spawn_audit ::
  "request_ctx \<Rightarrow> string \<Rightarrow> string option \<Rightarrow> error_data + 'a
   \<Rightarrow> (('w, 'k, 'b) service_state, 'e, unit) comp" where
  "spawn_audit ctx meth resource result =
     modifies (\<lambda>s. s\<lparr>spawned := spawned s
       @ (case audit_note_for (audit_registry s) ctx meth resource result of
            None \<Rightarrow> [] | Some n \<Rightarrow> [n])\<rparr>)"

definition arrow :: string where "arrow = [CHR 0xE2, CHR 0x86, CHR 0x92]"

definition note_email :: "string \<Rightarrow> audit_note \<Rightarrow> json" where
  "note_email acct n =
     (let resource_str = (case an_resource n of None \<Rightarrow> ''-'' | Some r \<Rightarrow> r);
          subject = ''jmap-mcp audit: '' @ an_method n;
          text = ''jmap-mcp: '' @ an_method n @ '' '' @ arrow @ '' '' @ resource_str
                 @ '' outcome='' @ an_outcome n;
          from = JArr [jobj [(''email'', JStr (an_from_addr n))]]
      in jobj
        [(''accountId'', JStr acct),
         (''create'', jobj
           [(''note'', jobj
             [(''mailboxIds'', jobj [(an_mailbox_id n, JBool True)]),
              (''keywords'', jobj [(''$seen'', JBool True)]),
              (''from'', from), (''to'', from),
              (''subject'', JStr subject),
              (''bodyValues'', jobj
                [(''b'', jobj [(''value'', JStr text), (''isTruncated'', JBool False)])]),
              (''textBody'', JArr
                [jobj [(''partId'', JStr ''b''), (''type'', JStr ''text/plain'')]])])])])"

definition emit_audit_message ::
  "('w, 'k, 'b) service \<Rightarrow> audit_note \<Rightarrow> (('w, 'k, 'b) service_state, unit, unit) comp" where
  "emit_audit_message X n =
     attempt (account_id X (an_token n)) (\<lambda>r.
       case r of
         Inl e \<Rightarrow> ret ()
       | Inr acct \<Rightarrow>
           attempt (jmap_call X (an_token n) [CAP_CORE, CAP_MAIL]
                      [(''Email/set'', note_email acct n, ''a'')]) (\<lambda>r. ret ()))"

section \<open>Before and after a tool's body\<close>

definition rate_limited_err :: error_data where
  "rate_limited_err =
     \<lparr>err_code = RATE_LIMITED_CODE,
      err_message = ''rate limit exceeded '' @ em_dash @ '' try again in a minute''\<rparr>"

definition upstream_auth_rejected_err :: error_data where
  "upstream_auth_rejected_err =
     \<lparr>err_code = UPSTREAM_AUTH_REJECTED_CODE,
      err_message = ''The mail backend refused this request's credential, but the credential itself ''
        @ ''is still valid and has not expired '' @ em_dash @ '' so reconnecting will not fix it and ''
        @ ''will fail the same way. This is a server-side problem between jmap-mcp and the JMAP ''
        @ ''backend (most often the backend's token audience policy). Report it to the jmap-mcp ''
        @ ''operator rather than retrying.''\<rparr>"

definition auth_expired_err :: error_data where
  "auth_expired_err =
     \<lparr>err_code = AUTH_EXPIRED_CODE,
      err_message = ''Your jmap-mcp session has expired or been revoked. In claude.ai '' @ arrow
        @ '' Connectors '' @ arrow @ '' jmap-mcp, click Disconnect and then Connect again to ''
        @ ''get a fresh session, then retry.''\<rparr>"

definition token_is_live :: "int \<Rightarrow> int option \<Rightarrow> bool" where
  "token_is_live now exp = (case exp of None \<Rightarrow> False | Some e \<Rightarrow> EXPIRY_SKEW_SECS < e - now)"

definition rate_limit_check ::
  "('w, 'k, 'b) service \<Rightarrow> request_ctx \<Rightarrow> category \<Rightarrow> ('w, 'k, 'b, unit) tool" where
  "rate_limit_check X ctx cat =
     bindE (need missing_token_err (cx_token ctx)) (\<lambda>tok.
     bindE (need missing_identity_err (cx_identity ctx)) (\<lambda>ident.
     (\<lambda>s. case limiter_check (sv_governor X) (now_of X s) (token_hash X (at_secret tok))
                  (Some (user_id ident)) cat (limiter s) of
            (granted, l) \<Rightarrow> (if granted then Inr () else Inl rate_limited_err, s\<lparr>limiter := l\<rparr>))))"

definition react_to_auth_expiry ::
  "('w, 'k, 'b) service \<Rightarrow> request_ctx \<Rightarrow> error_data + 'a \<Rightarrow> ('w, 'k, 'b, 'a) tool" where
  "react_to_auth_expiry X ctx result =
     (case result of
        Inr a \<Rightarrow> ret a
      | Inl err \<Rightarrow>
          if err_code err \<noteq> AUTH_EXPIRED_CODE then fail err
          else
            bindE (case cx_token ctx of None \<Rightarrow> ret () | Some tok \<Rightarrow> evict X (header_value tok)) (\<lambda>_.
            bindE (gets (\<lambda>s. case cx_identity ctx of
                               None \<Rightarrow> False
                             | Some ident \<Rightarrow> token_is_live (net_unix X (world s)) (exp_unix ident)))
              (\<lambda>live.
            if live then fail upstream_auth_rejected_err
            else
              bindE (case cx_token ctx of None \<Rightarrow> ret () | Some tok \<Rightarrow> drop_token X (at_secret tok))
                (\<lambda>_. fail auth_expired_err))))"

text \<open>
  The frame of every handler: the time it started, the rate limit, the body, the reaction, the note of a write (\<open>note\<close>
  holds the resource the note names, for the tools that leave one), and the audit event.
\<close>

definition tool_user :: "request_ctx \<Rightarrow> string" where
  "tool_user ctx = opt_str (Option.bind (cx_identity ctx) email)"

definition finish_tool ::
  "('w, 'k, 'b) service \<Rightarrow> request_ctx \<Rightarrow> string \<Rightarrow> string option \<Rightarrow> string option option
   \<Rightarrow> (error_data + 'a \<Rightarrow> nat option) \<Rightarrow> nat \<Rightarrow> error_data + 'a \<Rightarrow> ('w, 'k, 'b, 'a) tool" where
  "finish_tool X ctx tool resource note counted started r0 =
     attempt (react_to_auth_expiry X ctx r0) (\<lambda>r.
     bindE (case note of None \<Rightarrow> ret () | Some res \<Rightarrow> spawn_audit ctx tool res r) (\<lambda>_.
     bindE (emit_tool_audit X tool (tool_user ctx) resource started (counted r) r) (\<lambda>_.
       lift r)))"

definition run_tool ::
  "('w, 'k, 'b) service \<Rightarrow> request_ctx \<Rightarrow> string \<Rightarrow> string option \<Rightarrow> string option option
   \<Rightarrow> (error_data + 'a \<Rightarrow> nat option) \<Rightarrow> category \<Rightarrow> ('w, 'k, 'b, 'a) tool \<Rightarrow> ('w, 'k, 'b, 'a) tool" where
  "run_tool X ctx tool resource note counted cat body =
     bindE (gets (now_of X)) (\<lambda>started.
     attempt (bindE (rate_limit_check X ctx cat) (\<lambda>_. body))
       (finish_tool X ctx tool resource note counted started))"

text \<open>\<^verbatim>\<open>unwrap_or_else(|e| (Err(e), 0))\<close>: the count of a failed listing is zero.\<close>

definition counting :: "('a \<Rightarrow> nat) \<Rightarrow> error_data + 'a \<Rightarrow> nat option" where
  "counting f r = Some (case r of Inl _ \<Rightarrow> 0 | Inr a \<Rightarrow> f a)"

definition with_token ::
  "request_ctx \<Rightarrow> (string \<Rightarrow> ('s, error_data, 'a) comp) \<Rightarrow> ('s, error_data, 'a) comp" where
  "with_token ctx k = bindE (need missing_token_err (cx_token ctx)) (\<lambda>tok. k (header_value tok))"

definition account_of :: "('w, 'k, 'b) service \<Rightarrow> string \<Rightarrow> ('w, 'k, 'b, string) tool" where
  "account_of X token = map_err map_jmap_err (account_id X token)"

definition call ::
  "('w, 'k, 'b) service \<Rightarrow> string \<Rightarrow> string list \<Rightarrow> method_call list
   \<Rightarrow> ('w, 'k, 'b, responses) tool" where
  "call X token use calls = map_err map_jmap_err (jmap_call X token use calls)"

text \<open>The two lookups nearly every tool starts with.\<close>

definition with_account ::
  "('w, 'k, 'b) service \<Rightarrow> request_ctx \<Rightarrow> (string \<Rightarrow> string \<Rightarrow> ('w, 'k, 'b, 'a) tool)
   \<Rightarrow> ('w, 'k, 'b, 'a) tool" where
  "with_account X ctx k =
     with_token ctx (\<lambda>token. bindE (account_of X token) (\<lambda>acct. k token acct))"

definition session_email_of :: "request_ctx \<Rightarrow> string option" where
  "session_email_of ctx = Option.bind (cx_identity ctx) email"

section \<open>Mailboxes and addresses\<close>

definition jnum :: "u64 \<Rightarrow> json" where
  "jnum n = JNum (PosInt n)"

definition jstrs :: "string list \<Rightarrow> json" where
  "jstrs xs = JArr (map JStr xs)"

text \<open>A back-reference to the result of an earlier call of the batch.\<close>

definition result_of :: "string \<Rightarrow> string \<Rightarrow> string \<Rightarrow> json" where
  "result_of i name path =
     jobj [(''resultOf'', JStr i), (''name'', JStr name), (''path'', JStr path)]"

definition all_mailboxes ::
  "('w, 'k, 'b) service \<Rightarrow> string \<Rightarrow> string \<Rightarrow> ('w, 'k, 'b, json list) tool" where
  "all_mailboxes X token acct =
     bindE (call X token [CAP_CORE, CAP_MAIL]
              [(''Mailbox/get'', jobj [(''accountId'', JStr acct), (''ids'', JNull)], ''m'')]) (\<lambda>resps.
       ret (method_list resps ''Mailbox/get''))"

definition role_mailbox :: "json list \<Rightarrow> string \<Rightarrow> string option" where
  "role_mailbox mailboxes role =
     Option.bind (find (\<lambda>m. get_str m ''role'' = Some role) mailboxes) (\<lambda>m. get_str m ''id'')"

definition identity_list ::
  "('w, 'k, 'b) service \<Rightarrow> string \<Rightarrow> string
   \<Rightarrow> (('w, 'k, 'b) service_state, jmap_error, json list) comp" where
  "identity_list X token acct =
     bindE (jmap_call X token [CAP_CORE, CAP_SUBMISSION]
              [(''Identity/get'', jobj [(''accountId'', JStr acct), (''ids'', JNull)], ''i'')]) (\<lambda>resps.
       ret (method_list resps ''Identity/get''))"

definition alias_calls :: "string \<Rightarrow> method_call list" where
  "alias_calls user =
     [(''x:Account/query'', jobj [(''filter'', jobj [(''text'', JStr user)])], ''q''),
      (''x:Account/get'', jobj [(''#ids'', result_of ''q'' ''x:Account/query'' ''/ids'')], ''a''),
      (''x:Domain/query'', jobj [], ''dq''),
      (''x:Domain/get'', jobj [(''#ids'', result_of ''dq'' ''x:Domain/query'' ''/ids'')], ''d'')]"

definition principal_aliases ::
  "('w, 'k, 'b) service \<Rightarrow> string \<Rightarrow> string option
   \<Rightarrow> (('w, 'k, 'b) service_state, jmap_error, owned_address list) comp" where
  "principal_aliases X token session_username =
     (case session_username of
        None \<Rightarrow> ret []
      | Some user \<Rightarrow>
          attempt (jmap_call X token [CAP_CORE, CAP_STALWART] (alias_calls user)) (\<lambda>r.
            case r of
              Inl e \<Rightarrow> if principal_aliases_unavailable e then ret [] else fail e
            | Inr resps \<Rightarrow>
                ret (case find (\<lambda>a. principal_is a user) (method_list resps ''x:Account/get'') of
                       None \<Rightarrow> []
                     | Some me \<Rightarrow> aliases_of me (domain_map resps))))"

definition owned_addresses ::
  "('w, 'k, 'b) service \<Rightarrow> string \<Rightarrow> string \<Rightarrow> string option
   \<Rightarrow> (('w, 'k, 'b) service_state, jmap_error, owned_address list) comp" where
  "owned_addresses X token acct session_username =
     bindE (identity_list X token acct) (\<lambda>identities.
     bindE (principal_aliases X token session_username) (\<lambda>aliases.
     bindE (session_for X token) (\<lambda>session.
       ret (merge_owned identities aliases
              (extras_granted_to (username session) (sv_extra_from_addresses X))))))"

definition resolve_submission_identity ::
  "('w, 'k, 'b) service \<Rightarrow> string \<Rightarrow> string \<Rightarrow> string option \<Rightarrow> string list \<Rightarrow> string option
   \<Rightarrow> ('w, 'k, 'b, chosen_from) tool" where
  "resolve_submission_identity X token acct from preferred session_email =
     bindE (map_err map_jmap_err (owned_addresses X token acct session_email)) (\<lambda>owned.
       lift (choose_from_address owned from preferred session_email))"

section \<open>Fetching a public URL\<close>

text \<open>
  The one-off client of the attachment tools: no redirects, no proxy, and for a domain the
  addresses that were validated.
\<close>

definition fetch_request :: "validated_https_url \<Rightarrow> http_request" where
  "fetch_request v =
     \<lparr>rq_method = ''GET'', rq_url = u_text (v_url v), rq_auth = None, rq_content_type = None,
      rq_body = No_Body,
      rq_pinned = (if v_is_domain v then Some (v_host v, v_addrs v) else None)\<rparr>"

definition validated :: "('w, 'k, 'b) service \<Rightarrow> string \<Rightarrow> ('w, 'k, 'b, validated_https_url) tool" where
  "validated X url =
     bindE (gets (\<lambda>s. validate_https_url (parse_url X) (lookup_host X (world s)) (show_ip X) url)) (\<lambda>r.
       lift (case r of Inl e \<Rightarrow> Inl (invalid_params e) | Inr v \<Rightarrow> Inr v))"

fun collect_chunks :: "nat \<Rightarrow> (string \<Rightarrow> error_data) \<Rightarrow> string \<Rightarrow> (string + string) list \<Rightarrow> error_data + string" where
  "collect_chunks max_bytes bad acc [] = Inr acc"
| "collect_chunks max_bytes bad acc (Inl e # cs) = Inl (bad e)"
| "collect_chunks max_bytes bad acc (Inr c # cs) =
     (if max_bytes < length acc + length c then
        Inl (invalid_params (''remote resource exceeds cap of '' @ show_nat max_bytes @ '' bytes''))
      else collect_chunks max_bytes bad (acc @ c) cs)"

definition media_type :: "string option \<Rightarrow> string" where
  "media_type header =
     (case Option.bind header header_to_str of
        None \<Rightarrow> ''application/octet-stream''
      | Some h \<Rightarrow>
          (let m = trim (hd (split_char CHR '';'' h))
           in if m = [] then ''application/octet-stream'' else m))"

definition fetch_capped ::
  "('w, 'k, 'b) service \<Rightarrow> validated_https_url \<Rightarrow> nat \<Rightarrow> ('w, 'k, 'b, string \<times> string) tool" where
  "fetch_capped X v max_bytes =
     (let url = u_text (v_url v) in
      bindE (map_err (\<lambda>e. invalid_params (''failed to fetch '' @ url @ '': '' @ e))
               (send X (fetch_request v))) (\<lambda>resp.
      bindE (refuse_if (\<not> is_success (rp_status resp))
               (invalid_params (''fetch of '' @ url @ '' returned HTTP '' @ show_nat (rp_status resp)))) (\<lambda>_.
      bindE (case rp_length resp of
               None \<Rightarrow> ret ()
             | Some len \<Rightarrow>
                 refuse_if (max_bytes < len)
                   (invalid_params (''remote resource is '' @ show_nat len @ '' bytes, exceeds cap of ''
                      @ show_nat max_bytes))) (\<lambda>_.
      bindE (lift (collect_chunks max_bytes
                (\<lambda>e. invalid_params (''error streaming '' @ url @ '': '' @ e)) [] (rp_chunks resp)))
        (\<lambda>bytes. ret (bytes, media_type (rp_content_type resp)))))))"

end
