(* ===== verification/Policy.thy ===== *)
theory Policy
  imports Service
begin

text \<open>
  What every tool owes its caller, as contracts on the requests it emits. \<open>read_policy\<close> is a
  policy on requests that reads satisfy; \<open>write_policy\<close> one that writes that destroy nothing, uploads and
  validated fetches satisfy as well; \<open>update_policy\<close>, between them, one that updates satisfy; \<open>destroy_policy\<close> one
  that every call satisfies. The lemmas of the shared operations are proved once under the
  contracts; the tools' theories add theirs; the interpretations at the end give the contracts
  to the credential policy, to the read-only policy and to the policy that keeps the mail.
\<close>

section \<open>Contracts\<close>

text \<open>A policy for the requests of one call: no request at all without a token.\<close>

definition for_ctx :: "(string \<Rightarrow> http_request \<Rightarrow> bool) \<Rightarrow> request_ctx \<Rightarrow> http_request \<Rightarrow> bool" where
  "for_ctx P ctx r \<longleftrightarrow> (\<exists>t. cx_token ctx = Some t \<and> P (header_value t) r)"

definition public_addresses :: "validated_https_url \<Rightarrow> bool" where
  "public_addresses v \<longleftrightarrow>
     v_addrs v \<noteq> [] \<and> list_all (\<lambda>a. \<not> is_private_or_local_ip (fst a)) (v_addrs v)"

text \<open>
  A method call that can destroy objects: a \<^verbatim>\<open>/set\<close> with one of the arguments that say what to destroy, as a
  list, as a reference to the result of another call, or after a submission.
\<close>

definition destroy_keys :: "string list" where
  "destroy_keys = [''destroy'', ''#destroy'', ''onSuccessDestroyEmail'', ''#onSuccessDestroyEmail'']"

definition destroying :: "string \<Rightarrow> json \<Rightarrow> bool" where
  "destroying meth args \<longleftrightarrow> ends_with meth ''/set'' \<and> list_ex (\<lambda>k. json_get args k \<noteq> None) destroy_keys"

definition keeping_calls :: "method_call list \<Rightarrow> bool" where
  "keeping_calls calls \<longleftrightarrow> list_all (\<lambda>(m, args, _). \<not> destroying m args) calls"

lemma reading_keeps: "read_calls calls \<Longrightarrow> keeping_calls calls"
  by (auto simp: read_calls_def keeping_calls_def destroying_def list_all_iff)

lemma keeping_calls_simps:
  "keeping_calls []"
  "keeping_calls ((m, args, i) # cs) \<longleftrightarrow> \<not> destroying m args \<and> keeping_calls cs"
  by (simp_all add: keeping_calls_def)

lemma destroying_jobj:
  "destroying m (jobj kvs) \<longleftrightarrow> ends_with m ''/set'' \<and> list_ex (\<lambda>k. k \<in> fst ` set kvs) destroy_keys"
  by (auto simp: destroying_def list_ex_iff map_of_eq_None_iff)

lemmas keeping = keeping_calls_simps destroying_jobj destroy_keys_def

text \<open>A method call that can create objects, and batches that at most update what is there.\<close>

definition create_keys :: "string list" where
  "create_keys = [''create'', ''#create'']"

definition creating :: "string \<Rightarrow> json \<Rightarrow> bool" where
  "creating meth args \<longleftrightarrow> ends_with meth ''/set'' \<and> list_ex (\<lambda>k. json_get args k \<noteq> None) create_keys"

definition updating_calls :: "method_call list \<Rightarrow> bool" where
  "updating_calls calls \<longleftrightarrow> list_all (\<lambda>(m, args, _). \<not> destroying m args \<and> \<not> creating m args) calls"

lemma reading_updates: "read_calls calls \<Longrightarrow> updating_calls calls"
  by (auto simp: read_calls_def updating_calls_def destroying_def creating_def list_all_iff)

lemma updating_keeps: "updating_calls calls \<Longrightarrow> keeping_calls calls"
  by (auto simp: updating_calls_def keeping_calls_def list_all_iff)

lemma updating_calls_simps:
  "updating_calls []"
  "updating_calls ((m, args, i) # cs) \<longleftrightarrow> \<not> destroying m args \<and> \<not> creating m args \<and> updating_calls cs"
  by (auto simp: updating_calls_def)

lemma creating_jobj:
  "creating m (jobj kvs) \<longleftrightarrow> ends_with m ''/set'' \<and> list_ex (\<lambda>k. k \<in> fst ` set kvs) create_keys"
  by (auto simp: creating_def list_ex_iff map_of_eq_None_iff)

lemmas updating = updating_calls_simps destroying_jobj creating_jobj destroy_keys_def create_keys_def

locale read_policy = request_policy P calls_ok uploads
  for P :: "string \<Rightarrow> http_request \<Rightarrow> bool" and calls_ok :: "method_call list \<Rightarrow> bool" and uploads :: bool +
  assumes read_calls_ok: "read_calls calls \<Longrightarrow> calls_ok calls"

locale update_policy = read_policy P calls_ok uploads
  for P :: "string \<Rightarrow> http_request \<Rightarrow> bool" and calls_ok :: "method_call list \<Rightarrow> bool" and uploads :: bool +
  assumes updating_calls_ok: "updating_calls calls \<Longrightarrow> calls_ok calls"

locale write_policy = request_policy P calls_ok uploads
  for P :: "string \<Rightarrow> http_request \<Rightarrow> bool" and calls_ok :: "method_call list \<Rightarrow> bool" and uploads :: bool +
  assumes keeping_calls_ok: "keeping_calls calls \<Longrightarrow> calls_ok calls"
    and uploads_ok: "uploads"
    and fetch_ok: "public_addresses v \<Longrightarrow> P tok (fetch_request v)"

sublocale write_policy \<subseteq> update_policy
  by unfold_locales (blast intro: keeping_calls_ok reading_keeps updating_keeps)+

locale destroy_policy = write_policy P calls_ok uploads
  for P :: "string \<Rightarrow> http_request \<Rightarrow> bool" and calls_ok :: "method_call list \<Rightarrow> bool" and uploads :: bool +
  assumes all_calls_ok: "calls_ok calls"

section \<open>The methods that read\<close>

lemma read_calls_append: "read_calls (xs @ ys) \<longleftrightarrow> read_calls xs \<and> read_calls ys"
  by (simp add: read_calls_def)

lemma read_calls_Cons: "read_calls (c # cs) \<longleftrightarrow> \<not> ends_with (fst c) ''/set'' \<and> read_calls cs"
  by (simp add: read_calls_def)

lemma read_calls_Nil: "read_calls []"
  by (simp add: read_calls_def)

lemma read_methods:
  "\<not> ends_with ''Mailbox/get'' ''/set''" "\<not> ends_with ''Identity/get'' ''/set''"
  "\<not> ends_with ''x:Account/query'' ''/set''" "\<not> ends_with ''x:Account/get'' ''/set''"
  "\<not> ends_with ''x:Domain/query'' ''/set''" "\<not> ends_with ''x:Domain/get'' ''/set''"
  "\<not> ends_with ''Email/query'' ''/set''" "\<not> ends_with ''Email/get'' ''/set''"
  "\<not> ends_with ''Thread/get'' ''/set''" "\<not> ends_with ''SearchSnippet/get'' ''/set''"
  "\<not> ends_with ''VacationResponse/get'' ''/set''"
  by (simp_all add: suffix_to_prefix)

lemmas read_calls_simps = read_calls_Cons read_calls_Nil read_methods

section \<open>Combinators\<close>

text \<open>A value that a step produced satisfies what the step promises of its results.\<close>

lemma emits_bindE_with:
  assumes "emits P m" and "\<And>s a s1. m s = (Inr a, s1) \<Longrightarrow> Q a" and "\<And>a. Q a \<Longrightarrow> emits P (k a)"
  shows "emits P (bindE m k)"
  unfolding emits_def
proof
  fix s
  obtain r s1 where m: "m s = (r, s1)" by (cases "m s")
  obtain n1 where n1: "trace s1 = trace s @ n1" "list_all P n1" using emitsD [OF assms(1) m] by blast
  show "\<exists>new. trace (snd (bindE m k s)) = trace s @ new \<and> list_all P new"
  proof (cases r)
    case (Inl e)
    then show ?thesis using m n1 by (simp add: bindE_def)
  next
    case (Inr a)
    have "emits P (k a)" using assms(2,3) m Inr by blast
    then obtain n2 where "trace (snd (k a s1)) = trace s1 @ n2" "list_all P n2"
      unfolding emits_def by metis
    then show ?thesis using m n1 Inr by (intro exI [of _ "n1 @ n2"]) (simp add: bindE_def)
  qed
qed

lemma emits_silent: "(\<And>s. trace (snd (m s)) = trace s) \<Longrightarrow> emits P m"
  by (simp add: emits_def)

lemma emits_with_token:
  assumes "\<And>t. cx_token ctx = Some t \<Longrightarrow> emits (P (header_value t)) (k (header_value t))"
  shows "emits (for_ctx P ctx) (with_token ctx k)"
proof (cases "cx_token ctx")
  case None
  then show ?thesis by (simp add: with_token_def need_def emits_def bindE_def fail_def)
next
  case (Some t)
  have "emits (for_ctx P ctx) (k (header_value t))"
    by (rule emits_weaken [OF assms [OF Some]]) (auto simp: for_ctx_def Some)
  then show ?thesis using Some by (simp add: with_token_def need_def bindE_def ret_def)
qed

lemma emits_rate_limit_check: "emits P (rate_limit_check X ctx cat)"
  unfolding rate_limit_check_def
  by (intro emits_bindE emits_need emits_silent) (simp split: prod.split)

lemma emits_react: "emits P (react_to_auth_expiry X ctx r)"
  unfolding react_to_auth_expiry_def evict_def drop_token_def
  by (intro emits_intros emits_modifies) simp_all

lemma emits_spawn_audit: "emits P (spawn_audit ctx meth res r)"
  unfolding spawn_audit_def by (intro emits_modifies) simp

lemma emits_tool_audit: "emits P (emit_tool_audit X tool user res t n r)"
  unfolding emit_tool_audit_def by (intro emits_modifies) (simp add: tool_call_def Let_def)

lemma emits_finish_tool: "emits P (finish_tool X ctx tool res note n t r)"
  unfolding finish_tool_def
  by (intro emits_attempt emits_bindE emits_react emits_case_option
      emits_spawn_audit emits_tool_audit emits_ret emits_lift)

lemma emits_run_tool: "emits P body \<Longrightarrow> emits P (run_tool X ctx tool res note n cat body)"
  unfolding run_tool_def
  by (intro emits_attempt emits_bindE emits_gets emits_rate_limit_check emits_finish_tool)

lemma validated_public:
  assumes "validated X url s = (Inr v, s1)"
  shows "public_addresses v"
proof -
  have c: "check_addrs sh h as = Inr u \<Longrightarrow> list_all (\<lambda>a. \<not> is_private_or_local_ip (fst a)) as" for sh h as u
    by (induction as) (auto split: if_splits)
  show ?thesis
    using assms c
    by (fastforce simp: validated_def validate_https_url_def resolve_public_host_def comp_defs Let_def
        public_addresses_def split: sum.splits if_splits option.splits)
qed

lemma emits_validated: "emits P (validated X url)"
  unfolding validated_def by (intro emits_intros)

section \<open>Shared operations\<close>

context read_policy
begin

lemma emits_call: "read_calls calls \<Longrightarrow> emits (P token) (call X token use calls)"
  unfolding call_def by (intro emits_map_err emits_jmap_call read_calls_ok)

lemma emits_account_of: "emits (P token) (account_of X token)"
  unfolding account_of_def by (intro emits_map_err emits_account_id)

lemma emits_with_account:
  assumes "\<And>t acct. cx_token ctx = Some t \<Longrightarrow> emits (P (header_value t)) (k (header_value t) acct)"
  shows "emits (for_ctx P ctx) (with_account X ctx k)"
  unfolding with_account_def
  by (intro emits_with_token emits_bindE emits_account_of assms)

lemma emits_all_mailboxes: "emits (P token) (all_mailboxes X token acct)"
  unfolding all_mailboxes_def by (intro emits_bindE emits_call emits_ret) (simp add: read_calls_simps)

lemma emits_owned_addresses: "emits (P token) (owned_addresses X token acct user)"
  unfolding owned_addresses_def identity_list_def principal_aliases_def alias_calls_def
  by (intro emits_intros read_calls_ok) (simp_all add: read_calls_simps)

lemma emits_resolve: "emits (P token) (resolve_submission_identity X token acct from pref user)"
  unfolding resolve_submission_identity_def
  by (intro emits_bindE emits_map_err emits_owned_addresses emits_lift)

lemmas emits_reads = emits_run_tool emits_with_token emits_with_account emits_bindE emits_call
  emits_account_of emits_all_mailboxes emits_resolve emits_map_err emits_session_for
  emits_owned_addresses emits_download_blob emits_jmap_call

end

context update_policy
begin

lemma emits_updating_call: "updating_calls calls \<Longrightarrow> emits (P token) (call X token use calls)"
  unfolding call_def by (intro emits_map_err emits_jmap_call updating_calls_ok)

end

context write_policy
begin

lemma emits_keeping_call: "keeping_calls calls \<Longrightarrow> emits (P token) (call X token use calls)"
  unfolding call_def by (intro emits_map_err emits_jmap_call keeping_calls_ok)

lemma emits_upload: "emits (P token) (map_err f (upload_blob X token bytes ct))"
  by (intro emits_map_err emits_upload_blob uploads_ok)

lemma emits_fetch_capped: "public_addresses v \<Longrightarrow> emits (P token) (fetch_capped X v m)"
  unfolding fetch_capped_def by (intro emits_intros emits_send fetch_ok)

end

context destroy_policy
begin

lemma emits_any_call: "emits (P token) (call X token use calls)"
  unfolding call_def by (intro emits_map_err emits_jmap_call all_calls_ok)

end

section \<open>The policies\<close>

text \<open>
  The caller's credential is the only one used, and the only requests without it are fetches of
  a URL whose addresses were validated.
\<close>

definition confined :: "string \<Rightarrow> http_request \<Rightarrow> bool" where
  "confined tok r \<longleftrightarrow> carries tok r \<or> (\<exists>v. r = fetch_request v \<and> public_addresses v)"

interpretation confinement: destroy_policy confined "\<lambda>_. True" True
  by unfold_locales (auto simp: confined_def carries_def get_request_def post_json_def)

interpretation reader: read_policy reads_as read_calls False
  by unfold_locales

text \<open>A request that destroys nothing: none of its method calls can.\<close>

definition body_calls :: "json \<Rightarrow> (string \<times> json) list" where
  "body_calls v =
     (case get_array v ''methodCalls'' of
        None \<Rightarrow> []
      | Some calls \<Rightarrow> List.map_filter
          (\<lambda>c. case c of JArr [JStr m, args, _] \<Rightarrow> Some (m, args) | _ \<Rightarrow> None) calls)"

definition keeps_mail :: "http_request \<Rightarrow> bool" where
  "keeps_mail r \<longleftrightarrow>
     (case rq_body r of
        Json_Body v \<Rightarrow> list_all (\<lambda>(m, args). \<not> destroying m args) (body_calls v)
      | _ \<Rightarrow> True)"

lemma body_calls_call_body: "body_calls (call_body use calls) = map (\<lambda>(m, args, _). (m, args)) calls"
proof -
  have "get_array (call_body use calls) ''methodCalls''
        = Some (map (\<lambda>(name, args, i). JArr [JStr name, args, JStr i]) calls)"
    by (simp add: get_array_def call_body_def)
  then show ?thesis
    by (induction calls) (auto simp: body_calls_def map_filter_def comp_def split: prod.splits)
qed

definition keeps_as :: "string \<Rightarrow> http_request \<Rightarrow> bool" where
  "keeps_as tok r \<longleftrightarrow> confined tok r \<and> keeps_mail r"

interpretation keeper: write_policy keeps_as keeping_calls True
  by unfold_locales
    (auto simp: keeps_as_def confined_def carries_def keeps_mail_def get_request_def post_json_def
      fetch_request_def body_calls_call_body keeping_calls_def list_all_iff)

text \<open>A request that at most updates: none of its method calls creates or destroys, and it uploads nothing.\<close>

definition updates_only :: "http_request \<Rightarrow> bool" where
  "updates_only r \<longleftrightarrow>
     (case rq_body r of
        No_Body \<Rightarrow> True
      | Json_Body v \<Rightarrow> list_all (\<lambda>(m, args). \<not> destroying m args \<and> \<not> creating m args) (body_calls v)
      | Raw_Body _ \<Rightarrow> False)"

definition updates_as :: "string \<Rightarrow> http_request \<Rightarrow> bool" where
  "updates_as tok r \<longleftrightarrow> carries tok r \<and> updates_only r"

interpretation updater: update_policy updates_as updating_calls False
  by unfold_locales
    (auto simp: updates_as_def carries_def updates_only_def get_request_def post_json_def
      body_calls_call_body updating_calls_def list_all_iff reading_updates [unfolded updating_calls_def list_all_iff])

end
