(* ===== verification/Email_View.thy ===== *)
theory Email_View
  imports Policy
begin

text \<open>
  The email helpers of \<^verbatim>\<open>src/mcp.rs\<close>: what is read out of a JMAP \<^verbatim>\<open>Email\<close> object, how text that
  an outside sender controls is cut, judged and escaped, and the \<^verbatim>\<open>Email\<close> object of a send.
\<close>

section \<open>Fields of an email\<close>

definition addr_of :: "json \<Rightarrow> string option" where
  "addr_of p =
     map_option
       (\<lambda>addr. case get_str p ''name'' of
                 None \<Rightarrow> addr
               | Some n \<Rightarrow> if n = [] then addr else n @ '' <'' @ addr @ ''>'')
       (get_str p ''email'')"

definition addrs :: "json \<Rightarrow> string \<Rightarrow> string list" where
  "addrs mail field =
     (case get_array mail field of None \<Rightarrow> [] | Some a \<Rightarrow> List.map_filter addr_of a)"

definition keywords_of :: "json \<Rightarrow> string list" where
  "keywords_of mail = (case get_object mail ''keywords'' of None \<Rightarrow> [] | Some m \<Rightarrow> map fst m)"

definition sanitize_external_list :: "string list \<Rightarrow> string list" where
  "sanitize_external_list values = map sanitize_external_text values"

definition external_texts_suspicious :: "string list \<Rightarrow> bool" where
  "external_texts_suspicious values = list_ex external_text_is_suspicious values"

fun sanitize_external_value :: "json \<Rightarrow> json" where
  "sanitize_external_value (JStr text) = JStr (sanitize_external_text text)"
| "sanitize_external_value (JArr values) = JArr (map sanitize_external_value values)"
| "sanitize_external_value (JObj values) = JObj (map (\<lambda>(k, v). (k, sanitize_external_value v)) values)"
| "sanitize_external_value v = v"

fun external_value_suspicious :: "json \<Rightarrow> bool" where
  "external_value_suspicious (JStr text) = external_text_is_suspicious text"
| "external_value_suspicious (JArr values) = list_ex external_value_suspicious values"
| "external_value_suspicious (JObj values) = list_ex (\<lambda>(k, v). external_value_suspicious v) values"
| "external_value_suspicious _ = False"

section \<open>Cutting a body\<close>

text \<open>A byte \<^verbatim>\<open>10xxxxxx\<close> continues a character.\<close>

definition continuation :: "char \<Rightarrow> bool" where
  "continuation c \<longleftrightarrow> (let n = of_char c :: nat in 128 \<le> n \<and> n < 192)"

definition is_char_boundary :: "string \<Rightarrow> nat \<Rightarrow> bool" where
  "is_char_boundary s i \<longleftrightarrow>
     (if i = 0 then True
      else if length s \<le> i then i = length s
      else \<not> continuation (s ! i))"

text \<open>\<^verbatim>\<open>while !is_char_boundary(cap) { cap -= 1 }\<close>\<close>

function back_off :: "string \<Rightarrow> nat \<Rightarrow> nat" where
  "back_off s cap = (if \<not> is_char_boundary s cap then back_off s (cap - 1) else cap)"
  by auto
termination
  by (relation "measure snd") (auto simp: is_char_boundary_def split: if_splits)

declare back_off.simps [simp del]

definition truncate_text_body :: "string \<Rightarrow> string" where
  "truncate_text_body s =
     (if length s \<le> MAX_TEXT_BODY_BYTES then s else take (back_off s MAX_TEXT_BODY_BYTES) s)"

section \<open>Bodies\<close>

definition part_id_of :: "json \<Rightarrow> string \<Rightarrow> string option" where
  "part_id_of mail field =
     Option.bind (get_array mail field) (\<lambda>a.
     Option.bind (first_of a) (\<lambda>p. get_str p ''partId''))"

definition extract_html_body :: "json \<Rightarrow> string option" where
  "extract_html_body mail =
     Option.bind (part_id_of mail ''htmlBody'') (\<lambda>part_id.
     Option.bind (get_object mail ''bodyValues'') (\<lambda>values.
     Option.bind (map_of values part_id) (\<lambda>v. get_str v ''value'')))"

fun find_map :: "('a \<Rightarrow> 'b option) \<Rightarrow> 'a list \<Rightarrow> 'b option" where
  "find_map f [] = None"
| "find_map f (x # xs) = (case f x of Some y \<Rightarrow> Some y | None \<Rightarrow> find_map f xs)"

definition extract_text_body :: "json \<Rightarrow> string" where
  "extract_text_body mail =
     (case get_object mail ''bodyValues'' of
        None \<Rightarrow> []
      | Some values \<Rightarrow>
          (case Option.bind (part_id_of mail ''textBody'') (\<lambda>pid.
                Option.bind (map_of values pid) (\<lambda>v. get_str v ''value'')) of
             Some v \<Rightarrow> v
           | None \<Rightarrow> opt_str (find_map (\<lambda>v. get_str v ''value'') (map snd values))))"

record html_body_read =
  hb_escaped :: "string option"
  hb_suspicious :: bool

definition read_email_html_body :: "json \<Rightarrow> string option \<Rightarrow> string \<Rightarrow> html_body_read" where
  "read_email_html_body mail from email_id =
     (case extract_html_body mail of
        None \<Rightarrow> \<lparr>hb_escaped = None, hb_suspicious = False\<rparr>
      | Some html0 \<Rightarrow>
          (let html = truncate_text_body html0
           in \<lparr>hb_escaped = Some (sanitize_external_text html),
               hb_suspicious = suspicious (evaluate None from (Some email_id) html)\<rparr>))"

definition read_email_get_args :: "string \<Rightarrow> string \<Rightarrow> json" where
  "read_email_get_args acct email_id =
     jobj [(''accountId'', JStr acct), (''ids'', jstrs [email_id]),
           (''properties'', jstrs [''from'', ''to'', ''cc'', ''subject'', ''receivedAt'', ''keywords'',
              ''threadId'', ''textBody'', ''htmlBody'', ''bodyValues'', ''attachments'']),
           (''fetchTextBodyValues'', JBool True), (''fetchHTMLBodyValues'', JBool True),
           (''maxBodyValueBytes'', jnum MAX_BODY_VALUE_BYTES)]"

definition capped_email_limit :: "u32 \<Rightarrow> u32" where
  "capped_email_limit limit = (if MAX_EMAIL_LIMIT < limit then MAX_EMAIL_LIMIT else limit)"

text \<open>The first email of an \<^verbatim>\<open>Email/get\<close> answer.\<close>

definition first_listed :: "responses \<Rightarrow> string \<Rightarrow> json option" where
  "first_listed resps meth =
     Option.bind (method_payload resps meth) (\<lambda>p. Option.bind (get_array p ''list'') first_of)"

section \<open>The email of a send\<close>

record send_email_params =
  se_from :: string
  se_to :: "string list"
  se_cc :: "string list"
  se_bcc :: "string list"
  se_subject :: string
  se_body_text :: string
  se_body_html :: "string option"
  se_in_reply_to :: "string option"

definition email_objs :: "string list \<Rightarrow> json list" where
  "email_objs xs = map (\<lambda>e. jobj [(''email'', JStr e)]) xs"

definition body_value :: "string \<Rightarrow> json" where
  "body_value text = jobj [(''value'', JStr text), (''isTruncated'', JBool False)]"

definition text_part :: json where
  "text_part = JArr [jobj [(''partId'', JStr ''b''), (''type'', JStr ''text/plain'')]]"

definition html_part :: json where
  "html_part = JArr [jobj [(''partId'', JStr ''h''), (''type'', JStr ''text/html'')]]"

text \<open>The fields every outgoing message starts from.\<close>

definition draft_object :: "string \<Rightarrow> json \<Rightarrow> json list \<Rightarrow> string \<Rightarrow> string \<Rightarrow> jmap \<Rightarrow> json" where
  "draft_object drafts from to subject text extra =
     jobj ([(''mailboxIds'', jobj [(drafts, JBool True)]),
            (''keywords'', jobj [(''$draft'', JBool True), (''$seen'', JBool True)]),
            (''from'', JArr [from]), (''to'', JArr to), (''subject'', JStr subject),
            (''bodyValues'', jobj [(''b'', body_value text)]),
            (''textBody'', text_part)] @ extra)"

text \<open>\<^verbatim>\<open>v["a"]["b"] = x\<close>\<close>

definition put_in :: "string \<Rightarrow> string \<Rightarrow> json \<Rightarrow> json \<Rightarrow> json" where
  "put_in a b x v = (case json_get v a of None \<Rightarrow> v | Some w \<Rightarrow> json_put a (json_put b x w) v)"

definition build_email_object :: "send_email_params \<Rightarrow> string \<Rightarrow> json \<Rightarrow> error_data + json" where
  "build_email_object params drafts from =
     (if se_body_html params \<noteq> None \<and> trim (se_body_text params) = [] then
        Inl (invalid_params (''body_html requires a non-empty body_text: clients that do not render HTML ''
               @ ''would show an empty message''))
      else
        (let o1 = draft_object drafts from (email_objs (se_to params)) (se_subject params)
                    (se_body_text params) [];
             o2 = (case se_body_html params of
                     None \<Rightarrow> o1
                   | Some html \<Rightarrow>
                       json_put ''htmlBody'' html_part (put_in ''bodyValues'' ''h'' (body_value html) o1));
             o3 = (if se_cc params = [] then o2 else json_put ''cc'' (JArr (email_objs (se_cc params))) o2);
             o4 = (if se_bcc params = [] then o3 else json_put ''bcc'' (JArr (email_objs (se_bcc params))) o3);
             o5 = (case se_in_reply_to params of
                     None \<Rightarrow> o4 | Some irt \<Rightarrow> json_put ''inReplyTo'' (jstrs [irt]) o4)
         in Inr o5))"

text \<open>
  Submission: the draft and its submission in one batch; on success the copy loses \<^verbatim>\<open>$draft\<close> and
  moves to the sent mailbox, where there is one.
\<close>

definition sent_patch :: "string \<Rightarrow> string option \<Rightarrow> json" where
  "sent_patch drafts sent =
     (let p = jobj [(''keywords/$draft'', JNull), (''keywords/$seen'', JBool True)]
      in case sent of
           None \<Rightarrow> p
         | Some sent_id \<Rightarrow>
             json_put (''mailboxIds/'' @ drafts) JNull
               (json_put (''mailboxIds/'' @ sent_id) (JBool True) p))"

definition submission_calls ::
  "string \<Rightarrow> json \<Rightarrow> string \<Rightarrow> json \<Rightarrow> method_call list" where
  "submission_calls acct email_obj identity_id patch =
     [(''Email/set'', jobj [(''accountId'', JStr acct), (''create'', jobj [(''draft'', email_obj)])], ''e''),
      (''EmailSubmission/set'',
       jobj [(''accountId'', JStr acct),
             (''create'', jobj [(''sub'', jobj [(''identityId'', JStr identity_id),
                                                (''emailId'', JStr ''#draft'')])]),
             (''onSuccessUpdateEmail'', jobj [(''#sub'', patch)])], ''s'')]"

text \<open>\<^verbatim>\<open>created_id\<close>, and the errors for a set that created nothing.\<close>

definition created_id :: "responses \<Rightarrow> string \<Rightarrow> string \<Rightarrow> string option" where
  "created_id resps meth key =
     Option.bind (method_payload resps meth) (\<lambda>p.
     Option.bind (json_get p ''created'') (\<lambda>c.
     Option.bind (json_get c key) (\<lambda>v. get_str v ''id'')))"

definition not_created_reason ::
  "(json \<Rightarrow> string) \<Rightarrow> responses \<Rightarrow> string \<Rightarrow> string \<Rightarrow> string" where
  "not_created_reason show resps meth none =
     (case Option.bind (method_payload resps meth) (\<lambda>p. json_get p ''notCreated'') of
        None \<Rightarrow> none
      | Some v \<Rightarrow> show v)"

definition email_set_failure :: "(json \<Rightarrow> string) \<Rightarrow> responses \<Rightarrow> error_data" where
  "email_set_failure show resps =
     internal_error (''send failed at draft creation: ''
       @ not_created_reason show resps ''Email/set'' ''Email/set created no draft'')"

definition submission_failure :: "(json \<Rightarrow> string) \<Rightarrow> responses \<Rightarrow> error_data" where
  "submission_failure show resps =
     internal_error (''send failed at submission: ''
       @ not_created_reason show resps ''EmailSubmission/set''
           ''EmailSubmission/set created no submission'')"

definition submit ::
  "('w, 'k, 'b) service \<Rightarrow> string \<Rightarrow> string \<Rightarrow> json \<Rightarrow> string \<Rightarrow> json
   \<Rightarrow> ('w, 'k, 'b, string \<times> string) tool" where
  "submit X token acct email_obj identity_id patch =
     bindE (call X token [CAP_CORE, CAP_MAIL, CAP_SUBMISSION]
              (submission_calls acct email_obj identity_id patch)) (\<lambda>resps.
     bindE (need (email_set_failure (show_json X) resps) (created_id resps ''Email/set'' ''draft''))
       (\<lambda>email_id.
     bindE (need (submission_failure (show_json X) resps)
             (created_id resps ''EmailSubmission/set'' ''sub'')) (\<lambda>submission_id.
       ret (email_id, submission_id))))"

end
