(* ===== verification/Core_Tools.thy ===== *)
theory Core_Tools
  imports Email_View
begin

text \<open>The core router of \<^verbatim>\<open>src/mcp.rs\<close>: identity, mailboxes, listing, reading and sending.\<close>

section \<open>Who am I\<close>

record whoami_result =
  wh_email :: "string option"
  wh_name :: "string option"
  wh_account_id :: "string option"

definition whoami :: "('w, 'k, 'b) service \<Rightarrow> request_ctx \<Rightarrow> ('w, 'k, 'b, whoami_result) tool" where
  "whoami X ctx =
     run_tool X ctx ''whoami'' None None (\<lambda>_. None) Read
       (with_token ctx (\<lambda>token.
        bindE (map_err map_jmap_err (session_for X token)) (\<lambda>session.
          ret \<lparr>wh_email = (case session_email_of ctx of Some e \<Rightarrow> Some e | None \<Rightarrow> username session),
               wh_name = Option.bind (cx_identity ctx) display_name,
               wh_account_id = mail_account_id session\<rparr>)))"

section \<open>Identities\<close>

record listed_identity =
  li_id :: "string option"
  li_email :: string
  li_name :: "string option"
  li_role :: bool

definition listed :: "owned_address \<Rightarrow> listed_identity" where
  "listed a =
     \<lparr>li_id = oa_identity_id a, li_email = oa_email a, li_name = oa_name a,
      li_role = is_role_address (oa_email a)\<rparr>"

text \<open>\<^verbatim>\<open>sort_by\<close> role, then address; the sort is stable.\<close>

definition sort_listed :: "listed_identity list \<Rightarrow> listed_identity list" where
  "sort_listed l = sort_key li_role (sort_key li_email l)"

definition get_identities ::
  "('w, 'k, 'b) service \<Rightarrow> request_ctx \<Rightarrow> ('w, 'k, 'b, listed_identity list) tool" where
  "get_identities X ctx =
     run_tool X ctx ''get_identities'' None None (counting length) Read
       (with_account X ctx (\<lambda>token acct.
        bindE (map_err map_jmap_err (owned_addresses X token acct (session_email_of ctx))) (\<lambda>owned.
          ret (sort_listed (map listed owned)))))"

section \<open>Mailboxes\<close>

record mailbox_summary =
  ms_id :: string
  ms_name :: string
  ms_role :: "string option"
  ms_parent_id :: "string option"
  ms_unread_count :: u64
  ms_total_count :: u64

definition get_count :: "json \<Rightarrow> string \<Rightarrow> u64" where
  "get_count m k = (case Option.bind (json_get m k) as_u64 of None \<Rightarrow> 0 | Some n \<Rightarrow> n)"

definition summary_of :: "json \<Rightarrow> mailbox_summary option" where
  "summary_of m =
     map_option
       (\<lambda>i. \<lparr>ms_id = i, ms_name = opt_str (str_field m ''name''), ms_role = str_field m ''role'',
             ms_parent_id = str_field m ''parentId'', ms_unread_count = get_count m ''unreadEmails'',
             ms_total_count = get_count m ''totalEmails''\<rparr>)
       (str_field m ''id'')"

definition list_mailboxes ::
  "('w, 'k, 'b) service \<Rightarrow> request_ctx \<Rightarrow> ('w, 'k, 'b, mailbox_summary list) tool" where
  "list_mailboxes X ctx =
     run_tool X ctx ''list_mailboxes'' None None (counting length) Read
       (with_account X ctx (\<lambda>token acct.
        bindE (all_mailboxes X token acct) (\<lambda>l.
          ret (List.map_filter summary_of l))))"

section \<open>Recent emails\<close>

record email_summary =
  es_id :: string
  es_from :: "string list"
  es_to :: "string list"
  es_subject :: "string option"
  es_received_at :: "string option"
  es_keywords :: "string list"
  es_thread_id :: "string option"
  es_untrusted_content :: bool
  es_suspicious :: bool

definition option_list :: "'a option \<Rightarrow> 'a list" where
  "option_list v = (case v of None \<Rightarrow> [] | Some a \<Rightarrow> [a])"

definition email_summary_of :: "json \<Rightarrow> email_summary" where
  "email_summary_of e =
     (let raw_from = addrs e ''from''; raw_to = addrs e ''to''; raw_subject = str_field e ''subject''
      in \<lparr>es_id = opt_str (str_field e ''id''),
          es_from = sanitize_external_list raw_from, es_to = sanitize_external_list raw_to,
          es_subject = map_option sanitize_external_text raw_subject,
          es_received_at = str_field e ''receivedAt'', es_keywords = keywords_of e,
          es_thread_id = str_field e ''threadId'', es_untrusted_content = True,
          es_suspicious =
            external_texts_suspicious (raw_from @ raw_to @ option_list raw_subject)\<rparr>)"

definition newest_first :: json where
  "newest_first = JArr [jobj [(''property'', JStr ''receivedAt''), (''isAscending'', JBool False)]]"

definition recent_calls :: "string \<Rightarrow> string \<Rightarrow> u32 \<Rightarrow> method_call list" where
  "recent_calls acct mailbox_id limit =
     [(''Email/query'',
       jobj [(''accountId'', JStr acct), (''filter'', jobj [(''inMailbox'', JStr mailbox_id)]),
             (''sort'', newest_first), (''limit'', jnum (ucast limit))], ''q''),
      (''Email/get'',
       jobj [(''accountId'', JStr acct), (''#ids'', result_of ''q'' ''Email/query'' ''/ids''),
             (''properties'', jstrs [''from'', ''to'', ''subject'', ''receivedAt'', ''keywords'', ''threadId''])],
       ''g'')]"

definition list_recent_emails ::
  "('w, 'k, 'b) service \<Rightarrow> request_ctx \<Rightarrow> string \<Rightarrow> u32 \<Rightarrow> ('w, 'k, 'b, email_summary list) tool" where
  "list_recent_emails X ctx mailbox_id limit =
     run_tool X ctx ''list_recent_emails'' (Some mailbox_id) None (counting length) Read
       (with_account X ctx (\<lambda>token acct.
        bindE (call X token [CAP_CORE, CAP_MAIL]
                 (recent_calls acct mailbox_id (capped_email_limit limit))) (\<lambda>resps.
          ret (map email_summary_of (method_list resps ''Email/get'')))))"

section \<open>Reading an email\<close>

record attachment_summary =
  at_blob_id :: "string option"
  at_name :: "string option"
  at_content_type :: "string option"
  at_size :: "u64 option"

record read_email_result =
  re_id :: string
  re_from :: "string list"
  re_to :: "string list"
  re_cc :: "string list"
  re_subject :: "string option"
  re_received_at :: "string option"
  re_thread_id :: "string option"
  re_keywords :: "string list"
  re_body_text :: string
  re_body_html :: "string option"
  re_suspicious :: bool
  re_untrusted_content :: bool
  re_attachments :: "attachment_summary list"

definition attachments_of :: "json \<Rightarrow> json list" where
  "attachments_of mail = (case get_array mail ''attachments'' of None \<Rightarrow> [] | Some a \<Rightarrow> a)"

definition attachment_summary_of :: "json \<Rightarrow> attachment_summary" where
  "attachment_summary_of att =
     \<lparr>at_blob_id = str_field att ''blobId'',
      at_name = map_option sanitize_external_text (str_field att ''name''),
      at_content_type = str_field att ''type'',
      at_size = Option.bind (json_get att ''size'') as_u64\<rparr>"

definition read_result_of :: "string \<Rightarrow> json \<Rightarrow> read_email_result" where
  "read_result_of email_id mail =
     (let raw_body = truncate_text_body (extract_text_body mail);
          raw_from = addrs mail ''from''; raw_to = addrs mail ''to''; raw_cc = addrs mail ''cc'';
          raw_subject = str_field mail ''subject'';
          verdict = evaluate None (first_of raw_from) (Some email_id) raw_body;
          html = read_email_html_body mail (first_of raw_from) email_id;
          raw_names = List.map_filter (\<lambda>att. str_field att ''name'') (attachments_of mail);
          envelope_suspicious =
            external_texts_suspicious (raw_from @ raw_to @ raw_cc @ option_list raw_subject @ raw_names)
      in \<lparr>re_id = email_id, re_from = sanitize_external_list raw_from,
          re_to = sanitize_external_list raw_to, re_cc = sanitize_external_list raw_cc,
          re_subject = map_option sanitize_external_text raw_subject,
          re_received_at = str_field mail ''receivedAt'', re_thread_id = str_field mail ''threadId'',
          re_keywords = keywords_of mail, re_body_text = wrapped verdict,
          re_body_html = hb_escaped html,
          re_suspicious = (suspicious verdict \<or> hb_suspicious html \<or> envelope_suspicious),
          re_untrusted_content = True,
          re_attachments = map attachment_summary_of (attachments_of mail)\<rparr>)"

definition email_not_found :: error_data where
  "email_not_found = invalid_params ''email_id: not found''"

definition read_email ::
  "('w, 'k, 'b) service \<Rightarrow> request_ctx \<Rightarrow> string \<Rightarrow> ('w, 'k, 'b, read_email_result) tool" where
  "read_email X ctx email_id =
     run_tool X ctx ''read_email'' (Some email_id) None (\<lambda>_. Some 1) Read
       (with_account X ctx (\<lambda>token acct.
        bindE (call X token [CAP_CORE, CAP_MAIL]
                 [(''Email/get'', read_email_get_args acct email_id, ''g'')]) (\<lambda>resps.
        bindE (need email_not_found (first_listed resps ''Email/get'')) (\<lambda>mail.
          ret (read_result_of email_id mail)))))"

section \<open>Sending\<close>

definition no_recipients :: error_data where
  "no_recipients = invalid_params ''`to` must not be empty''"

definition no_drafts :: error_data where
  "no_drafts = internal_error ''no Drafts mailbox found''"

definition send_email ::
  "('w, 'k, 'b) service \<Rightarrow> request_ctx \<Rightarrow> send_email_params \<Rightarrow> ('w, 'k, 'b, string \<times> string) tool" where
  "send_email X ctx params =
     run_tool X ctx ''send_email'' None (Some None) (\<lambda>_. None) Write
       (bindE (refuse_if (se_to params = []) no_recipients) (\<lambda>_.
        with_account X ctx (\<lambda>token acct.
        bindE (all_mailboxes X token acct) (\<lambda>mailboxes.
        bindE (need no_drafts (role_mailbox mailboxes ''drafts'')) (\<lambda>drafts.
        bindE (resolve_submission_identity X token acct (Some (se_from params)) []
                 (session_email_of ctx)) (\<lambda>from.
        bindE (lift (build_email_object params drafts (from_header from))) (\<lambda>email_obj.
          submit X token acct email_obj (cf_identity_id from)
            (sent_patch drafts (role_mailbox mailboxes ''sent'')))))))))"

section \<open>Contracts\<close>

context read_policy
begin

lemma emits_whoami: "emits (for_ctx P ctx) (whoami X ctx)"
  unfolding whoami_def by (intro emits_reads emits_ret)

lemma emits_get_identities: "emits (for_ctx P ctx) (get_identities X ctx)"
  unfolding get_identities_def by (intro emits_reads emits_ret)

lemma emits_list_mailboxes: "emits (for_ctx P ctx) (list_mailboxes X ctx)"
  unfolding list_mailboxes_def by (intro emits_reads emits_ret)

lemma emits_list_recent_emails: "emits (for_ctx P ctx) (list_recent_emails X ctx m l)"
  unfolding list_recent_emails_def
  by (intro emits_reads emits_ret) (simp add: read_calls_simps recent_calls_def)

lemma emits_read_email: "emits (for_ctx P ctx) (read_email X ctx i)"
  unfolding read_email_def by (intro emits_reads emits_ret emits_need) (simp add: read_calls_simps)

end

context write_policy
begin

lemma emits_submit: "emits (P token) (submit X token acct obj ident patch)"
  unfolding submit_def
  by (intro emits_bindE emits_keeping_call emits_need emits_ret) (simp add: submission_calls_def keeping)

lemma emits_send_email: "emits (for_ctx P ctx) (send_email X ctx p)"
  unfolding send_email_def
  by (intro emits_reads emits_submit emits_need emits_lift emits_refuse_if)

end

end
