(* ===== verification/Read_Tools.thy ===== *)
theory Read_Tools
  imports Core_Tools "HOL-Library.Option_ord"
begin

text \<open>
  \<^verbatim>\<open>src/mcp/reads.rs\<close>: mailbox details, search, threads, unread and activity summaries, headers
  and attachment listings.
\<close>

section \<open>One mailbox\<close>

record mailbox_info =
  mi_id :: string
  mi_name :: string
  mi_role :: "string option"
  mi_parent_id :: "string option"
  mi_unread_count :: u64
  mi_total_count :: u64
  mi_sort_order :: "u64 option"
  mi_is_subscribed :: "bool option"

definition mailbox_info_of :: "string \<Rightarrow> json \<Rightarrow> mailbox_info" where
  "mailbox_info_of mailbox_id m =
     \<lparr>mi_id = (case str_field m ''id'' of None \<Rightarrow> mailbox_id | Some i \<Rightarrow> i),
      mi_name = opt_str (str_field m ''name''), mi_role = str_field m ''role'',
      mi_parent_id = str_field m ''parentId'', mi_unread_count = get_count m ''unreadEmails'',
      mi_total_count = get_count m ''totalEmails'',
      mi_sort_order = Option.bind (json_get m ''sortOrder'') as_u64,
      mi_is_subscribed = Option.bind (json_get m ''isSubscribed'') as_bool\<rparr>"

definition mailbox_not_found :: error_data where
  "mailbox_not_found = invalid_params ''mailbox_id: not found''"

definition get_mailbox_info ::
  "('w, 'k, 'b) service \<Rightarrow> request_ctx \<Rightarrow> string \<Rightarrow> ('w, 'k, 'b, mailbox_info) tool" where
  "get_mailbox_info X ctx mailbox_id =
     run_tool X ctx ''get_mailbox_info'' (Some mailbox_id) None (\<lambda>_. Some 1) Read
       (with_account X ctx (\<lambda>token acct.
        bindE (call X token [CAP_CORE, CAP_MAIL]
                 [(''Mailbox/get'', jobj [(''accountId'', JStr acct), (''ids'', jstrs [mailbox_id])], ''m'')])
          (\<lambda>resps.
        bindE (need mailbox_not_found (first_listed resps ''Mailbox/get'')) (\<lambda>m.
          ret (mailbox_info_of mailbox_id m)))))"

section \<open>Search\<close>

record search_hit =
  sh_id :: string
  sh_from :: "string list"
  sh_subject :: "string option"
  sh_received_at :: "string option"
  sh_snippet :: "string option"
  sh_untrusted_content :: bool
  sh_suspicious :: bool

definition search_filter :: "string \<Rightarrow> string option \<Rightarrow> json" where
  "search_filter query mailbox_id =
     (let f = jobj [(''text'', JStr query)]
      in case mailbox_id of None \<Rightarrow> f | Some mb \<Rightarrow> json_put ''inMailbox'' (JStr mb) f)"

definition search_snippets_unsupported :: "jmap_error \<Rightarrow> bool" where
  "search_snippets_unsupported e =
     (case e of
        Method_Error error_type _ \<Rightarrow> error_type = ''unknownMethod'' \<or> error_type = ''unknownCapability''
      | _ \<Rightarrow> False)"

definition snippet_of :: "json \<Rightarrow> (string \<times> string) option" where
  "snippet_of v =
     map_option
       (\<lambda>i. (i, case get_str v ''preview'' of Some t \<Rightarrow> t | None \<Rightarrow> opt_str (get_str v ''subject'')))
       (str_field v ''emailId'')"

definition search_snippets ::
  "('w, 'k, 'b) service \<Rightarrow> string \<Rightarrow> string \<Rightarrow> string \<Rightarrow> string list \<Rightarrow> string option
   \<Rightarrow> (('w, 'k, 'b) service_state, jmap_error, string \<Rightarrow> string option) comp" where
  "search_snippets X token acct query ids mailbox_id =
     (if ids = [] then ret (\<lambda>_. None)
      else
        attempt (jmap_call X token [CAP_CORE, CAP_MAIL]
                   [(''SearchSnippet/get'',
                     jobj [(''accountId'', JStr acct), (''filter'', search_filter query mailbox_id),
                           (''emailIds'', jstrs ids)], ''s'')]) (\<lambda>r.
          case r of
            Inl e \<Rightarrow> if search_snippets_unsupported e then ret (\<lambda>_. None) else fail e
          | Inr resps \<Rightarrow>
              ret (map_of (rev (List.map_filter snippet_of (method_list resps ''SearchSnippet/get''))))))"

definition search_hit_of ::
  "string option \<Rightarrow> (string \<Rightarrow> string option) \<Rightarrow> json \<Rightarrow> search_hit" where
  "search_hit_of mailbox_id snippets e =
     (let i = opt_str (str_field e ''id'');
          raw_from = addrs e ''from''; raw_subject = str_field e ''subject'';
          snippet_verdict =
            (case snippets i of
               None \<Rightarrow> None
             | Some raw \<Rightarrow>
                 if raw = [] then None
                 else Some (evaluate mailbox_id (first_of raw_from) (Some i) raw))
      in \<lparr>sh_id = i, sh_from = sanitize_external_list raw_from,
          sh_subject = map_option sanitize_external_text raw_subject,
          sh_received_at = str_field e ''receivedAt'',
          sh_snippet = map_option wrapped snippet_verdict, sh_untrusted_content = True,
          sh_suspicious =
            ((case snippet_verdict of None \<Rightarrow> False | Some v \<Rightarrow> suspicious v)
             \<or> external_texts_suspicious (raw_from @ option_list raw_subject))\<rparr>)"

definition search_calls :: "string \<Rightarrow> json \<Rightarrow> u32 \<Rightarrow> method_call list" where
  "search_calls acct filt limit =
     [(''Email/query'',
       jobj [(''accountId'', JStr acct), (''filter'', filt), (''sort'', newest_first),
             (''limit'', jnum (ucast limit)), (''calculateTotal'', JBool True)], ''q''),
      (''Email/get'',
       jobj [(''accountId'', JStr acct), (''#ids'', result_of ''q'' ''Email/query'' ''/ids''),
             (''properties'', jstrs [''from'', ''subject'', ''receivedAt'', ''preview''])], ''g'')]"

definition search_emails ::
  "('w, 'k, 'b) service \<Rightarrow> request_ctx \<Rightarrow> string \<Rightarrow> string option \<Rightarrow> u32
   \<Rightarrow> ('w, 'k, 'b, search_hit list \<times> u64) tool" where
  "search_emails X ctx query mailbox_id limit =
     run_tool X ctx ''search_emails'' None None (counting (length \<circ> fst)) Read
       (with_account X ctx (\<lambda>token acct.
        bindE (call X token [CAP_CORE, CAP_MAIL]
                 (search_calls acct (search_filter query mailbox_id) (capped_email_limit limit))) (\<lambda>resps.
        (let total = (case method_payload resps ''Email/query'' of
                        None \<Rightarrow> 0 | Some p \<Rightarrow> get_count p ''total'');
             l = method_list resps ''Email/get'';
             ids = List.map_filter (\<lambda>e. str_field e ''id'') l
         in bindE (map_err map_jmap_err (search_snippets X token acct query ids mailbox_id)) (\<lambda>snippets.
              ret (map (search_hit_of mailbox_id snippets) l, total))))))"

section \<open>Threads\<close>

record thread_email =
  th_id :: string
  th_from :: "string list"
  th_subject :: "string option"
  th_received_at :: "string option"
  th_body_text :: string
  th_suspicious :: bool
  th_untrusted_content :: bool

text \<open>A stable sort in descending order of the key.\<close>

definition sort_desc :: "('a \<Rightarrow> 'o::linorder) \<Rightarrow> 'a list \<Rightarrow> 'a list" where
  "sort_desc f xs = rev (sort_key f (rev xs))"

definition thread_email_of :: "json \<Rightarrow> thread_email" where
  "thread_email_of e =
     (let i = opt_str (str_field e ''id'');
          raw_body = truncate_text_body (extract_text_body e);
          raw_from = addrs e ''from''; raw_subject = str_field e ''subject'';
          verdict = evaluate None (first_of raw_from) (Some i) raw_body
      in \<lparr>th_id = i, th_from = sanitize_external_list raw_from,
          th_subject = map_option sanitize_external_text raw_subject,
          th_received_at = str_field e ''receivedAt'', th_body_text = wrapped verdict,
          th_suspicious =
            (suspicious verdict \<or> external_texts_suspicious (raw_from @ option_list raw_subject)),
          th_untrusted_content = True\<rparr>)"

definition thread_calls :: "string \<Rightarrow> string \<Rightarrow> method_call list" where
  "thread_calls acct thread_id =
     [(''Thread/get'', jobj [(''accountId'', JStr acct), (''ids'', jstrs [thread_id])], ''t''),
      (''Email/get'',
       jobj [(''accountId'', JStr acct), (''#ids'', result_of ''t'' ''Thread/get'' ''/list/0/emailIds''),
             (''properties'', jstrs [''from'', ''subject'', ''receivedAt'', ''textBody'', ''bodyValues'']),
             (''fetchTextBodyValues'', JBool True), (''maxBodyValueBytes'', jnum MAX_BODY_VALUE_BYTES)],
       ''g'')]"

definition read_thread ::
  "('w, 'k, 'b) service \<Rightarrow> request_ctx \<Rightarrow> string \<Rightarrow> u32 \<Rightarrow> ('w, 'k, 'b, thread_email list) tool" where
  "read_thread X ctx thread_id limit =
     run_tool X ctx ''read_thread'' (Some thread_id) None (counting length) Read
       (with_account X ctx (\<lambda>token acct.
        bindE (call X token [CAP_CORE, CAP_MAIL] (thread_calls acct thread_id)) (\<lambda>resps.
          ret (map thread_email_of
                 (take (unat (capped_email_limit limit))
                   (sort_desc (\<lambda>e. str_field e ''receivedAt'') (method_list resps ''Email/get'')))))))"

section \<open>Summaries\<close>

record unread_mailbox =
  um_id :: string
  um_name :: string
  um_unread_count :: u64

definition saturating_add :: "u64 \<Rightarrow> u64 \<Rightarrow> u64" where
  "saturating_add a b = (if a + b < a then - 1 else a + b)"

definition unread_of :: "json \<Rightarrow> u64" where
  "unread_of m = get_count m ''unreadEmails''"

definition unread_mailbox_of :: "json \<Rightarrow> unread_mailbox option" where
  "unread_mailbox_of m =
     map_option
       (\<lambda>i. \<lparr>um_id = i, um_name = opt_str (str_field m ''name''), um_unread_count = unread_of m\<rparr>)
       (str_field m ''id'')"

definition total_unread :: "json list \<Rightarrow> u64" where
  "total_unread l = foldl (\<lambda>t m. saturating_add t (unread_of m)) 0 l"

definition get_unread_summary ::
  "('w, 'k, 'b) service \<Rightarrow> request_ctx \<Rightarrow> string list option
   \<Rightarrow> ('w, 'k, 'b, unread_mailbox list \<times> u64) tool" where
  "get_unread_summary X ctx mailbox_ids =
     run_tool X ctx ''get_unread_summary'' None None (counting (length \<circ> fst)) Read
       (with_account X ctx (\<lambda>token acct.
        (let ids = (case mailbox_ids of None \<Rightarrow> JNull | Some v \<Rightarrow> jstrs v)
         in bindE (call X token [CAP_CORE, CAP_MAIL]
                     [(''Mailbox/get'', jobj [(''accountId'', JStr acct), (''ids'', ids)], ''m'')]) (\<lambda>resps.
            (let l = method_list resps ''Mailbox/get''
             in ret (List.map_filter unread_mailbox_of l, total_unread l))))))"

record activity_mailbox =
  am_id :: string
  am_name :: string
  am_unread_count :: u64
  am_total_count :: u64

definition activity_of :: "json \<Rightarrow> activity_mailbox option" where
  "activity_of m =
     map_option
       (\<lambda>i. \<lparr>am_id = i, am_name = opt_str (str_field m ''name''), am_unread_count = unread_of m,
             am_total_count = get_count m ''totalEmails''\<rparr>)
       (str_field m ''id'')"

definition list_recent_activity ::
  "('w, 'k, 'b) service \<Rightarrow> request_ctx \<Rightarrow> u32 \<Rightarrow> ('w, 'k, 'b, activity_mailbox list) tool" where
  "list_recent_activity X ctx limit =
     run_tool X ctx ''list_recent_activity'' None None (counting length) Read
       (with_account X ctx (\<lambda>token acct.
        bindE (all_mailboxes X token acct) (\<lambda>l.
          ret (List.map_filter activity_of
                 (take (unat (capped_email_limit limit)) (sort_desc unread_of l))))))"

section \<open>Headers\<close>

record email_headers =
  eh_headers :: json
  eh_received_at :: "string option"
  eh_untrusted_content :: bool
  eh_suspicious :: bool

definition get_or_null :: "json \<Rightarrow> string \<Rightarrow> json" where
  "get_or_null v k = (case json_get v k of None \<Rightarrow> JNull | Some x \<Rightarrow> x)"

definition headers_of :: "json \<Rightarrow> email_headers" where
  "headers_of mail =
     (let raw_subject = str_field mail ''subject'';
          raw_from = addrs mail ''from''; raw_to = addrs mail ''to'';
          message_id = get_or_null mail ''messageId'';
          in_reply_to = get_or_null mail ''inReplyTo'';
          references = get_or_null mail ''references''
      in \<lparr>eh_headers = jobj
            [(''message_id'', sanitize_external_value message_id),
             (''in_reply_to'', sanitize_external_value in_reply_to),
             (''references'', sanitize_external_value references),
             (''sent_at'', get_or_null mail ''sentAt''),
             (''subject'', case raw_subject of None \<Rightarrow> JNull | Some t \<Rightarrow> JStr (sanitize_external_text t)),
             (''from'', jstrs (sanitize_external_list raw_from)),
             (''to'', jstrs (sanitize_external_list raw_to))],
          eh_received_at = str_field mail ''receivedAt'', eh_untrusted_content = True,
          eh_suspicious =
            (external_texts_suspicious (raw_from @ raw_to @ option_list raw_subject)
             \<or> external_value_suspicious message_id \<or> external_value_suspicious in_reply_to
             \<or> external_value_suspicious references)\<rparr>)"

definition get_email_headers ::
  "('w, 'k, 'b) service \<Rightarrow> request_ctx \<Rightarrow> string \<Rightarrow> ('w, 'k, 'b, email_headers) tool" where
  "get_email_headers X ctx email_id =
     run_tool X ctx ''get_email_headers'' (Some email_id) None (\<lambda>_. Some 1) Read
       (with_account X ctx (\<lambda>token acct.
        bindE (call X token [CAP_CORE, CAP_MAIL]
                 [(''Email/get'',
                   jobj [(''accountId'', JStr acct), (''ids'', jstrs [email_id]),
                         (''properties'', jstrs [''messageId'', ''inReplyTo'', ''references'', ''sentAt'',
                            ''receivedAt'', ''subject'', ''from'', ''to''])], ''g'')]) (\<lambda>resps.
        bindE (need email_not_found (first_listed resps ''Email/get'')) (\<lambda>mail.
          ret (headers_of mail)))))"

section \<open>Attachments\<close>

record attachment_info =
  ai_blob_id :: "string option"
  ai_filename :: "string option"
  ai_content_type :: "string option"
  ai_size_bytes :: "u64 option"
  ai_is_inline :: bool

record attachment_listing =
  al_attachments :: "attachment_info list"
  al_untrusted_content :: bool
  al_suspicious :: bool

definition attachment_info_of :: "json \<Rightarrow> attachment_info" where
  "attachment_info_of att =
     \<lparr>ai_blob_id = str_field att ''blobId'',
      ai_filename = map_option sanitize_external_text (str_field att ''name''),
      ai_content_type = str_field att ''type'',
      ai_size_bytes = Option.bind (json_get att ''size'') as_u64,
      ai_is_inline =
        ((case get_str att ''disposition'' of None \<Rightarrow> False | Some d \<Rightarrow> eq_ignore_ascii_case d ''inline'')
         \<or> get_str att ''cid'' \<noteq> None)\<rparr>"

definition attachment_listing_of :: "json \<Rightarrow> attachment_listing" where
  "attachment_listing_of mail =
     \<lparr>al_attachments = map attachment_info_of (attachments_of mail), al_untrusted_content = True,
      al_suspicious =
        external_texts_suspicious (List.map_filter (\<lambda>att. str_field att ''name'') (attachments_of mail))\<rparr>"

definition attachment_call :: "string \<Rightarrow> string \<Rightarrow> method_call list" where
  "attachment_call acct email_id =
     [(''Email/get'',
       jobj [(''accountId'', JStr acct), (''ids'', jstrs [email_id]),
             (''properties'', jstrs [''attachments''])], ''g'')]"

definition list_attachments ::
  "('w, 'k, 'b) service \<Rightarrow> request_ctx \<Rightarrow> string \<Rightarrow> ('w, 'k, 'b, attachment_listing) tool" where
  "list_attachments X ctx email_id =
     run_tool X ctx ''list_attachments'' (Some email_id) None (counting (length \<circ> al_attachments)) Read
       (with_account X ctx (\<lambda>token acct.
        bindE (call X token [CAP_CORE, CAP_MAIL] (attachment_call acct email_id)) (\<lambda>resps.
        bindE (need email_not_found (first_listed resps ''Email/get'')) (\<lambda>mail.
          ret (attachment_listing_of mail)))))"

section \<open>Contracts\<close>

context read_policy
begin

lemma emits_search_snippets:
  "emits (P token) (map_err map_jmap_err (search_snippets X token acct query ids mb))"
  unfolding search_snippets_def
  by (intro emits_intros emits_jmap_call read_calls_ok) (simp add: read_calls_simps)

lemma emits_read_tools:
  "emits (for_ctx P ctx) (get_mailbox_info X ctx i)"
  "emits (for_ctx P ctx) (search_emails X ctx query mb l)"
  "emits (for_ctx P ctx) (read_thread X ctx i l)"
  "emits (for_ctx P ctx) (get_unread_summary X ctx ids)"
  "emits (for_ctx P ctx) (list_recent_activity X ctx l)"
  "emits (for_ctx P ctx) (get_email_headers X ctx i)"
  "emits (for_ctx P ctx) (list_attachments X ctx i)"
  unfolding get_mailbox_info_def search_emails_def read_thread_def get_unread_summary_def
    list_recent_activity_def get_email_headers_def list_attachments_def Let_def
  by (intro emits_reads emits_ret emits_need emits_search_snippets;
      simp add: read_calls_simps search_calls_def thread_calls_def attachment_call_def)+

end

end
