(* ===== verification/Flag_Tools.thy ===== *)
theory Flag_Tools
  imports Core_Tools
begin

text \<open>
  \<^verbatim>\<open>src/mcp/flags.rs\<close> and \<^verbatim>\<open>src/mcp/spam.rs\<close>: keywords, flags and placement, as one \<^verbatim>\<open>Email/set\<close>
  that applies the same patch to every email of the call. Logging of record-level failures is
  left out.
\<close>

section \<open>The update\<close>

text \<open>\<^verbatim>\<open>serde_json::Map::insert\<close> in a loop: a repeated id occurs once.\<close>

definition update_map :: "string list \<Rightarrow> json \<Rightarrow> jmap" where
  "update_map email_ids patch = foldl (\<lambda>m i. obj_insert i patch m) [] email_ids"

definition update_call :: "string \<Rightarrow> jmap \<Rightarrow> method_call list" where
  "update_call acct update =
     [(''Email/set'', jobj [(''accountId'', JStr acct), (''update'', JObj update)], ''e'')]"

text \<open>\<^verbatim>\<open>u32::try_from(count).unwrap_or(u32::MAX)\<close>\<close>

definition u32_of :: "nat \<Rightarrow> u32" where
  "u32_of n = (if n < 2 ^ 32 then of_nat n else - 1)"

definition updated_count :: "responses \<Rightarrow> nat" where
  "updated_count resps =
     (case Option.bind (method_payload resps ''Email/set'') (\<lambda>p. get_object p ''updated'') of
        None \<Rightarrow> 0 | Some m \<Rightarrow> length m)"

definition no_email_ids :: error_data where
  "no_email_ids = invalid_params ''email_ids: must not be empty''"

definition replace_mailboxes ::
  "('w, 'k, 'b) service \<Rightarrow> string \<Rightarrow> string \<Rightarrow> string list \<Rightarrow> json \<Rightarrow> ('w, 'k, 'b, u32) tool" where
  "replace_mailboxes X token acct email_ids patch =
     bindE (call X token [CAP_CORE, CAP_MAIL] (update_call acct (update_map email_ids patch))) (\<lambda>resps.
       ret (u32_of (updated_count resps)))"

definition email_set_update ::
  "('w, 'k, 'b) service \<Rightarrow> string \<Rightarrow> string \<Rightarrow> string list \<Rightarrow> json \<Rightarrow> ('w, 'k, 'b, u32) tool" where
  "email_set_update X token acct email_ids patch =
     bindE (refuse_if (email_ids = []) no_email_ids) (\<lambda>_.
     bindE (call X token [CAP_CORE, CAP_MAIL] (update_call acct (update_map email_ids patch))) (\<lambda>resps.
       ret (u32_of (updated_count resps))))"

section \<open>Keywords and flags\<close>

definition flag_keyword :: "string \<Rightarrow> string" where
  "flag_keyword flag =
     (if flag = ''flagged'' then ''$flagged''
      else if flag = ''answered'' then ''$answered''
      else if flag = ''forwarded'' then ''$forwarded''
      else flag)"

definition keyword_patch :: "string \<Rightarrow> json \<Rightarrow> json" where
  "keyword_patch kw v = jobj [(''keywords/'' @ kw, v)]"

definition mark_read ::
  "('w, 'k, 'b) service \<Rightarrow> request_ctx \<Rightarrow> string list \<Rightarrow> ('w, 'k, 'b, u32) tool" where
  "mark_read X ctx email_ids =
     run_tool X ctx ''mark_read'' None (Some None) (\<lambda>_. None) Write
       (with_account X ctx (\<lambda>token acct.
          email_set_update X token acct email_ids (jobj [(''keywords/$seen'', JBool True)])))"

definition mark_unread ::
  "('w, 'k, 'b) service \<Rightarrow> request_ctx \<Rightarrow> string list \<Rightarrow> ('w, 'k, 'b, u32) tool" where
  "mark_unread X ctx email_ids =
     run_tool X ctx ''mark_unread'' None (Some None) (\<lambda>_. None) Write
       (with_account X ctx (\<lambda>token acct.
          email_set_update X token acct email_ids (jobj [(''keywords/$seen'', JNull)])))"

definition set_flag ::
  "('w, 'k, 'b) service \<Rightarrow> request_ctx \<Rightarrow> string list \<Rightarrow> string \<Rightarrow> ('w, 'k, 'b, u32) tool" where
  "set_flag X ctx email_ids flag =
     run_tool X ctx ''set_flag'' None (Some None) (\<lambda>_. None) Write
       (with_account X ctx (\<lambda>token acct.
          email_set_update X token acct email_ids (keyword_patch (flag_keyword flag) (JBool True))))"

definition unset_flag ::
  "('w, 'k, 'b) service \<Rightarrow> request_ctx \<Rightarrow> string list \<Rightarrow> string \<Rightarrow> ('w, 'k, 'b, u32) tool" where
  "unset_flag X ctx email_ids flag =
     run_tool X ctx ''unset_flag'' None (Some None) (\<lambda>_. None) Write
       (with_account X ctx (\<lambda>token acct.
          email_set_update X token acct email_ids (keyword_patch (flag_keyword flag) JNull)))"

definition set_keyword ::
  "('w, 'k, 'b) service \<Rightarrow> request_ctx \<Rightarrow> string list \<Rightarrow> string \<Rightarrow> ('w, 'k, 'b, u32) tool" where
  "set_keyword X ctx email_ids keyword =
     run_tool X ctx ''set_keyword'' None (Some None) (\<lambda>_. None) Write
       (with_account X ctx (\<lambda>token acct.
          email_set_update X token acct email_ids (keyword_patch keyword (JBool True))))"

definition unset_keyword ::
  "('w, 'k, 'b) service \<Rightarrow> request_ctx \<Rightarrow> string list \<Rightarrow> string \<Rightarrow> ('w, 'k, 'b, u32) tool" where
  "unset_keyword X ctx email_ids keyword =
     run_tool X ctx ''unset_keyword'' None (Some None) (\<lambda>_. None) Write
       (with_account X ctx (\<lambda>token acct.
          email_set_update X token acct email_ids (keyword_patch keyword JNull)))"

section \<open>Placement\<close>

definition membership :: "string \<Rightarrow> json" where
  "membership mailbox_id = jobj [(''mailboxIds'', jobj [(mailbox_id, JBool True)])]"

definition move_to_mailbox ::
  "('w, 'k, 'b) service \<Rightarrow> request_ctx \<Rightarrow> string list \<Rightarrow> string \<Rightarrow> ('w, 'k, 'b, u32) tool" where
  "move_to_mailbox X ctx email_ids target =
     run_tool X ctx ''move_to_mailbox'' (Some target) (Some (Some target)) (\<lambda>_. None) Write
       (with_account X ctx (\<lambda>token acct.
          email_set_update X token acct email_ids (membership target)))"

definition copy_to_mailbox ::
  "('w, 'k, 'b) service \<Rightarrow> request_ctx \<Rightarrow> string list \<Rightarrow> string \<Rightarrow> ('w, 'k, 'b, u32) tool" where
  "copy_to_mailbox X ctx email_ids target =
     run_tool X ctx ''copy_to_mailbox'' (Some target) (Some (Some target)) (\<lambda>_. None) Write
       (with_account X ctx (\<lambda>token acct.
          email_set_update X token acct email_ids (jobj [(''mailboxIds/'' @ target, JBool True)])))"

definition mark_as_spam ::
  "('w, 'k, 'b) service \<Rightarrow> request_ctx \<Rightarrow> string list \<Rightarrow> ('w, 'k, 'b, u32) tool" where
  "mark_as_spam X ctx email_ids =
     run_tool X ctx ''mark_as_spam'' None (Some None) (\<lambda>_. None) Write
       (bindE (refuse_if (email_ids = []) no_email_ids) (\<lambda>_.
        with_account X ctx (\<lambda>token acct.
        bindE (all_mailboxes X token acct) (\<lambda>mailboxes.
        bindE (need (invalid_params ''no Junk mailbox found'') (role_mailbox mailboxes ''junk'')) (\<lambda>junk.
          replace_mailboxes X token acct email_ids (membership junk))))))"

definition mark_as_not_spam ::
  "('w, 'k, 'b) service \<Rightarrow> request_ctx \<Rightarrow> string list \<Rightarrow> ('w, 'k, 'b, u32) tool" where
  "mark_as_not_spam X ctx email_ids =
     run_tool X ctx ''mark_as_not_spam'' None (Some None) (\<lambda>_. None) Write
       (bindE (refuse_if (email_ids = []) no_email_ids) (\<lambda>_.
        with_account X ctx (\<lambda>token acct.
        bindE (all_mailboxes X token acct) (\<lambda>mailboxes.
        bindE (need (invalid_params ''no Inbox mailbox found'') (role_mailbox mailboxes ''inbox'')) (\<lambda>inbox.
          replace_mailboxes X token acct email_ids (membership inbox))))))"

section \<open>Contracts\<close>

lemma update_updates: "updating_calls (update_call acct u)"
  by (simp add: update_call_def updating)

context update_policy
begin

lemma emits_email_set_update: "emits (P token) (email_set_update X token acct ids patch)"
  unfolding email_set_update_def
  by (intro emits_bindE emits_updating_call emits_ret emits_refuse_if) (rule update_updates)

lemma emits_replace_mailboxes: "emits (P token) (replace_mailboxes X token acct ids patch)"
  unfolding replace_mailboxes_def by (intro emits_bindE emits_updating_call emits_ret) (rule update_updates)

lemma emits_flag_tools:
  "emits (for_ctx P ctx) (mark_read X ctx ids)"
  "emits (for_ctx P ctx) (mark_unread X ctx ids)"
  "emits (for_ctx P ctx) (set_flag X ctx ids f)"
  "emits (for_ctx P ctx) (unset_flag X ctx ids f)"
  "emits (for_ctx P ctx) (set_keyword X ctx ids f)"
  "emits (for_ctx P ctx) (unset_keyword X ctx ids f)"
  "emits (for_ctx P ctx) (move_to_mailbox X ctx ids f)"
  "emits (for_ctx P ctx) (copy_to_mailbox X ctx ids f)"
  "emits (for_ctx P ctx) (mark_as_spam X ctx ids)"
  "emits (for_ctx P ctx) (mark_as_not_spam X ctx ids)"
  unfolding mark_read_def mark_unread_def set_flag_def unset_flag_def set_keyword_def unset_keyword_def
    move_to_mailbox_def copy_to_mailbox_def mark_as_spam_def mark_as_not_spam_def
  by (intro emits_run_tool emits_with_account emits_email_set_update emits_replace_mailboxes
      emits_bindE emits_refuse_if emits_need emits_all_mailboxes)+

end

end
