(* ===== verification/Delete_Tools.thy ===== *)
theory Delete_Tools
  imports Flag_Tools
begin

text \<open>
  \<^verbatim>\<open>src/mcp/delete.rs\<close>: moving to the trash, destroying, and emptying a mailbox in batches. The
  emptying loop goes on for as long as the server answers with full batches, so it is a partial
  function whose value is \<open>None\<close> where it never returns, and the two tools that run it have the
  same option.
\<close>

section \<open>One batch\<close>

definition sat_add32 :: "u32 \<Rightarrow> u32 \<Rightarrow> u32" where
  "sat_add32 a b = (if a + b < a then - 1 else a + b)"

definition account_empty_batch :: "u32 \<Rightarrow> nat \<Rightarrow> nat \<Rightarrow> error_data + u32 option" where
  "account_empty_batch running queried destroyed =
     (if queried = 0 then Inr None
      else if destroyed \<noteq> queried then
        Inl (internal_error (''mailbox emptying stopped after a partial batch: queried ''
               @ show_nat queried @ '', destroyed '' @ show_nat destroyed))
      else Inr (Some (sat_add32 running (u32_of destroyed))))"

definition array_length :: "responses \<Rightarrow> string \<Rightarrow> string \<Rightarrow> nat" where
  "array_length resps meth key =
     (case Option.bind (method_payload resps meth) (\<lambda>p. get_array p key) of
        None \<Rightarrow> 0 | Some a \<Rightarrow> length a)"

definition empty_calls :: "string \<Rightarrow> string \<Rightarrow> method_call list" where
  "empty_calls acct mailbox_id =
     [(''Email/query'',
       jobj [(''accountId'', JStr acct), (''filter'', jobj [(''inMailbox'', JStr mailbox_id)]),
             (''limit'', jnum 1000)], ''q''),
      (''Email/set'',
       jobj [(''accountId'', JStr acct), (''#destroy'', result_of ''q'' ''Email/query'' ''/ids'')], ''e'')]"

text \<open>One turn of the loop: the batch, and whether to go on.\<close>

definition empty_step ::
  "('w, 'k, 'b) service \<Rightarrow> string \<Rightarrow> string \<Rightarrow> string \<Rightarrow> u32 \<Rightarrow> ('w, 'k, 'b, u32 option) tool" where
  "empty_step X token acct mailbox_id running =
     bindE (call X token [CAP_CORE, CAP_MAIL] (empty_calls acct mailbox_id)) (\<lambda>resps.
       lift (account_empty_batch running (array_length resps ''Email/query'' ''ids'')
               (array_length resps ''Email/set'' ''destroyed'')))"

partial_function (option) empty_mailbox ::
  "('w, 'k, 'b) service \<Rightarrow> string \<Rightarrow> string \<Rightarrow> string \<Rightarrow> u32 \<Rightarrow> ('w, 'k, 'b) service_state
   \<Rightarrow> ((error_data + u32) \<times> ('w, 'k, 'b) service_state) option" where
  "empty_mailbox X token acct mailbox_id running s =
     (case empty_step X token acct mailbox_id running s of
        (Inl e, s1) \<Rightarrow> Some (Inl e, s1)
      | (Inr None, s1) \<Rightarrow> Some (Inr running, s1)
      | (Inr (Some next), s1) \<Rightarrow> empty_mailbox X token acct mailbox_id next s1)"

text \<open>A loop that returned did so after finitely many full batches.\<close>

lemma empty_mailbox_induct [consumes 1, case_names Stop Done More]:
  assumes "empty_mailbox X token acct mb n s = Some (r, s')"
    and "\<And>n s e s1. empty_step X token acct mb n s = (Inl e, s1) \<Longrightarrow> Q n s (Inl e) s1"
    and "\<And>n s s1. empty_step X token acct mb n s = (Inr None, s1) \<Longrightarrow> Q n s (Inr n) s1"
    and "\<And>n s m s1 r s2. empty_step X token acct mb n s = (Inr (Some m), s1) \<Longrightarrow> Q m s1 r s2 \<Longrightarrow> Q n s r s2"
  shows "Q n s r s'"
proof -
  let ?P = "\<lambda>X' token' acct' mb' n s y.
     X' = X \<longrightarrow> token' = token \<longrightarrow> acct' = acct \<longrightarrow> mb' = mb \<longrightarrow> Q n s (fst y) (snd y)"
  have "?P X token acct mb n s (r, s')"
  proof (rule empty_mailbox.raw_induct [where P = ?P, rotated, OF assms(1)])
    fix rec X' token' acct' mb' n s y
    assume ih: "\<And>X' token' acct' mb' n s y. rec X' token' acct' mb' n s = Some y \<Longrightarrow> ?P X' token' acct' mb' n s y"
      and eq: "(case empty_step X' token' acct' mb' n s of
          (Inl e, s1) \<Rightarrow> Some (Inl e, s1)
        | (Inr None, s1) \<Rightarrow> Some (Inr n, s1)
        | (Inr (Some m), s1) \<Rightarrow> rec X' token' acct' mb' m s1) = Some y"
    show "?P X' token' acct' mb' n s y"
      using ih eq assms(2-4)
      by (cases "empty_step X' token' acct' mb' n s") (fastforce split: sum.splits option.splits)
  qed
  then show ?thesis by simp
qed

section \<open>The tools\<close>

definition no_ids_given :: error_data where
  "no_ids_given = invalid_params ''`email_ids` must not be empty''"

definition no_trash :: error_data where
  "no_trash = internal_error ''no Trash mailbox found''"

definition no_spam :: error_data where
  "no_spam = internal_error ''no Spam mailbox found''"

definition delete_email ::
  "('w, 'k, 'b) service \<Rightarrow> request_ctx \<Rightarrow> string list \<Rightarrow> ('w, 'k, 'b, u32) tool" where
  "delete_email X ctx email_ids =
     run_tool X ctx ''delete_email'' None (Some None) (\<lambda>_. None) Write
       (bindE (refuse_if (email_ids = []) no_ids_given) (\<lambda>_.
        with_account X ctx (\<lambda>token acct.
        bindE (all_mailboxes X token acct) (\<lambda>mailboxes.
        bindE (need no_trash (role_mailbox mailboxes ''trash'')) (\<lambda>trash.
        bindE (call X token [CAP_CORE, CAP_MAIL]
                 (update_call acct (update_map email_ids (membership trash)))) (\<lambda>resps.
          ret (u32_of (updated_count resps))))))))"

definition permanently_delete_email ::
  "('w, 'k, 'b) service \<Rightarrow> request_ctx \<Rightarrow> string list \<Rightarrow> ('w, 'k, 'b, u32) tool" where
  "permanently_delete_email X ctx email_ids =
     run_tool X ctx ''permanently_delete_email'' None (Some None) (\<lambda>_. None) Write
       (bindE (refuse_if (email_ids = []) no_ids_given) (\<lambda>_.
        with_account X ctx (\<lambda>token acct.
        bindE (call X token [CAP_CORE, CAP_MAIL]
                 [(''Email/set'', jobj [(''accountId'', JStr acct), (''destroy'', jstrs email_ids)], ''e'')])
          (\<lambda>resps.
          ret (u32_of (array_length resps ''Email/set'' ''destroyed''))))))"

text \<open>What the emptying tools do before the loop: the mailbox of the role.\<close>

definition role_target ::
  "('w, 'k, 'b) service \<Rightarrow> request_ctx \<Rightarrow> string \<Rightarrow> error_data
   \<Rightarrow> ('w, 'k, 'b, string \<times> string \<times> string) tool" where
  "role_target X ctx role missing =
     bindE (rate_limit_check X ctx Write) (\<lambda>_.
     with_account X ctx (\<lambda>token acct.
     bindE (all_mailboxes X token acct) (\<lambda>mailboxes.
     bindE (need missing (role_mailbox mailboxes role)) (\<lambda>target.
       ret (token, acct, target)))))"

definition empty_body ::
  "('w, 'k, 'b) service \<Rightarrow> request_ctx \<Rightarrow> string \<Rightarrow> error_data \<Rightarrow> ('w, 'k, 'b) service_state
   \<Rightarrow> ((error_data + u32) \<times> ('w, 'k, 'b) service_state) option" where
  "empty_body X ctx role missing s =
     (case role_target X ctx role missing s of
        (Inl e, s1) \<Rightarrow> Some (Inl e, s1)
      | (Inr (token, acct, target), s1) \<Rightarrow> empty_mailbox X token acct target 0 s1)"

definition empty_role ::
  "('w, 'k, 'b) service \<Rightarrow> request_ctx \<Rightarrow> string \<Rightarrow> string \<Rightarrow> error_data \<Rightarrow> ('w, 'k, 'b) service_state
   \<Rightarrow> ((error_data + u32) \<times> ('w, 'k, 'b) service_state) option" where
  "empty_role X ctx tool role missing s =
     map_option (\<lambda>(r, s1). finish_tool X ctx tool None (Some None) (\<lambda>_. None) (now_of X s) r s1)
       (empty_body X ctx role missing s)"

lemma empty_body_cases:
  assumes "empty_body X ctx role missing s = Some (r, s1)"
  obtains e where "role_target X ctx role missing s = (Inl e, s1)" "r = Inl e"
  | token acct target s0 where "role_target X ctx role missing s = (Inr (token, acct, target), s0)"
      "empty_mailbox X token acct target 0 s0 = Some (r, s1)"
  using assms by (auto simp: empty_body_def split: prod.splits sum.splits)

definition empty_trash ::
  "('w, 'k, 'b) service \<Rightarrow> request_ctx \<Rightarrow> ('w, 'k, 'b) service_state
   \<Rightarrow> ((error_data + u32) \<times> ('w, 'k, 'b) service_state) option" where
  "empty_trash X ctx = empty_role X ctx ''empty_trash'' ''trash'' no_trash"

definition empty_spam ::
  "('w, 'k, 'b) service \<Rightarrow> request_ctx \<Rightarrow> ('w, 'k, 'b) service_state
   \<Rightarrow> ((error_data + u32) \<times> ('w, 'k, 'b) service_state) option" where
  "empty_spam X ctx = empty_role X ctx ''empty_spam'' ''junk'' no_spam"

section \<open>Contracts\<close>

context write_policy
begin

lemma emits_delete_email: "emits (for_ctx P ctx) (delete_email X ctx ids)"
  unfolding delete_email_def
  by (intro emits_run_tool emits_with_account emits_bindE emits_refuse_if emits_need emits_keeping_call
      emits_all_mailboxes emits_ret) (rule update_updates [THEN updating_keeps])

end

context destroy_policy
begin

lemma emits_permanently_delete_email: "emits (for_ctx P ctx) (permanently_delete_email X ctx ids)"
  unfolding permanently_delete_email_def
  by (intro emits_run_tool emits_with_account emits_bindE emits_refuse_if emits_any_call emits_ret)

lemma emits_empty_step: "emits (P token) (empty_step X token acct mb n)"
  unfolding empty_step_def by (intro emits_bindE emits_any_call emits_lift)

lemma empty_mailbox_emits:
  assumes "empty_mailbox X token acct mb n s = Some (r, s')"
  shows "\<exists>new. trace s' = trace s @ new \<and> list_all (P token) new"
  using assms
proof (induction rule: empty_mailbox_induct)
  case (Stop n s e s1)
  then show ?case using emitsD [OF emits_empty_step] by blast
next
  case (Done n s s1)
  then show ?case using emitsD [OF emits_empty_step] by blast
next
  case (More n s m s1 r s2)
  then obtain n1 where "trace s1 = trace s @ n1" "list_all (P token) n1"
    using emitsD [OF emits_empty_step] by blast
  with More show ?case by auto
qed

end

end
