(* ===== verification/Mailbox_Tools.thy ===== *)
theory Mailbox_Tools
  imports Core_Tools
begin

text \<open>
  \<^verbatim>\<open>src/mcp/mailbox_mgmt.rs\<close>: creating, renaming, deleting and subscribing mailboxes. Each tool
  takes the server's word for success from the response's per-record maps.
\<close>

section \<open>Reading the answer\<close>

definition no_response :: error_data where
  "no_response = internal_error ''Mailbox/set: no response''"

definition set_updated :: "json \<Rightarrow> string \<Rightarrow> bool" where
  "set_updated payload i =
     (case get_object payload ''updated'' of None \<Rightarrow> False | Some m \<Rightarrow> map_of m i \<noteq> None)"

definition set_destroyed :: "json \<Rightarrow> string \<Rightarrow> bool" where
  "set_destroyed payload i =
     (case get_array payload ''destroyed'' of None \<Rightarrow> False | Some a \<Rightarrow> list_ex (\<lambda>v. as_str v = Some i) a)"

text \<open>The per-id reason, else the whole map, else a fixed text.\<close>

definition reason_for :: "(json \<Rightarrow> string) \<Rightarrow> json \<Rightarrow> string \<Rightarrow> string \<Rightarrow> string \<Rightarrow> string" where
  "reason_for show payload key i none =
     (case Option.bind (json_get payload key) (\<lambda>n. json_get n i) of
        Some r \<Rightarrow> show r
      | None \<Rightarrow> (case json_get payload key of Some r \<Rightarrow> show r | None \<Rightarrow> none))"

definition mailbox_create_failure :: "(json \<Rightarrow> string) \<Rightarrow> json \<Rightarrow> error_data" where
  "mailbox_create_failure show payload =
     internal_error (''create mailbox failed: ''
       @ (case json_get payload ''notCreated'' of
            None \<Rightarrow> ''Mailbox/set created no mailbox'' | Some r \<Rightarrow> show r))"

definition mailbox_update_failure :: "(json \<Rightarrow> string) \<Rightarrow> json \<Rightarrow> string \<Rightarrow> error_data" where
  "mailbox_update_failure show payload i =
     internal_error (''update mailbox failed: ''
       @ reason_for show payload ''notUpdated'' i ''Mailbox/set updated nothing'')"

definition mailbox_destroy_failure :: "(json \<Rightarrow> string) \<Rightarrow> json \<Rightarrow> string \<Rightarrow> error_data" where
  "mailbox_destroy_failure show payload i =
     internal_error (''delete mailbox failed: ''
       @ reason_for show payload ''notDestroyed'' i ''Mailbox/set destroyed nothing'')"

section \<open>The tools\<close>

definition create_mailbox ::
  "('w, 'k, 'b) service \<Rightarrow> request_ctx \<Rightarrow> string \<Rightarrow> string option \<Rightarrow> ('w, 'k, 'b, string \<times> string) tool" where
  "create_mailbox X ctx name parent_id =
     run_tool X ctx ''create_mailbox'' None (Some None) (\<lambda>_. None) Write
       (with_account X ctx (\<lambda>token acct.
        (let base = jobj [(''name'', JStr name)];
             create = (case parent_id of None \<Rightarrow> base | Some p \<Rightarrow> json_put ''parentId'' (JStr p) base)
         in bindE (call X token [CAP_CORE, CAP_MAIL]
                     [(''Mailbox/set'',
                       jobj [(''accountId'', JStr acct), (''create'', jobj [(''m'', create)])], ''m'')])
              (\<lambda>resps.
            bindE (need no_response (method_payload resps ''Mailbox/set'')) (\<lambda>payload.
            bindE (need (mailbox_create_failure (show_json X) payload)
                    (Option.bind (json_get payload ''created'') (\<lambda>c.
                     Option.bind (json_get c ''m'') (\<lambda>m. get_str m ''id'')))) (\<lambda>mailbox_id.
              ret (mailbox_id, name)))))))"

definition mailbox_update_call :: "string \<Rightarrow> string \<Rightarrow> json \<Rightarrow> method_call list" where
  "mailbox_update_call acct mailbox_id patch =
     [(''Mailbox/set'', jobj [(''accountId'', JStr acct), (''update'', jobj [(mailbox_id, patch)])], ''m'')]"

definition rename_mailbox ::
  "('w, 'k, 'b) service \<Rightarrow> request_ctx \<Rightarrow> string \<Rightarrow> string \<Rightarrow> ('w, 'k, 'b, string \<times> string) tool" where
  "rename_mailbox X ctx mailbox_id new_name =
     run_tool X ctx ''rename_mailbox'' (Some mailbox_id) (Some (Some mailbox_id)) (\<lambda>_. None) Write
       (with_account X ctx (\<lambda>token acct.
        bindE (call X token [CAP_CORE, CAP_MAIL]
                 (mailbox_update_call acct mailbox_id (jobj [(''name'', JStr new_name)]))) (\<lambda>resps.
        bindE (need no_response (method_payload resps ''Mailbox/set'')) (\<lambda>payload.
        bindE (refuse_if (\<not> set_updated payload mailbox_id)
                 (mailbox_update_failure (show_json X) payload mailbox_id)) (\<lambda>_.
          ret (mailbox_id, new_name))))))"

definition delete_mailbox ::
  "('w, 'k, 'b) service \<Rightarrow> request_ctx \<Rightarrow> string \<Rightarrow> ('w, 'k, 'b, string) tool" where
  "delete_mailbox X ctx mailbox_id =
     run_tool X ctx ''delete_mailbox'' (Some mailbox_id) (Some (Some mailbox_id)) (\<lambda>_. None) Write
       (with_account X ctx (\<lambda>token acct.
        bindE (call X token [CAP_CORE, CAP_MAIL]
                 [(''Mailbox/set'',
                   jobj [(''accountId'', JStr acct), (''destroy'', jstrs [mailbox_id])], ''m'')]) (\<lambda>resps.
        bindE (need no_response (method_payload resps ''Mailbox/set'')) (\<lambda>payload.
        bindE (refuse_if (\<not> set_destroyed payload mailbox_id)
                 (mailbox_destroy_failure (show_json X) payload mailbox_id)) (\<lambda>_.
          ret mailbox_id)))))"

definition set_subscription ::
  "('w, 'k, 'b) service \<Rightarrow> request_ctx \<Rightarrow> string \<Rightarrow> bool \<Rightarrow> string \<Rightarrow> ('w, 'k, 'b, string \<times> bool) tool" where
  "set_subscription X ctx mailbox_id subscribe tool =
     run_tool X ctx tool (Some mailbox_id) (Some (Some mailbox_id)) (\<lambda>_. None) Write
       (with_account X ctx (\<lambda>token acct.
        bindE (call X token [CAP_CORE, CAP_MAIL]
                 (mailbox_update_call acct mailbox_id (jobj [(''isSubscribed'', JBool subscribe)]))) (\<lambda>resps.
        bindE (need no_response (method_payload resps ''Mailbox/set'')) (\<lambda>payload.
        bindE (refuse_if (\<not> set_updated payload mailbox_id)
                 (mailbox_update_failure (show_json X) payload mailbox_id)) (\<lambda>_.
          ret (mailbox_id, subscribe))))))"

definition subscribe_mailbox ::
  "('w, 'k, 'b) service \<Rightarrow> request_ctx \<Rightarrow> string \<Rightarrow> ('w, 'k, 'b, string \<times> bool) tool" where
  "subscribe_mailbox X ctx mailbox_id = set_subscription X ctx mailbox_id True ''subscribe_mailbox''"

definition unsubscribe_mailbox ::
  "('w, 'k, 'b) service \<Rightarrow> request_ctx \<Rightarrow> string \<Rightarrow> ('w, 'k, 'b, string \<times> bool) tool" where
  "unsubscribe_mailbox X ctx mailbox_id = set_subscription X ctx mailbox_id False ''unsubscribe_mailbox''"

section \<open>Contracts\<close>

context update_policy
begin

lemma emits_mailbox_updates:
  "emits (for_ctx P ctx) (rename_mailbox X ctx i n)"
  "emits (for_ctx P ctx) (subscribe_mailbox X ctx i)"
  "emits (for_ctx P ctx) (unsubscribe_mailbox X ctx i)"
  unfolding rename_mailbox_def subscribe_mailbox_def unsubscribe_mailbox_def set_subscription_def Let_def
  by (intro emits_run_tool emits_with_account emits_bindE emits_refuse_if emits_need emits_updating_call
      emits_ret; simp add: mailbox_update_call_def updating)+

end

context write_policy
begin

lemma emits_create_mailbox: "emits (for_ctx P ctx) (create_mailbox X ctx n p)"
  unfolding create_mailbox_def Let_def
  by (intro emits_run_tool emits_with_account emits_bindE emits_refuse_if emits_need emits_keeping_call
      emits_ret; simp add: keeping)

lemmas emits_mailbox_tools = emits_create_mailbox emits_mailbox_updates

end

context destroy_policy
begin

lemma emits_delete_mailbox: "emits (for_ctx P ctx) (delete_mailbox X ctx i)"
  unfolding delete_mailbox_def Let_def
  by (intro emits_run_tool emits_with_account emits_bindE emits_refuse_if emits_need emits_any_call emits_ret)

end

end
