(* ===== verification/Compose_Tools.thy ===== *)
theory Compose_Tools
  imports Core_Tools
begin

text \<open>
  \<^verbatim>\<open>src/mcp/compose.rs\<close>: sending with attachments, replying, forwarding, and saving and updating
  drafts. Decoding base64 is a parameter of the service.
\<close>

section \<open>The parent message\<close>

definition raw_addr_obj :: "json \<Rightarrow> json option" where
  "raw_addr_obj p =
     map_option
       (\<lambda>addr. let v = jobj [(''email'', JStr addr)]
                in case get_str p ''name'' of
                     None \<Rightarrow> v
                   | Some n \<Rightarrow> if n = [] then v else json_put ''name'' (JStr n) v)
       (get_str p ''email'')"

definition raw_addr_objs :: "json \<Rightarrow> string \<Rightarrow> json list" where
  "raw_addr_objs mail field =
     (case get_array mail field of None \<Rightarrow> [] | Some a \<Rightarrow> List.map_filter raw_addr_obj a)"

definition addressed :: "json \<Rightarrow> string \<Rightarrow> string list" where
  "addressed parent f =
     (case get_array parent f of
        None \<Rightarrow> []
      | Some arr \<Rightarrow>
          List.map_filter (\<lambda>p. map_option to_ascii_lowercase (get_str p ''email'')) arr)"

definition parent_addressed_identities :: "json \<Rightarrow> string list" where
  "parent_addressed_identities parent = concat (map (addressed parent) [''to'', ''cc''])"

definition get_email ::
  "('w, 'k, 'b) service \<Rightarrow> string \<Rightarrow> string \<Rightarrow> string \<Rightarrow> string list \<Rightarrow> ('w, 'k, 'b, json) tool" where
  "get_email X token acct email_id properties =
     bindE (call X token [CAP_CORE, CAP_MAIL]
              [(''Email/get'',
                jobj [(''accountId'', JStr acct), (''ids'', jstrs [email_id]),
                      (''properties'', jstrs properties), (''fetchTextBodyValues'', JBool True),
                      (''maxBodyValueBytes'', jnum MAX_BODY_VALUE_BYTES)], ''g'')]) (\<lambda>resps.
       need email_not_found (first_listed resps ''Email/get''))"

section \<open>Attachments\<close>

record attachment_input =
  in_filename :: string
  in_mime_type :: string
  in_body_base64 :: string

record send_with_attachments_params =
  sa_from :: string
  sa_to :: "string list"
  sa_cc :: "string list"
  sa_subject :: string
  sa_body_text :: string
  sa_attachments :: "attachment_input list"

definition attachment_obj :: "string \<Rightarrow> string \<Rightarrow> string \<Rightarrow> json" where
  "attachment_obj blob_id name mime =
     jobj [(''blobId'', JStr blob_id), (''name'', JStr name), (''type'', JStr mime),
           (''disposition'', JStr ''attachment'')]"

fun upload_all ::
  "('w, 'k, 'b) service \<Rightarrow> string \<Rightarrow> attachment_input list
   \<Rightarrow> ('w, 'k, 'b, (string \<times> json) list) tool" where
  "upload_all X token [] = ret []"
| "upload_all X token (att # atts) =
     bindE (lift (case base64_decode X (in_body_base64 att) of
                    Inl e \<Rightarrow> Inl (invalid_params (''attachment '' @ in_filename att
                                     @ '': invalid base64: '' @ e))
                  | Inr b \<Rightarrow> Inr b)) (\<lambda>bytes.
     bindE (map_err map_jmap_err (upload_blob X token bytes (in_mime_type att))) (\<lambda>blob.
     bindE (upload_all X token atts) (\<lambda>rest.
       ret ((bu_blob_id blob,
             attachment_obj (bu_blob_id blob) (in_filename att) (in_mime_type att)) # rest))))"

text \<open>
  Where the code builds the address book of a send: the drafts and the sent mailbox.
\<close>

definition send_folders ::
  "('w, 'k, 'b) service \<Rightarrow> string \<Rightarrow> string \<Rightarrow> ('w, 'k, 'b, string \<times> string option) tool" where
  "send_folders X token acct =
     bindE (all_mailboxes X token acct) (\<lambda>mailboxes.
     bindE (need no_drafts (role_mailbox mailboxes ''drafts'')) (\<lambda>drafts.
       ret (drafts, role_mailbox mailboxes ''sent'')))"

record sent_with_attachments =
  sw_email_id :: string
  sw_submission_id :: string
  sw_attachment_ids :: "string list"

definition send_email_with_attachments ::
  "('w, 'k, 'b) service \<Rightarrow> request_ctx \<Rightarrow> send_with_attachments_params
   \<Rightarrow> ('w, 'k, 'b, sent_with_attachments) tool" where
  "send_email_with_attachments X ctx params =
     run_tool X ctx ''send_email_with_attachments'' None (Some None) (\<lambda>_. None) Write
       (bindE (refuse_if (sa_to params = []) no_recipients) (\<lambda>_.
        with_account X ctx (\<lambda>token acct.
        bindE (send_folders X token acct) (\<lambda>(drafts, sent).
        bindE (resolve_submission_identity X token acct (Some (sa_from params)) []
                 (session_email_of ctx)) (\<lambda>from.
        bindE (upload_all X token (sa_attachments params)) (\<lambda>uploaded.
        (let obj = draft_object drafts (from_header from) (email_objs (sa_to params))
                     (sa_subject params) (sa_body_text params)
                     [(''attachments'', JArr (map snd uploaded))];
             email_obj = (if sa_cc params = [] then obj
                          else json_put ''cc'' (JArr (email_objs (sa_cc params))) obj)
         in bindE (submit X token acct email_obj (cf_identity_id from) (sent_patch drafts sent))
              (\<lambda>(email_id, submission_id).
              ret \<lparr>sw_email_id = email_id, sw_submission_id = submission_id,
                   sw_attachment_ids = map fst uploaded\<rparr>))))))))"

section \<open>Replying\<close>

record reply_email_params =
  ry_email_id :: string
  ry_reply_to_all :: bool
  ry_body :: string
  ry_from :: "string option"

definition reply_recipients :: "bool \<Rightarrow> json \<Rightarrow> json list" where
  "reply_recipients reply_to_all parent =
     raw_addr_objs parent ''from''
     @ (if reply_to_all then raw_addr_objs parent ''to'' @ raw_addr_objs parent ''cc'' else [])"

definition reply_subject :: "string \<Rightarrow> string" where
  "reply_subject s = (if starts_with (to_ascii_lowercase s) ''re:'' then s else ''Re: '' @ s)"

definition parent_message_id :: "json \<Rightarrow> string option" where
  "parent_message_id parent =
     Option.bind (get_array parent ''messageId'') (\<lambda>a. Option.bind (first_of a) as_str)"

definition with_threading :: "json \<Rightarrow> json \<Rightarrow> json" where
  "with_threading parent email_obj =
     (case parent_message_id parent of
        None \<Rightarrow> email_obj
      | Some mid \<Rightarrow>
          (let references = (case get_array parent ''references'' of None \<Rightarrow> [] | Some r \<Rightarrow> r)
           in json_put ''references'' (JArr (references @ [JStr mid]))
                (json_put ''inReplyTo'' (jstrs [mid]) email_obj)))"

definition no_reply_recipient :: error_data where
  "no_reply_recipient = invalid_params ''parent email has no resolvable reply recipient''"

definition reply_email ::
  "('w, 'k, 'b) service \<Rightarrow> request_ctx \<Rightarrow> reply_email_params
   \<Rightarrow> ('w, 'k, 'b, string \<times> string \<times> string option) tool" where
  "reply_email X ctx params =
     run_tool X ctx ''reply_email'' (Some (ry_email_id params)) (Some (Some (ry_email_id params)))
       (\<lambda>_. None) Write
       (with_account X ctx (\<lambda>token acct.
        bindE (send_folders X token acct) (\<lambda>(drafts, sent).
        bindE (get_email X token acct (ry_email_id params)
                 [''from'', ''to'', ''cc'', ''subject'', ''messageId'', ''references'']) (\<lambda>parent.
        (let to_objs = reply_recipients (ry_reply_to_all params) parent
         in bindE (refuse_if (to_objs = []) no_reply_recipient) (\<lambda>_.
            bindE (resolve_submission_identity X token acct (ry_from params)
                     (parent_addressed_identities parent) (session_email_of ctx)) (\<lambda>from.
            (let email_obj = with_threading parent
                   (draft_object drafts (from_header from) to_objs
                      (reply_subject (opt_str (str_field parent ''subject''))) (ry_body params) [])
             in bindE (submit X token acct email_obj (cf_identity_id from) (sent_patch drafts sent))
                  (\<lambda>(email_id, submission_id).
                  ret (email_id, submission_id, parent_message_id parent))))))))))"

section \<open>Forwarding\<close>

record forward_email_params =
  fw_email_id :: string
  fw_to :: "string list"
  fw_message :: "string option"
  fw_from :: "string option"

definition forward_subject :: "string \<Rightarrow> string" where
  "forward_subject s = (if starts_with (to_ascii_lowercase s) ''fwd:'' then s else ''Fwd: '' @ s)"

definition forward_body :: "string option \<Rightarrow> json \<Rightarrow> string" where
  "forward_body note parent =
     (case note of None \<Rightarrow> [] | Some n \<Rightarrow> if n = [] then [] else n @ newline @ newline)
     @ ''---------- Forwarded message ----------'' @ newline
     @ ''From: '' @ comma_join (addrs parent ''from'') @ newline
     @ ''To: '' @ comma_join (addrs parent ''to'') @ newline
     @ ''Subject: '' @ opt_str (str_field parent ''subject'') @ newline @ newline
     @ extract_text_body parent"

definition forward_email ::
  "('w, 'k, 'b) service \<Rightarrow> request_ctx \<Rightarrow> forward_email_params
   \<Rightarrow> ('w, 'k, 'b, string \<times> string) tool" where
  "forward_email X ctx params =
     run_tool X ctx ''forward_email'' (Some (fw_email_id params)) (Some (Some (fw_email_id params)))
       (\<lambda>_. None) Write
       (bindE (refuse_if (fw_to params = []) no_recipients) (\<lambda>_.
        with_account X ctx (\<lambda>token acct.
        bindE (send_folders X token acct) (\<lambda>(drafts, sent).
        bindE (get_email X token acct (fw_email_id params)
                 [''from'', ''to'', ''subject'', ''textBody'', ''bodyValues'']) (\<lambda>parent.
        bindE (resolve_submission_identity X token acct (fw_from params) []
                 (session_email_of ctx)) (\<lambda>from.
        (let email_obj = draft_object drafts (from_header from) (email_objs (fw_to params))
               (forward_subject (opt_str (str_field parent ''subject'')))
               (forward_body (fw_message params) parent) []
         in submit X token acct email_obj (cf_identity_id from) (sent_patch drafts sent))))))))"

section \<open>Drafts\<close>

record save_draft_params =
  sd_from :: string
  sd_to :: "string list"
  sd_subject :: string
  sd_body :: string
  sd_in_reply_to :: "string option"

definition save_draft ::
  "('w, 'k, 'b) service \<Rightarrow> request_ctx \<Rightarrow> save_draft_params \<Rightarrow> ('w, 'k, 'b, string) tool" where
  "save_draft X ctx params =
     run_tool X ctx ''save_draft'' None (Some None) (\<lambda>_. None) Write
       (with_account X ctx (\<lambda>token acct.
        bindE (all_mailboxes X token acct) (\<lambda>mailboxes.
        bindE (need no_drafts (role_mailbox mailboxes ''drafts'')) (\<lambda>drafts.
        bindE (resolve_submission_identity X token acct (Some (sd_from params)) []
                 (session_email_of ctx)) (\<lambda>from.
        (let obj = draft_object drafts (from_header from) (email_objs (sd_to params))
                     (sd_subject params) (sd_body params) [];
             email_obj = (case sd_in_reply_to params of
                            None \<Rightarrow> obj | Some irt \<Rightarrow> json_put ''inReplyTo'' (jstrs [irt]) obj)
         in bindE (call X token [CAP_CORE, CAP_MAIL]
                     [(''Email/set'',
                       jobj [(''accountId'', JStr acct), (''create'', jobj [(''draft'', email_obj)])], ''e'')])
              (\<lambda>resps.
              need (email_set_failure (show_json X) resps) (created_id resps ''Email/set'' ''draft''))))))))"

record update_draft_params =
  ud_email_id :: string
  ud_from :: "string option"
  ud_to :: "string list option"
  ud_subject :: "string option"
  ud_body :: "string option"

text \<open>The patch: the validated \<open>from\<close>, then the fields that were given.\<close>

definition draft_patch :: "json option \<Rightarrow> update_draft_params \<Rightarrow> jmap" where
  "draft_patch from params =
     (let p0 = [];
          p1 = (case from of None \<Rightarrow> p0 | Some f \<Rightarrow> obj_insert ''from'' (JArr [f]) p0);
          p2 = (case ud_to params of None \<Rightarrow> p1 | Some t \<Rightarrow> obj_insert ''to'' (JArr (email_objs t)) p1);
          p3 = (case ud_subject params of None \<Rightarrow> p2 | Some s \<Rightarrow> obj_insert ''subject'' (JStr s) p2)
      in case ud_body params of
           None \<Rightarrow> p3
         | Some text \<Rightarrow>
             obj_insert ''textBody'' text_part
               (obj_insert ''bodyValues'' (jobj [(''b'', body_value text)]) p3))"

definition nothing_to_update :: error_data where
  "nothing_to_update =
     invalid_params ''no fields to update; provide at least one of from/to/subject/body''"

definition update_draft ::
  "('w, 'k, 'b) service \<Rightarrow> request_ctx \<Rightarrow> update_draft_params \<Rightarrow> ('w, 'k, 'b, string) tool" where
  "update_draft X ctx params =
     run_tool X ctx ''update_draft'' (Some (ud_email_id params)) (Some (Some (ud_email_id params)))
       (\<lambda>_. None) Write
       (with_account X ctx (\<lambda>token acct.
        bindE (case ud_from params of
                 None \<Rightarrow> ret None
               | Some f \<Rightarrow>
                   bindE (resolve_submission_identity X token acct (Some f) [] (session_email_of ctx))
                     (\<lambda>from. ret (Some (from_header from)))) (\<lambda>from.
        (let patch = draft_patch from params
         in bindE (refuse_if (patch = []) nothing_to_update) (\<lambda>_.
            bindE (call X token [CAP_CORE, CAP_MAIL]
                     [(''Email/set'',
                       jobj [(''accountId'', JStr acct),
                             (''update'', jobj [(ud_email_id params, JObj patch)])], ''e'')]) (\<lambda>resps.
            bindE (refuse_if
                     (case Option.bind (method_payload resps ''Email/set'') (\<lambda>p. get_object p ''updated'') of
                        None \<Rightarrow> True
                      | Some m \<Rightarrow> map_of m (ud_email_id params) = None)
                     (invalid_params (''update_draft failed: ''
                        @ (case Option.bind (method_payload resps ''Email/set'')
                                   (\<lambda>p. json_get p ''notUpdated'') of
                             None \<Rightarrow> ''Email/set updated no draft''
                           | Some r \<Rightarrow> show_json X r)))) (\<lambda>_.
              ret (ud_email_id params))))))))"

section \<open>Contracts\<close>

context write_policy
begin

lemma emits_upload_all: "emits (P token) (upload_all X token atts)"
  by (induction atts) (simp_all add: emits_bindE emits_ret emits_lift emits_upload)

lemma emits_send_folders: "emits (P token) (send_folders X token acct)"
  unfolding send_folders_def by (intro emits_bindE emits_all_mailboxes emits_need emits_ret)

lemma emits_get_email: "emits (P token) (get_email X token acct i props)"
  unfolding get_email_def by (intro emits_bindE emits_keeping_call emits_need) (simp add: keeping)

lemmas emits_composing = emits_run_tool emits_with_account emits_bindE emits_refuse_if
  emits_need emits_ret emits_all_mailboxes emits_send_folders emits_get_email emits_resolve
  emits_upload_all emits_submit emits_keeping_call emits_case_option emits_case_prod

lemma emits_compose_tools:
  "emits (for_ctx P ctx) (send_email_with_attachments X ctx a)"
  "emits (for_ctx P ctx) (reply_email X ctx r)"
  "emits (for_ctx P ctx) (forward_email X ctx f)"
  "emits (for_ctx P ctx) (save_draft X ctx d)"
  "emits (for_ctx P ctx) (update_draft X ctx u)"
  unfolding send_email_with_attachments_def reply_email_def forward_email_def save_draft_def
    update_draft_def Let_def
  by (intro emits_composing; simp add: keeping)+

end

end
