(* ===== verification/Attachment_Tools.thy ===== *)
theory Attachment_Tools
  imports Read_Tools Compose_Tools
begin

text \<open>
  \<^verbatim>\<open>src/mcp/attachments.rs\<close>: downloading an attachment, uploading what a public URL serves, and
  sending it. Encoding base64 is a parameter of the service.
\<close>

section \<open>Download\<close>

record downloaded_attachment =
  da_filename :: string
  da_content_type :: string
  da_size_bytes :: nat
  da_body_base64 :: string
  da_untrusted_content :: bool
  da_suspicious :: bool

definition attachment_missing :: error_data where
  "attachment_missing = invalid_params ''attachment_id: no attachment with that blobId on this email''"

definition attachment_named :: "json \<Rightarrow> string \<Rightarrow> json option" where
  "attachment_named mail attachment_id =
     Option.bind (get_array mail ''attachments'')
       (find (\<lambda>att. get_str att ''blobId'' = Some attachment_id))"

definition declared_too_large :: "json \<Rightarrow> nat \<Rightarrow> error_data option" where
  "declared_too_large att max_bytes =
     (case Option.bind (json_get att ''size'') as_u64 of
        None \<Rightarrow> None
      | Some n \<Rightarrow>
          if max_bytes < unat n then
            Some (invalid_params (''attachment is '' @ show_nat (unat n)
                    @ '' bytes, exceeds download cap of '' @ show_nat max_bytes))
          else None)"

definition download_attachment ::
  "('w, 'k, 'b) service \<Rightarrow> request_ctx \<Rightarrow> string \<Rightarrow> string \<Rightarrow> ('w, 'k, 'b, downloaded_attachment) tool" where
  "download_attachment X ctx email_id attachment_id =
     run_tool X ctx ''download_attachment'' (Some email_id) None (\<lambda>_. Some 1) Read
       (with_account X ctx (\<lambda>token acct.
        bindE (call X token [CAP_CORE, CAP_MAIL] (attachment_call acct email_id)) (\<lambda>resps.
        bindE (need email_not_found (first_listed resps ''Email/get'')) (\<lambda>mail.
        bindE (need attachment_missing (attachment_named mail attachment_id)) (\<lambda>att.
        (let content_type = (case str_field att ''type'' of
                               None \<Rightarrow> ''application/octet-stream'' | Some t \<Rightarrow> t);
             raw_filename = opt_str (str_field att ''name'')
         in bindE (case declared_too_large att (sv_download_max_bytes X) of
                     None \<Rightarrow> ret () | Some e \<Rightarrow> fail e) (\<lambda>_.
            bindE (map_err map_jmap_err
                    (download_blob X token attachment_id content_type raw_filename
                       (sv_download_max_bytes X))) (\<lambda>bytes.
              ret \<lparr>da_filename = sanitize_external_text raw_filename, da_content_type = content_type,
                   da_size_bytes = length bytes, da_body_base64 = base64_encode X bytes,
                   da_untrusted_content = True,
                   da_suspicious = external_text_is_suspicious raw_filename\<rparr>))))))))"

section \<open>Upload\<close>

definition upload_blob_from_url ::
  "('w, 'k, 'b) service \<Rightarrow> request_ctx \<Rightarrow> string \<Rightarrow> ('w, 'k, 'b, blob_upload_response) tool" where
  "upload_blob_from_url X ctx url =
     run_tool X ctx ''upload_blob_from_url'' None (Some None) (\<lambda>_. None) Write
       (with_token ctx (\<lambda>token.
        bindE (validated X url) (\<lambda>v.
        bindE (fetch_capped X v (sv_upload_max_bytes X)) (\<lambda>(bytes, content_type).
          map_err map_jmap_err (upload_blob X token bytes content_type)))))"

section \<open>Sending a fetched attachment\<close>

record send_with_url_params =
  su_from :: string
  su_to :: "string list"
  su_subject :: string
  su_body :: string
  su_attachment_url :: string
  su_attachment_filename :: string

definition send_email_with_url_attachment ::
  "('w, 'k, 'b) service \<Rightarrow> request_ctx \<Rightarrow> send_with_url_params
   \<Rightarrow> ('w, 'k, 'b, string \<times> string \<times> string) tool" where
  "send_email_with_url_attachment X ctx params =
     run_tool X ctx ''send_email_with_url_attachment'' None (Some None) (\<lambda>_. None) Write
       (bindE (refuse_if (su_to params = []) no_recipients) (\<lambda>_.
        with_token ctx (\<lambda>token.
        bindE (validated X (su_attachment_url params)) (\<lambda>v.
        bindE (account_of X token) (\<lambda>acct.
        bindE (send_folders X token acct) (\<lambda>(drafts, sent).
        bindE (resolve_submission_identity X token acct (Some (su_from params)) []
                 (session_email_of ctx)) (\<lambda>from.
        bindE (fetch_capped X v (sv_upload_max_bytes X)) (\<lambda>(bytes, content_type).
        bindE (map_err map_jmap_err (upload_blob X token bytes content_type)) (\<lambda>uploaded.
        (let email_obj = draft_object drafts (from_header from) (email_objs (su_to params))
               (su_subject params) (su_body params)
               [(''attachments'', JArr [attachment_obj (bu_blob_id uploaded)
                    (su_attachment_filename params) (bu_content_type uploaded)])]
         in bindE (submit X token acct email_obj (cf_identity_id from) (sent_patch drafts sent))
              (\<lambda>(email_id, submission_id).
              ret (email_id, submission_id, bu_blob_id uploaded))))))))))))"

section \<open>Contracts\<close>

context read_policy
begin

lemma emits_download_attachment: "emits (for_ctx P ctx) (download_attachment X ctx i a)"
  unfolding download_attachment_def Let_def
  by (intro emits_reads emits_need emits_ret emits_case_option emits_fail)
    (simp add: read_calls_simps attachment_call_def)

end

context write_policy
begin

lemma emits_fetching:
  assumes "\<And>v. public_addresses v \<Longrightarrow> emits (P token) (k v)"
  shows "emits (P token) (bindE (validated X url) k)"
  by (rule emits_bindE_with [where Q = public_addresses])
    (use assms in \<open>auto intro: emits_validated dest: validated_public\<close>)

lemma emits_upload_blob_from_url: "emits (for_ctx P ctx) (upload_blob_from_url X ctx url)"
  unfolding upload_blob_from_url_def
  by (intro emits_run_tool emits_with_token emits_fetching emits_bindE emits_fetch_capped
      emits_case_prod emits_upload)

lemma emits_send_email_with_url_attachment:
  "emits (for_ctx P ctx) (send_email_with_url_attachment X ctx p)"
  unfolding send_email_with_url_attachment_def Let_def
  by (intro emits_run_tool emits_with_token emits_fetching emits_bindE [OF emits_refuse_if]
      emits_bindE [OF emits_account_of] emits_bindE [OF emits_send_folders]
      emits_bindE [OF emits_resolve] emits_bindE [OF emits_fetch_capped]
      emits_bindE [OF emits_upload] emits_bindE [OF emits_submit] emits_case_prod emits_ret)

end

end
