(* ===== verification/Profile_Tools.thy ===== *)
theory Profile_Tools
  imports Core_Tools
begin

text \<open>
  \<^verbatim>\<open>src/mcp/profile.rs\<close>: sending identities, profile, vacation response, account and session
  information, and the designation of the audit mailbox.
\<close>

definition CAP_VACATION :: string where "CAP_VACATION = ''urn:ietf:params:jmap:vacationresponse''"

section \<open>Pure helpers\<close>

definition select_profile_identity :: "json list \<Rightarrow> string option \<Rightarrow> json option" where
  "select_profile_identity l preferred_email =
     (case Option.bind preferred_email (\<lambda>e.
           find (\<lambda>i. case str_field i ''email'' of None \<Rightarrow> False | Some c \<Rightarrow> eq_ignore_ascii_case c e) l) of
        Some i \<Rightarrow> Some i
      | None \<Rightarrow>
          (case find (\<lambda>i. case str_field i ''email'' of None \<Rightarrow> False | Some c \<Rightarrow> \<not> is_role_address c) l of
             Some i \<Rightarrow> Some i
           | None \<Rightarrow> first_of l))"

definition vacation_capability_unsupported :: "jmap_error \<Rightarrow> bool" where
  "vacation_capability_unsupported e =
     (case e of
        Method_Error error_type _ \<Rightarrow> error_type = ''unknownMethod'' \<or> error_type = ''unknownCapability''
      | _ \<Rightarrow> False)"

definition map_vacation_set_error :: "jmap_error \<Rightarrow> error_data" where
  "map_vacation_set_error e =
     (if vacation_capability_unsupported e then invalid_params ''vacation response not supported''
      else map_jmap_err e)"

definition find_char_of :: "char list \<Rightarrow> string \<Rightarrow> string" where
  "find_char_of cs s = takeWhile (\<lambda>c. c \<notin> set cs) s"

definition host_of :: "string \<Rightarrow> string option" where
  "host_of url =
     (case find_sub ''://'' url of
        None \<Rightarrow> None
      | Some n \<Rightarrow>
          (let scheme = take n url; rest = drop (n + 3) url;
               authority = find_char_of ''/?#'' rest
           in if authority = [] then None else Some (scheme @ ''://'' @ authority)))"

definition has_white_space :: "string \<Rightarrow> bool" where
  "has_white_space s \<longleftrightarrow> list_ex (contains s) white_space"

definition is_plausible_address :: "string \<Rightarrow> bool" where
  "is_plausible_address e \<longleftrightarrow>
     (if e = [] \<or> 320 < length e \<or> has_white_space e then False
      else case split_once CHR ''@'' e of
             None \<Rightarrow> False
           | Some (local, domain) \<Rightarrow>
               local \<noteq> [] \<and> domain \<noteq> [] \<and> contains domain ''.'' \<and> \<not> starts_with domain ''.''
               \<and> \<not> ends_with domain ''.'' \<and> \<not> contains e ''@@'')"

section \<open>Identities\<close>

record created_identity =
  ci_identity_id :: string
  ci_email :: string
  ci_name :: "string option"

definition identity_object :: "string \<Rightarrow> string option \<Rightarrow> json" where
  "identity_object e name =
     (let base = jobj [(''email'', JStr e)]
      in case name of
           None \<Rightarrow> base
         | Some n \<Rightarrow> if trim n = [] then base else json_put ''name'' (JStr (trim n)) base)"

definition create_identity ::
  "('w, 'k, 'b) service \<Rightarrow> request_ctx \<Rightarrow> string \<Rightarrow> string option \<Rightarrow> ('w, 'k, 'b, created_identity) tool" where
  "create_identity X ctx address name =
     run_tool X ctx ''create_identity'' None (Some None) (\<lambda>_. None) Write
       (let e = trim address
        in bindE (refuse_if (\<not> is_plausible_address e)
                    (invalid_params (''`email` is not a valid address: '' @ e))) (\<lambda>_.
           with_account X ctx (\<lambda>token acct.
           bindE (call X token [CAP_CORE, CAP_SUBMISSION]
                    [(''Identity/set'',
                      jobj [(''accountId'', JStr acct), (''create'', jobj [(''i'', identity_object e name)])],
                      ''i'')]) (\<lambda>resps.
           bindE (need (invalid_params (''could not create identity '' @ e @ '': ''
                     @ not_created_reason (show_json X) resps ''Identity/set'' ''server created no identity''
                     @ ''. The address must be one this account owns '' @ em_dash
                     @ '' add it as an address/alias on the account first.''))
                   (Option.bind (method_payload resps ''Identity/set'') (\<lambda>p.
                    Option.bind (json_get p ''created'') (\<lambda>c. json_get c ''i'')))) (\<lambda>created.
           bindE (need (internal_error ''Identity/set returned no id'') (get_str created ''id''))
             (\<lambda>identity_id.
             ret \<lparr>ci_identity_id = identity_id, ci_email = e, ci_name = name\<rparr>))))))"

record profile =
  pf_email :: "string option"
  pf_name :: "string option"
  pf_avatar_url :: "string option"

definition get_profile ::
  "('w, 'k, 'b) service \<Rightarrow> request_ctx \<Rightarrow> ('w, 'k, 'b, profile) tool" where
  "get_profile X ctx =
     run_tool X ctx ''get_profile'' None None (\<lambda>_. None) Read
       (with_account X ctx (\<lambda>token acct.
        bindE (map_err map_jmap_err (session_for X token)) (\<lambda>session.
        bindE (call X token [CAP_CORE, CAP_SUBMISSION]
                 [(''Identity/get'', jobj [(''accountId'', JStr acct), (''ids'', JNull)], ''i'')]) (\<lambda>resps.
        (let preferred = (case session_email_of ctx of Some e \<Rightarrow> Some e | None \<Rightarrow> username session);
             chosen = select_profile_identity (method_list resps ''Identity/get'') preferred
         in ret \<lparr>pf_email = Option.bind chosen (\<lambda>i. str_field i ''email''),
                 pf_name = Option.bind chosen (\<lambda>i. str_field i ''name''), pf_avatar_url = None\<rparr>)))))"

section \<open>Vacation response\<close>

record vacation_result =
  vr_enabled :: bool
  vr_message :: "string option"
  vr_from_date :: "string option"
  vr_to_date :: "string option"
  vr_supported :: bool

definition vacation_unsupported :: vacation_result where
  "vacation_unsupported =
     \<lparr>vr_enabled = False, vr_message = None, vr_from_date = None, vr_to_date = None,
      vr_supported = False\<rparr>"

definition vacation_of :: "json option \<Rightarrow> vacation_result" where
  "vacation_of v =
     \<lparr>vr_enabled = (Option.bind v (\<lambda>v. Option.bind (json_get v ''isEnabled'') as_bool) = Some True),
      vr_message = Option.bind v (\<lambda>v. str_field v ''textBody''),
      vr_from_date = Option.bind v (\<lambda>v. str_field v ''fromDate''),
      vr_to_date = Option.bind v (\<lambda>v. str_field v ''toDate''), vr_supported = True\<rparr>"

definition get_vacation_response ::
  "('w, 'k, 'b) service \<Rightarrow> request_ctx \<Rightarrow> ('w, 'k, 'b, vacation_result) tool" where
  "get_vacation_response X ctx =
     run_tool X ctx ''get_vacation_response'' None None (\<lambda>_. None) Read
       (with_account X ctx (\<lambda>token acct.
          attempt (jmap_call X token [CAP_CORE, CAP_VACATION]
                     [(''VacationResponse/get'', jobj [(''accountId'', JStr acct), (''ids'', JNull)], ''v'')])
            (\<lambda>r. case r of
                   Inl e \<Rightarrow> if vacation_capability_unsupported e then ret vacation_unsupported
                            else fail (map_jmap_err e)
                 | Inr resps \<Rightarrow> ret (vacation_of (first_listed resps ''VacationResponse/get'')))))"

record set_vacation_params =
  sp_enabled :: bool
  sp_message :: string
  sp_start_date :: "string option"
  sp_end_date :: "string option"

definition vacation_singleton :: "set_vacation_params \<Rightarrow> json" where
  "vacation_singleton params =
     (let v0 = jobj [(''isEnabled'', JBool (sp_enabled params)), (''textBody'', JStr (sp_message params))];
          v1 = (case sp_start_date params of None \<Rightarrow> v0 | Some d \<Rightarrow> json_put ''fromDate'' (JStr d) v0)
      in case sp_end_date params of None \<Rightarrow> v1 | Some d \<Rightarrow> json_put ''toDate'' (JStr d) v1)"

definition vacation_refusal :: "json \<Rightarrow> error_data" where
  "vacation_refusal response =
     (case Option.bind (json_get response ''notUpdated'') (\<lambda>v. json_get v ''singleton'') of
        Some failure \<Rightarrow>
          invalid_params
            (case get_str failure ''description'' of
               Some d \<Rightarrow> d
             | None \<Rightarrow>
                 (case get_str failure ''type'' of
                    Some t \<Rightarrow> t
                  | None \<Rightarrow> ''vacation response update was rejected''))
      | None \<Rightarrow> internal_error ''vacation response was neither updated nor rejected'')"

definition set_vacation_response ::
  "('w, 'k, 'b) service \<Rightarrow> request_ctx \<Rightarrow> set_vacation_params \<Rightarrow> ('w, 'k, 'b, bool \<times> string) tool" where
  "set_vacation_response X ctx params =
     run_tool X ctx ''set_vacation_response'' None (Some None) (\<lambda>_. None) Write
       (with_account X ctx (\<lambda>token acct.
        bindE (map_err map_vacation_set_error
                (jmap_call X token [CAP_CORE, CAP_VACATION]
                  [(''VacationResponse/set'',
                    jobj [(''accountId'', JStr acct),
                          (''update'', jobj [(''singleton'', vacation_singleton params)])], ''v'')])) (\<lambda>resps.
        bindE (need (internal_error ''missing VacationResponse/set response'')
                 (method_payload resps ''VacationResponse/set'')) (\<lambda>response.
        bindE (refuse_if
                 (case get_object response ''updated'' of
                    None \<Rightarrow> True | Some m \<Rightarrow> map_of m ''singleton'' = None)
                 (vacation_refusal response)) (\<lambda>_.
          ret (sp_enabled params, sp_message params))))))"

section \<open>Account and session\<close>

record account_info =
  ac_email :: "string option"
  ac_account_id :: string
  ac_server :: "string option"
  ac_quota_used_bytes :: "u64 option"
  ac_quota_max_bytes :: "u64 option"

definition get_account_info ::
  "('w, 'k, 'b) service \<Rightarrow> request_ctx \<Rightarrow> ('w, 'k, 'b, account_info) tool" where
  "get_account_info X ctx =
     run_tool X ctx ''get_account_info'' None None (\<lambda>_. None) Read
       (with_token ctx (\<lambda>token.
        bindE (map_err map_jmap_err (session_for X token)) (\<lambda>session.
        bindE (need (internal_error ''session has no primary mail account'') (mail_account_id session))
          (\<lambda>acct.
          ret \<lparr>ac_email = username session, ac_account_id = acct, ac_server = host_of (api_url session),
               ac_quota_used_bytes = None, ac_quota_max_bytes = None\<rparr>))))"

definition verify_session ::
  "('w, 'k, 'b) service \<Rightarrow> request_ctx \<Rightarrow> ('w, 'k, 'b, bool \<times> string option) tool" where
  "verify_session X ctx =
     run_tool X ctx ''verify_session'' None None (\<lambda>_. None) Read
       (with_token ctx (\<lambda>token.
        bindE (map_err map_jmap_err (session_for X token)) (\<lambda>session.
          ret (True, username session))))"

section \<open>The audit mailbox\<close>

definition mailbox_missing :: error_data where
  "mailbox_missing = invalid_params ''mailbox_id: not found''"

definition set_audit_mailbox ::
  "('w, 'k, 'b) service \<Rightarrow> request_ctx \<Rightarrow> string \<Rightarrow> ('w, 'k, 'b, string) tool" where
  "set_audit_mailbox X ctx mailbox_id =
     run_tool X ctx ''set_audit_mailbox'' (Some mailbox_id) (Some (Some mailbox_id)) (\<lambda>_. None) Write
       (bindE (need missing_identity_err (cx_identity ctx)) (\<lambda>ident.
        with_account X ctx (\<lambda>token acct.
        bindE (call X token [CAP_CORE, CAP_MAIL]
                 [(''Mailbox/get'',
                   jobj [(''accountId'', JStr acct), (''ids'', jstrs [mailbox_id]),
                         (''properties'', jstrs [''id''])], ''m'')]) (\<lambda>resps.
        bindE (refuse_if
                 (case Option.bind (method_payload resps ''Mailbox/get'') (\<lambda>p. get_array p ''list'') of
                    None \<Rightarrow> True | Some a \<Rightarrow> a = [])
                 mailbox_missing) (\<lambda>_.
        bindE (modifies (\<lambda>s. s\<lparr>audit_registry :=
                 registry_set (user_id ident) mailbox_id (audit_registry s)\<rparr>)) (\<lambda>_.
          ret mailbox_id))))))"

section \<open>Contracts\<close>

context read_policy
begin

lemma emits_profile_reads:
  "emits (for_ctx P ctx) (get_profile X ctx)"
  "emits (for_ctx P ctx) (get_vacation_response X ctx)"
  "emits (for_ctx P ctx) (get_account_info X ctx)"
  "emits (for_ctx P ctx) (verify_session X ctx)"
  "emits (for_ctx P ctx) (set_audit_mailbox X ctx m)"
  unfolding get_profile_def get_vacation_response_def get_account_info_def verify_session_def
    set_audit_mailbox_def Let_def
  by (intro emits_reads emits_need emits_ret emits_refuse_if emits_attempt emits_case_sum emits_if
      emits_fail emits_modifies read_calls_ok;
      simp add: read_calls_simps)+

end

context update_policy
begin

lemma emits_set_vacation_response: "emits (for_ctx P ctx) (set_vacation_response X ctx v)"
  unfolding set_vacation_response_def Let_def
  by (intro emits_run_tool emits_with_account emits_bindE emits_refuse_if emits_need emits_ret
      emits_updating_call emits_map_err emits_jmap_call updating_calls_ok; simp add: updating)

end

context write_policy
begin

lemma emits_create_identity: "emits (for_ctx P ctx) (create_identity X ctx e n)"
  unfolding create_identity_def Let_def
  by (intro emits_run_tool emits_with_account emits_bindE emits_refuse_if emits_need emits_ret
      emits_keeping_call emits_map_err emits_jmap_call keeping_calls_ok; simp add: keeping)

lemmas emits_profile_writes = emits_create_identity emits_set_vacation_response

end

end
