(* ===== verification/Tool_Frame.thy ===== *)
theory Tool_Frame
  imports Read_Tools Delete_Tools Mailbox_Tools Attachment_Tools Profile_Tools
begin

text \<open>
  What the body of a tool preserves. A \<open>frame\<close> is a relation on states that holds over requests, over changes
  of the cached sessions and validations, and over a charge of the tool limits; every tool's body preserves it.
  The audit log, the notes to be written and the audit designations are unchanged by all of these, so
  only the frame of a tool's run writes them; the invariants of the server's state are frames as well.
\<close>

section \<open>The contract\<close>

locale frame = client_relation R X
  for R :: "('w, 'k, 'b) service_state \<Rightarrow> ('w, 'k, 'b) service_state \<Rightarrow> bool"
    and X :: "('w, 'k, 'b) service" +
  assumes limit_step: "R s (s\<lparr>limiter := snd (limiter_check (sv_governor X) now h sub cat (limiter s))\<rparr>)"
    and drop_step: "R s (s\<lparr>vcache := cache_remove k (vcache s)\<rparr>)"
begin

lemma limit_related:
  "limiter_check (sv_governor X) now h sub cat (limiter s) = (g, l) \<Longrightarrow> R s (s\<lparr>limiter := l\<rparr>)"
  using limit_step by (metis snd_conv)

lemma preserves_limits: "preserves R (rate_limit_check X ctx cat)"
  unfolding rate_limit_check_def
  by (intro preserves_bindE preserves_basic) (auto simp: preserves_def limit_related split: prod.split)

lemma preserves_react: "preserves R (react_to_auth_expiry X ctx r)"
  unfolding react_to_auth_expiry_def drop_token_def
  by (intro preserves_intros preserves_evict preserves_modifies drop_step)

lemma preserves_call: "preserves R (call X token use calls)"
  unfolding call_def by (intro preserves_intros preserves_jmap_call)

lemma preserves_with_token: "(\<And>t. preserves R (k t)) \<Longrightarrow> preserves R (with_token ctx k)"
  unfolding with_token_def by (intro preserves_intros)

lemma preserves_account_of: "preserves R (account_of X token)"
  unfolding account_of_def account_id_def by (intro preserves_intros preserves_session_for)

lemma preserves_with_account: "(\<And>t a. preserves R (k t a)) \<Longrightarrow> preserves R (with_account X ctx k)"
  unfolding with_account_def
  by (intro preserves_intros preserves_with_token preserves_account_of)

lemma preserves_all_mailboxes: "preserves R (all_mailboxes X token acct)"
  unfolding all_mailboxes_def by (intro preserves_intros preserves_call)

lemma preserves_owned_addresses: "preserves R (owned_addresses X token acct user)"
  unfolding owned_addresses_def identity_list_def principal_aliases_def
  by (intro preserves_intros preserves_jmap_call preserves_session_for)

lemma preserves_resolve: "preserves R (resolve_submission_identity X token acct from pref user)"
  unfolding resolve_submission_identity_def by (intro preserves_intros preserves_owned_addresses)

lemma preserves_submit: "preserves R (submit X token acct obj i patch)"
  unfolding submit_def by (intro preserves_intros preserves_call)

lemma preserves_send_folders: "preserves R (send_folders X token acct)"
  unfolding send_folders_def by (intro preserves_intros preserves_all_mailboxes)

lemma preserves_get_email: "preserves R (get_email X token acct i props)"
  unfolding get_email_def by (intro preserves_intros preserves_call)

lemma preserves_upload_all: "preserves R (upload_all X token atts)"
  by (induction atts) (simp_all add: preserves_intros preserves_blobs)

lemma preserves_updates:
  "preserves R (email_set_update X token acct ids patch)"
  "preserves R (replace_mailboxes X token acct ids patch)"
  unfolding email_set_update_def replace_mailboxes_def by (intro preserves_intros preserves_call)+

lemma preserves_fetching: "preserves R (validated X url)" "preserves R (fetch_capped X v m)"
  unfolding validated_def fetch_capped_def Let_def by (intro preserves_intros preserves_send)+

lemma preserves_snippets: "preserves R (search_snippets X token acct query ids mb)"
  unfolding search_snippets_def by (intro preserves_intros preserves_jmap_call)

lemmas preserves_body = preserves_with_token preserves_with_account preserves_call preserves_account_of
  preserves_all_mailboxes preserves_owned_addresses preserves_resolve preserves_submit preserves_send_folders
  preserves_get_email preserves_upload_all preserves_updates preserves_fetching preserves_snippets preserves_session_for
  preserves_blobs preserves_jmap_call preserves_intros

lemma preserves_empty_step: "preserves R (empty_step X token acct mb n)"
  unfolding empty_step_def by (intro preserves_body)

lemma preserves_empty_mailbox:
  "empty_mailbox X token acct mb n s = Some (r, s1) \<Longrightarrow> R s s1"
  by (induction rule: empty_mailbox_induct)
    (auto intro: preservesD [OF preserves_empty_step] related_trans [OF preservesD [OF preserves_empty_step]])

lemma preserves_role_target: "preserves R (role_target X ctx role missing)"
  unfolding role_target_def by (intro preserves_body preserves_limits)

end

interpretation audit_log: frame "\<lambda>s s1. audit_log s1 = audit_log s" X
  for X :: "('w, 'k, 'b) service"
  by unfold_locales simp_all

interpretation spawned: frame "\<lambda>s s1. spawned s1 = spawned s" X
  for X :: "('w, 'k, 'b) service"
  by unfold_locales simp_all

interpretation metrics: frame "\<lambda>s s1. metrics s1 = metrics s" X
  for X :: "('w, 'k, 'b) service"
  by unfold_locales simp_all

interpretation audit_registry: frame "\<lambda>s s1. audit_registry s1 = audit_registry s" X
  for X :: "('w, 'k, 'b) service"
  by unfold_locales simp_all

end
