(* ===== verification/Results.thy ===== *)
theory Results
  imports Read_Tools Delete_Tools Mailbox_Tools Attachment_Tools Profile_Tools
begin

text \<open>
  What the tools answer: the result records of \<^verbatim>\<open>src/mcp.rs\<close> and \<^verbatim>\<open>src/mcp/*.rs\<close> as \<^verbatim>\<open>serde_json\<close> writes them, one
  member for each field of the record. None of the records can fail to be written, so
  \<^verbatim>\<open>structured_result\<close> always succeeds on them.
\<close>

section \<open>Fields\<close>

definition jint :: "int \<Rightarrow> json" where
  "jint i = JNum (if 0 \<le> i then PosInt (word_of_int i) else NegInt (word_of_int i))"

definition jopt :: "('a \<Rightarrow> json) \<Rightarrow> 'a option \<Rightarrow> json" where
  "jopt f v = (case v of None \<Rightarrow> JNull | Some a \<Rightarrow> f a)"

definition jstr_opt :: "string option \<Rightarrow> json" where
  "jstr_opt v = jopt JStr v"

definition ju32 :: "u32 \<Rightarrow> json" where
  "ju32 n = jnum (ucast n)"

definition jarr :: "('a \<Rightarrow> json) \<Rightarrow> 'a list \<Rightarrow> json" where
  "jarr f xs = JArr (map f xs)"

section \<open>Core tools\<close>

definition whoami_json :: "whoami_result \<Rightarrow> json" where
  "whoami_json r =
     jobj [(''email'', jstr_opt (wh_email r)), (''name'', jstr_opt (wh_name r)),
           (''account_id'', jstr_opt (wh_account_id r))]"

definition identity_json :: "listed_identity \<Rightarrow> json" where
  "identity_json i =
     jobj [(''id'', jstr_opt (li_id i)), (''email'', JStr (li_email i)), (''name'', jstr_opt (li_name i)),
           (''role'', JBool (li_role i))]"

definition identities_json :: "listed_identity list \<Rightarrow> json" where
  "identities_json is = jobj [(''identities'', jarr identity_json is)]"

definition mailbox_summary_json :: "mailbox_summary \<Rightarrow> json" where
  "mailbox_summary_json m =
     jobj [(''id'', JStr (ms_id m)), (''name'', JStr (ms_name m)), (''role'', jstr_opt (ms_role m)),
           (''parent_id'', jstr_opt (ms_parent_id m)), (''unread_count'', jnum (ms_unread_count m)),
           (''total_count'', jnum (ms_total_count m))]"

definition mailboxes_json :: "mailbox_summary list \<Rightarrow> json" where
  "mailboxes_json ms = jobj [(''mailboxes'', jarr mailbox_summary_json ms)]"

definition email_summary_json :: "email_summary \<Rightarrow> json" where
  "email_summary_json e =
     jobj [(''id'', JStr (es_id e)), (''from'', jstrs (es_from e)), (''to'', jstrs (es_to e)),
           (''subject'', jstr_opt (es_subject e)), (''received_at'', jstr_opt (es_received_at e)),
           (''keywords'', jstrs (es_keywords e)), (''thread_id'', jstr_opt (es_thread_id e)),
           (''untrusted_content'', JBool (es_untrusted_content e)), (''suspicious'', JBool (es_suspicious e))]"

definition recent_emails_json :: "email_summary list \<Rightarrow> json" where
  "recent_emails_json es = jobj [(''emails'', jarr email_summary_json es)]"

definition attachment_summary_json :: "attachment_summary \<Rightarrow> json" where
  "attachment_summary_json a =
     jobj [(''blob_id'', jstr_opt (at_blob_id a)), (''name'', jstr_opt (at_name a)),
           (''content_type'', jstr_opt (at_content_type a)), (''size'', jopt jnum (at_size a))]"

definition read_email_json :: "read_email_result \<Rightarrow> json" where
  "read_email_json r =
     jobj [(''id'', JStr (re_id r)), (''from'', jstrs (re_from r)), (''to'', jstrs (re_to r)),
           (''cc'', jstrs (re_cc r)), (''subject'', jstr_opt (re_subject r)),
           (''received_at'', jstr_opt (re_received_at r)), (''thread_id'', jstr_opt (re_thread_id r)),
           (''keywords'', jstrs (re_keywords r)), (''body_text'', JStr (re_body_text r)),
           (''body_html'', jstr_opt (re_body_html r)), (''suspicious'', JBool (re_suspicious r)),
           (''untrusted_content'', JBool (re_untrusted_content r)),
           (''attachments'', jarr attachment_summary_json (re_attachments r))]"

definition send_email_json :: "string \<times> string \<Rightarrow> json" where
  "send_email_json r =
     (case r of (email_id, submission_id) \<Rightarrow>
        jobj [(''email_id'', JStr email_id), (''submission_id'', JStr submission_id)])"

section \<open>Read tools\<close>

definition mailbox_info_json :: "mailbox_info \<Rightarrow> json" where
  "mailbox_info_json m =
     jobj [(''id'', JStr (mi_id m)), (''name'', JStr (mi_name m)), (''role'', jstr_opt (mi_role m)),
           (''parent_id'', jstr_opt (mi_parent_id m)), (''unread_count'', jnum (mi_unread_count m)),
           (''total_count'', jnum (mi_total_count m)), (''sort_order'', jopt jnum (mi_sort_order m)),
           (''is_subscribed'', jopt JBool (mi_is_subscribed m))]"

definition search_hit_json :: "search_hit \<Rightarrow> json" where
  "search_hit_json h =
     jobj [(''id'', JStr (sh_id h)), (''from'', jstrs (sh_from h)), (''subject'', jstr_opt (sh_subject h)),
           (''received_at'', jstr_opt (sh_received_at h)), (''snippet'', jstr_opt (sh_snippet h)),
           (''untrusted_content'', JBool (sh_untrusted_content h)), (''suspicious'', JBool (sh_suspicious h))]"

definition search_emails_json :: "search_hit list \<times> u64 \<Rightarrow> json" where
  "search_emails_json r =
     (case r of (hits, n) \<Rightarrow> jobj [(''results'', jarr search_hit_json hits), (''total'', jnum n)])"

definition thread_email_json :: "thread_email \<Rightarrow> json" where
  "thread_email_json e =
     jobj [(''id'', JStr (th_id e)), (''from'', jstrs (th_from e)), (''subject'', jstr_opt (th_subject e)),
           (''received_at'', jstr_opt (th_received_at e)), (''body_text'', JStr (th_body_text e)),
           (''suspicious'', JBool (th_suspicious e)), (''untrusted_content'', JBool (th_untrusted_content e))]"

definition read_thread_json :: "thread_email list \<Rightarrow> json" where
  "read_thread_json es = jobj [(''emails'', jarr thread_email_json es)]"

definition unread_mailbox_json :: "unread_mailbox \<Rightarrow> json" where
  "unread_mailbox_json m =
     jobj [(''id'', JStr (um_id m)), (''name'', JStr (um_name m)), (''unread_count'', jnum (um_unread_count m))]"

definition unread_summary_json :: "unread_mailbox list \<times> u64 \<Rightarrow> json" where
  "unread_summary_json r =
     (case r of (ms, n) \<Rightarrow> jobj [(''mailboxes'', jarr unread_mailbox_json ms), (''total_unread'', jnum n)])"

definition activity_mailbox_json :: "activity_mailbox \<Rightarrow> json" where
  "activity_mailbox_json m =
     jobj [(''id'', JStr (am_id m)), (''name'', JStr (am_name m)), (''unread_count'', jnum (am_unread_count m)),
           (''total_count'', jnum (am_total_count m))]"

definition recent_activity_json :: "activity_mailbox list \<Rightarrow> json" where
  "recent_activity_json ms = jobj [(''mailboxes'', jarr activity_mailbox_json ms)]"

definition email_headers_json :: "email_headers \<Rightarrow> json" where
  "email_headers_json h =
     jobj [(''headers'', eh_headers h), (''received_at'', jstr_opt (eh_received_at h)),
           (''untrusted_content'', JBool (eh_untrusted_content h)), (''suspicious'', JBool (eh_suspicious h))]"

definition attachment_info_json :: "attachment_info \<Rightarrow> json" where
  "attachment_info_json a =
     jobj [(''blob_id'', jstr_opt (ai_blob_id a)), (''filename'', jstr_opt (ai_filename a)),
           (''content_type'', jstr_opt (ai_content_type a)), (''size_bytes'', jopt jnum (ai_size_bytes a)),
           (''is_inline'', JBool (ai_is_inline a))]"

definition list_attachments_json :: "attachment_listing \<Rightarrow> json" where
  "list_attachments_json l =
     jobj [(''attachments'', jarr attachment_info_json (al_attachments l)),
           (''untrusted_content'', JBool (al_untrusted_content l)), (''suspicious'', JBool (al_suspicious l))]"

section \<open>Flag, placement and deleting tools\<close>

definition mark_seen_json :: "string list \<Rightarrow> u32 \<Rightarrow> json" where
  "mark_seen_json ids n = jobj [(''email_ids'', jstrs ids), (''updated'', ju32 n)]"

definition flag_json :: "string list \<Rightarrow> string \<Rightarrow> u32 \<Rightarrow> json" where
  "flag_json ids flag n = jobj [(''email_ids'', jstrs ids), (''flag'', JStr flag), (''updated'', ju32 n)]"

definition keyword_json :: "string list \<Rightarrow> string \<Rightarrow> u32 \<Rightarrow> json" where
  "keyword_json ids keyword n = jobj [(''email_ids'', jstrs ids), (''keyword'', JStr keyword), (''updated'', ju32 n)]"

definition move_json :: "string list \<Rightarrow> string \<Rightarrow> u32 \<Rightarrow> json" where
  "move_json ids target n =
     jobj [(''email_ids'', jstrs ids), (''target_mailbox_id'', JStr target), (''moved'', ju32 n)]"

definition copy_json :: "string list \<Rightarrow> string \<Rightarrow> u32 \<Rightarrow> json" where
  "copy_json ids target n =
     jobj [(''email_ids'', jstrs ids), (''target_mailbox_id'', JStr target), (''copied'', ju32 n)]"

definition mark_as_spam_json :: "string list \<Rightarrow> u32 \<Rightarrow> json" where
  "mark_as_spam_json ids n = jobj [(''email_ids'', jstrs ids), (''moved_to_spam'', ju32 n)]"

definition mark_as_not_spam_json :: "string list \<Rightarrow> u32 \<Rightarrow> json" where
  "mark_as_not_spam_json ids n = jobj [(''email_ids'', jstrs ids), (''moved_from_spam'', ju32 n)]"

definition delete_email_json :: "string list \<Rightarrow> u32 \<Rightarrow> json" where
  "delete_email_json ids n = jobj [(''email_ids'', jstrs ids), (''moved_to_trash'', ju32 n)]"

definition permanently_delete_email_json :: "string list \<Rightarrow> u32 \<Rightarrow> json" where
  "permanently_delete_email_json ids n = jobj [(''email_ids'', jstrs ids), (''destroyed'', ju32 n)]"

definition empty_mailbox_json :: "u32 \<Rightarrow> json" where
  "empty_mailbox_json n = jobj [(''destroyed_count'', ju32 n)]"

section \<open>Composing and attachment tools\<close>

definition send_with_attachments_json :: "sent_with_attachments \<Rightarrow> json" where
  "send_with_attachments_json r =
     jobj [(''email_id'', JStr (sw_email_id r)), (''submission_id'', JStr (sw_submission_id r)),
           (''attachment_ids'', jstrs (sw_attachment_ids r))]"

definition reply_email_json :: "string \<times> string \<times> string option \<Rightarrow> json" where
  "reply_email_json r =
     (case r of (reply_email_id, submission_id, in_reply_to) \<Rightarrow>
        jobj [(''reply_email_id'', JStr reply_email_id), (''submission_id'', JStr submission_id),
              (''in_reply_to'', jstr_opt in_reply_to)])"

definition forward_email_json :: "string \<times> string \<Rightarrow> json" where
  "forward_email_json r =
     (case r of (forward_email_id, submission_id) \<Rightarrow>
        jobj [(''forward_email_id'', JStr forward_email_id), (''submission_id'', JStr submission_id)])"

definition draft_json :: "string \<Rightarrow> json" where
  "draft_json email_id = jobj [(''email_id'', JStr email_id)]"

definition update_draft_json :: "string \<Rightarrow> json" where
  "update_draft_json email_id = jobj [(''email_id'', JStr email_id)]"

definition download_attachment_json :: "downloaded_attachment \<Rightarrow> json" where
  "download_attachment_json d =
     jobj [(''filename'', JStr (da_filename d)), (''content_type'', JStr (da_content_type d)),
           (''size_bytes'', jnum (of_nat (da_size_bytes d))), (''body_base64'', JStr (da_body_base64 d)),
           (''untrusted_content'', JBool (da_untrusted_content d)), (''suspicious'', JBool (da_suspicious d))]"

definition upload_blob_json :: "blob_upload_response \<Rightarrow> json" where
  "upload_blob_json u =
     jobj [(''blob_id'', JStr (bu_blob_id u)), (''size_bytes'', jnum (of_nat (bu_size u))),
           (''content_type'', JStr (bu_content_type u))]"

definition send_with_url_json :: "string \<times> string \<times> string \<Rightarrow> json" where
  "send_with_url_json r =
     (case r of (email_id, submission_id, blob_id) \<Rightarrow>
        jobj [(''email_id'', JStr email_id), (''submission_id'', JStr submission_id),
              (''blob_id'', JStr blob_id)])"

section \<open>Mailbox and profile tools\<close>

definition create_mailbox_json :: "string \<times> string \<Rightarrow> json" where
  "create_mailbox_json r =
     (case r of (mailbox_id, name) \<Rightarrow> jobj [(''mailbox_id'', JStr mailbox_id), (''name'', JStr name)])"

definition rename_mailbox_json :: "string \<times> string \<Rightarrow> json" where
  "rename_mailbox_json r =
     (case r of (mailbox_id, name) \<Rightarrow> jobj [(''mailbox_id'', JStr mailbox_id), (''name'', JStr name)])"

definition delete_mailbox_json :: "string \<Rightarrow> json" where
  "delete_mailbox_json mailbox_id = jobj [(''mailbox_id'', JStr mailbox_id)]"

definition subscribe_mailbox_json :: "string \<times> bool \<Rightarrow> json" where
  "subscribe_mailbox_json r =
     (case r of (mailbox_id, is_subscribed) \<Rightarrow>
        jobj [(''mailbox_id'', JStr mailbox_id), (''is_subscribed'', JBool is_subscribed)])"

definition create_identity_json :: "created_identity \<Rightarrow> json" where
  "create_identity_json i =
     jobj [(''identity_id'', JStr (ci_identity_id i)), (''email'', JStr (ci_email i)),
           (''name'', jstr_opt (ci_name i))]"

definition profile_json :: "profile \<Rightarrow> json" where
  "profile_json p =
     jobj [(''email'', jstr_opt (pf_email p)), (''name'', jstr_opt (pf_name p)),
           (''avatar_url'', jstr_opt (pf_avatar_url p))]"

definition vacation_json :: "vacation_result \<Rightarrow> json" where
  "vacation_json v =
     jobj [(''enabled'', JBool (vr_enabled v)), (''message'', jstr_opt (vr_message v)),
           (''from_date'', jstr_opt (vr_from_date v)), (''to_date'', jstr_opt (vr_to_date v)),
           (''supported'', JBool (vr_supported v))]"

definition set_vacation_json :: "bool \<times> string \<Rightarrow> json" where
  "set_vacation_json r =
     (case r of (enabled, message) \<Rightarrow> jobj [(''enabled'', JBool enabled), (''message'', JStr message)])"

definition account_info_json :: "account_info \<Rightarrow> json" where
  "account_info_json a =
     jobj [(''email'', jstr_opt (ac_email a)), (''account_id'', JStr (ac_account_id a)),
           (''server'', jstr_opt (ac_server a)), (''quota_used_bytes'', jopt jnum (ac_quota_used_bytes a)),
           (''quota_max_bytes'', jopt jnum (ac_quota_max_bytes a))]"

definition verify_session_json :: "bool \<times> string option \<Rightarrow> json" where
  "verify_session_json r =
     (case r of (authenticated, address) \<Rightarrow>
        jobj [(''authenticated'', JBool authenticated), (''email'', jstr_opt address)])"

definition set_audit_mailbox_json :: "string \<Rightarrow> json" where
  "set_audit_mailbox_json mailbox_id = jobj [(''mailbox_id'', JStr mailbox_id)]"

end
