(* ===== verification/Router.thy ===== *)
theory Router
  imports Tool_Frame Results
begin

text \<open>
  The tool router (\<^verbatim>\<open>JmapMcpService::new\<close> sums nine routers): one request per tool, the
  annotations the tools declare, and the dispatch. The result record of a tool is answered as the JSON value that
  \<^verbatim>\<open>structured_result\<close> makes of it. A tool that never returns has the value \<open>None\<close>.
\<close>

section \<open>Requests\<close>

datatype core_request =
    Whoami | Get_Identities | List_Mailboxes
  | List_Recent_Emails string u32
  | Read_Email string
  | Send_Email send_email_params

datatype reads_request =
    Get_Mailbox_Info string
  | Search_Emails string "string option" u32
  | Read_Thread string u32
  | Get_Unread_Summary "string list option"
  | List_Recent_Activity u32
  | Get_Email_Headers string
  | List_Attachments string

datatype flags_request =
    Mark_Read "string list" | Mark_Unread "string list"
  | Set_Flag "string list" string | Unset_Flag "string list" string
  | Set_Keyword "string list" string | Unset_Keyword "string list" string
  | Move_To_Mailbox "string list" string | Copy_To_Mailbox "string list" string

datatype spam_request = Mark_As_Spam "string list" | Mark_As_Not_Spam "string list"

datatype compose_request =
    Send_Email_With_Attachments send_with_attachments_params
  | Reply_Email reply_email_params
  | Forward_Email forward_email_params
  | Save_Draft save_draft_params
  | Update_Draft update_draft_params

datatype delete_request =
    Delete_Email "string list" | Permanently_Delete_Email "string list" | Empty_Trash | Empty_Spam

datatype attachments_request =
    Download_Attachment string string
  | Upload_Blob_From_Url string
  | Send_Email_With_Url_Attachment send_with_url_params

datatype mailbox_mgmt_request =
    Create_Mailbox string "string option" | Rename_Mailbox string string | Delete_Mailbox string
  | Subscribe_Mailbox string | Unsubscribe_Mailbox string

datatype profile_request =
    Create_Identity string "string option" | Get_Profile | Get_Vacation_Response
  | Set_Vacation_Response set_vacation_params | Get_Account_Info | Verify_Session
  | Set_Audit_Mailbox string

datatype tool_request =
    Core core_request | Reads reads_request | Flags flags_request | Compose compose_request
  | Delete delete_request | Attachments attachments_request | Mailbox_Mgmt mailbox_mgmt_request
  | Spam spam_request | Profile profile_request

section \<open>Dispatch\<close>

type_synonym ('w, 'k, 'b) run_result =
  "((error_data + json) \<times> ('w, 'k, 'b) service_state) option"

definition returns ::
  "('a \<Rightarrow> json) \<Rightarrow> ('w, 'k, 'b, 'a) tool \<Rightarrow> ('w, 'k, 'b) service_state \<Rightarrow> ('w, 'k, 'b) run_result" where
  "returns structured m s = Some (map_prod (map_sum id structured) id (m s))"

definition may_return ::
  "('a \<Rightarrow> json) \<Rightarrow> (('w, 'k, 'b) service_state \<Rightarrow> ((error_data + 'a) \<times> ('w, 'k, 'b) service_state) option)
   \<Rightarrow> ('w, 'k, 'b) service_state \<Rightarrow> ('w, 'k, 'b) run_result" where
  "may_return structured m s = map_option (map_prod (map_sum id structured) id) (m s)"

lemma returns_Inr: "returns f m s = Some (Inr u, s') \<longleftrightarrow> (\<exists>a. m s = (Inr a, s') \<and> u = f a)"
  by (cases "m s"; cases "fst (m s)") (auto simp: returns_def)

fun core_router ::
  "('w, 'k, 'b) service \<Rightarrow> request_ctx \<Rightarrow> core_request \<Rightarrow> ('w, 'k, 'b) service_state \<Rightarrow> ('w, 'k, 'b) run_result" where
  "core_router X ctx Whoami = returns whoami_json (whoami X ctx)"
| "core_router X ctx Get_Identities = returns identities_json (get_identities X ctx)"
| "core_router X ctx List_Mailboxes = returns mailboxes_json (list_mailboxes X ctx)"
| "core_router X ctx (List_Recent_Emails m l) = returns recent_emails_json (list_recent_emails X ctx m l)"
| "core_router X ctx (Read_Email i) = returns read_email_json (read_email X ctx i)"
| "core_router X ctx (Send_Email p) = returns send_email_json (send_email X ctx p)"

fun reads_router ::
  "('w, 'k, 'b) service \<Rightarrow> request_ctx \<Rightarrow> reads_request \<Rightarrow> ('w, 'k, 'b) service_state \<Rightarrow> ('w, 'k, 'b) run_result" where
  "reads_router X ctx (Get_Mailbox_Info i) = returns mailbox_info_json (get_mailbox_info X ctx i)"
| "reads_router X ctx (Search_Emails q m l) = returns search_emails_json (search_emails X ctx q m l)"
| "reads_router X ctx (Read_Thread i l) = returns read_thread_json (read_thread X ctx i l)"
| "reads_router X ctx (Get_Unread_Summary ids) = returns unread_summary_json (get_unread_summary X ctx ids)"
| "reads_router X ctx (List_Recent_Activity l) = returns recent_activity_json (list_recent_activity X ctx l)"
| "reads_router X ctx (Get_Email_Headers i) = returns email_headers_json (get_email_headers X ctx i)"
| "reads_router X ctx (List_Attachments i) = returns list_attachments_json (list_attachments X ctx i)"

fun flags_router ::
  "('w, 'k, 'b) service \<Rightarrow> request_ctx \<Rightarrow> flags_request \<Rightarrow> ('w, 'k, 'b) service_state \<Rightarrow> ('w, 'k, 'b) run_result" where
  "flags_router X ctx (Mark_Read ids) = returns (mark_seen_json ids) (mark_read X ctx ids)"
| "flags_router X ctx (Mark_Unread ids) = returns (mark_seen_json ids) (mark_unread X ctx ids)"
| "flags_router X ctx (Set_Flag ids k) = returns (flag_json ids k) (set_flag X ctx ids k)"
| "flags_router X ctx (Unset_Flag ids k) = returns (flag_json ids k) (unset_flag X ctx ids k)"
| "flags_router X ctx (Set_Keyword ids k) = returns (keyword_json ids k) (set_keyword X ctx ids k)"
| "flags_router X ctx (Unset_Keyword ids k) = returns (keyword_json ids k) (unset_keyword X ctx ids k)"
| "flags_router X ctx (Move_To_Mailbox ids t) = returns (move_json ids t) (move_to_mailbox X ctx ids t)"
| "flags_router X ctx (Copy_To_Mailbox ids t) = returns (copy_json ids t) (copy_to_mailbox X ctx ids t)"

fun compose_router ::
  "('w, 'k, 'b) service \<Rightarrow> request_ctx \<Rightarrow> compose_request \<Rightarrow> ('w, 'k, 'b) service_state \<Rightarrow> ('w, 'k, 'b) run_result" where
  "compose_router X ctx (Send_Email_With_Attachments p) = returns send_with_attachments_json (send_email_with_attachments X ctx p)"
| "compose_router X ctx (Reply_Email p) = returns reply_email_json (reply_email X ctx p)"
| "compose_router X ctx (Forward_Email p) = returns forward_email_json (forward_email X ctx p)"
| "compose_router X ctx (Save_Draft p) = returns draft_json (save_draft X ctx p)"
| "compose_router X ctx (Update_Draft p) = returns update_draft_json (update_draft X ctx p)"

fun delete_router ::
  "('w, 'k, 'b) service \<Rightarrow> request_ctx \<Rightarrow> delete_request \<Rightarrow> ('w, 'k, 'b) service_state \<Rightarrow> ('w, 'k, 'b) run_result" where
  "delete_router X ctx (Delete_Email ids) = returns (delete_email_json ids) (delete_email X ctx ids)"
| "delete_router X ctx (Permanently_Delete_Email ids) = returns (permanently_delete_email_json ids) (permanently_delete_email X ctx ids)"
| "delete_router X ctx Empty_Trash = may_return empty_mailbox_json (empty_trash X ctx)"
| "delete_router X ctx Empty_Spam = may_return empty_mailbox_json (empty_spam X ctx)"

fun attachments_router ::
  "('w, 'k, 'b) service \<Rightarrow> request_ctx \<Rightarrow> attachments_request \<Rightarrow> ('w, 'k, 'b) service_state \<Rightarrow> ('w, 'k, 'b) run_result" where
  "attachments_router X ctx (Download_Attachment i a) = returns download_attachment_json (download_attachment X ctx i a)"
| "attachments_router X ctx (Upload_Blob_From_Url u) = returns upload_blob_json (upload_blob_from_url X ctx u)"
| "attachments_router X ctx (Send_Email_With_Url_Attachment p) =
     returns send_with_url_json (send_email_with_url_attachment X ctx p)"

fun mailbox_mgmt_router ::
  "('w, 'k, 'b) service \<Rightarrow> request_ctx \<Rightarrow> mailbox_mgmt_request \<Rightarrow> ('w, 'k, 'b) service_state \<Rightarrow> ('w, 'k, 'b) run_result" where
  "mailbox_mgmt_router X ctx (Create_Mailbox n p) = returns create_mailbox_json (create_mailbox X ctx n p)"
| "mailbox_mgmt_router X ctx (Rename_Mailbox i n) = returns rename_mailbox_json (rename_mailbox X ctx i n)"
| "mailbox_mgmt_router X ctx (Delete_Mailbox i) = returns delete_mailbox_json (delete_mailbox X ctx i)"
| "mailbox_mgmt_router X ctx (Subscribe_Mailbox i) = returns subscribe_mailbox_json (subscribe_mailbox X ctx i)"
| "mailbox_mgmt_router X ctx (Unsubscribe_Mailbox i) = returns subscribe_mailbox_json (unsubscribe_mailbox X ctx i)"

fun spam_router ::
  "('w, 'k, 'b) service \<Rightarrow> request_ctx \<Rightarrow> spam_request \<Rightarrow> ('w, 'k, 'b) service_state \<Rightarrow> ('w, 'k, 'b) run_result" where
  "spam_router X ctx (Mark_As_Spam ids) = returns (mark_as_spam_json ids) (mark_as_spam X ctx ids)"
| "spam_router X ctx (Mark_As_Not_Spam ids) = returns (mark_as_not_spam_json ids) (mark_as_not_spam X ctx ids)"

fun profile_router ::
  "('w, 'k, 'b) service \<Rightarrow> request_ctx \<Rightarrow> profile_request \<Rightarrow> ('w, 'k, 'b) service_state \<Rightarrow> ('w, 'k, 'b) run_result" where
  "profile_router X ctx (Create_Identity e n) = returns create_identity_json (create_identity X ctx e n)"
| "profile_router X ctx Get_Profile = returns profile_json (get_profile X ctx)"
| "profile_router X ctx Get_Vacation_Response = returns vacation_json (get_vacation_response X ctx)"
| "profile_router X ctx (Set_Vacation_Response p) = returns set_vacation_json (set_vacation_response X ctx p)"
| "profile_router X ctx Get_Account_Info = returns account_info_json (get_account_info X ctx)"
| "profile_router X ctx Verify_Session = returns verify_session_json (verify_session X ctx)"
| "profile_router X ctx (Set_Audit_Mailbox m) = returns set_audit_mailbox_json (set_audit_mailbox X ctx m)"

fun tool_router ::
  "('w, 'k, 'b) service \<Rightarrow> request_ctx \<Rightarrow> tool_request \<Rightarrow> ('w, 'k, 'b) service_state \<Rightarrow> ('w, 'k, 'b) run_result" where
  "tool_router X ctx (Core r) = core_router X ctx r"
| "tool_router X ctx (Reads r) = reads_router X ctx r"
| "tool_router X ctx (Flags r) = flags_router X ctx r"
| "tool_router X ctx (Compose r) = compose_router X ctx r"
| "tool_router X ctx (Delete r) = delete_router X ctx r"
| "tool_router X ctx (Attachments r) = attachments_router X ctx r"
| "tool_router X ctx (Mailbox_Mgmt r) = mailbox_mgmt_router X ctx r"
| "tool_router X ctx (Spam r) = spam_router X ctx r"
| "tool_router X ctx (Profile r) = profile_router X ctx r"

section \<open>Annotations\<close>

text \<open>\<^verbatim>\<open>read_only_hint\<close> as each tool declares it.\<close>

fun read_only_hint :: "tool_request \<Rightarrow> bool" where
  "read_only_hint (Core r) = (case r of Send_Email _ \<Rightarrow> False | _ \<Rightarrow> True)"
| "read_only_hint (Reads r) = True"
| "read_only_hint (Flags r) = False"
| "read_only_hint (Compose r) = False"
| "read_only_hint (Delete r) = False"
| "read_only_hint (Attachments r) = (case r of Download_Attachment _ _ \<Rightarrow> True | _ \<Rightarrow> False)"
| "read_only_hint (Mailbox_Mgmt r) = False"
| "read_only_hint (Spam r) = False"
| "read_only_hint (Profile r) =
     (case r of Get_Profile \<Rightarrow> True | Get_Vacation_Response \<Rightarrow> True | Get_Account_Info \<Rightarrow> True
      | Verify_Session \<Rightarrow> True | _ \<Rightarrow> False)"

text \<open>The tools that declare \<^verbatim>\<open>destructive_hint = true\<close>.\<close>

fun destructive_hint :: "tool_request \<Rightarrow> bool" where
  "destructive_hint (Delete r) = True"
| "destructive_hint (Mailbox_Mgmt r) = (case r of Delete_Mailbox _ \<Rightarrow> True | _ \<Rightarrow> False)"
| "destructive_hint r = False"

text \<open>
  The tools that declare \<^verbatim>\<open>idempotent_hint = true\<close>; four tools of \<^verbatim>\<open>src/mcp.rs\<close> leave it out, and what
  is left out is false.
\<close>

fun idempotent_hint :: "tool_request \<Rightarrow> bool" where
  "idempotent_hint (Core r) = (case r of Read_Email _ \<Rightarrow> True | _ \<Rightarrow> False)"
| "idempotent_hint (Reads r) = True"
| "idempotent_hint (Flags r) = (case r of Move_To_Mailbox _ _ \<Rightarrow> False | _ \<Rightarrow> True)"
| "idempotent_hint (Compose r) = False"
| "idempotent_hint (Delete r) = False"
| "idempotent_hint (Attachments r) = (case r of Download_Attachment _ _ \<Rightarrow> True | _ \<Rightarrow> False)"
| "idempotent_hint (Mailbox_Mgmt r) =
     (case r of Rename_Mailbox _ _ \<Rightarrow> True | Subscribe_Mailbox _ \<Rightarrow> True | Unsubscribe_Mailbox _ \<Rightarrow> True | _ \<Rightarrow> False)"
| "idempotent_hint (Spam r) = True"
| "idempotent_hint (Profile r) = (case r of Create_Identity _ _ \<Rightarrow> False | _ \<Rightarrow> True)"

section \<open>Requests of a dispatched tool\<close>

definition run_emits ::
  "(http_request \<Rightarrow> bool) \<Rightarrow> (('w, 'k, 'b) service_state \<Rightarrow> ('w, 'k, 'b) run_result) \<Rightarrow> bool" where
  "run_emits P m \<longleftrightarrow>
     (\<forall>s r s'. m s = Some (r, s') \<longrightarrow> (\<exists>new. trace s' = trace s @ new \<and> list_all P new))"

lemma run_emits_returns: "emits P m \<Longrightarrow> run_emits P (returns f m)"
  by (auto simp: run_emits_def emits_def returns_def map_prod_def split: prod.splits) (metis snd_conv)

lemma run_emits_may_return:
  "(\<And>s r s'. m s = Some (r, s') \<Longrightarrow> \<exists>new. trace s' = trace s @ new \<and> list_all P new)
   \<Longrightarrow> run_emits P (may_return f m)"
  by (fastforce simp: run_emits_def may_return_def)

context write_policy
begin

lemmas emits_keeping_tools = emits_whoami emits_get_identities emits_list_mailboxes
  emits_list_recent_emails emits_read_email emits_send_email emits_read_tools emits_flag_tools
  emits_compose_tools emits_delete_email emits_download_attachment emits_upload_blob_from_url
  emits_send_email_with_url_attachment emits_mailbox_tools emits_profile_reads emits_profile_writes

lemma core_router_emits: "run_emits (for_ctx P ctx) (core_router X ctx r)"
  by (cases r) (simp_all add: run_emits_returns emits_keeping_tools)

lemma reads_router_emits: "run_emits (for_ctx P ctx) (reads_router X ctx r)"
  by (cases r) (simp_all add: run_emits_returns emits_keeping_tools)

lemma flags_router_emits: "run_emits (for_ctx P ctx) (flags_router X ctx r)"
  by (cases r) (simp_all add: run_emits_returns emits_keeping_tools)

lemma compose_router_emits: "run_emits (for_ctx P ctx) (compose_router X ctx r)"
  by (cases r) (simp_all add: run_emits_returns emits_keeping_tools)

lemma attachments_router_emits: "run_emits (for_ctx P ctx) (attachments_router X ctx r)"
  by (cases r) (simp_all add: run_emits_returns emits_keeping_tools)

lemma spam_router_emits: "run_emits (for_ctx P ctx) (spam_router X ctx r)"
  by (cases r) (simp_all add: run_emits_returns emits_keeping_tools)

lemma profile_router_emits: "run_emits (for_ctx P ctx) (profile_router X ctx r)"
  by (cases r) (simp_all add: run_emits_returns emits_keeping_tools)

lemmas router_emits = core_router_emits reads_router_emits flags_router_emits compose_router_emits
  attachments_router_emits spam_router_emits profile_router_emits

text \<open>Moving to the trash is declared destructive, but destroys nothing.\<close>

lemma undestructive_emits:
  assumes "\<not> destructive_hint r \<or> (\<exists>ids. r = Delete (Delete_Email ids))"
  shows "run_emits (for_ctx P ctx) (tool_router X ctx r)"
proof (cases r)
  case (Mailbox_Mgmt m)
  then show ?thesis
    using assms by (cases m) (simp_all add: run_emits_returns emits_keeping_tools)
qed (use assms in \<open>auto simp: router_emits run_emits_returns emits_keeping_tools\<close>)

end

context destroy_policy
begin

lemma emits_role_target: "emits (for_ctx P ctx) (role_target X ctx role missing)"
  unfolding role_target_def
  by (intro emits_bindE [OF emits_rate_limit_check] emits_with_account emits_bindE emits_all_mailboxes
      emits_need emits_ret)

lemma role_target_token:
  "role_target X ctx role missing s = (Inr (token, acct, target), s1)
   \<Longrightarrow> \<exists>t. cx_token ctx = Some t \<and> token = header_value t"
  by (auto simp: role_target_def with_account_def with_token_def bindE_Inr need_def ret_def fail_def
      split: option.splits)

lemma empty_body_emits:
  assumes "empty_body X ctx role missing s = Some (r, s1)"
  shows "\<exists>new. trace s1 = trace s @ new \<and> list_all (for_ctx P ctx) new"
  using assms
proof (cases rule: empty_body_cases)
  case (1 e)
  then show ?thesis using emitsD [OF emits_role_target] by blast
next
  case (2 token acct target s0)
  obtain t where t: "cx_token ctx = Some t" "token = header_value t"
    using role_target_token [OF 2(1)] by blast
  obtain n0 where n0: "trace s0 = trace s @ n0" "list_all (for_ctx P ctx) n0"
    using emitsD [OF emits_role_target 2(1)] by blast
  obtain n1 where n1: "trace s1 = trace s0 @ n1" "list_all (P token) n1"
    using empty_mailbox_emits [OF 2(2)] by blast
  have "list_all (for_ctx P ctx) n1"
    using n1(2) t by (auto simp: for_ctx_def list_all_iff)
  with n0 n1(1) show ?thesis by (intro exI [of _ "n0 @ n1"]) simp
qed

lemma empty_role_emits:
  assumes "empty_role X ctx tool role missing s = Some (r, s')"
  shows "\<exists>new. trace s' = trace s @ new \<and> list_all (for_ctx P ctx) new"
proof -
  obtain r1 s1 where b: "empty_body X ctx role missing s = Some (r1, s1)"
    and f: "finish_tool X ctx tool None (Some None) (\<lambda>_. None) (now_of X s) r1 s1 = (r, s')"
    using assms by (auto simp: empty_role_def)
  obtain n1 where n1: "trace s1 = trace s @ n1" "list_all (for_ctx P ctx) n1"
    using empty_body_emits [OF b] by blast
  obtain n2 where "trace s' = trace s1 @ n2" "list_all (for_ctx P ctx) n2"
    using emitsD [OF emits_finish_tool f] by blast
  with n1 show ?thesis by (intro exI [of _ "n1 @ n2"]) simp
qed

lemma delete_router_emits: "run_emits (for_ctx P ctx) (delete_router X ctx r)"
  by (cases r)
    (simp_all add: run_emits_returns emits_delete_email emits_permanently_delete_email run_emits_may_return
      empty_trash_def empty_spam_def empty_role_emits)

lemma mailbox_mgmt_router_emits: "run_emits (for_ctx P ctx) (mailbox_mgmt_router X ctx r)"
  by (cases r) (simp_all add: run_emits_returns emits_keeping_tools emits_delete_mailbox)

lemma tool_router_emits: "run_emits (for_ctx P ctx) (tool_router X ctx r)"
  by (cases r) (simp_all add: router_emits delete_router_emits mailbox_mgmt_router_emits)

end

context read_policy
begin

lemma read_only_emits: "read_only_hint r \<Longrightarrow> run_emits (for_ctx P ctx) (tool_router X ctx r)"
proof (induction r)
  case (Core c)
  then show ?case
    by (cases c) (simp_all add: run_emits_returns emits_whoami emits_get_identities
        emits_list_mailboxes emits_list_recent_emails emits_read_email)
next
  case (Reads c)
  then show ?case by (cases c) (simp_all add: run_emits_returns emits_read_tools)
next
  case (Attachments c)
  then show ?case by (cases c) (simp_all add: run_emits_returns emits_download_attachment)
next
  case (Profile c)
  then show ?case by (cases c) (simp_all add: run_emits_returns emits_profile_reads)
qed simp_all

end

context update_policy
begin

lemmas emits_idempotent_tools = emits_whoami emits_get_identities emits_list_mailboxes
  emits_list_recent_emails emits_read_email emits_read_tools emits_download_attachment emits_flag_tools
  emits_mailbox_updates emits_profile_reads emits_set_vacation_response

lemma idempotent_emits: "idempotent_hint r \<Longrightarrow> run_emits (for_ctx P ctx) (tool_router X ctx r)"
proof (induction r)
  case (Core c)
  then show ?case by (cases c) (simp_all add: run_emits_returns emits_idempotent_tools)
next
  case (Reads c)
  show ?case by (cases c) (simp_all add: run_emits_returns emits_idempotent_tools)
next
  case (Flags c)
  show ?case by (cases c) (simp_all add: run_emits_returns emits_idempotent_tools)
next
  case (Attachments c)
  then show ?case by (cases c) (simp_all add: run_emits_returns emits_idempotent_tools)
next
  case (Mailbox_Mgmt c)
  then show ?case by (cases c) (simp_all add: run_emits_returns emits_idempotent_tools)
next
  case (Spam c)
  show ?case by (cases c) (simp_all add: run_emits_returns emits_idempotent_tools)
next
  case (Profile c)
  then show ?case by (cases c) (simp_all add: run_emits_returns emits_idempotent_tools)
qed simp_all

end

end
