(* ===== verification/Tool_Laws.thy ===== *)
theory Tool_Laws
  imports Router
begin

text \<open>
  The laws that the frame of \<^verbatim>\<open>src/mcp.rs\<close> gives every tool, whatever its body does: the audit
  event, the audit note, the rate limit, the requests, and returning.
\<close>

section \<open>What each tool declares\<close>

text \<open>
  The name in the tool's audit events, the resource they name, and the resource of the note of a
  write, as the handlers pass them.
\<close>

fun tool_name :: "tool_request \<Rightarrow> string" where
  "tool_name (Core r) =
     (case r of
        Whoami \<Rightarrow> ''whoami'' | Get_Identities \<Rightarrow> ''get_identities'' | List_Mailboxes \<Rightarrow> ''list_mailboxes''
      | List_Recent_Emails _ _ \<Rightarrow> ''list_recent_emails'' | Read_Email _ \<Rightarrow> ''read_email''
      | Send_Email _ \<Rightarrow> ''send_email'')"
| "tool_name (Reads r) =
     (case r of
        Get_Mailbox_Info _ \<Rightarrow> ''get_mailbox_info'' | Search_Emails _ _ _ \<Rightarrow> ''search_emails''
      | Read_Thread _ _ \<Rightarrow> ''read_thread'' | Get_Unread_Summary _ \<Rightarrow> ''get_unread_summary''
      | List_Recent_Activity _ \<Rightarrow> ''list_recent_activity'' | Get_Email_Headers _ \<Rightarrow> ''get_email_headers''
      | List_Attachments _ \<Rightarrow> ''list_attachments'')"
| "tool_name (Flags r) =
     (case r of
        Mark_Read _ \<Rightarrow> ''mark_read'' | Mark_Unread _ \<Rightarrow> ''mark_unread'' | Set_Flag _ _ \<Rightarrow> ''set_flag''
      | Unset_Flag _ _ \<Rightarrow> ''unset_flag'' | Set_Keyword _ _ \<Rightarrow> ''set_keyword''
      | Unset_Keyword _ _ \<Rightarrow> ''unset_keyword'' | Move_To_Mailbox _ _ \<Rightarrow> ''move_to_mailbox''
      | Copy_To_Mailbox _ _ \<Rightarrow> ''copy_to_mailbox'')"
| "tool_name (Compose r) =
     (case r of
        Send_Email_With_Attachments _ \<Rightarrow> ''send_email_with_attachments'' | Reply_Email _ \<Rightarrow> ''reply_email''
      | Forward_Email _ \<Rightarrow> ''forward_email'' | Save_Draft _ \<Rightarrow> ''save_draft''
      | Update_Draft _ \<Rightarrow> ''update_draft'')"
| "tool_name (Delete r) =
     (case r of
        Delete_Email _ \<Rightarrow> ''delete_email'' | Permanently_Delete_Email _ \<Rightarrow> ''permanently_delete_email''
      | Empty_Trash \<Rightarrow> ''empty_trash'' | Empty_Spam \<Rightarrow> ''empty_spam'')"
| "tool_name (Attachments r) =
     (case r of
        Download_Attachment _ _ \<Rightarrow> ''download_attachment'' | Upload_Blob_From_Url _ \<Rightarrow> ''upload_blob_from_url''
      | Send_Email_With_Url_Attachment _ \<Rightarrow> ''send_email_with_url_attachment'')"
| "tool_name (Mailbox_Mgmt r) =
     (case r of
        Create_Mailbox _ _ \<Rightarrow> ''create_mailbox'' | Rename_Mailbox _ _ \<Rightarrow> ''rename_mailbox''
      | Delete_Mailbox _ \<Rightarrow> ''delete_mailbox'' | Subscribe_Mailbox _ \<Rightarrow> ''subscribe_mailbox''
      | Unsubscribe_Mailbox _ \<Rightarrow> ''unsubscribe_mailbox'')"
| "tool_name (Spam r) =
     (case r of Mark_As_Spam _ \<Rightarrow> ''mark_as_spam'' | Mark_As_Not_Spam _ \<Rightarrow> ''mark_as_not_spam'')"
| "tool_name (Profile r) =
     (case r of
        Create_Identity _ _ \<Rightarrow> ''create_identity'' | Get_Profile \<Rightarrow> ''get_profile''
      | Get_Vacation_Response \<Rightarrow> ''get_vacation_response'' | Set_Vacation_Response _ \<Rightarrow> ''set_vacation_response''
      | Get_Account_Info \<Rightarrow> ''get_account_info'' | Verify_Session \<Rightarrow> ''verify_session''
      | Set_Audit_Mailbox _ \<Rightarrow> ''set_audit_mailbox'')"

fun tool_resource :: "tool_request \<Rightarrow> string option" where
  "tool_resource (Core r) =
     (case r of List_Recent_Emails m _ \<Rightarrow> Some m | Read_Email i \<Rightarrow> Some i | _ \<Rightarrow> None)"
| "tool_resource (Reads r) =
     (case r of
        Get_Mailbox_Info m \<Rightarrow> Some m | Read_Thread t _ \<Rightarrow> Some t | Get_Email_Headers i \<Rightarrow> Some i
      | List_Attachments i \<Rightarrow> Some i | _ \<Rightarrow> None)"
| "tool_resource (Flags r) =
     (case r of Move_To_Mailbox _ t \<Rightarrow> Some t | Copy_To_Mailbox _ t \<Rightarrow> Some t | _ \<Rightarrow> None)"
| "tool_resource (Compose r) =
     (case r of
        Reply_Email p \<Rightarrow> Some (ry_email_id p) | Forward_Email p \<Rightarrow> Some (fw_email_id p)
      | Update_Draft p \<Rightarrow> Some (ud_email_id p) | _ \<Rightarrow> None)"
| "tool_resource (Delete r) = None"
| "tool_resource (Attachments r) = (case r of Download_Attachment i _ \<Rightarrow> Some i | _ \<Rightarrow> None)"
| "tool_resource (Mailbox_Mgmt r) =
     (case r of
        Create_Mailbox _ _ \<Rightarrow> None | Rename_Mailbox i _ \<Rightarrow> Some i | Delete_Mailbox i \<Rightarrow> Some i
      | Subscribe_Mailbox i \<Rightarrow> Some i | Unsubscribe_Mailbox i \<Rightarrow> Some i)"
| "tool_resource (Spam r) = None"
| "tool_resource (Profile r) = (case r of Set_Audit_Mailbox m \<Rightarrow> Some m | _ \<Rightarrow> None)"

definition note_of :: "tool_request \<Rightarrow> string option option" where
  "note_of r = (if read_only_hint r then None else Some (tool_resource r))"

definition category_of :: "tool_request \<Rightarrow> category" where
  "category_of r = (if read_only_hint r then Read else Write)"

section \<open>The law of a framed run\<close>

definition event_of ::
  "request_ctx \<Rightarrow> string \<Rightarrow> string option \<Rightarrow> nat \<Rightarrow> nat option \<Rightarrow> error_data + json \<Rightarrow> tool_event" where
  "event_of ctx tool res elapsed n r =
     tool_call_event tool (tool_user ctx) res (fst (tool_outcome r)) elapsed n (snd (tool_outcome r))"

text \<open>What a run leaves in the log and in the metrics.\<close>

definition logged ::
  "request_ctx \<Rightarrow> string \<Rightarrow> string option \<Rightarrow> error_data + json
   \<Rightarrow> ('w, 'k, 'b) service_state \<Rightarrow> ('w, 'k, 'b) service_state \<Rightarrow> bool" where
  "logged ctx tool res r s s1 \<longleftrightarrow>
     (\<exists>n elapsed. audit_log s1 = audit_log s @ [event_of ctx tool res elapsed n r]
        \<and> metrics s1 = record_tool_call tool (fst (tool_outcome r)) elapsed (metrics s))"

definition notes_of ::
  "(string \<times> string) list \<Rightarrow> request_ctx \<Rightarrow> string \<Rightarrow> string option option \<Rightarrow> error_data + json
   \<Rightarrow> audit_note list" where
  "notes_of registry ctx tool note r =
     (case note of None \<Rightarrow> [] | Some nr \<Rightarrow> option_list (audit_note_for registry ctx tool nr r))"

definition audited ::
  "request_ctx \<Rightarrow> string \<Rightarrow> string option \<Rightarrow> string option option
   \<Rightarrow> (('w, 'k, 'b) service_state \<Rightarrow> ('w, 'k, 'b) run_result) \<Rightarrow> bool" where
  "audited ctx tool res note m \<longleftrightarrow>
     (\<forall>s r s'. m s = Some (r, s') \<longrightarrow>
        logged ctx tool res r s s'
        \<and> spawned s' = spawned s @ notes_of (audit_registry s') ctx tool note r)"

text \<open>The result a router keeps has the outcome and leaves the note of the tool's own.\<close>

lemma outcome_forget [simp]: "tool_outcome (map_sum id f r) = tool_outcome r"
  by (cases r) (simp_all add: tool_outcome_def)

lemma note_forget [simp]:
  "audit_note_for reg ctx meth res (map_sum id f r) = audit_note_for reg ctx meth res r"
  by (cases r) (simp_all add: audit_note_for_def)

lemma finish_tool_effects:
  assumes "finish_tool X ctx tool res note counted started r0 s = (r, s')"
  shows "logged ctx tool res (map_sum id f r) s s'"
    and "spawned s' = spawned s @ (case note of None \<Rightarrow> []
           | Some nr \<Rightarrow> option_list (audit_note_for (audit_registry s') ctx tool nr r))"
    and "audit_registry s' = audit_registry s"
proof -
  obtain r1 s1 where re: "react_to_auth_expiry X ctx r0 s = (r1, s1)"
    by (cases "react_to_auth_expiry X ctx r0 s")
  note same = preservesD [OF audit_log.preserves_react re] preservesD [OF spawned.preserves_react re]
    preservesD [OF audit_registry.preserves_react re] preservesD [OF metrics.preserves_react re]
  note defs = finish_tool_def attempt_def bindE_def spawn_audit_def emit_tool_audit_def tool_call_def Let_def
    modifies_def ret_def lift_def option_list_def
  show "logged ctx tool res (map_sum id f r) s s'"
    using assms re same by (cases "note") (auto simp: defs logged_def event_of_def intro!: exI conjI)
  show "spawned s' = spawned s @ (case note of None \<Rightarrow> []
           | Some nr \<Rightarrow> option_list (audit_note_for (audit_registry s') ctx tool nr r))"
    using assms re same by (cases "note") (auto simp: defs split: option.split)
  show "audit_registry s' = audit_registry s"
    using assms re same by (cases "note") (auto simp: defs)
qed

lemma audited_finish:
  assumes "\<And>s r s1. b s = Some (r, s1) \<Longrightarrow> audit_log s1 = audit_log s \<and> spawned s1 = spawned s \<and> metrics s1 = metrics s"
  shows "audited ctx tool res note
     (may_return f (\<lambda>s. map_option (\<lambda>(r, s1). finish_tool X ctx tool res note counted (now_of X s) r s1) (b s)))"
  unfolding audited_def
proof (intro allI impI)
  fix s r s'
  assume "may_return f (\<lambda>s. map_option (\<lambda>(r, s1). finish_tool X ctx tool res note counted (now_of X s) r s1) (b s)) s
    = Some (r, s')"
  then obtain r0 s1 r1 where b: "b s = Some (r0, s1)"
    and f: "finish_tool X ctx tool res note counted (now_of X s) r0 s1 = (r1, s')" and r: "r = map_sum id f r1"
    by (auto simp: may_return_def map_prod_def split: prod.splits)
  show "logged ctx tool res r s s' \<and> spawned s' = spawned s @ notes_of (audit_registry s') ctx tool note r"
    using finish_tool_effects [OF f] assms [OF b]
    by (cases "note") (simp_all add: r logged_def notes_of_def)
qed

lemma returns_run_tool:
  "returns f (run_tool X ctx tool res note counted cat body) =
     may_return f (\<lambda>s. map_option (\<lambda>(r, s1). finish_tool X ctx tool res note counted (now_of X s) r s1)
       (Some (bindE (rate_limit_check X ctx cat) (\<lambda>_. body) s)))"
  by (simp add: fun_eq_iff returns_def may_return_def run_tool_def bindE_gets attempt_def split: prod.split)

lemma audited_run_tool:
  assumes "keeps audit_log body" and "keeps spawned body" and "keeps metrics body"
  shows "audited ctx tool res note (returns f (run_tool X ctx tool res note counted cat body))"
  unfolding returns_run_tool
proof (rule audited_finish)
  fix s r s1
  assume "Some (bindE (rate_limit_check X ctx cat) (\<lambda>_. body) s) = Some (r, s1)"
  then have run: "bindE (rate_limit_check X ctx cat) (\<lambda>_. body) s = (r, s1)" by simp
  show "audit_log s1 = audit_log s \<and> spawned s1 = spawned s \<and> metrics s1 = metrics s"
    using preservesD [OF same.preserves_bindE [OF audit_log.preserves_limits assms(1)] run]
      preservesD [OF same.preserves_bindE [OF spawned.preserves_limits assms(2)] run]
      preservesD [OF same.preserves_bindE [OF metrics.preserves_limits assms(3)] run] by simp
qed

lemmas audited_intros = audited_run_tool audit_log.preserves_body spawned.preserves_body metrics.preserves_body

lemma note_of_case:
  "\<not> read_only_hint r \<Longrightarrow> note_of r = Some (tool_resource r)"
  "read_only_hint r \<Longrightarrow> note_of r = None"
  by (simp_all add: note_of_def)

text \<open>Every tool's run is framed under what the tool declares.\<close>

lemma audited_core: "audited ctx (tool_name (Core r)) (tool_resource (Core r)) (note_of (Core r)) (core_router X ctx r)"
  by (cases r; simp add: note_of_def)
    (unfold whoami_def get_identities_def list_mailboxes_def list_recent_emails_def read_email_def
      send_email_def, (intro audited_intros)+)

lemma audited_reads: "audited ctx (tool_name (Reads r)) (tool_resource (Reads r)) (note_of (Reads r)) (reads_router X ctx r)"
  by (cases r; simp add: note_of_def)
    (unfold get_mailbox_info_def search_emails_def read_thread_def get_unread_summary_def
      list_recent_activity_def get_email_headers_def list_attachments_def, (intro audited_intros)+)

lemma audited_flags: "audited ctx (tool_name (Flags r)) (tool_resource (Flags r)) (note_of (Flags r)) (flags_router X ctx r)"
  by (cases r; simp add: note_of_def)
    (unfold mark_read_def mark_unread_def set_flag_def unset_flag_def set_keyword_def unset_keyword_def
      move_to_mailbox_def copy_to_mailbox_def, (intro audited_intros)+)

lemma audited_compose: "audited ctx (tool_name (Compose r)) (tool_resource (Compose r)) (note_of (Compose r)) (compose_router X ctx r)"
  by (cases r; simp add: note_of_def)
    (unfold send_email_with_attachments_def reply_email_def forward_email_def save_draft_def update_draft_def,
      (intro audited_intros)+)

lemma audited_attachments: "audited ctx (tool_name (Attachments r)) (tool_resource (Attachments r)) (note_of (Attachments r)) (attachments_router X ctx r)"
  by (cases r; simp add: note_of_def)
    (unfold download_attachment_def upload_blob_from_url_def send_email_with_url_attachment_def,
      (intro audited_intros)+)

lemma audited_mailbox_mgmt: "audited ctx (tool_name (Mailbox_Mgmt r)) (tool_resource (Mailbox_Mgmt r)) (note_of (Mailbox_Mgmt r)) (mailbox_mgmt_router X ctx r)"
  by (cases r; simp add: note_of_def)
    (unfold create_mailbox_def rename_mailbox_def delete_mailbox_def subscribe_mailbox_def
      unsubscribe_mailbox_def set_subscription_def, (intro audited_intros)+)

lemma audited_spam: "audited ctx (tool_name (Spam r)) (tool_resource (Spam r)) (note_of (Spam r)) (spam_router X ctx r)"
  by (cases r; simp add: note_of_def)
    (unfold mark_as_spam_def mark_as_not_spam_def, (intro audited_intros)+)

lemma audited_profile: "audited ctx (tool_name (Profile r)) (tool_resource (Profile r)) (note_of (Profile r)) (profile_router X ctx r)"
  by (cases r; simp add: note_of_def)
    (unfold create_identity_def get_profile_def get_vacation_response_def set_vacation_response_def
      get_account_info_def verify_session_def set_audit_mailbox_def,
      (intro audited_intros preserves_modifies)+, simp_all)

lemma audited_empty_role:
  "audited ctx tool None (Some None) (may_return f (empty_role X ctx tool role missing))"
proof -
  have "audited ctx tool None (Some None)
     (may_return f (\<lambda>s. map_option (\<lambda>(r, s1). finish_tool X ctx tool None (Some None) (\<lambda>_. None) (now_of X s) r s1)
        (empty_body X ctx role missing s)))"
  proof (rule audited_finish)
    fix s r s1
    assume "empty_body X ctx role missing s = Some (r, s1)"
    then show "audit_log s1 = audit_log s \<and> spawned s1 = spawned s \<and> metrics s1 = metrics s"
    proof (cases rule: empty_body_cases)
      case (1 e)
      then show ?thesis
        using preservesD [OF audit_log.preserves_role_target] preservesD [OF spawned.preserves_role_target]
          preservesD [OF metrics.preserves_role_target] by (intro conjI) blast+
    next
      case (2 token acct target s0)
      then show ?thesis
        using preservesD [OF audit_log.preserves_role_target 2(1)] preservesD [OF spawned.preserves_role_target 2(1)]
          preservesD [OF metrics.preserves_role_target 2(1)] audit_log.preserves_empty_mailbox [OF 2(2)]
          spawned.preserves_empty_mailbox [OF 2(2)] metrics.preserves_empty_mailbox [OF 2(2)] by simp
    qed
  qed
  then show ?thesis by (simp add: empty_role_def [abs_def])
qed

lemma audited_delete: "audited ctx (tool_name (Delete r)) (tool_resource (Delete r)) (note_of (Delete r)) (delete_router X ctx r)"
  by (cases r; simp add: note_of_def empty_trash_def empty_spam_def audited_empty_role)
    (unfold delete_email_def permanently_delete_email_def, (intro audited_intros)+)

lemma tool_router_audited: "audited ctx (tool_name r) (tool_resource r) (note_of r) (tool_router X ctx r)"
  using audited_core audited_reads audited_flags audited_compose audited_delete audited_attachments
    audited_mailbox_mgmt audited_spam audited_profile
  by (cases r) (simp_all only: tool_router.simps)

section \<open>What every run preserves\<close>

definition run_preserves ::
  "(('w, 'k, 'b) service_state \<Rightarrow> ('w, 'k, 'b) service_state \<Rightarrow> bool)
   \<Rightarrow> (('w, 'k, 'b) service_state \<Rightarrow> ('w, 'k, 'b) run_result) \<Rightarrow> bool" where
  "run_preserves R m \<longleftrightarrow> (\<forall>s r s'. m s = Some (r, s') \<longrightarrow> R s s')"

text \<open>
  A relation that the run of one request preserves, whatever the tool: one that the bodies preserve, and
  that holds over the tool's own event, over its caller's notes, and over the caller's designation.
\<close>

locale run_frame = frame R X
  for R :: "('w, 'k, 'b) service_state \<Rightarrow> ('w, 'k, 'b) service_state \<Rightarrow> bool"
    and X :: "('w, 'k, 'b) service" +
  fixes ctx :: request_ctx and req :: tool_request
  assumes event_step:
      "R s (s\<lparr>audit_log := audit_log s @ [event_of ctx (tool_name req) (tool_resource req) elapsed n result],
              metrics := record_tool_call (tool_name req) (fst (tool_outcome result)) elapsed (metrics s)\<rparr>)"
    and note_step: "audit_note_for (audit_registry s) ctx meth res (result :: error_data + json) = Some new
      \<Longrightarrow> R s (s\<lparr>spawned := spawned s @ [new]\<rparr>)"
    and designation_step: "req = Profile (Set_Audit_Mailbox m) \<Longrightarrow> cx_identity ctx = Some i
      \<Longrightarrow> R s (s\<lparr>audit_registry := registry_set (user_id i) m (audit_registry s)\<rparr>)"
begin

lemma preserves_event:
  "preserves R (emit_tool_audit X (tool_name req) (tool_user ctx) (tool_resource req) started n result)"
  unfolding emit_tool_audit_def
  using event_step [where n = n and result = "map_sum id (\<lambda>_. JNull) result"]
  by (intro preserves_modifies) (simp add: tool_call_def event_of_def Let_def)

lemma preserves_spawn: "preserves R (spawn_audit ctx meth res result)"
  unfolding spawn_audit_def
  using note_step [of _ meth res "map_sum id (\<lambda>_. JNull) result"]
  by (intro preserves_modifies) (auto simp: related_refl split: option.split)

lemma preserves_finish:
  "preserves R (finish_tool X ctx (tool_name req) (tool_resource req) note counted started r0)"
  unfolding finish_tool_def
  by (intro preserves_intros preserves_react preserves_event preserves_spawn)

lemma run_preserves_finish:
  assumes "\<And>s r s1. b s = Some (r, s1) \<Longrightarrow> R s s1"
  shows "run_preserves R (may_return f (\<lambda>s. map_option
     (\<lambda>(r, s1). finish_tool X ctx (tool_name req) (tool_resource req) left counted (now_of X s) r s1) (b s)))"
  using related_trans [OF assms preservesD [OF preserves_finish]]
  by (fastforce simp: run_preserves_def may_return_def map_prod_def split: prod.splits)

lemma run_preserves_run_tool:
  assumes "preserves R body" and "tool = tool_name req" and "res = tool_resource req"
  shows "run_preserves R (returns f (run_tool X ctx tool res note counted cat body))"
  unfolding returns_run_tool assms(2,3)
  by (intro run_preserves_finish) (auto dest: preservesD [OF preserves_bindE [OF preserves_limits assms(1)]])

lemmas run_intros = run_preserves_run_tool preserves_body

lemma core_preserves: "req = Core r \<Longrightarrow> run_preserves R (core_router X ctx r)"
  by (cases r; simp)
    (unfold whoami_def get_identities_def list_mailboxes_def list_recent_emails_def read_email_def
      send_email_def, (intro run_intros; simp)+)

lemma reads_preserves: "req = Reads r \<Longrightarrow> run_preserves R (reads_router X ctx r)"
  by (cases r; simp)
    (unfold get_mailbox_info_def search_emails_def read_thread_def get_unread_summary_def
      list_recent_activity_def get_email_headers_def list_attachments_def, (intro run_intros; simp)+)

lemma flags_preserves: "req = Flags r \<Longrightarrow> run_preserves R (flags_router X ctx r)"
  by (cases r; simp)
    (unfold mark_read_def mark_unread_def set_flag_def unset_flag_def set_keyword_def unset_keyword_def
      move_to_mailbox_def copy_to_mailbox_def, (intro run_intros; simp)+)

lemma compose_preserves: "req = Compose r \<Longrightarrow> run_preserves R (compose_router X ctx r)"
  by (cases r; simp)
    (unfold send_email_with_attachments_def reply_email_def forward_email_def save_draft_def
      update_draft_def, (intro run_intros; simp)+)

lemma attachments_preserves: "req = Attachments r \<Longrightarrow> run_preserves R (attachments_router X ctx r)"
  by (cases r; simp)
    (unfold download_attachment_def upload_blob_from_url_def send_email_with_url_attachment_def,
      (intro run_intros; simp)+)

lemma mailbox_mgmt_preserves: "req = Mailbox_Mgmt r \<Longrightarrow> run_preserves R (mailbox_mgmt_router X ctx r)"
  by (cases r; simp)
    (unfold create_mailbox_def rename_mailbox_def delete_mailbox_def subscribe_mailbox_def
      unsubscribe_mailbox_def set_subscription_def, (intro run_intros; simp)+)

lemma spam_preserves: "req = Spam r \<Longrightarrow> run_preserves R (spam_router X ctx r)"
  by (cases r; simp) (unfold mark_as_spam_def mark_as_not_spam_def, (intro run_intros; simp)+)

lemma empty_role_preserves:
  assumes "tool = tool_name req" and "tool_resource req = None"
  shows "run_preserves R (may_return f (empty_role X ctx tool role missing))"
proof -
  have "R s s1" if "empty_body X ctx role missing s = Some (r, s1)" for s r s1
    using that
    by (cases rule: empty_body_cases)
      (auto intro: preservesD [OF preserves_role_target] preserves_empty_mailbox
        related_trans [OF preservesD [OF preserves_role_target]])
  from run_preserves_finish [OF this, where left = "Some None" and counted = "\<lambda>_. None"]
  show ?thesis using assms by (simp add: empty_role_def [abs_def])
qed

lemma delete_preserves: "req = Delete r \<Longrightarrow> run_preserves R (delete_router X ctx r)"
  by (cases r; simp add: empty_trash_def empty_spam_def empty_role_preserves)
    (unfold delete_email_def permanently_delete_email_def, (intro run_intros; simp)+)

lemma preserves_need: "(\<And>a. v = Some a \<Longrightarrow> preserves R (k a)) \<Longrightarrow> preserves R (bindE (need e v) k)"
  by (cases v) (simp_all add: need_def bindE_def ret_def fail_def preserves_def related_refl)

lemma profile_preserves:
  assumes "req = Profile r"
  shows "run_preserves R (profile_router X ctx r)"
proof (cases "\<exists>m. r = Set_Audit_Mailbox m")
  case False
  then show ?thesis using assms
    by (cases r; simp)
      (unfold create_identity_def get_profile_def get_vacation_response_def set_vacation_response_def
        get_account_info_def verify_session_def, (intro run_intros; simp)+)
next
  case True
  then obtain m where m: "r = Set_Audit_Mailbox m" by blast
  show ?thesis unfolding m profile_router.simps set_audit_mailbox_def
    by (intro run_preserves_run_tool preserves_need run_intros preserves_modifies designation_step [where m = m])
      (simp_all add: assms m)
qed

lemma tool_router_preserves: "run_preserves R (tool_router X ctx req)"
  using core_preserves reads_preserves flags_preserves compose_preserves delete_preserves
    attachments_preserves mailbox_mgmt_preserves spam_preserves profile_preserves
  by (cases req) simp_all

end

text \<open>The designations: only \<^verbatim>\<open>set_audit_mailbox\<close> changes them, and only its caller's.\<close>

definition designates_own ::
  "request_ctx \<Rightarrow> tool_request \<Rightarrow> (string \<times> string) list \<Rightarrow> (string \<times> string) list \<Rightarrow> bool" where
  "designates_own ctx r reg reg1 \<longleftrightarrow>
     ((\<forall>m. r \<noteq> Profile (Set_Audit_Mailbox m)) \<longrightarrow> reg1 = reg)
     \<and> (\<forall>uid. map_option user_id (cx_identity ctx) \<noteq> Some uid \<longrightarrow> registry_get reg1 uid = registry_get reg uid)"

interpretation designations:
  run_frame "\<lambda>s s1. designates_own ctx r (audit_registry s) (audit_registry s1)" X ctx r
  for X :: "('w, 'k, 'b) service" and ctx r
  by unfold_locales
    (auto simp: designates_own_def registry_get_def registry_set_def update_conv')

section \<open>The rate limit\<close>

text \<open>A call over its limit: what is left of it is the charge and the audit event.\<close>

definition over_limit ::
  "('w, 'k, 'b) service \<Rightarrow> request_ctx \<Rightarrow> category \<Rightarrow> ('w, 'k, 'b) service_state \<Rightarrow> 'b limiter \<Rightarrow> bool" where
  "over_limit X ctx cat s l \<longleftrightarrow>
     (\<exists>tok ident. cx_token ctx = Some tok \<and> cx_identity ctx = Some ident
        \<and> limiter_check (sv_governor X) (now_of X s) (token_hash X (at_secret tok))
             (Some (user_id ident)) cat (limiter s) = (False, l))"

definition refused ::
  "('w, 'k, 'b) service \<Rightarrow> request_ctx \<Rightarrow> category \<Rightarrow> string \<Rightarrow> string option
   \<Rightarrow> (('w, 'k, 'b) service_state \<Rightarrow> ('w, 'k, 'b) run_result) \<Rightarrow> bool" where
  "refused X ctx cat tool res m \<longleftrightarrow>
     (\<forall>s l. over_limit X ctx cat s l \<longrightarrow>
        (\<exists>n. m s = Some (Inl rate_limited_err,
           s\<lparr>limiter := l, audit_log := audit_log s @ [event_of ctx tool res 0 n (Inl rate_limited_err)],
             metrics := record_tool_call tool ''rate_limited'' 0 (metrics s)\<rparr>)))"

lemma over_limit_check:
  "over_limit X ctx cat s l \<Longrightarrow> rate_limit_check X ctx cat s = (Inl rate_limited_err, s\<lparr>limiter := l\<rparr>)"
  by (auto simp: over_limit_def rate_limit_check_def need_def bindE_def ret_def)

lemma finish_tool_limited:
  "finish_tool X ctx tool res note counted (now_of X s) (Inl rate_limited_err :: error_data + 'a) s
   = (Inl rate_limited_err, s\<lparr>audit_log := audit_log s
        @ [event_of ctx tool res 0 (counted (Inl rate_limited_err)) (Inl rate_limited_err)],
      metrics := record_tool_call tool ''rate_limited'' 0 (metrics s)\<rparr>)"
proof -
  have react: "react_to_auth_expiry X ctx (Inl rate_limited_err :: error_data + 'a) = fail rate_limited_err"
    by (simp add: react_to_auth_expiry_def rate_limited_err_def code_defs)
  have no_note: "audit_note_for reg ctx tool nr (Inl rate_limited_err :: error_data + 'a) = None" for reg nr
    by (simp add: audit_note_for_def rate_limited_err_def)
  have outcome: "tool_outcome (Inl rate_limited_err :: error_data + 'a) = (''rate_limited'', Some (error_class rate_limited_err))"
      "tool_outcome (Inl rate_limited_err :: error_data + json) = (''rate_limited'', Some (error_class rate_limited_err))"
    by (simp_all add: tool_outcome_def rate_limited_err_def)
  show ?thesis
    by (cases "note")
      (simp_all add: finish_tool_def react attempt_def fail_def bindE_def ret_def spawn_audit_def no_note
        emit_tool_audit_def tool_call_def Let_def modifies_def lift_def event_of_def outcome)
qed

lemma finish_tool_charged:
  "finish_tool X ctx tool res note counted (now_of X s) (Inl rate_limited_err :: error_data + 'a) (s\<lparr>limiter := l\<rparr>)
   = (Inl rate_limited_err, s\<lparr>limiter := l, audit_log := audit_log s
        @ [event_of ctx tool res 0 (counted (Inl rate_limited_err)) (Inl rate_limited_err)],
      metrics := record_tool_call tool ''rate_limited'' 0 (metrics s)\<rparr>)"
  using finish_tool_limited [of X ctx tool res "note" counted "s\<lparr>limiter := l\<rparr>"]
  by (simp add: now_of_def)

lemma refused_run_tool:
  "refused X ctx cat tool res (returns f (run_tool X ctx tool res note counted cat body))"
  unfolding refused_def
proof (intro allI impI)
  fix s l
  assume "over_limit X ctx cat s l"
  then have "bindE (rate_limit_check X ctx cat) (\<lambda>_. body) s = (Inl rate_limited_err, s\<lparr>limiter := l\<rparr>)"
    by (rule bindE_fail [OF over_limit_check])
  then show "\<exists>n. returns f (run_tool X ctx tool res note counted cat body) s = Some (Inl rate_limited_err,
           s\<lparr>limiter := l, audit_log := audit_log s @ [event_of ctx tool res 0 n (Inl rate_limited_err)],
             metrics := record_tool_call tool ''rate_limited'' 0 (metrics s)\<rparr>)"
    by (auto simp: returns_run_tool may_return_def map_prod_def finish_tool_charged)
qed

lemma refused_empty_role:
  "refused X ctx Write tool None (may_return f (empty_role X ctx tool role missing))"
proof -
  have "role_target X ctx role missing s = (Inl rate_limited_err, s\<lparr>limiter := l\<rparr>)"
    if "over_limit X ctx Write s l" for s l
    unfolding role_target_def by (rule bindE_fail) (rule over_limit_check [OF that])
  then show ?thesis
    by (auto simp: refused_def may_return_def empty_role_def empty_body_def finish_tool_charged)
qed

lemma refused_core: "refused X ctx (category_of (Core r)) (tool_name (Core r)) (tool_resource (Core r)) (core_router X ctx r)"
  by (cases r) (simp_all add: category_of_def refused_run_tool whoami_def get_identities_def list_mailboxes_def list_recent_emails_def
      read_email_def send_email_def)

lemma refused_reads: "refused X ctx (category_of (Reads r)) (tool_name (Reads r)) (tool_resource (Reads r)) (reads_router X ctx r)"
  by (cases r) (simp_all add: category_of_def refused_run_tool get_mailbox_info_def search_emails_def read_thread_def
      get_unread_summary_def list_recent_activity_def get_email_headers_def list_attachments_def)

lemma refused_flags: "refused X ctx (category_of (Flags r)) (tool_name (Flags r)) (tool_resource (Flags r)) (flags_router X ctx r)"
  by (cases r) (simp_all add: category_of_def refused_run_tool mark_read_def mark_unread_def set_flag_def unset_flag_def
      set_keyword_def unset_keyword_def move_to_mailbox_def copy_to_mailbox_def)

lemma refused_compose: "refused X ctx (category_of (Compose r)) (tool_name (Compose r)) (tool_resource (Compose r)) (compose_router X ctx r)"
  by (cases r) (simp_all add: category_of_def refused_run_tool send_email_with_attachments_def reply_email_def forward_email_def
      save_draft_def update_draft_def)

lemma refused_delete: "refused X ctx (category_of (Delete r)) (tool_name (Delete r)) (tool_resource (Delete r)) (delete_router X ctx r)"
  by (cases r) (simp_all add: category_of_def refused_run_tool delete_email_def permanently_delete_email_def
      empty_trash_def empty_spam_def refused_empty_role)

lemma refused_attachments: "refused X ctx (category_of (Attachments r)) (tool_name (Attachments r)) (tool_resource (Attachments r)) (attachments_router X ctx r)"
  by (cases r) (simp_all add: category_of_def refused_run_tool download_attachment_def upload_blob_from_url_def
      send_email_with_url_attachment_def)

lemma refused_mailbox_mgmt: "refused X ctx (category_of (Mailbox_Mgmt r)) (tool_name (Mailbox_Mgmt r)) (tool_resource (Mailbox_Mgmt r)) (mailbox_mgmt_router X ctx r)"
  by (cases r) (simp_all add: category_of_def refused_run_tool create_mailbox_def rename_mailbox_def delete_mailbox_def
      subscribe_mailbox_def unsubscribe_mailbox_def set_subscription_def)

lemma refused_spam: "refused X ctx (category_of (Spam r)) (tool_name (Spam r)) (tool_resource (Spam r)) (spam_router X ctx r)"
  by (cases r) (simp_all add: category_of_def refused_run_tool mark_as_spam_def mark_as_not_spam_def)

lemma refused_profile: "refused X ctx (category_of (Profile r)) (tool_name (Profile r)) (tool_resource (Profile r)) (profile_router X ctx r)"
  by (cases r) (simp_all add: category_of_def refused_run_tool create_identity_def get_profile_def get_vacation_response_def
      set_vacation_response_def get_account_info_def verify_session_def set_audit_mailbox_def)

lemma tool_router_refused: "refused X ctx (category_of r) (tool_name r) (tool_resource r) (tool_router X ctx r)"
  using refused_core refused_reads refused_flags refused_compose refused_delete refused_attachments
    refused_mailbox_mgmt refused_spam refused_profile
  by (cases r) (simp_all only: tool_router.simps)

end
