(* ===== verification/Emptying.thy ===== *)
theory Emptying
  imports Delete_Tools
begin

text \<open>
  What emptying a mailbox comes to, batch by batch: the loop of \<^verbatim>\<open>src/mcp/delete.rs\<close> refines the
  step relation \<open>full_batches\<close>, which also says when it returns at all.
\<close>

section \<open>The step relation\<close>

text \<open>The numbers of one batch: how many emails it found and how many it destroyed.\<close>

definition batch ::
  "('w, 'k, 'b) service \<Rightarrow> string \<Rightarrow> string \<Rightarrow> string \<Rightarrow> ('w, 'k, 'b, nat \<times> nat) tool" where
  "batch X token acct mailbox_id =
     bindE (call X token [CAP_CORE, CAP_MAIL] (empty_calls acct mailbox_id)) (\<lambda>resps.
       ret (array_length resps ''Email/query'' ''ids'', array_length resps ''Email/set'' ''destroyed''))"

text \<open>Consecutive batches that destroyed all that they found, and found something.\<close>

inductive full_batches ::
  "('w, 'k, 'b) service \<Rightarrow> string \<Rightarrow> string \<Rightarrow> string
   \<Rightarrow> ('w, 'k, 'b) service_state \<Rightarrow> nat list \<Rightarrow> ('w, 'k, 'b) service_state \<Rightarrow> bool"
  for X token acct mb where
  Start: "full_batches X token acct mb s [] s"
| Batch: "batch X token acct mb s = (Inr (q, q), s1) \<Longrightarrow> q \<noteq> 0 \<Longrightarrow> full_batches X token acct mb s1 bs s2
    \<Longrightarrow> full_batches X token acct mb s (q # bs) s2"

inductive_cases full_batches_NilE: "full_batches X token acct mb s [] s'"
inductive_cases full_batches_ConsE: "full_batches X token acct mb s (q # bs) s'"

text \<open>How the loop may end after some full batches.\<close>

definition partial_batch :: "nat \<Rightarrow> nat \<Rightarrow> error_data" where
  "partial_batch q d =
     internal_error (''mailbox emptying stopped after a partial batch: queried ''
       @ show_nat q @ '', destroyed '' @ show_nat d)"

definition stops ::
  "('w, 'k, 'b) service \<Rightarrow> string \<Rightarrow> string \<Rightarrow> string \<Rightarrow> ('w, 'k, 'b) service_state
   \<Rightarrow> error_data option \<Rightarrow> ('w, 'k, 'b) service_state \<Rightarrow> bool" where
  "stops X token acct mb s e s' \<longleftrightarrow>
     (case batch X token acct mb s of
        (Inl e0, s1) \<Rightarrow> e = Some e0 \<and> s' = s1
      | (Inr (q, d), s1) \<Rightarrow>
          s' = s1 \<and> (if q = 0 then e = None else d \<noteq> q \<and> e = Some (partial_batch q d)))"

section \<open>One turn\<close>

lemma empty_step_batch:
  "empty_step X token acct mb n = bindE (batch X token acct mb) (\<lambda>(q, d). lift (account_empty_batch n q d))"
  by (auto simp: empty_step_def batch_def bindE_def ret_def fun_eq_iff split: prod.split sum.split)

lemma empty_step_cases:
  obtains (Stop) e s1 where "empty_step X token acct mb n s = (Inl e, s1)" "stops X token acct mb s (Some e) s1"
  | (Done) s1 where "empty_step X token acct mb n s = (Inr None, s1)" "stops X token acct mb s None s1"
  | (More) q s1 where "empty_step X token acct mb n s = (Inr (Some (sat_add32 n (u32_of q))), s1)"
      "batch X token acct mb s = (Inr (q, q), s1)" "q \<noteq> 0"
proof -
  obtain r s1 where b: "batch X token acct mb s = (r, s1)" by (cases "batch X token acct mb s")
  show thesis
  proof (cases r)
    case (Inl e)
    with b show thesis by (intro Stop) (simp_all add: empty_step_batch bindE_def stops_def)
  next
    case (Inr v)
    obtain q d where v: "v = (q, d)" by (cases v)
    consider "q = 0" | "q \<noteq> 0" "d \<noteq> q" | "q \<noteq> 0" "d = q" by blast
    then show thesis
      using b Inr v Stop Done More
      by cases (auto simp: empty_step_batch bindE_def lift_def account_empty_batch_def stops_def
          partial_batch_def)
  qed
qed

lemma stops_not_full: "stops X token acct mb s e s' \<Longrightarrow> batch X token acct mb s = (Inr (q, q), s1) \<Longrightarrow> q = 0"
  by (auto simp: stops_def split: if_splits)

lemma stops_unique: "stops X token acct mb s e s1 \<Longrightarrow> stops X token acct mb s f s2 \<Longrightarrow> e = f \<and> s1 = s2"
  by (auto simp: stops_def split: prod.splits sum.splits if_splits)

lemma empty_mailbox_step:
  "empty_step X token acct mb n s = (Inl e, s1) \<Longrightarrow> empty_mailbox X token acct mb n s = Some (Inl e, s1)"
  "empty_step X token acct mb n s = (Inr None, s1) \<Longrightarrow> empty_mailbox X token acct mb n s = Some (Inr n, s1)"
  "empty_step X token acct mb n s = (Inr (Some m), s1) \<Longrightarrow>
     empty_mailbox X token acct mb n s = empty_mailbox X token acct mb m s1"
  by (simp_all add: empty_mailbox.simps)

section \<open>The count\<close>

definition u32_max :: nat where "u32_max = 2 ^ 32 - 1"

lemma unat_lt2p_len: "unat w < 2 ^ LENGTH('a)" for w :: "'a::len word"
  using unsigned_less by blast

lemma unat_count: "unat (sat_add32 n (u32_of q)) = min u32_max (unat n + q)"
proof -
  have "unat (u32_of q) = min u32_max q"
    using unat_clamped [of q, where 'a = 32] by (simp add: u32_of_def u32_max_def)
  moreover have "unat (sat_add32 a b) = min u32_max (unat a + unat b)" for a b
    using unat_saturating [of a b] by (simp add: sat_add32_def u32_max_def)
  ultimately show ?thesis by simp
qed

section \<open>The loop\<close>

lemma empty_mailbox_full:
  assumes "full_batches X token acct mb s bs s1"
  shows "\<exists>m. unat m = min u32_max (unat n + sum_list bs)
    \<and> empty_mailbox X token acct mb n s = empty_mailbox X token acct mb m s1"
  using assms
proof (induction arbitrary: n)
  case (Start s)
  have "unat n < 2 ^ 32" using unat_lt2p_len [of n] by simp
  then have "unat n \<le> u32_max" by (simp add: u32_max_def)
  then show ?case by (intro exI [of _ n]) simp
next
  case (Batch s q s1 bs s2)
  have "empty_step X token acct mb n s = (Inr (Some (sat_add32 n (u32_of q))), s1)"
    using Batch.hyps(1,2) by (simp add: empty_step_batch bindE_def lift_def account_empty_batch_def)
  then have "empty_mailbox X token acct mb n s = empty_mailbox X token acct mb (sat_add32 n (u32_of q)) s1"
    by (rule empty_mailbox_step)
  moreover have "min u32_max (min u32_max (unat n + q) + sum_list bs) = min u32_max (unat n + (q + sum_list bs))"
    by simp
  ultimately show ?case
    using Batch.IH [of "sat_add32 n (u32_of q)"] by (metis unat_count sum_list.Cons)
qed

lemma empty_mailbox_stops:
  assumes "stops X token acct mb s e s'"
  shows "empty_mailbox X token acct mb n s = Some (case e of None \<Rightarrow> Inr n | Some e0 \<Rightarrow> Inl e0, s')"
proof (cases rule: empty_step_cases [of X token acct mb n s])
  case (Stop e0 s1)
  then show ?thesis using stops_unique [OF assms Stop(2)] empty_mailbox_step(1) by fastforce
next
  case (Done s1)
  then show ?thesis using stops_unique [OF assms Done(2)] empty_mailbox_step(2) by fastforce
next
  case (More q s1)
  then show ?thesis using stops_not_full [OF assms] by blast
qed

lemma empty_mailbox_returned:
  assumes "empty_mailbox X token acct mb n s = Some (r, s')"
  shows "\<exists>bs s1 e. full_batches X token acct mb s bs s1 \<and> stops X token acct mb s1 e s'"
  using assms
proof (induction rule: empty_mailbox_induct)
  case (Stop n s e s1)
  then have "stops X token acct mb s (Some e) s1"
    by (cases rule: empty_step_cases [of X token acct mb n s]) auto
  then show ?case using full_batches.Start by blast
next
  case (Done n s s1)
  then have "stops X token acct mb s None s1"
    by (cases rule: empty_step_cases [of X token acct mb n s]) auto
  then show ?case using full_batches.Start by blast
next
  case (More n s m s1 r s2)
  then obtain q where "batch X token acct mb s = (Inr (q, q), s1)" "q \<noteq> 0"
    by (cases rule: empty_step_cases [of X token acct mb n s]) auto
  with More.IH show ?case using full_batches.Batch by metis
qed

text \<open>A run that returns for no number of batches goes on with full batches for ever.\<close>

lemma no_stop_extends:
  assumes "\<nexists>bs s1 e s'. full_batches X token acct mb s bs s1 \<and> stops X token acct mb s1 e s'"
  shows "\<exists>bs s1. full_batches X token acct mb s bs s1 \<and> length bs = k"
  using assms
proof (induction k arbitrary: s)
  case 0
  then show ?case using full_batches.Start by fastforce
next
  case (Suc k)
  show ?case
  proof (cases rule: empty_step_cases [of X token acct mb 0 s])
    case (More q s1)
    with Suc.prems have "\<nexists>bs s2 e s'. full_batches X token acct mb s1 bs s2 \<and> stops X token acct mb s2 e s'"
      using full_batches.Batch by metis
    from Suc.IH [OF this] obtain bs s2 where "full_batches X token acct mb s1 bs s2" "length bs = k"
      by blast
    with More(2,3) show ?thesis by (intro exI [of _ "q # bs"]) (auto intro: full_batches.Batch)
  qed (use Suc.prems full_batches.Start in blast)+
qed

lemma full_batches_bounded:
  assumes "full_batches X token acct mb s bs s1" "stops X token acct mb s1 e s'"
    and "full_batches X token acct mb s cs s2"
  shows "length cs \<le> length bs"
  using assms
proof (induction arbitrary: cs s2)
  case (Start s)
  then show ?case by (cases cs) (auto elim: full_batches_ConsE dest: stops_not_full)
next
  case (Batch s q s1 bs s1')
  show ?case
  proof (cases cs)
    case (Cons c cs')
    with Batch.prems(2) Batch.hyps(1) have "full_batches X token acct mb s1 cs' s2"
      by (auto elim!: full_batches_ConsE)
    with Batch.IH [OF Batch.prems(1)] Cons show ?thesis by simp
  qed simp
qed

section \<open>Outcomes\<close>

lemma empty_mailbox_outcome:
  "empty_mailbox X token acct mb n s = Some (Inr gone, s') \<longleftrightarrow>
     (\<exists>bs s1. full_batches X token acct mb s bs s1 \<and> stops X token acct mb s1 None s'
        \<and> unat gone = min u32_max (unat n + sum_list bs))" (is "?A \<longleftrightarrow> ?B")
  "empty_mailbox X token acct mb n s = Some (Inl e, s') \<longleftrightarrow>
     (\<exists>bs s1. full_batches X token acct mb s bs s1 \<and> stops X token acct mb s1 (Some e) s')" (is "?C \<longleftrightarrow> ?D")
  "empty_mailbox X token acct mb n s = None \<longleftrightarrow>
     (\<forall>k. \<exists>bs s1. full_batches X token acct mb s bs s1 \<and> length bs = k)" (is "?E \<longleftrightarrow> ?F")
proof -
  have run: "empty_mailbox X token acct mb n s = Some (case e of None \<Rightarrow> Inr m | Some e0 \<Rightarrow> Inl e0, s')
      \<and> unat m = min u32_max (unat n + sum_list bs)"
    if "full_batches X token acct mb s bs s1" "stops X token acct mb s1 e s'"
      "unat m = min u32_max (unat n + sum_list bs)" for bs s1 e s' m
    using empty_mailbox_full [OF that(1), of n] empty_mailbox_stops [OF that(2)] that(3)
    by (metis word_unat_eq_iff)
  have total: "\<exists>m :: u32. unat m = min u32_max (unat n + sum_list bs)" for bs
    using unat_clamped [of "unat n + sum_list bs", where 'a = 32] by (auto simp: u32_max_def)
  have returned: "\<exists>bs s1 e m. full_batches X token acct mb s bs s1 \<and> stops X token acct mb s1 e s'
      \<and> unat m = min u32_max (unat n + sum_list bs) \<and> r = (case e of None \<Rightarrow> Inr m | Some e0 \<Rightarrow> Inl e0)"
    if "empty_mailbox X token acct mb n s = Some (r, s')" for r s'
    using empty_mailbox_returned [OF that] run total that by (metis Pair_inject option.inject)
  show "?A \<longleftrightarrow> ?B"
  proof
    assume ?A
    from returned [OF this] show ?B by (auto split: option.splits intro!: exI)
  qed (use run [of _ _ None s' gone] in auto)
  show "?C \<longleftrightarrow> ?D"
    using returned [of "Inl e" s'] run [of _ _ "Some e" s'] total by (fastforce split: option.splits)
  show "?E \<longleftrightarrow> ?F"
  proof
    assume e: ?E
    have "\<nexists>bs s1 e s'. full_batches X token acct mb s bs s1 \<and> stops X token acct mb s1 e s'"
      using run total e by (metis option.discI)
    from no_stop_extends [OF this] show ?F by blast
  next
    assume f: ?F
    show ?E
    proof (rule ccontr)
      assume "\<not> ?E"
      then obtain bs s1 e s' where h: "full_batches X token acct mb s bs s1" "stops X token acct mb s1 e s'"
        using empty_mailbox_returned by (metis not_None_eq prod.collapse)
      obtain cs s2 where "full_batches X token acct mb s cs s2" "length cs = Suc (length bs)" using f by blast
      with full_batches_bounded [OF h] show False by force
    qed
  qed
qed

text \<open>A server whose mailbox shrinks with every full batch lets the loop return.\<close>

definition shrinks ::
  "('w, 'k, 'b) service \<Rightarrow> (string \<Rightarrow> string \<Rightarrow> string \<Rightarrow> 'w \<Rightarrow> nat) \<Rightarrow> bool" where
  "shrinks X emails_in \<longleftrightarrow>
     (\<forall>token acct mb s q s1. batch X token acct mb s = (Inr (q, q), s1) \<longrightarrow> q \<noteq> 0
        \<longrightarrow> emails_in token acct mb (world s1) < emails_in token acct mb (world s))"

lemma full_batches_shrink:
  assumes "full_batches X token acct mb s bs s1" "shrinks X emails_in"
  shows "emails_in token acct mb (world s1) + length bs \<le> emails_in token acct mb (world s)"
  using assms
proof (induction)
  case (Batch s q s1 bs s2)
  then have "emails_in token acct mb (world s1) < emails_in token acct mb (world s)"
    unfolding shrinks_def by blast
  with Batch show ?case by simp
qed simp

lemma empty_mailbox_returns:
  assumes "shrinks X emails_in"
  shows "\<exists>r s'. empty_mailbox X token acct mb n s = Some (r, s')"
proof (rule ccontr)
  assume "\<not> ?thesis"
  then have "empty_mailbox X token acct mb n s = None" by (metis not_None_eq prod.collapse)
  then obtain bs s1 where "full_batches X token acct mb s bs s1"
    "length bs = Suc (emails_in token acct mb (world s))"
    using empty_mailbox_outcome(3) by blast
  with full_batches_shrink [OF _ assms] show False by fastforce
qed

end
