(* ===== verification/Samples.thy ===== *)
theory Samples
  imports Tool_Laws Emptying "HOL-Library.Code_Target_Nat"
begin

text \<open>
  A small mail server to run the tools against: its world is the number of emails in the trash,
  it has a mailbox for drafts and one for the trash, finds and destroys at most two emails in a batch,
  knows one sending identity, has one email to answer, and accepts every update and submission. The
  theorems are applied to it in the witnesses.
\<close>

definition replying :: "json \<Rightarrow> string + http_reply" where
  "replying v =
     Inr \<lparr>rp_status = 200, rp_json = Inr v, rp_bytes = Inr ''abc'', rp_length = None,
          rp_content_type = None, rp_chunks = []\<rparr>"

definition answering :: "(string \<times> jmap) list \<Rightarrow> json" where
  "answering rs =
     JObj [(''methodResponses'', JArr (map (\<lambda>(m, p). JArr [JStr m, JObj p, JStr ''c'']) rs))]"

definition a_mailbox :: "string \<Rightarrow> json" where
  "a_mailbox role = JObj [(''id'', JStr (role @ ''-id'')), (''role'', JStr role)]"

definition a_created :: "string \<Rightarrow> json" where
  "a_created i = JObj [(''id'', JStr i)]"

definition an_email :: json where
  "an_email =
     JObj [(''from'', JArr [JObj [(''email'', JStr ''bob@b.x'')]]), (''messageId'', JArr [JStr ''m1'']),
           (''references'', JArr [JStr ''m0'']), (''subject'', JStr ''hi'')]"

definition mail_server :: "http_request \<Rightarrow> nat \<Rightarrow> (string + http_reply) \<times> nat" where
  "mail_server rq w =
     (case rq_body rq of
        Json_Body v \<Rightarrow>
          if ''Email/query'' \<in> set (body_methods v) then
            (let ids = JArr (replicate (min w 2) (JStr ''e''))
             in (replying (answering [(''Email/query'', [(''ids'', ids)]), (''Email/set'', [(''destroyed'', ids)])]),
                 w - min w 2))
          else
            (replying (answering
              [(''Mailbox/get'', [(''list'', JArr [a_mailbox ''drafts'', a_mailbox ''trash''])]),
               (''Identity/get'', [(''list'', JArr [JObj [(''email'', JStr ''julian@a.x''), (''id'', JStr ''i1'')]])]),
               (''Email/set'', [(''created'', JObj [(''draft'', a_created ''e1'')]), (''updated'', JObj [(''e'', JNull)])]),
               (''EmailSubmission/set'', [(''created'', JObj [(''sub'', a_created ''s1'')])]),
               (''Email/get'', [(''list'', JArr [an_email])])]), w)
      | _ \<Rightarrow> (replying JNull, w))"

definition sample_service :: "(nat, unit, nat) service" where
  "sample_service =
     \<lparr>net_send = mail_server, net_clock = (\<lambda>_. 0), net_system = (\<lambda>_. 0),
      discovery_url = ''https://s.x/.well-known/jmap'', sha256 = (\<lambda>t. t),
      decode_session = (\<lambda>_. Inr sample_session), decode_upload = (\<lambda>_. Inl ''no''), jwks_url = [],
      expected_audience = ''https://m.x'', expected_issuer = ''https://l.x'',
      jwt_decode_header = jwt_decode_header sample_logto, jwks_decode = jwks_decode sample_logto,
      jwt_decode = jwt_decode sample_logto, auth_config = sample_config,
      sv_governor = counting_governor, sv_download_max_bytes = 100, sv_upload_max_bytes = 100,
      sv_extra_from_addresses = [], show_json = (\<lambda>_. []),
      parse_url = (\<lambda>_. Inl ''no''), lookup_host = (\<lambda>_ _ _. Inl ''no''), show_ip = (\<lambda>_. []),
      base64_encode = (\<lambda>b. b), base64_decode = Inr\<rparr>"

definition sample_state :: "nat \<Rightarrow> (nat, unit, nat) service_state" where
  "sample_state per_minute =
     \<lparr>world = 3, trace = [], sessions = [], jwks_keys = [], jwks_fetched_at = None,
      jwks_attempted_at = None, vcache = [], last_used_entries = [], introspect_log = [], metrics = [],
      limiter = \<lparr>reads_per_min = per_minute, writes_per_min = per_minute, bearer_read = [],
                 bearer_write = [], sub_read = [], sub_write = []\<rparr>,
      audit_registry = [(''u1'', ''audit-id'')], spawned = [], audit_log = []\<rparr>"

definition sample_ctx :: request_ctx where
  "sample_ctx =
     \<lparr>cx_identity = Some \<lparr>user_id = ''u1'', email = Some ''julian@a.x'', display_name = None,
                          exp_unix = None\<rparr>,
      cx_token = Some \<lparr>at_scheme = Bearer, at_secret = ''t''\<rparr>\<rparr>"

text \<open>Two calls on it: a write and a read. Both succeed, with two requests each.\<close>

definition sample_write :: tool_request where
  "sample_write = Flags (Mark_Read [''e''])"

definition sample_run :: "tool_request \<Rightarrow> (error_data + json) \<times> (nat, unit, nat) service_state" where
  "sample_run r = the (tool_router sample_service sample_ctx r (sample_state 5))"

lemma sample_run_router:
  assumes "r = sample_write \<or> r = Core List_Mailboxes"
  shows "tool_router sample_service sample_ctx r (sample_state 5) = Some (fst (sample_run r), snd (sample_run r))"
  using assms by (auto simp: sample_run_def sample_write_def returns_def)

lemma sample_write_eval:
  "let (res, s') = sample_run sample_write
   in res = Inr (mark_seen_json [''e''] 1) \<and> length (trace s') = 2 \<and> length (spawned s') = 1 \<and> length (audit_log s') = 1"
  by code_simp

lemma sample_read_eval:
  "let (res, s') = sample_run (Core List_Mailboxes)
   in \<not> isl res \<and> length (trace s') = 2 \<and> spawned s' = []"
  by code_simp

lemma sample_refused:
  "limiter_check (sv_governor sample_service) (now_of sample_service (sample_state 0))
     (token_hash sample_service ''t'') (Some ''u1'') Write (limiter (sample_state 0))
   = (False, (limiter (sample_state 0))\<lparr>bearer_write := [(''74'', \<lparr>be_bucket = 0, be_last_seen = 0\<rparr>)]\<rparr>)"
  by code_simp

text \<open>Emptying its trash shrinks it.\<close>

lemma sample_session_for:
  "\<exists>x s1. session_for sample_service token s = (Inr x, s1) \<and> world s1 = world s"
  by (auto simp: session_for_def comp_defs send_def check_status_def sample_service_def mail_server_def
      get_request_def replying_def is_success_def Let_def split: option.split)

lemma sample_batch:
  "\<exists>s1. batch sample_service token acct mb s = (Inr (min (world s) 2, min (world s) 2), s1)
     \<and> world s1 = world s - min (world s) 2"
proof -
  obtain x s0 where x: "session_for sample_service token s = (Inr x, s0)" "world s0 = world s"
    using sample_session_for by blast
  have "''Email/query'' \<in> set (body_methods (call_body use (empty_calls acct mb)))" for use
    by (simp add: body_methods_call_body empty_calls_def)
  then show ?thesis
    using x
    by (simp add: batch_def call_def jmap_call_def bindE_def map_err_def send_def sample_service_def
        mail_server_def post_json_def check_status_def replying_def is_success_def ret_def lift_def need_def
        answering_def get_array_def method_response_def first_of_def array_length_def method_payload_def Let_def)
qed

lemma sample_shrinks: "shrinks sample_service (\<lambda>token acct mb w. w)"
  unfolding shrinks_def
proof (intro allI impI)
  fix token acct mb and s s1 :: "(nat, unit, nat) service_state" and q
  assume b: "batch sample_service token acct mb s = (Inr (q, q), s1)" "q \<noteq> 0"
  then show "world s1 < world s" using sample_batch [of token acct mb s] by auto
qed

text \<open>An email sent through it.\<close>

definition sample_send :: send_email_params where
  "sample_send =
     \<lparr>se_from = ''julian@a.x'', se_to = [''bob@b.x''], se_cc = [], se_bcc = [], se_subject = ''hi'',
      se_body_text = ''text'', se_body_html = None, se_in_reply_to = None\<rparr>"

lemma sample_send_eval:
  "fst (send_email sample_service sample_ctx sample_send (sample_state 5)) = Inr (''e1'', ''s1'')"
  by code_simp

end
