(* ===== verification/Server.thy ===== *)
theory Server
  imports Samples Ip_Parser
begin

text \<open>
  \<^verbatim>\<open>src/main.rs\<close> and \<^verbatim>\<open>src/session.rs\<close>: the service that a configuration builds, the layers an MCP
  request passes before a tool runs, and the cap on MCP sessions. The routes and the body limit are in
  Application. The MCP transport is a library: it decides which tool a request calls and hands the tool
  the extensions that the layers set on that same request; its session manager is a parameter.
\<close>

section \<open>Building the service\<close>

definition MAX_SESSIONS :: nat where "MAX_SESSIONS = 256"

text \<open>
  \<^verbatim>\<open>LogtoValidationClient::new\<close> and \<^verbatim>\<open>JmapClient::new\<close>: the addresses they derive. The second result of the
  latter is what it tells its HTTP client to resolve by itself.
\<close>

definition logto_client_new :: "string \<Rightarrow> string \<Rightarrow> string \<times> string \<times> string" where
  "logto_client_new server audience =
     (let issuer = trim_end_matches CHR ''/'' server
      in (issuer @ ''/jwks'', audience, issuer))"

definition jmap_client_new ::
  "url_parser \<Rightarrow> string \<Rightarrow> string option \<Rightarrow> string + string \<times> (string \<times> socket_addr) option" where
  "jmap_client_new parse base0 connect_ip =
     (let base = trim_end_matches CHR ''/'' base0;
          discovery = base @ ''/.well-known/jmap''
      in case connect_ip of
           None \<Rightarrow> Inr (discovery, None)
         | Some ip \<Rightarrow>
             (case (case parse base of Inl _ \<Rightarrow> None | Inr u \<Rightarrow> u_host u) of
                None \<Rightarrow> Inl ''cannot parse host from Stalwart base URL for connect-IP override''
              | Some host \<Rightarrow>
                  (case parse_ip_addr ip of
                     None \<Rightarrow> Inl ''JMAP_MCP_STALWART_CONNECT_IP is not a valid IP''
                   | Some addr \<Rightarrow> Inr (discovery, Some (host, (addr, 443))))))"

record ('w, 'k, 'b) server_state =
  svc :: "('w, 'k, 'b) service_state"
  initialize_limiter :: "'b initialize_limiter"

definition fresh_server_state :: "'w \<Rightarrow> 'b limiter \<Rightarrow> ('w, 'k, 'b) server_state" where
  "fresh_server_state w l =
     \<lparr>svc = \<lparr>world = w, trace = [], sessions = [], jwks_keys = [], jwks_fetched_at = None,
             jwks_attempted_at = None, vcache = [], last_used_entries = [], introspect_log = [], metrics = [],
             limiter = l, audit_registry = [], spawned = [], audit_log = []\<rparr>,
      initialize_limiter = initialize_limiter_new INITIALIZE_REFILL_INTERVAL MAX_INITIALIZES_PER_IDENTITY\<rparr>"

text \<open>
  \<^verbatim>\<open>build_app\<close> and the part of \<^verbatim>\<open>build_router\<close> that makes the service: \<open>E\<close> is the environment, the
  libraries and the network, whose configured fields are set from the configuration.
\<close>

definition build_app ::
  "config \<Rightarrow> ('w, 'k, 'b) service \<Rightarrow> 'w \<Rightarrow> string + ('w, 'k, 'b) service \<times> ('w, 'k, 'b) server_state" where
  "build_app cfg E w =
     (case logto_client_new (authorization_server cfg) (resource_url cfg) of
        (jwks, audience, issuer) \<Rightarrow>
          (case jmap_client_new (parse_url E) (stalwart_jmap_base_url cfg) (stalwart_connect_ip cfg) of
             Inl e \<Rightarrow> Inl e
           | Inr (discovery, override) \<Rightarrow>
               (case limiter_new (rate_limit_reads_per_min cfg) (rate_limit_writes_per_min cfg) of
                  None \<Rightarrow> Inl ''rate-limit quotas must be > 0''
                | Some l \<Rightarrow>
                    Inr (E\<lparr>discovery_url := discovery, jwks_url := jwks, expected_audience := audience,
                           expected_issuer := issuer, auth_config := cfg,
                           sv_download_max_bytes := download_max_bytes cfg,
                           sv_upload_max_bytes := upload_max_bytes cfg,
                           sv_extra_from_addresses := extra_from_addresses cfg\<rparr>,
                         fresh_server_state w l))))"

text \<open>The hosts the MCP transport accepts.\<close>

definition split_on :: "string \<Rightarrow> string \<Rightarrow> (string \<times> string) option" where
  "split_on needle s = map_option (\<lambda>k. (take k s, drop (k + length needle) s)) (find_sub needle s)"

definition parse_host :: "string \<Rightarrow> string option" where
  "parse_host url =
     (case split_on ''://'' url of
        None \<Rightarrow> None
      | Some (_, rest) \<Rightarrow>
          (let after_scheme = (case split_on ''://'' rest of None \<Rightarrow> rest | Some (a, _) \<Rightarrow> a);
               authority = hd (split_chars ''/?#'' after_scheme)
           in if authority = [] then None else Some authority))"

definition allowed_hosts :: "config \<Rightarrow> string list" where
  "allowed_hosts cfg =
     [''localhost'', ''127.0.0.1'', ''::1'']
     @ (case parse_host (resource_url cfg) of None \<Rightarrow> [] | Some h \<Rightarrow> [h])"

section \<open>The layers of the MCP routes\<close>

record mcp_http = incoming +
  in_method :: string
  in_session_id :: "string option"

text \<open>The request extensions: what the authentication layer leaves for the layers inside it.\<close>

record extensions =
  ex_token :: "access_token option"
  ex_identity :: "authenticated_identity option"

record answer = response +
  retry_after :: "string option"

definition answer_of :: "response \<Rightarrow> answer" where
  "answer_of r = response.extend r \<lparr>retry_after = None\<rparr>"

definition is_fresh_mcp_session_request :: "mcp_http \<Rightarrow> bool" where
  "is_fresh_mcp_session_request rq \<longleftrightarrow> in_method rq = ''POST'' \<and> in_session_id rq = None"

definition initialize_rate_limited :: answer where
  "initialize_rate_limited =
     (let secs = show_nat (INITIALIZE_REFILL_INTERVAL div 10 ^ 9);
          text = ''Too many MCP session initializations for this identity. Retry in '' @ secs
            @ ''s; reuse the existing session where possible.''
      in \<lparr>rs_status = 429, rs_location = None, rs_content_type = Some ''application/json'',
          rs_www_authenticate = None,
          rs_body = Json_Text (jobj [(''jsonrpc'', JStr ''2.0''), (''id'', JNull),
            (''error'', jobj [(''code'', JNum (NegInt (word_of_int RATE_LIMITED_CODE))),
                              (''message'', JStr text)])]),
          retry_after = Some secs\<rparr>)"

text \<open>\<open>None\<close> stands for \<^verbatim>\<open>next.run(request)\<close>.\<close>

definition initialize_rate_limit ::
  "('w, 'k, 'b) service \<Rightarrow> mcp_http \<Rightarrow> extensions \<Rightarrow> ('w, 'k, 'b) server_state
   \<Rightarrow> answer option \<times> ('w, 'k, 'b) server_state" where
  "initialize_rate_limit X rq ext s =
     (if \<not> is_fresh_mcp_session_request rq then (None, s)
      else
        (case ex_token ext of
           None \<Rightarrow> (Some (answer_of (plain 500 (''authenticated request missing token extension'' @ newline))), s)
         | Some tok \<Rightarrow>
        (case ex_identity ext of
           None \<Rightarrow> (Some (answer_of (plain 500 (''authenticated request missing identity extension'' @ newline))), s)
         | Some ident \<Rightarrow>
             (case initialize_check (sv_governor X) (now_of X (svc s)) (token_hash X (at_secret tok))
                     (Some (user_id ident)) (initialize_limiter s) of
                (granted, l) \<Rightarrow>
                  (if granted then None else Some initialize_rate_limited, s\<lparr>initialize_limiter := l\<rparr>)))))"

text \<open>
  Authentication is the outer layer: it answers the request itself or sets the extensions. What
  passes both layers reaches the MCP transport or the introspection handler.
\<close>

definition mcp_layers ::
  "('w, 'k, 'b) service \<Rightarrow> mcp_http \<Rightarrow> ('w, 'k, 'b) server_state
   \<Rightarrow> (answer + extensions) \<times> ('w, 'k, 'b) server_state" where
  "mcp_layers X rq s =
     (case bearer_auth X (incoming.truncate rq) (svc s) of
        (Rejected r, s1) \<Rightarrow> (Inl (answer_of r), s\<lparr>svc := s1\<rparr>)
      | (Admitted ident tok, s1) \<Rightarrow>
          (let ext = \<lparr>ex_token = Some tok, ex_identity = Some ident\<rparr>
           in case initialize_rate_limit X rq ext (s\<lparr>svc := s1\<rparr>) of
                (Some r, s2) \<Rightarrow> (Inl r, s2)
              | (None, s2) \<Rightarrow> (Inr ext, s2)))"

text \<open>\<^verbatim>\<open>identity_from_ctx\<close> and \<^verbatim>\<open>token_from_ctx\<close>: a tool reads the extensions of its request.\<close>

definition ctx_of :: "extensions \<Rightarrow> request_ctx" where
  "ctx_of ext = \<lparr>cx_identity = ex_identity ext, cx_token = ex_token ext\<rparr>"

definition serve_tool ::
  "('w, 'k, 'b) service \<Rightarrow> mcp_http \<Rightarrow> tool_request \<Rightarrow> ('w, 'k, 'b) server_state
   \<Rightarrow> ((answer + (error_data + json)) \<times> ('w, 'k, 'b) server_state) option" where
  "serve_tool X rq r s =
     (case mcp_layers X rq s of
        (Inl a, s1) \<Rightarrow> Some (Inl a, s1)
      | (Inr ext, s1) \<Rightarrow>
          map_option (\<lambda>(res, t). (Inr res, s1\<lparr>svc := t\<rparr>)) (tool_router X (ctx_of ext) r (svc s1)))"

definition serve_introspect ::
  "('w, 'k, 'b) service \<Rightarrow> mcp_http \<Rightarrow> ('w, 'k, 'b) server_state
   \<Rightarrow> (answer + (response + token_introspect_response)) \<times> ('w, 'k, 'b) server_state" where
  "serve_introspect X rq s =
     (case mcp_layers X rq s of
        (Inl a, s1) \<Rightarrow> (Inl a, s1)
      | (Inr ext, s1) \<Rightarrow> (Inr (introspect_handler X (ex_identity ext) (ex_token ext) (svc s1)), s1))"

section \<open>MCP sessions\<close>

datatype 'e capped_session_error = Inner_Error 'e | Cap_Reached

definition capped_session_error_text :: "('e \<Rightarrow> string) \<Rightarrow> 'e capped_session_error \<Rightarrow> string" where
  "capped_session_error_text show e =
     (case e of
        Inner_Error x \<Rightarrow> ''inner session manager error: '' @ show x
      | Cap_Reached \<Rightarrow>
          ''session cap reached ('' @ show_nat MAX_SESSIONS @ '' sessions active); try again later'')"

text \<open>
  The inner manager: how many sessions it holds, its \<^verbatim>\<open>create_session\<close>, and its other operations, which
  \<^verbatim>\<open>CappedSessionManager\<close> passes through. Creation holds a gate, so that counting and creating are
  one step.
\<close>

record ('m, 'e, 'i, 'o) local_manager =
  lm_len :: "'m \<Rightarrow> nat"
  lm_create :: "'m \<Rightarrow> ('e + 'i) \<times> 'm"
  lm_other :: "'o \<Rightarrow> 'm \<Rightarrow> 'm"

definition create_session ::
  "('m, 'e, 'i, 'o) local_manager \<Rightarrow> 'm \<Rightarrow> ('e capped_session_error + 'i) \<times> 'm" where
  "create_session M m =
     (if MAX_SESSIONS \<le> lm_len M m then (Inl Cap_Reached, m)
      else (case lm_create M m of
              (Inl e, m1) \<Rightarrow> (Inl (Inner_Error e), m1)
            | (Inr i, m1) \<Rightarrow> (Inr i, m1)))"

datatype 'o session_op = Create | Pass 'o

fun session_step :: "('m, 'e, 'i, 'o) local_manager \<Rightarrow> 'o session_op \<Rightarrow> 'm \<Rightarrow> 'm" where
  "session_step M Create m = snd (create_session M m)"
| "session_step M (Pass x) m = lm_other M x m"

definition session_run :: "('m, 'e, 'i, 'o) local_manager \<Rightarrow> 'o session_op list \<Rightarrow> 'm \<Rightarrow> 'm" where
  "session_run M ops m = fold (session_step M) ops m"

section \<open>Properties\<close>

text \<open>The parts of the service's state that authentication leaves alone.\<close>

definition same_tools :: "('w, 'k, 'b) service_state \<Rightarrow> ('w, 'k, 'b) service_state \<Rightarrow> bool" where
  "same_tools s s1 \<longleftrightarrow> audit_log s1 = audit_log s \<and> spawned s1 = spawned s \<and> limiter s1 = limiter s
     \<and> audit_registry s1 = audit_registry s"

interpretation same_tools: auth_relation same_tools X for X :: "('w, 'k, 'b) service"
  by unfold_locales (simp_all add: same_tools_def)

lemma truncate_incoming [simp]: "in_authorization (incoming.truncate rq) = in_authorization rq"
  by (simp add: incoming.truncate_def)

text \<open>The credential that a request presents, as the mail server gets it.\<close>

definition presented_by :: "config \<Rightarrow> mcp_http \<Rightarrow> access_token \<Rightarrow> bool" where
  "presented_by cfg rq tok \<longleftrightarrow>
     (case at_scheme tok of
        Bearer \<Rightarrow> extract_bearer (in_authorization rq) = Some (at_secret tok)
      | Basic \<Rightarrow> allow_app_password cfg \<and> extract_basic (in_authorization rq) = Some (at_secret tok))"

definition own_request :: "config \<Rightarrow> mcp_http \<Rightarrow> http_request \<Rightarrow> bool" where
  "own_request cfg rq q \<longleftrightarrow>
     (case rq_auth q of
        None \<Rightarrow> True
      | Some h \<Rightarrow> \<exists>tok. presented_by cfg rq tok \<and> h = header_value tok)"

lemma authentication_own:
  assumes "bearer_auth X (incoming.truncate rq) s = (a, s')"
  shows "\<exists>new. trace s' = trace s @ new \<and> list_all (own_request (auth_config X) rq) new"
proof -
  have anon: "rq_auth q = None \<Longrightarrow> own_request (auth_config X) rq q" for q
    by (simp add: own_request_def)
  have basic: "own_request (auth_config X) rq q"
    if "rq_auth q = Some (''Basic '' @ b)" "allow_app_password (auth_config X)"
      "extract_basic (in_authorization rq) = Some b" for q b
    using that by (auto simp: own_request_def presented_by_def header_value_def
        intro!: exI [of _ "\<lparr>at_scheme = Basic, at_secret = b\<rparr>"])
  show ?thesis
    using authentication_requests [OF assms] anon basic extract_credential_cases
    by (fastforce simp: list_all_iff split: option.splits presented.splits)
qed

lemma initialize_rate_limit_cases:
  assumes "initialize_rate_limit X rq ext s = (v, s')"
  shows "svc s' = svc s"
    and "v = Some a \<Longrightarrow> in_method rq = ''POST'' \<and> in_session_id rq = None \<and> rs_status a \<in> {429, 500}"
    and "in_session_id rq \<noteq> None \<Longrightarrow> v = None \<and> s' = s"
  using assms
  by (auto simp: initialize_rate_limit_def is_fresh_mcp_session_request_def initialize_rate_limited_def
      answer_of_def plain_def response.defs Let_def split: if_splits option.splits prod.splits)

lemma mcp_layers_cases:
  assumes "mcp_layers X rq s = (v, s')"
  obtains (Refused) r where "v = Inl (answer_of r)" "bearer_auth X (incoming.truncate rq) (svc s) = (Rejected r, svc s')"
  | (Limited) ident tok a where "v = Inl a" "rs_status a \<in> {429, 500}"
      "bearer_auth X (incoming.truncate rq) (svc s) = (Admitted ident tok, svc s')"
      "in_method rq = ''POST''" "in_session_id rq = None"
  | (Passed) ident tok where "v = Inr \<lparr>ex_token = Some tok, ex_identity = Some ident\<rparr>"
      "bearer_auth X (incoming.truncate rq) (svc s) = (Admitted ident tok, svc s')"
proof -
  obtain a s1 where b: "bearer_auth X (incoming.truncate rq) (svc s) = (a, s1)"
    by (cases "bearer_auth X (incoming.truncate rq) (svc s)")
  show thesis
  proof (cases a)
    case (Rejected r)
    with assms b show thesis by (intro Refused) (auto simp: mcp_layers_def)
  next
    case (Admitted ident tok)
    let ?ext = "\<lparr>ex_token = Some tok, ex_identity = Some ident\<rparr>"
    obtain w s2 where i: "initialize_rate_limit X rq ?ext (s\<lparr>svc := s1\<rparr>) = (w, s2)"
      by (cases "initialize_rate_limit X rq ?ext (s\<lparr>svc := s1\<rparr>)")
    note c = initialize_rate_limit_cases [OF i]
    have e: "mcp_layers X rq s = (case w of Some r \<Rightarrow> (Inl r, s2) | None \<Rightarrow> (Inr ?ext, s2))"
      using b Admitted i by (simp add: mcp_layers_def Let_def)
    show thesis
    proof (cases w)
      case None
      with e assms b Admitted c(1) show thesis by (intro Passed) auto
    next
      case (Some r)
      with e assms b Admitted c(1) c(2) [OF Some] show thesis by (intro Limited) auto
    qed
  qed
qed

lemma rejected_status: "bearer_auth X rq s = (Rejected r, s') \<Longrightarrow> rs_status r \<in> {401, 500}"
  by (auto simp: bearer_auth_def app_password_auth_def unauthorized_def upstream_failure_def plain_def Let_def
      split: option.splits presented.splits prod.splits sum.splits if_splits)

lemma admitted_presents:
  "bearer_auth X (incoming.truncate rq) s = (Admitted ident tok, s') \<Longrightarrow> presented_by (auth_config X) rq tok"
  using admission_cases by (fastforce simp: presented_by_def)

lemma answer_status [simp]: "rs_status (answer_of r) = rs_status r"
  by (simp add: answer_of_def response.defs)

lemma tool_requests_own:
  assumes "tool_router X \<lparr>cx_identity = i, cx_token = Some tok\<rparr> r s = Some (res, s')"
    and "presented_by (auth_config X) rq tok"
  shows "\<exists>new. trace s' = trace s @ new \<and> list_all (own_request (auth_config X) rq) new"
proof -
  let ?ctx = "\<lparr>cx_identity = i, cx_token = Some tok\<rparr>"
  obtain new where new: "trace s' = trace s @ new" "list_all (for_ctx confined ?ctx) new"
    using confinement.tool_router_emits assms(1) unfolding run_emits_def by blast
  have "for_ctx confined ?ctx q \<Longrightarrow> own_request (auth_config X) rq q" for q
    using assms(2) by (auto simp: for_ctx_def confined_def carries_def own_request_def fetch_request_def)
  then show ?thesis using new by (auto simp: list_all_iff)
qed

text \<open>
  From the HTTP request to the mail server: whatever tool an MCP request calls, every request that the
  server sends while it handles it, for authentication or for the tool, carries no credential or exactly the one
  that this HTTP request presented, under its own scheme, and an app password only where the
  deployment allows them. A refused request gets status 401, 429 or 500 and leaves no trace in the audit log,
  the notes, the designations and the tool limits; a request that reaches its tool was admitted with the
  credential it presented, and leaves one audit event under the address of the identity it was
  admitted with.
\<close>

theorem served_with_own_credential:
  assumes "serve_tool X rq r s = Some (res, s')"
  shows "(\<exists>new. trace (svc s') = trace (svc s) @ new \<and> list_all (own_request (auth_config X) rq) new)
    \<and> (case res of
         Inl a \<Rightarrow> rs_status a \<in> {401, 429, 500} \<and> audit_log (svc s') = audit_log (svc s)
           \<and> spawned (svc s') = spawned (svc s) \<and> audit_registry (svc s') = audit_registry (svc s)
           \<and> limiter (svc s') = limiter (svc s)
       | Inr _ \<Rightarrow> \<exists>ident tok e. fst (bearer_auth X (incoming.truncate rq) (svc s)) = Admitted ident tok
           \<and> presented_by (auth_config X) rq tok
           \<and> audit_log (svc s') = audit_log (svc s) @ [e] \<and> te_user e = opt_str (email ident))"
proof -
  obtain v s1 where l: "mcp_layers X rq s = (v, s1)" by (cases "mcp_layers X rq s")
  then show ?thesis
  proof (cases rule: mcp_layers_cases)
    case (Refused a)
    from Refused l assms show ?thesis
      using authentication_own [OF Refused(2)] rejected_status [OF Refused(2)] same_tools.bearer_auth_related [OF Refused(2)]
      by (auto simp: serve_tool_def same_tools_def)
  next
    case (Limited ident tok a)
    from Limited l assms show ?thesis
      using authentication_own [OF Limited(3)] same_tools.bearer_auth_related [OF Limited(3)]
      by (auto simp: serve_tool_def same_tools_def)
  next
    case (Passed ident tok)
    let ?ctx = "\<lparr>cx_identity = Some ident, cx_token = Some tok\<rparr>"
    obtain tres t where run: "tool_router X ?ctx r (svc s1) = Some (tres, t)" "res = Inr tres" "svc s' = t"
      using assms l Passed(1) by (auto simp: serve_tool_def ctx_of_def)
    note own = admitted_presents [OF Passed(2)]
    obtain n1 where n1: "trace (svc s1) = trace (svc s) @ n1" "list_all (own_request (auth_config X) rq) n1"
      using authentication_own [OF Passed(2)] by blast
    obtain n2 where "trace t = trace (svc s1) @ n2" "list_all (own_request (auth_config X) rq) n2"
      using tool_requests_own [OF run(1) own] by blast
    with n1 have "\<exists>new. trace t = trace (svc s) @ new \<and> list_all (own_request (auth_config X) rq) new" by auto
    moreover obtain n el where "audit_log t = audit_log (svc s1)
        @ [event_of ?ctx (tool_name r) (tool_resource r) el n tres]"
      using tool_router_audited run(1) unfolding audited_def logged_def by blast
    moreover have "te_user (event_of ?ctx (tool_name r) (tool_resource r) el n tres) = opt_str (email ident)" for n el
      by (simp add: event_of_def tool_call_event_def tool_user_def)
    ultimately show ?thesis
      using run own Passed(2) same_tools.bearer_auth_related [OF Passed(2)] by (auto simp: same_tools_def)
  qed
qed

text \<open>
  Only new sessions are throttled: a request that names its MCP session, or is not a POST, is never
  answered 429 and leaves the buckets of session creation as they were, and so does a request that is
  not admitted.
\<close>

theorem only_new_sessions_throttled:
  assumes "mcp_layers X rq s = (v, s')"
    and "in_session_id rq \<noteq> None \<or> in_method rq \<noteq> ''POST''
           \<or> (\<exists>a. fst (bearer_auth X (incoming.truncate rq) (svc s)) = Rejected a)"
  shows "initialize_limiter s' = initialize_limiter s
    \<and> (case v of Inl a \<Rightarrow> rs_status a \<noteq> 429 | Inr _ \<Rightarrow> True)"
proof -
  have same: "initialize_limiter s' = initialize_limiter s"
    using assms by (auto simp: mcp_layers_def initialize_rate_limit_def is_fresh_mcp_session_request_def Let_def
        split: prod.splits admission.splits if_splits)
  from assms(1) show ?thesis
  proof (cases rule: mcp_layers_cases)
    case (Refused r)
    then show ?thesis using same rejected_status [OF Refused(2)] by auto
  next
    case (Limited ident tok a)
    then show ?thesis using assms(2) by auto
  qed (simp add: same)
qed

text \<open>The path is not looked at: a POST to the introspection endpoint is charged as a new session.\<close>

lemma fresh_ignores_path:
  "is_fresh_mcp_session_request (rq\<lparr>in_path := p\<rparr>) = is_fresh_mcp_session_request rq"
  by (simp add: is_fresh_mcp_session_request_def)

text \<open>
  The number of MCP sessions never exceeds 256, whatever sequence of operations the transport
  performs, on an inner manager that adds at most one session when it creates one and none otherwise.
\<close>

theorem sessions_capped:
  assumes "\<And>m. lm_len M (snd (lm_create M m)) \<le> Suc (lm_len M m)"
    and "\<And>x m. lm_len M (lm_other M x m) \<le> lm_len M m"
    and "lm_len M m \<le> 256"
  shows "lm_len M (session_run M ops m) \<le> 256"
  using assms(3)
proof (induction ops arbitrary: m)
  case Nil
  then show ?case by (simp add: session_run_def)
next
  case (Cons x ops)
  have "lm_len M (session_step M x m) \<le> 256"
  proof (cases x)
    case Create
    then show ?thesis using assms(1) [of m] Cons.prems
      by (auto simp: create_session_def MAX_SESSIONS_def split: prod.split sum.split)
  next
    case (Pass y)
    then show ?thesis using assms(2) [of y m] Cons.prems by simp
  qed
  from Cons.IH [OF this] show ?case by (simp add: session_run_def)
qed

section \<open>Witnesses\<close>

definition sample_http :: mcp_http where
  "sample_http =
     \<lparr>in_authorization = Some ''Bearer t'', in_forwarded_for = None, in_path = ''/mcp'',
      in_method = ''POST'', in_session_id = Some ''s1''\<rparr>"

definition sample_server :: "(nat, unit, nat) server_state" where
  "sample_server = \<lparr>svc = sample_state 5, initialize_limiter = initialize_limiter_new 1 1\<rparr>"

definition sample_served ::
  "(answer + (error_data + json)) \<times> (nat, unit, nat) server_state" where
  "sample_served = the (serve_tool sample_service sample_http sample_write sample_server)"

lemma sample_served_eval:
  "let (res, s') = sample_served in res = Inr (Inr (mark_seen_json [''e''] 1)) \<and> length (trace (svc s')) = 3"
  by code_simp

lemma sample_served_run:
  "serve_tool sample_service sample_http sample_write sample_server = Some (fst sample_served, snd sample_served)"
proof -
  have "serve_tool sample_service sample_http sample_write sample_server \<noteq> None"
    by (auto simp: serve_tool_def sample_write_def returns_def split: prod.split sum.split)
  then show ?thesis by (auto simp: sample_served_def)
qed

theorem served_with_own_credential_witness:
  "let s' = snd sample_served
   in length (trace (svc s')) = 3 \<and> list_all (own_request sample_config sample_http) (trace (svc s'))"
proof -
  have c: "auth_config sample_service = sample_config" by (simp add: sample_service_def)
  show ?thesis
    using served_with_own_credential [OF sample_served_run] sample_served_eval
    by (auto simp: Let_def split_beta c sample_server_def sample_state_def)
qed

theorem only_new_sessions_throttled_witness:
  "initialize_limiter (snd (mcp_layers sample_service sample_http sample_server)) = initialize_limiter_new 1 1"
  using only_new_sessions_throttled [of sample_service sample_http sample_server, OF prod.collapse [symmetric]]
  by (simp add: sample_http_def sample_server_def)

definition sample_manager :: "(nat list, unit, nat, unit) local_manager" where
  "sample_manager = \<lparr>lm_len = length, lm_create = (\<lambda>m. (Inr (length m), length m # m)), lm_other = (\<lambda>_ m. tl m)\<rparr>"

theorem sessions_capped_witness:
  "lm_len sample_manager (session_run sample_manager [Create, Pass (), Create, Create] []) \<le> 256"
  by (rule sessions_capped) (simp_all add: sample_manager_def)

end
