(* ===== verification/OAuth_Proxy.thy ===== *)
theory OAuth_Proxy
  imports OAuth_Metadata Capped_Store "HOL-Library.Product_Lexorder"
begin

text \<open>
  \<^verbatim>\<open>src/oauth_proxy.rs\<close>: the OAuth proxy in front of the issuer. Its state is the map of pending
  authorizations and the set that orders them by age; the set (a \<^verbatim>\<open>BTreeSet\<close>) is a strictly
  sorted list. Parsing and writing form data, appending query pairs to a URL (the \<^verbatim>\<open>url\<close> crate)
  and the random state are parameters.
\<close>

section \<open>State\<close>

definition PENDING_TTL :: nat where "PENDING_TTL = 600 * 10 ^ 9"
definition PENDING_CAP :: nat where "PENDING_CAP = 2048"
definition MAX_CLIENT_STATE_BYTES :: nat where "MAX_CLIENT_STATE_BYTES = 4096"

record pending =
  client_redirect_uri :: string
  client_state :: "string option"
  created :: nat

record pending_authorizations =
  by_state :: "(string \<times> pending) list"
  by_age :: "(nat \<times> string) list"

record 'w proxy_net = "'w net" +
  logto_base :: string
  callback_url :: string
  allowed_redirect_uris :: "string list"
  proxy_parse_url :: url_parser
  form_parse :: "string \<Rightarrow> (string \<times> string) list"
  form_write :: "(string \<times> string) list \<Rightarrow> string"
  append_pairs :: "url \<Rightarrow> (string \<times> string) list \<Rightarrow> string"
  random_state :: "'w \<Rightarrow> string"

record 'w proxy_state = "'w io" +
  pendings :: pending_authorizations

section \<open>Pending authorizations\<close>

text \<open>
  The purge loop: the oldest entry goes while it has expired or the map is full. It is a
  recursion on the age-ordered set, from which every iteration removes the first element.
\<close>

fun purge :: "nat \<Rightarrow> (nat \<times> string) list \<Rightarrow> (string \<times> pending) list \<Rightarrow> pending_authorizations" where
  "purge now [] m = \<lparr>by_state = m, by_age = []\<rparr>"
| "purge now ((t, oldest) # ages) m =
     (if \<not> PENDING_TTL \<le> now - t \<and> length m < PENDING_CAP
      then \<lparr>by_state = m, by_age = (t, oldest) # ages\<rparr>
      else purge now ages (AList.delete oldest m))"

definition pending_insert ::
  "nat \<Rightarrow> string \<Rightarrow> pending \<Rightarrow> pending_authorizations \<Rightarrow> pending_authorizations" where
  "pending_insert now state p g =
     (let g1 = purge now (by_age g) (by_state g);
          ages = (case map_of (by_state g1) state of
                    None \<Rightarrow> by_age g1
                  | Some replaced \<Rightarrow> remove1 (created replaced, state) (by_age g1));
          m = AList.delete state (by_state g1)
      in \<lparr>by_state = AList.update state p m,
          by_age = insort_insert (created p, state) ages\<rparr>)"

definition pending_take ::
  "nat \<Rightarrow> string \<Rightarrow> pending_authorizations \<Rightarrow> pending option \<times> pending_authorizations" where
  "pending_take now state g =
     (case map_of (by_state g) state of
        None \<Rightarrow> (None, g)
      | Some p \<Rightarrow>
          (let g1 = \<lparr>by_state = AList.delete state (by_state g),
                     by_age = remove1 (created p, state) (by_age g)\<rparr>
           in if PENDING_TTL \<le> now - created p then (None, g1) else (Some p, g1)))"

section \<open>Handlers\<close>

definition normalize_resource :: "string \<Rightarrow> string" where
  "normalize_resource v =
     (let trimmed = trim_end_matches CHR ''/'' v in
      case strip_suffix trimmed ''/mcp'' of None \<Rightarrow> trimmed | Some s \<Rightarrow> s)"

definition first_value :: "string \<Rightarrow> (string \<times> string) list \<Rightarrow> string option" where
  "first_value key pairs = map_of pairs key"

definition authorize_pair :: "string \<Rightarrow> string \<Rightarrow> string \<times> string \<Rightarrow> string \<times> string" where
  "authorize_pair callback state kv =
     (case kv of (k, v) \<Rightarrow>
        if k = ''redirect_uri'' then (k, callback)
        else if k = ''state'' then (k, state)
        else if k = ''resource'' then (k, normalize_resource v)
        else (k, v))"

definition authorize ::
  "('w, 'x) proxy_net_scheme \<Rightarrow> string option \<Rightarrow> ('w, 'm) proxy_state_scheme
   \<Rightarrow> response \<times> ('w, 'm) proxy_state_scheme" where
  "authorize X q s =
     (let pairs = form_parse X (case q of None \<Rightarrow> [] | Some t \<Rightarrow> t) in
      case first_value ''redirect_uri'' pairs of
        None \<Rightarrow> (plain 400 (''missing redirect_uri'' @ newline), s)
      | Some uri \<Rightarrow>
          if \<not> is_allowed_redirect_uri (proxy_parse_url X) (allowed_redirect_uris X) uri
          then (plain 400 (''unregistered redirect_uri'' @ newline), s)
          else
            (let cstate = first_value ''state'' pairs in
             if (case cstate of None \<Rightarrow> False | Some st \<Rightarrow> MAX_CLIENT_STATE_BYTES < length st)
             then (plain 400 (''state is too large'' @ newline), s)
             else
               (let proxy_st = random_state X (world s);
                    now = now_of X s;
                    s1 = s\<lparr>pendings := pending_insert now proxy_st
                              \<lparr>client_redirect_uri = uri, client_state = cstate, created = now\<rparr>
                              (pendings s)\<rparr>;
                    pairs1 = map (authorize_pair (callback_url X) proxy_st) pairs;
                    pairs2 = (if list_ex (\<lambda>(k, _). k = ''state'') pairs then pairs1
                              else pairs1 @ [(''state'', proxy_st)])
                in (redirect_to (logto_base X @ ''/auth?'' @ form_write X pairs2), s1))))"

definition callback ::
  "('w, 'x) proxy_net_scheme \<Rightarrow> string option \<Rightarrow> ('w, 'm) proxy_state_scheme
   \<Rightarrow> response \<times> ('w, 'm) proxy_state_scheme" where
  "callback X q s =
     (let pairs = map_of (rev (form_parse X (case q of None \<Rightarrow> [] | Some t \<Rightarrow> t))) in
      case pairs ''state'' of
        None \<Rightarrow> (plain 400 (''missing state'' @ newline), s)
      | Some state \<Rightarrow>
          (case pending_take (now_of X s) state (pendings s) of
             (taken, g) \<Rightarrow>
               (let s1 = s\<lparr>pendings := g\<rparr> in
                case taken of
                  None \<Rightarrow> (plain 400 (''unknown or expired state'' @ newline), s1)
                | Some p \<Rightarrow>
                    (case proxy_parse_url X (client_redirect_uri p) of
                       Inl _ \<Rightarrow> (plain 400 (''bad client redirect_uri'' @ newline), s1)
                     | Inr url \<Rightarrow>
                         (let add = (\<lambda>key v. case v of None \<Rightarrow> [] | Some x \<Rightarrow> [(key, x)]) in
                          (redirect_to (append_pairs X url
                             (add ''code'' (pairs ''code'') @ add ''error'' (pairs ''error'')
                              @ add ''error_description'' (pairs ''error_description'')
                              @ add ''state'' (client_state p))), s1))))))"

text \<open>The rewriting loop of \<^verbatim>\<open>token\<close>, with its early return, and whether a redirect URI was seen.\<close>

fun rewrite_token_pairs ::
  "('w, 'x) proxy_net_scheme \<Rightarrow> (string \<times> string) list
   \<Rightarrow> ((string \<times> string) list \<times> bool) option" where
  "rewrite_token_pairs X [] = Some ([], False)"
| "rewrite_token_pairs X ((k, v) # rest) =
     (if k = ''redirect_uri'' then
        (if \<not> is_allowed_redirect_uri (proxy_parse_url X) (allowed_redirect_uris X) v then None
         else map_option (\<lambda>(ps, _). ((k, callback_url X) # ps, True)) (rewrite_token_pairs X rest))
      else if k = ''resource'' then
        map_option (\<lambda>(ps, saw). ((k, normalize_resource v) # ps, saw)) (rewrite_token_pairs X rest)
      else map_option (\<lambda>(ps, saw). ((k, v) # ps, saw)) (rewrite_token_pairs X rest))"

definition token_request :: "('w, 'x) proxy_net_scheme \<Rightarrow> string \<Rightarrow> http_request" where
  "token_request X form =
     \<lparr>rq_method = ''POST'', rq_url = logto_base X @ ''/token'', rq_auth = None,
      rq_content_type = Some ''application/x-www-form-urlencoded'', rq_body = Raw_Body form,
      rq_pinned = None\<rparr>"

definition token ::
  "('w, 'x) proxy_net_scheme \<Rightarrow> string \<Rightarrow> ('w, 'm) proxy_state_scheme
   \<Rightarrow> response \<times> ('w, 'm) proxy_state_scheme" where
  "token X body s =
     (let pairs = form_parse X body;
          is_authorization_code = list_ex (\<lambda>(k, v). k = ''grant_type'' \<and> v = ''authorization_code'') pairs
      in case rewrite_token_pairs X pairs of
           None \<Rightarrow> (plain 400 (''unregistered redirect_uri'' @ newline), s)
         | Some (pairs1, saw_redirect_uri) \<Rightarrow>
             if is_authorization_code \<and> \<not> saw_redirect_uri
             then (plain 400 (''missing redirect_uri'' @ newline), s)
             else
               (case send X (token_request X (form_write X pairs1)) s of
                  (Inl e, s1) \<Rightarrow> (plain 502 (''token endpoint upstream error'' @ newline), s1)
                | (Inr r, s1) \<Rightarrow>
                    (\<lparr>rs_status = rp_status r, rs_location = None,
                      rs_content_type = Some (case rp_content_type r of
                                                None \<Rightarrow> ''application/json'' | Some t \<Rightarrow> t),
                      rs_www_authenticate = None,
                      rs_body = Bytes (case rp_bytes r of Inl _ \<Rightarrow> [] | Inr b \<Rightarrow> b)\<rparr>, s1)))"

section \<open>The two indexes agree\<close>

definition age_key :: "string \<times> pending \<Rightarrow> nat \<times> string" where
  "age_key e = (created (snd e), fst e)"

definition indexed :: "(string \<times> pending) list \<Rightarrow> (nat \<times> string) list \<Rightarrow> bool" where
  "indexed m ages \<longleftrightarrow> distinct (keys m) \<and> sorted ages \<and> distinct ages \<and> set ages = age_key ` set m"

lemma age_key_delete:
  assumes "distinct (keys m)" "(k, p) \<in> set m"
  shows "age_key ` set (AList.delete k m) = age_key ` set m - {(created p, k)}"
proof -
  have one: "snd e = p" if "e \<in> set m" "fst e = k" for e
    using assms that map_of_is_SomeI [OF assms(1)] by (metis option.inject prod.collapse)
  have set: "set (AList.delete k m) = {e \<in> set m. fst e \<noteq> k}" by (auto simp: AList.delete_eq)
  show ?thesis
  proof (intro equalityI subsetI)
    fix x assume "x \<in> age_key ` set (AList.delete k m)"
    then show "x \<in> age_key ` set m - {(created p, k)}" unfolding set by (auto simp: age_key_def)
  next
    fix x assume x: "x \<in> age_key ` set m - {(created p, k)}"
    then obtain e where e: "e \<in> set m" "x = age_key e" by blast
    have "fst e \<noteq> k" using one [OF e(1)] x e(2) by (auto simp: age_key_def)
    then show "x \<in> age_key ` set (AList.delete k m)" using e unfolding set by blast
  qed
qed

lemma indexed_remove:
  assumes "indexed m ages" "map_of m k = Some p"
  shows "indexed (AList.delete k m) (remove1 (created p, k) ages)"
proof -
  have "(k, p) \<in> set m" using assms(2) by (rule map_of_SomeD)
  moreover have "sorted (remove1 (created p, k) ages)"
    using assms(1) by (auto simp: indexed_def intro: sorted_remove1)
  ultimately show ?thesis
    using assms(1) age_key_delete [of m k p]
    by (auto simp: indexed_def distinct_delete set_remove1_eq)
qed

lemma indexed_first:
  assumes "indexed m ((t, k) # ages)"
  shows "indexed (AList.delete k m) ages"
proof -
  have "(t, k) \<in> age_key ` set m" using assms by (auto simp: indexed_def)
  then obtain p where p: "(k, p) \<in> set m" "created p = t" by (auto simp: age_key_def)
  then have "map_of m k = Some p" using assms by (simp add: indexed_def)
  from indexed_remove [OF assms this] p show ?thesis by simp
qed

lemma indexed_add:
  assumes "indexed m ages" "k \<notin> set (keys m)"
  shows "indexed (AList.update k p m) (insort_insert (created p, k) ages)"
proof -
  have "AList.update k p m = m @ [(k, p)]" using assms(2) by (induction m) auto
  then show ?thesis
    using assms
    by (auto simp: indexed_def age_key_def set_insort_insert sorted_insort_insert distinct_insort_insert)
qed

lemma purge_ok:
  assumes "indexed m ages" "purge now ages m = g"
  shows "indexed (by_state g) (by_age g) \<and> length (by_state g) < PENDING_CAP
    \<and> set (by_state g) \<subseteq> set m
    \<and> (\<forall>e \<in> set (by_state g). now - created (snd e) < PENDING_TTL)"
  using assms
proof (induction now ages m rule: purge.induct)
  case (1 now m)
  then have "m = []" by (auto simp: indexed_def)
  then show ?case using 1 by (auto simp: PENDING_CAP_def)
next
  case (2 now t k ages m)
  show ?case
  proof (cases "\<not> PENDING_TTL \<le> now - t \<and> length m < PENDING_CAP")
    case True
    have "t \<le> created (snd e)" if "e \<in> set m" for e
    proof -
      have "age_key e \<in> set ((t, k) # ages)" using 2(2) that by (auto simp: indexed_def)
      moreover have "\<forall>a \<in> set ages. (t, k) \<le> a" using 2(2) by (simp add: indexed_def)
      ultimately show ?thesis by (auto simp: age_key_def less_eq_prod_def)
    qed
    then have "\<forall>e \<in> set m. now - created (snd e) < PENDING_TTL"
      using True by (meson diff_le_mono2 le_less_trans not_le)
    then show ?thesis using True 2(2,3) by auto
  next
    case False
    have del: "set (AList.delete k m) \<subseteq> set m" by (auto simp: AList.delete_eq)
    have "purge now ages (AList.delete k m) = g" using False 2(3) by auto
    from 2(1) [OF False indexed_first [OF 2(2)] this] del show ?thesis by blast
  qed
qed

definition pending_ok :: "pending_authorizations \<Rightarrow> bool" where
  "pending_ok g \<longleftrightarrow> indexed (by_state g) (by_age g) \<and> length (by_state g) \<le> PENDING_CAP"

lemma pending_insert_ok:
  assumes "pending_ok g"
  shows "pending_ok (pending_insert now state p g)"
    and "map_of (by_state (pending_insert now state p g)) state = Some p"
    and "\<forall>e \<in> set (by_state (pending_insert now state p g)). e = (state, p) \<or> (e \<in> set (by_state g)
           \<and> now - created (snd e) < PENDING_TTL)"
proof -
  define g1 where "g1 = purge now (by_age g) (by_state g)"
  have g1: "indexed (by_state g1) (by_age g1)" "length (by_state g1) < PENDING_CAP"
      "set (by_state g1) \<subseteq> set (by_state g)"
      "\<forall>e \<in> set (by_state g1). now - created (snd e) < PENDING_TTL"
    using purge_ok [of "by_state g" "by_age g" now g1] assms by (auto simp: pending_ok_def g1_def)
  define ages where "ages = (case map_of (by_state g1) state of None \<Rightarrow> by_age g1
      | Some replaced \<Rightarrow> remove1 (created replaced, state) (by_age g1))"
  define m where "m = AList.delete state (by_state g1)"
  have eq: "pending_insert now state p g
      = \<lparr>by_state = AList.update state p m, by_age = insort_insert (created p, state) ages\<rparr>"
    by (simp only: pending_insert_def g1_def [symmetric] ages_def m_def Let_def)
  have ix: "indexed m ages"
  proof (cases "map_of (by_state g1) state")
    case None
    then have "AList.delete state (by_state g1) = by_state g1"
      by (simp add: map_of_eq_None_iff delete_idem)
    then show ?thesis using g1(1) None by (simp add: m_def ages_def)
  next
    case (Some r)
    then show ?thesis using indexed_remove [OF g1(1) Some] by (simp add: m_def ages_def)
  qed
  have nk: "state \<notin> set (keys m)" by (auto simp: m_def AList.delete_eq)
  have len: "length m \<le> length (by_state g1)" by (simp add: m_def length_delete)
  show "pending_ok (pending_insert now state p g)"
    unfolding eq pending_ok_def using indexed_add [OF ix nk] len g1(2) nk by (simp add: length_update)
  show "map_of (by_state (pending_insert now state p g)) state = Some p"
    unfolding eq by (simp add: update_conv')
  have "AList.update state p m = m @ [(state, p)]" using nk by (induction m) auto
  then show "\<forall>e \<in> set (by_state (pending_insert now state p g)). e = (state, p) \<or> (e \<in> set (by_state g)
           \<and> now - created (snd e) < PENDING_TTL)"
    unfolding eq using g1(3,4) by (auto simp: m_def AList.delete_eq)
qed

lemma pending_take_ok:
  assumes "pending_ok g"
  shows "pending_ok (snd (pending_take now state g))"
    and "map_of (by_state (snd (pending_take now state g))) state = None"
proof -
  show "pending_ok (snd (pending_take now state g))"
    using assms indexed_remove [of "by_state g" "by_age g" state] length_delete [of state "by_state g"]
    by (auto simp: pending_take_def pending_ok_def Let_def split: option.split intro: le_trans)
  show "map_of (by_state (snd (pending_take now state g))) state = None"
    by (auto simp: pending_take_def Let_def map_of_delete split: option.split)
qed

inductive reachable_pendings :: "pending_authorizations \<Rightarrow> bool" where
  start: "reachable_pendings \<lparr>by_state = [], by_age = []\<rparr>"
| insert: "reachable_pendings g \<Longrightarrow> reachable_pendings (pending_insert now state p g)"
| take: "reachable_pendings g \<Longrightarrow> reachable_pendings (snd (pending_take now state g))"

text \<open>
  The pending authorizations stay consistent: in every state reachable by insertions and takes, at
  any times, the age index lists exactly the entries of the state map, in order and once each, and the map
  never holds more than 2048 entries.
\<close>

theorem pendings_consistent:
  assumes "reachable_pendings g"
  shows "length (by_state g) \<le> 2048 \<and> distinct (keys (by_state g)) \<and> sorted (by_age g) \<and> distinct (by_age g)
    \<and> set (by_age g) = (\<lambda>e. (created (snd e), fst e)) ` set (by_state g)"
proof -
  have "pending_ok g"
    using assms
  proof induction
    case start
    then show ?case by (simp add: pending_ok_def indexed_def)
  qed (auto intro: pending_insert_ok(1) pending_take_ok(1))
  then show ?thesis by (simp add: pending_ok_def indexed_def PENDING_CAP_def age_key_def)
qed

text \<open>
  C28. An authorization is redeemed at most once and within ten minutes: the state just issued
  yields its entry exactly while less than ten minutes have passed, and a state that was
  redeemed, or tried too late, is unknown afterwards.
\<close>

theorem pending_one_shot:
  assumes "reachable_pendings g" and "created p = now"
  shows "fst (pending_take now' state (pending_insert now state p g))
           = (if now' - now < 600 * 10 ^ 9 then Some p else None)
    \<and> fst (pending_take now'' state (snd (pending_take now' state g))) = None"
proof -
  have ok: "pending_ok g"
    using assms(1)
  proof induction
    case start
    then show ?case by (simp add: pending_ok_def indexed_def)
  qed (auto intro: pending_insert_ok(1) pending_take_ok(1))
  show ?thesis
    using pending_insert_ok(2) [OF ok, of now state p] pending_take_ok(2) [OF ok, of now' state] assms(2)
    by (auto simp: pending_take_def Let_def PENDING_TTL_def split: option.splits)
qed

theorem pendings_consistent_witness:
  "reachable_pendings (pending_insert 5 ''s'' \<lparr>client_redirect_uri = ''u'', client_state = None, created = 5\<rparr>
     \<lparr>by_state = [], by_age = []\<rparr>)
   \<and> length (by_state (pending_insert 5 ''s'' \<lparr>client_redirect_uri = ''u'', client_state = None, created = 5\<rparr>
     \<lparr>by_state = [], by_age = []\<rparr>)) \<le> 2048"
proof -
  have h: "reachable_pendings (pending_insert 5 ''s'' \<lparr>client_redirect_uri = ''u'', client_state = None, created = 5\<rparr>
     \<lparr>by_state = [], by_age = []\<rparr>)"
    by (intro reachable_pendings.intros)
  show ?thesis using h pendings_consistent [OF h] by blast
qed

theorem pending_one_shot_witness:
  "fst (pending_take 6 ''s'' (pending_insert 5 ''s'' \<lparr>client_redirect_uri = ''u'', client_state = None, created = 5\<rparr>
     \<lparr>by_state = [], by_age = []\<rparr>))
   = Some \<lparr>client_redirect_uri = ''u'', client_state = None, created = 5\<rparr>"
  using pending_one_shot [OF reachable_pendings.start, of "\<lparr>client_redirect_uri = ''u'', client_state = None, created = 5\<rparr>" 5 6 "''s''"]
  by simp

section \<open>The authorization round trip\<close>

text \<open>
  The proxy neither redirects nor remembers for a client that is not allowed: when the request has no
  redirect URI, or one off the allowlist, or an oversized state, the answer is a 400 and the
  state is unchanged; otherwise the user is sent to the issuer with the proxy's own callback
  and state in place of the client's.
\<close>

theorem authorize_outcome:
  assumes "form_parse X (case q of None \<Rightarrow> [] | Some t \<Rightarrow> t) = pairs"
  shows "case first_value ''redirect_uri'' pairs of
      None \<Rightarrow> rs_status (fst (authorize X q s)) = 400 \<and> snd (authorize X q s) = s
    | Some uri \<Rightarrow>
        if is_allowed_redirect_uri (proxy_parse_url X) (allowed_redirect_uris X) uri
           \<and> (case first_value ''state'' pairs of None \<Rightarrow> True | Some st \<Rightarrow> length st \<le> 4096)
        then \<exists>sent. rs_location (fst (authorize X q s)) = Some (logto_base X @ ''/auth?'' @ form_write X sent)
             \<and> list_all (\<lambda>(k, v). (k = ''redirect_uri'' \<longrightarrow> v = callback_url X)
                               \<and> (k = ''state'' \<longrightarrow> v = random_state X (world s))) sent
             \<and> (''state'', random_state X (world s)) \<in> set sent
             \<and> filter (\<lambda>(k, _). k \<notin> {''redirect_uri'', ''state'', ''resource''}) sent
               = filter (\<lambda>(k, _). k \<notin> {''redirect_uri'', ''state'', ''resource''}) pairs
        else rs_status (fst (authorize X q s)) = 400 \<and> snd (authorize X q s) = s"
proof (cases "first_value ''redirect_uri'' pairs")
  case None
  then show ?thesis using assms by (simp add: authorize_def plain_def)
next
  case (Some uri)
  let ?st = "random_state X (world s)"
  let ?f = "authorize_pair (callback_url X) ?st"
  have pairs1: "list_all (\<lambda>(k, v). (k = ''redirect_uri'' \<longrightarrow> v = callback_url X) \<and> (k = ''state'' \<longrightarrow> v = ?st)) (map ?f ps)"
    and keep: "filter (\<lambda>(k, _). k \<notin> {''redirect_uri'', ''state'', ''resource''}) (map ?f ps)
               = filter (\<lambda>(k, _). k \<notin> {''redirect_uri'', ''state'', ''resource''}) ps" for ps
    by (induction ps) (auto simp: authorize_pair_def split: prod.splits)
  have has: "list_ex (\<lambda>(k, _). k = ''state'') ps \<Longrightarrow> (''state'', ?st) \<in> set (map ?f ps)" for ps
    by (induction ps) (auto simp: authorize_pair_def)
  show ?thesis
  proof (cases "is_allowed_redirect_uri (proxy_parse_url X) (allowed_redirect_uris X) uri
           \<and> (case first_value ''state'' pairs of None \<Rightarrow> True | Some st \<Rightarrow> length st \<le> 4096)")
    case False
    then show ?thesis
      using assms Some
      by (auto simp: authorize_def plain_def Let_def MAX_CLIENT_STATE_BYTES_def split: option.splits)
  next
    case True
    let ?sent = "if list_ex (\<lambda>(k, _). k = ''state'') pairs then map ?f pairs else map ?f pairs @ [(''state'', ?st)]"
    have "rs_location (fst (authorize X q s)) = Some (logto_base X @ ''/auth?'' @ form_write X ?sent)"
      using assms Some True
      by (auto simp: authorize_def redirect_to_def Let_def MAX_CLIENT_STATE_BYTES_def split: option.splits)
    moreover have "list_all (\<lambda>(k, v). (k = ''redirect_uri'' \<longrightarrow> v = callback_url X) \<and> (k = ''state'' \<longrightarrow> v = ?st)) ?sent"
      using pairs1 [of pairs] by (simp add: list_all_append)
    moreover have "(''state'', ?st) \<in> set ?sent" using has [of pairs] by auto
    moreover have "filter (\<lambda>(k, _). k \<notin> {''redirect_uri'', ''state'', ''resource''}) ?sent
               = filter (\<lambda>(k, _). k \<notin> {''redirect_uri'', ''state'', ''resource''}) pairs"
      using keep [of pairs] by simp
    ultimately show ?thesis using Some True by auto
  qed
qed

text \<open>
  C27. The round trip: after an accepted authorization, the issuer's callback with the
  proxy's state sends the user to the client's own redirect URI with the client's own state and
  the issuer's code, if it comes within ten minutes; and the redirect target is always a URI
  that was on the allowlist.
\<close>

theorem authorize_callback_roundtrip:
  assumes pend: "reachable_pendings (pendings s)"
    and q: "form_parse X q = pairs" "first_value ''redirect_uri'' pairs = Some uri"
    and auth: "authorize X (Some q) s = (r, s1)" "rs_status r \<noteq> 400"
    and cb: "form_parse X q2 = [(''code'', code), (''state'', random_state X (world s))]"
    and later: "pendings s2 = pendings s1" "now_of X s2 - now_of X s < 600 * 10 ^ 9"
    and url: "proxy_parse_url X uri = Inr u"
  shows "is_allowed_redirect_uri (proxy_parse_url X) (allowed_redirect_uris X) uri
    \<and> rs_location (fst (callback X (Some q2) s2))
        = Some (append_pairs X u ((''code'', code)
            # (case first_value ''state'' pairs of None \<Rightarrow> [] | Some st \<Rightarrow> [(''state'', st)])))"
proof -
  let ?st = "random_state X (world s)"
  let ?p = "\<lparr>client_redirect_uri = uri, client_state = first_value ''state'' pairs, created = now_of X s\<rparr>"
  have ok: "is_allowed_redirect_uri (proxy_parse_url X) (allowed_redirect_uris X) uri"
    and s1: "pendings s1 = pending_insert (now_of X s) ?st ?p (pendings s)"
    using auth q by (auto simp: authorize_def plain_def Let_def split: option.splits if_splits)
  have take: "fst (pending_take (now_of X s2) ?st (pendings s2)) = Some ?p"
    using pending_one_shot [OF pend, of ?p "now_of X s" "now_of X s2" ?st] later s1 by simp
  obtain g where g: "pending_take (now_of X s2) ?st (pendings s2) = (Some ?p, g)"
    using take by (metis prod.collapse)
  show ?thesis
    using ok cb g url by (simp add: callback_def redirect_to_def Let_def split: option.split)
qed


text \<open>
  The resource indicator survives the detour: whatever spelling the operator configured,
  the resource advertised to clients normalises to the configured origin, which is the audience
  required of their tokens.
\<close>

theorem advertised_resource_normalises:
  "normalize_resource (mcp_resource (canonical_resource_origin raw)) = canonical_resource_origin raw"
proof -
  let ?o = "canonical_resource_origin raw"
  have o: "trim_end_matches CHR ''/'' ?o = ?o"
    using canonical_resource_origin_slash by (rule trim_end_matches_id)
  have "\<not> suffix [CHR ''/''] (?o @ ''/mcp'')"
    by (simp add: suffix_append) code_simp
  then have "trim_end_matches CHR ''/'' (?o @ ''/mcp'') = ?o @ ''/mcp''" by (rule trim_end_matches_id)
  then show ?thesis unfolding normalize_resource_def mcp_resource_def o
    by (simp add: strip_suffix_def Let_def suffix_def)
qed

section \<open>Witnesses\<close>

definition sample_form_parse :: "string \<Rightarrow> (string \<times> string) list" where
  "sample_form_parse s =
     map (\<lambda>t. case split_once CHR ''='' t of None \<Rightarrow> (t, []) | Some kv \<Rightarrow> kv) (split_char CHR ''&'' s)"

definition sample_form_write :: "(string \<times> string) list \<Rightarrow> string" where
  "sample_form_write ps = concat (map (\<lambda>(k, v). k @ ''='' @ v @ ''&'') ps)"

definition sample_proxy :: "unit proxy_net" where
  "sample_proxy =
     \<lparr>net_send = (\<lambda>rq w. (Inl ''down'', w)), net_clock = (\<lambda>_. 7), net_system = (\<lambda>_. 0),
      logto_base = ''https://l.x/oidc'', callback_url = ''https://m.x/oauth/callback'',
      allowed_redirect_uris = [''https://c.x/cb''], proxy_parse_url = sample_url_parser,
      form_parse = sample_form_parse, form_write = sample_form_write,
      append_pairs = (\<lambda>u ps. u_text u @ ''?'' @ sample_form_write ps),
      random_state = (\<lambda>_. ''r1'')\<rparr>"

definition sample_proxy_state :: "unit proxy_state" where
  "sample_proxy_state = \<lparr>world = (), trace = [], pendings = \<lparr>by_state = [], by_age = []\<rparr>\<rparr>"

lemma sample_authorize:
  "rs_status (fst (authorize sample_proxy (Some ''redirect_uri=https://c.x/cb&state=abc&scope=s'') sample_proxy_state)) = 303"
  "rs_location (fst (authorize sample_proxy (Some ''redirect_uri=https://c.x/cb&state=abc&scope=s'') sample_proxy_state))
     = Some ''https://l.x/oidc/auth?redirect_uri=https://m.x/oauth/callback&state=r1&scope=s&''"
  by code_simp+

theorem authorize_outcome_witness:
  "rs_location (fst (authorize sample_proxy (Some ''redirect_uri=https://c.x/cb&state=abc&scope=s'') sample_proxy_state))
     = Some ''https://l.x/oidc/auth?redirect_uri=https://m.x/oauth/callback&state=r1&scope=s&''
   \<and> (\<exists>sent. rs_location (fst (authorize sample_proxy (Some ''redirect_uri=https://c.x/cb&state=abc&scope=s'') sample_proxy_state))
              = Some (''https://l.x/oidc'' @ ''/auth?'' @ sample_form_write sent)
            \<and> (''state'', ''r1'') \<in> set sent)"
proof -
  have p: "form_parse sample_proxy (case Some ''redirect_uri=https://c.x/cb&state=abc&scope=s'' of None \<Rightarrow> [] | Some t \<Rightarrow> t)
    = [(''redirect_uri'', ''https://c.x/cb''), (''state'', ''abc''), (''scope'', ''s'')]"
    by code_simp
  have a: "is_allowed_redirect_uri sample_url_parser [''https://c.x/cb''] ''https://c.x/cb''" by code_simp
  have "\<exists>sent. rs_location (fst (authorize sample_proxy (Some ''redirect_uri=https://c.x/cb&state=abc&scope=s'') sample_proxy_state))
              = Some (''https://l.x/oidc'' @ ''/auth?'' @ sample_form_write sent)
            \<and> (''state'', ''r1'') \<in> set sent"
    using authorize_outcome [OF p, of sample_proxy_state] a
    unfolding sample_proxy_def by (auto simp: first_value_def)
  then show ?thesis using sample_authorize(2) by blast
qed

theorem authorize_callback_roundtrip_witness:
  "\<exists>s1. snd (authorize sample_proxy (Some ''redirect_uri=https://c.x/cb&state=abc&scope=s'') sample_proxy_state) = s1
     \<and> rs_location (fst (callback sample_proxy (Some ''code=k&state=r1'') s1))
         = Some (''https://c.x/cb?code=k&state=abc&'')"
proof -
  let ?q = "''redirect_uri=https://c.x/cb&state=abc&scope=s''"
  obtain r s1 where a: "authorize sample_proxy (Some ?q) sample_proxy_state = (r, s1)"
    by (cases "authorize sample_proxy (Some ?q) sample_proxy_state")
  have st: "rs_status r \<noteq> 400" using sample_authorize(1) a by simp
  have p: "form_parse sample_proxy ?q
    = [(''redirect_uri'', ''https://c.x/cb''), (''state'', ''abc''), (''scope'', ''s'')]"
    by code_simp
  have cb: "form_parse sample_proxy ''code=k&state=r1''
    = [(''code'', ''k''), (''state'', random_state sample_proxy (world sample_proxy_state))]"
    by code_simp
  have u: "proxy_parse_url sample_proxy ''https://c.x/cb'' = Inr (projr (sample_url_parser ''https://c.x/cb''))"
    by code_simp
  have g: "reachable_pendings (pendings sample_proxy_state)"
    unfolding sample_proxy_state_def by (simp add: reachable_pendings.start)
  have f: "first_value ''redirect_uri'' [(''redirect_uri'', ''https://c.x/cb''), (''state'', ''abc''), (''scope'', ''s'')]
      = Some ''https://c.x/cb''" by (simp add: first_value_def)
  have d: "now_of sample_proxy s1 - now_of sample_proxy sample_proxy_state < 600 * 10 ^ 9"
    by (simp add: now_of_def sample_proxy_def)
  have x: "append_pairs sample_proxy (projr (sample_url_parser ''https://c.x/cb''))
      [(''code'', ''k''), (''state'', ''abc'')] = ''https://c.x/cb?code=k&state=abc&''"
    by code_simp
  from authorize_callback_roundtrip [OF g p f a st cb refl d u] a x show ?thesis
    by (simp add: first_value_def)
qed


end
