(* ===== verification/Params.thy ===== *)
theory Params
  imports Router
begin

text \<open>
  The calls of the MCP client: a tool's name and its arguments, an object. Each parameter record of
  \<^verbatim>\<open>src/mcp.rs\<close> and \<^verbatim>\<open>src/mcp/*.rs\<close> is read as \<^verbatim>\<open>serde\<close> derives it: a field that has no default must be there,
  a field of the wrong type refuses the call, an absent or null optional field is \<open>None\<close>, and a member that
  is no field is ignored. A tool without parameters does not look at its arguments. The text of a
  refusal is the MCP library's.
\<close>

section \<open>Fields\<close>

definition field :: "(json \<Rightarrow> 'a option) \<Rightarrow> string \<Rightarrow> jmap \<Rightarrow> 'a option" where
  "field de k m = Option.bind (map_of m k) de"

text \<open>\<^verbatim>\<open>#[serde(default)]\<close>\<close>

definition field_or :: "'a \<Rightarrow> (json \<Rightarrow> 'a option) \<Rightarrow> string \<Rightarrow> jmap \<Rightarrow> 'a option" where
  "field_or d de k m = (case map_of m k of None \<Rightarrow> Some d | Some v \<Rightarrow> de v)"

definition de_u32 :: "json \<Rightarrow> u32 option" where
  "de_u32 v =
     (case v of
        JNum (PosInt n) \<Rightarrow> if unat n < 2 ^ 32 then Some (ucast n) else None
      | _ \<Rightarrow> None)"

definition de_opt :: "(json \<Rightarrow> 'a option) \<Rightarrow> json \<Rightarrow> 'a option option" where
  "de_opt de v = (if v = JNull then Some None else map_option Some (de v))"

definition de_vec :: "(json \<Rightarrow> 'a option) \<Rightarrow> json \<Rightarrow> 'a list option" where
  "de_vec de v = (case v of JArr xs \<Rightarrow> those (map de xs) | _ \<Rightarrow> None)"

abbreviation str :: "string \<Rightarrow> jmap \<Rightarrow> string option" where "str \<equiv> field as_str"
abbreviation strs :: "string \<Rightarrow> jmap \<Rightarrow> string list option" where "strs \<equiv> field (de_vec as_str)"
abbreviation opt_text :: "string \<Rightarrow> jmap \<Rightarrow> string option option" where
  "opt_text \<equiv> field_or None (de_opt as_str)"

definition default_email_limit :: u32 where "default_email_limit = 20"

abbreviation limit_field :: "jmap \<Rightarrow> u32 option" where
  "limit_field \<equiv> field_or default_email_limit de_u32 ''limit''"

section \<open>The parameter records\<close>

text \<open>The records of one field, or of the ids of emails and a field.\<close>

definition email_id_param :: "(string \<Rightarrow> tool_request) \<Rightarrow> jmap \<Rightarrow> tool_request option" where
  "email_id_param f m = Option.bind (str ''email_id'' m) (\<lambda>i. Some (f i))"

definition email_ids_param :: "(string list \<Rightarrow> tool_request) \<Rightarrow> jmap \<Rightarrow> tool_request option" where
  "email_ids_param f m = Option.bind (strs ''email_ids'' m) (\<lambda>ids. Some (f ids))"

definition mailbox_id_param :: "(string \<Rightarrow> tool_request) \<Rightarrow> jmap \<Rightarrow> tool_request option" where
  "mailbox_id_param f m = Option.bind (str ''mailbox_id'' m) (\<lambda>i. Some (f i))"

definition ids_and_param :: "string \<Rightarrow> (string list \<Rightarrow> string \<Rightarrow> tool_request) \<Rightarrow> jmap \<Rightarrow> tool_request option" where
  "ids_and_param k f m =
     Option.bind (strs ''email_ids'' m) (\<lambda>ids.
     Option.bind (str k m) (\<lambda>v. Some (f ids v)))"

definition read_email_params :: "jmap \<Rightarrow> tool_request option" where
  "read_email_params = email_id_param (\<lambda>i. Core (Read_Email i))"

definition get_email_headers_params :: "jmap \<Rightarrow> tool_request option" where
  "get_email_headers_params = email_id_param (\<lambda>i. Reads (Get_Email_Headers i))"

definition list_attachments_params :: "jmap \<Rightarrow> tool_request option" where
  "list_attachments_params = email_id_param (\<lambda>i. Reads (List_Attachments i))"

definition mark_seen_params :: "(string list \<Rightarrow> flags_request) \<Rightarrow> jmap \<Rightarrow> tool_request option" where
  "mark_seen_params f = email_ids_param (\<lambda>ids. Flags (f ids))"

definition flag_params :: "(string list \<Rightarrow> string \<Rightarrow> flags_request) \<Rightarrow> jmap \<Rightarrow> tool_request option" where
  "flag_params f = ids_and_param ''flag'' (\<lambda>ids k. Flags (f ids k))"

definition keyword_params :: "(string list \<Rightarrow> string \<Rightarrow> flags_request) \<Rightarrow> jmap \<Rightarrow> tool_request option" where
  "keyword_params f = ids_and_param ''keyword'' (\<lambda>ids k. Flags (f ids k))"

definition move_params :: "(string list \<Rightarrow> string \<Rightarrow> flags_request) \<Rightarrow> jmap \<Rightarrow> tool_request option" where
  "move_params f = ids_and_param ''target_mailbox_id'' (\<lambda>ids t. Flags (f ids t))"

definition delete_email_params :: "jmap \<Rightarrow> tool_request option" where
  "delete_email_params = email_ids_param (\<lambda>ids. Delete (Delete_Email ids))"

definition permanently_delete_email_params :: "jmap \<Rightarrow> tool_request option" where
  "permanently_delete_email_params = email_ids_param (\<lambda>ids. Delete (Permanently_Delete_Email ids))"

definition mark_as_spam_params :: "jmap \<Rightarrow> tool_request option" where
  "mark_as_spam_params = email_ids_param (\<lambda>ids. Spam (Mark_As_Spam ids))"

definition mark_as_not_spam_params :: "jmap \<Rightarrow> tool_request option" where
  "mark_as_not_spam_params = email_ids_param (\<lambda>ids. Spam (Mark_As_Not_Spam ids))"

definition get_mailbox_info_params :: "jmap \<Rightarrow> tool_request option" where
  "get_mailbox_info_params = mailbox_id_param (\<lambda>i. Reads (Get_Mailbox_Info i))"

definition delete_mailbox_params :: "jmap \<Rightarrow> tool_request option" where
  "delete_mailbox_params = mailbox_id_param (\<lambda>i. Mailbox_Mgmt (Delete_Mailbox i))"

definition subscribe_mailbox_params :: "(string \<Rightarrow> mailbox_mgmt_request) \<Rightarrow> jmap \<Rightarrow> tool_request option" where
  "subscribe_mailbox_params f = mailbox_id_param (\<lambda>i. Mailbox_Mgmt (f i))"

definition set_audit_mailbox_params :: "jmap \<Rightarrow> tool_request option" where
  "set_audit_mailbox_params = mailbox_id_param (\<lambda>i. Profile (Set_Audit_Mailbox i))"

definition list_recent_emails_params :: "jmap \<Rightarrow> tool_request option" where
  "list_recent_emails_params m =
     Option.bind (str ''mailbox_id'' m) (\<lambda>i.
     Option.bind (limit_field m) (\<lambda>l. Some (Core (List_Recent_Emails i l))))"

definition de_send_email_params :: "jmap \<Rightarrow> send_email_params option" where
  "de_send_email_params m =
     Option.bind (str ''from'' m) (\<lambda>from.
     Option.bind (strs ''to'' m) (\<lambda>to.
     Option.bind (field_or [] (de_vec as_str) ''cc'' m) (\<lambda>cc.
     Option.bind (field_or [] (de_vec as_str) ''bcc'' m) (\<lambda>bcc.
     Option.bind (str ''subject'' m) (\<lambda>subject.
     Option.bind (str ''body_text'' m) (\<lambda>body_text.
     Option.bind (opt_text ''body_html'' m) (\<lambda>body_html.
     Option.bind (opt_text ''in_reply_to'' m) (\<lambda>in_reply_to.
       Some \<lparr>se_from = from, se_to = to, se_cc = cc, se_bcc = bcc, se_subject = subject,
             se_body_text = body_text, se_body_html = body_html, se_in_reply_to = in_reply_to\<rparr>))))))))"

definition search_emails_params :: "jmap \<Rightarrow> tool_request option" where
  "search_emails_params m =
     Option.bind (str ''query'' m) (\<lambda>q.
     Option.bind (opt_text ''mailbox_id'' m) (\<lambda>mb.
     Option.bind (limit_field m) (\<lambda>l. Some (Reads (Search_Emails q mb l)))))"

definition read_thread_params :: "jmap \<Rightarrow> tool_request option" where
  "read_thread_params m =
     Option.bind (str ''thread_id'' m) (\<lambda>i.
     Option.bind (limit_field m) (\<lambda>l. Some (Reads (Read_Thread i l))))"

definition get_unread_summary_params :: "jmap \<Rightarrow> tool_request option" where
  "get_unread_summary_params m =
     Option.bind (field_or None (de_opt (de_vec as_str)) ''mailbox_ids'' m) (\<lambda>ids.
       Some (Reads (Get_Unread_Summary ids)))"

definition list_recent_activity_params :: "jmap \<Rightarrow> tool_request option" where
  "list_recent_activity_params m =
     Option.bind (limit_field m) (\<lambda>l. Some (Reads (List_Recent_Activity l)))"

text \<open>A nested record may also be written as the array of its fields.\<close>

definition de_attachment_input :: "json \<Rightarrow> attachment_input option" where
  "de_attachment_input v =
     (case v of
        JObj m \<Rightarrow>
          Option.bind (str ''filename'' m) (\<lambda>filename.
          Option.bind (str ''mime_type'' m) (\<lambda>mime_type.
          Option.bind (str ''body_base64'' m) (\<lambda>body_base64.
            Some \<lparr>in_filename = filename, in_mime_type = mime_type, in_body_base64 = body_base64\<rparr>)))
      | JArr [JStr filename, JStr mime_type, JStr body_base64] \<Rightarrow>
          Some \<lparr>in_filename = filename, in_mime_type = mime_type, in_body_base64 = body_base64\<rparr>
      | _ \<Rightarrow> None)"

definition de_send_with_attachments_params :: "jmap \<Rightarrow> send_with_attachments_params option" where
  "de_send_with_attachments_params m =
     Option.bind (str ''from'' m) (\<lambda>from.
     Option.bind (strs ''to'' m) (\<lambda>to.
     Option.bind (field_or [] (de_vec as_str) ''cc'' m) (\<lambda>cc.
     Option.bind (str ''subject'' m) (\<lambda>subject.
     Option.bind (str ''body_text'' m) (\<lambda>body_text.
     Option.bind (field (de_vec de_attachment_input) ''attachments'' m) (\<lambda>attachments.
       Some \<lparr>sa_from = from, sa_to = to, sa_cc = cc, sa_subject = subject, sa_body_text = body_text,
             sa_attachments = attachments\<rparr>))))))"

definition de_reply_email_params :: "jmap \<Rightarrow> reply_email_params option" where
  "de_reply_email_params m =
     Option.bind (str ''email_id'' m) (\<lambda>email_id.
     Option.bind (field as_bool ''reply_to_all'' m) (\<lambda>reply_to_all.
     Option.bind (str ''body'' m) (\<lambda>body.
     Option.bind (opt_text ''from'' m) (\<lambda>from.
       Some \<lparr>ry_email_id = email_id, ry_reply_to_all = reply_to_all, ry_body = body, ry_from = from\<rparr>))))"

definition de_forward_email_params :: "jmap \<Rightarrow> forward_email_params option" where
  "de_forward_email_params m =
     Option.bind (str ''email_id'' m) (\<lambda>email_id.
     Option.bind (strs ''to'' m) (\<lambda>to.
     Option.bind (opt_text ''message'' m) (\<lambda>message.
     Option.bind (opt_text ''from'' m) (\<lambda>from.
       Some \<lparr>fw_email_id = email_id, fw_to = to, fw_message = message, fw_from = from\<rparr>))))"

definition de_save_draft_params :: "jmap \<Rightarrow> save_draft_params option" where
  "de_save_draft_params m =
     Option.bind (str ''from'' m) (\<lambda>from.
     Option.bind (strs ''to'' m) (\<lambda>to.
     Option.bind (str ''subject'' m) (\<lambda>subject.
     Option.bind (str ''body'' m) (\<lambda>body.
     Option.bind (opt_text ''in_reply_to'' m) (\<lambda>in_reply_to.
       Some \<lparr>sd_from = from, sd_to = to, sd_subject = subject, sd_body = body, sd_in_reply_to = in_reply_to\<rparr>)))))"

definition de_update_draft_params :: "jmap \<Rightarrow> update_draft_params option" where
  "de_update_draft_params m =
     Option.bind (str ''email_id'' m) (\<lambda>email_id.
     Option.bind (opt_text ''from'' m) (\<lambda>from.
     Option.bind (field_or None (de_opt (de_vec as_str)) ''to'' m) (\<lambda>to.
     Option.bind (opt_text ''subject'' m) (\<lambda>subject.
     Option.bind (opt_text ''body'' m) (\<lambda>body.
       Some \<lparr>ud_email_id = email_id, ud_from = from, ud_to = to, ud_subject = subject, ud_body = body\<rparr>)))))"

definition download_attachment_params :: "jmap \<Rightarrow> tool_request option" where
  "download_attachment_params m =
     Option.bind (str ''email_id'' m) (\<lambda>i.
     Option.bind (str ''attachment_id'' m) (\<lambda>a. Some (Attachments (Download_Attachment i a))))"

definition upload_blob_from_url_params :: "jmap \<Rightarrow> tool_request option" where
  "upload_blob_from_url_params m =
     Option.bind (str ''url'' m) (\<lambda>u. Some (Attachments (Upload_Blob_From_Url u)))"

definition de_send_with_url_params :: "jmap \<Rightarrow> send_with_url_params option" where
  "de_send_with_url_params m =
     Option.bind (str ''from'' m) (\<lambda>from.
     Option.bind (strs ''to'' m) (\<lambda>to.
     Option.bind (str ''subject'' m) (\<lambda>subject.
     Option.bind (str ''body'' m) (\<lambda>body.
     Option.bind (str ''attachment_url'' m) (\<lambda>attachment_url.
     Option.bind (str ''attachment_filename'' m) (\<lambda>attachment_filename.
       Some \<lparr>su_from = from, su_to = to, su_subject = subject, su_body = body,
             su_attachment_url = attachment_url, su_attachment_filename = attachment_filename\<rparr>))))))"

definition create_mailbox_params :: "jmap \<Rightarrow> tool_request option" where
  "create_mailbox_params m =
     Option.bind (str ''name'' m) (\<lambda>n.
     Option.bind (opt_text ''parent_id'' m) (\<lambda>p. Some (Mailbox_Mgmt (Create_Mailbox n p))))"

definition rename_mailbox_params :: "jmap \<Rightarrow> tool_request option" where
  "rename_mailbox_params m =
     Option.bind (str ''mailbox_id'' m) (\<lambda>i.
     Option.bind (str ''new_name'' m) (\<lambda>n. Some (Mailbox_Mgmt (Rename_Mailbox i n))))"

definition create_identity_params :: "jmap \<Rightarrow> tool_request option" where
  "create_identity_params m =
     Option.bind (str ''email'' m) (\<lambda>e.
     Option.bind (opt_text ''name'' m) (\<lambda>n. Some (Profile (Create_Identity e n))))"

definition de_set_vacation_params :: "jmap \<Rightarrow> set_vacation_params option" where
  "de_set_vacation_params m =
     Option.bind (field as_bool ''enabled'' m) (\<lambda>enabled.
     Option.bind (str ''message'' m) (\<lambda>message.
     Option.bind (opt_text ''start_date'' m) (\<lambda>start_date.
     Option.bind (opt_text ''end_date'' m) (\<lambda>end_date.
       Some \<lparr>sp_enabled = enabled, sp_message = message, sp_start_date = start_date, sp_end_date = end_date\<rparr>))))"

section \<open>The tools by name\<close>

definition tool_table :: "(string \<times> (jmap \<Rightarrow> tool_request option)) list" where
  "tool_table =
     [(''whoami'', \<lambda>_. Some (Core Whoami)),
      (''get_identities'', \<lambda>_. Some (Core Get_Identities)),
      (''list_mailboxes'', \<lambda>_. Some (Core List_Mailboxes)),
      (''list_recent_emails'', list_recent_emails_params),
      (''read_email'', read_email_params),
      (''send_email'', \<lambda>m. map_option (\<lambda>p. Core (Send_Email p)) (de_send_email_params m)),
      (''get_mailbox_info'', get_mailbox_info_params),
      (''search_emails'', search_emails_params),
      (''read_thread'', read_thread_params),
      (''get_unread_summary'', get_unread_summary_params),
      (''list_recent_activity'', list_recent_activity_params),
      (''get_email_headers'', get_email_headers_params),
      (''list_attachments'', list_attachments_params),
      (''mark_read'', mark_seen_params Mark_Read),
      (''mark_unread'', mark_seen_params Mark_Unread),
      (''set_flag'', flag_params Set_Flag),
      (''unset_flag'', flag_params Unset_Flag),
      (''set_keyword'', keyword_params Set_Keyword),
      (''unset_keyword'', keyword_params Unset_Keyword),
      (''move_to_mailbox'', move_params Move_To_Mailbox),
      (''copy_to_mailbox'', move_params Copy_To_Mailbox),
      (''send_email_with_attachments'',
        \<lambda>m. map_option (\<lambda>p. Compose (Send_Email_With_Attachments p)) (de_send_with_attachments_params m)),
      (''reply_email'', \<lambda>m. map_option (\<lambda>p. Compose (Reply_Email p)) (de_reply_email_params m)),
      (''forward_email'', \<lambda>m. map_option (\<lambda>p. Compose (Forward_Email p)) (de_forward_email_params m)),
      (''save_draft'', \<lambda>m. map_option (\<lambda>p. Compose (Save_Draft p)) (de_save_draft_params m)),
      (''update_draft'', \<lambda>m. map_option (\<lambda>p. Compose (Update_Draft p)) (de_update_draft_params m)),
      (''delete_email'', delete_email_params),
      (''permanently_delete_email'', permanently_delete_email_params),
      (''empty_trash'', \<lambda>_. Some (Delete Empty_Trash)),
      (''empty_spam'', \<lambda>_. Some (Delete Empty_Spam)),
      (''download_attachment'', download_attachment_params),
      (''upload_blob_from_url'', upload_blob_from_url_params),
      (''send_email_with_url_attachment'',
        \<lambda>m. map_option (\<lambda>p. Attachments (Send_Email_With_Url_Attachment p)) (de_send_with_url_params m)),
      (''create_mailbox'', create_mailbox_params),
      (''rename_mailbox'', rename_mailbox_params),
      (''delete_mailbox'', delete_mailbox_params),
      (''subscribe_mailbox'', subscribe_mailbox_params Subscribe_Mailbox),
      (''unsubscribe_mailbox'', subscribe_mailbox_params Unsubscribe_Mailbox),
      (''mark_as_spam'', mark_as_spam_params),
      (''mark_as_not_spam'', mark_as_not_spam_params),
      (''create_identity'', create_identity_params),
      (''get_profile'', \<lambda>_. Some (Profile Get_Profile)),
      (''get_vacation_response'', \<lambda>_. Some (Profile Get_Vacation_Response)),
      (''set_vacation_response'', \<lambda>m. map_option (\<lambda>p. Profile (Set_Vacation_Response p)) (de_set_vacation_params m)),
      (''get_account_info'', \<lambda>_. Some (Profile Get_Account_Info)),
      (''verify_session'', \<lambda>_. Some (Profile Verify_Session)),
      (''set_audit_mailbox'', set_audit_mailbox_params)]"

datatype call_refusal = Unknown_Tool | Bad_Parameters

definition read_call :: "string \<Rightarrow> jmap \<Rightarrow> call_refusal + tool_request" where
  "read_call name arguments =
     (case map_of tool_table name of
        None \<Rightarrow> Inl Unknown_Tool
      | Some read \<Rightarrow> (case read arguments of None \<Rightarrow> Inl Bad_Parameters | Some r \<Rightarrow> Inr r))"

end
