(* ===== verification/Application.thy ===== *)
theory Application
  imports Server OAuth_Proxy Params
begin

text \<open>
  \<^verbatim>\<open>build_router\<close> of \<^verbatim>\<open>src/main.rs\<close>: the whole server as one function from a request to an answer, and its
  runs. The HTTP library contributes the matching of methods, the extractors of bodies, the body limit and the
  answer to a request that no route takes; the MCP transport decides whether a request calls a tool, with which name
  and arguments, and words the refusal of a call that cannot be read. The order of a JSON object's members is not part of an answer.
\<close>

section \<open>Requests and answers\<close>

definition MCP_MAX_REQUEST_BYTES :: nat where "MCP_MAX_REQUEST_BYTES = 4 * 1024 * 1024"

text \<open>
  What the extractors make of the body: \<^verbatim>\<open>String\<close> may refuse it with a status and a text,
  \<^verbatim>\<open>Option<Json<Value>>\<close> never does.
\<close>

record app_request = mcp_http +
  ap_query :: "string option"
  ap_content_length :: "nat option"
  ap_form :: "nat \<times> string + string"
  ap_json :: "json option"

datatype mcp_action = Protocol answer | Calls string jmap

datatype app_answer = Answered answer | Tool_Ran tool_request "error_data + json"

record ('w, 'k, 'b) app = "('w, 'k, 'b) service" +
  url_form_parse :: "string \<Rightarrow> (string \<times> string) list"
  url_form_write :: "(string \<times> string) list \<Rightarrow> string"
  url_append_pairs :: "url \<Rightarrow> (string \<times> string) list \<Rightarrow> string"
  thread_rng :: "'w \<Rightarrow> string"
  pkg_version :: string
  mcp_transport :: "'w \<Rightarrow> app_request \<Rightarrow> mcp_action"
  call_refused :: "call_refusal \<Rightarrow> answer"
  encode_metrics :: "registry \<Rightarrow> string + string"
  read_utf8 :: "string \<Rightarrow> string option"

text \<open>
  The state of the running server: the pending authorizations are shared by the handlers of the proxy. The
  tasks that \<^verbatim>\<open>tokio::spawn\<close> was given run later, each once: \<open>written\<close> holds the positions, in the list of
  spawned notes, of those that have run.
\<close>

record ('w, 'k, 'b) app_state = "('w, 'k, 'b) server_state" +
  authorizations :: pending_authorizations
  written :: "nat list"

section \<open>The public handlers\<close>

definition json_ok :: "json \<Rightarrow> response" where
  "json_ok v =
     \<lparr>rs_status = 200, rs_location = None, rs_content_type = Some ''application/json'',
      rs_www_authenticate = None, rs_body = Json_Text v\<rparr>"

definition health :: "string \<Rightarrow> response" where
  "health version = json_ok (jobj [(''status'', JStr ''healthy''), (''version'', JStr version)])"

definition protected_resource_json :: "protected_resource_metadata \<Rightarrow> json" where
  "protected_resource_json m =
     jobj [(''resource'', JStr (pr_resource m)),
           (''authorization_servers'', jstrs (pr_authorization_servers m)),
           (''bearer_methods_supported'', jstrs (pr_bearer_methods_supported m)),
           (''scopes_supported'', jstrs (pr_scopes_supported m))]"

definition authorization_server_json :: "authorization_server_metadata \<Rightarrow> json" where
  "authorization_server_json m =
     jobj ([(''issuer'', JStr (as_issuer m)),
            (''authorization_endpoint'', JStr (as_authorization_endpoint m)),
            (''token_endpoint'', JStr (as_token_endpoint m)),
            (''jwks_uri'', JStr (as_jwks_uri m)),
            (''userinfo_endpoint'', JStr (as_userinfo_endpoint m))]
       @ (case as_registration_endpoint m of None \<Rightarrow> [] | Some u \<Rightarrow> [(''registration_endpoint'', JStr u)])
       @ [(''response_types_supported'', jstrs (as_response_types_supported m)),
          (''grant_types_supported'', jstrs (as_grant_types_supported m)),
          (''code_challenge_methods_supported'', jstrs (as_code_challenge_methods_supported m)),
          (''token_endpoint_auth_methods_supported'', jstrs (as_token_endpoint_auth_methods_supported m)),
          (''scopes_supported'', jstrs (as_scopes_supported m))])"

text \<open>\<^verbatim>\<open>OAuthProxyState::new\<close>.\<close>

definition oauth_proxy_new :: "('w, 'k, 'b) app \<Rightarrow> 'w proxy_net" where
  "oauth_proxy_new A =
     \<lparr>net_send = net_send A, net_clock = net_clock A, net_system = net_system A,
      logto_base = trim_end_matches CHR ''/'' (authorization_server (auth_config A)),
      callback_url = trim_end_matches CHR ''/'' (resource_url (auth_config A)) @ ''/oauth/callback'',
      allowed_redirect_uris = oauth_redirect_uris (auth_config A),
      proxy_parse_url = parse_url A, form_parse = url_form_parse A, form_write = url_form_write A,
      append_pairs = url_append_pairs A, random_state = thread_rng A\<rparr>"

definition no_authorizations :: pending_authorizations where
  "no_authorizations = \<lparr>by_state = [], by_age = []\<rparr>"

text \<open>A handler of the proxy works on the world and on the pending authorizations.\<close>

definition on_proxy ::
  "('w proxy_state \<Rightarrow> response \<times> 'w proxy_state)
   \<Rightarrow> ('w, 'k, 'b) app_state \<Rightarrow> response \<times> ('w, 'k, 'b) app_state" where
  "on_proxy h s =
     (case h \<lparr>world = world (svc s), trace = trace (svc s), pendings = authorizations s\<rparr> of
        (r, p) \<Rightarrow> (r, s\<lparr>svc := (svc s)\<lparr>world := world p, trace := trace p\<rparr>, authorizations := pendings p\<rparr>))"

definition ser_unix_secs :: "nat \<Rightarrow> json" where
  "ser_unix_secs t = (let secs = t div 10 ^ 9 in jint (if secs < 2 ^ 63 then int secs else 0))"

definition token_introspect_json ::
  "(ip_addr \<Rightarrow> string) \<Rightarrow> token_introspect_response \<Rightarrow> json" where
  "token_introspect_json ip_text r =
     jobj [(''user_id'', JStr (ti_user_id r)), (''email'', jopt JStr (ti_email r)),
           (''name'', jopt JStr (ti_name r)), (''exp'', jopt jint (ti_exp r)),
           (''token_hash'', JStr (ti_token_hash r)),
           (''last_used'', jopt (\<lambda>u. jobj [(''at_unix'', ser_unix_secs (lu_at u)),
                                         (''ip'', jopt (\<lambda>a. JStr (ip_text a)) (lu_ip u))]) (ti_last_used r)),
           (''auth_method'', JStr (ti_auth_method r))]"

section \<open>Routing\<close>

datatype route =
    Health | Protected_Resource | Authorization_Server | Register | Authorize | Oauth_Callback | Token
  | Mcp | Token_Introspect | Unrouted

text \<open>\<^verbatim>\<open>nest_service("/mcp", ..)\<close> takes the path itself and everything below it.\<close>

definition route_of :: "string \<Rightarrow> route" where
  "route_of p =
     (if p = ''/health'' then Health
      else if p = ''/.well-known/oauth-protected-resource'' then Protected_Resource
      else if p = ''/.well-known/oauth-protected-resource/mcp'' then Protected_Resource
      else if p = ''/.well-known/oauth-authorization-server'' then Authorization_Server
      else if p = ''/register'' then Register
      else if p = ''/authorize'' then Authorize
      else if p = ''/oauth/callback'' then Oauth_Callback
      else if p = ''/token'' then Token
      else if p = ''/mcp'' \<or> prefix ''/mcp/'' p then Mcp
      else if p = ''/token/introspect'' then Token_Introspect
      else Unrouted)"

text \<open>The routes inside the layers of \<^verbatim>\<open>mcp_routes\<close>. They wrap the fallback, which the merge makes everybody's.\<close>

definition protected_route :: "route \<Rightarrow> bool" where
  "protected_route r \<longleftrightarrow> r \<in> {Mcp, Token_Introspect, Unrouted}"

text \<open>\<^verbatim>\<open>get\<close> takes HEAD as well, \<^verbatim>\<open>post\<close> only POST; a service and the fallback take every method.\<close>

definition method_allowed :: "route \<Rightarrow> string \<Rightarrow> bool" where
  "method_allowed r m \<longleftrightarrow>
     (case r of
        Register \<Rightarrow> m = ''POST''
      | Token \<Rightarrow> m = ''POST''
      | Mcp \<Rightarrow> True
      | Unrouted \<Rightarrow> True
      | _ \<Rightarrow> m = ''GET'' \<or> m = ''HEAD'')"

definition empty_answer :: "nat \<Rightarrow> response" where
  "empty_answer status =
     \<lparr>rs_status = status, rs_location = None, rs_content_type = None, rs_www_authenticate = None,
      rs_body = Text []\<rparr>"

text \<open>The answer to a HEAD request has no body.\<close>

definition for_method :: "string \<Rightarrow> response \<Rightarrow> response" where
  "for_method m r = (if m = ''HEAD'' then r\<lparr>rs_body := Text []\<rparr> else r)"

definition serve_public ::
  "('w, 'k, 'b) app \<Rightarrow> route \<Rightarrow> app_request \<Rightarrow> ('w, 'k, 'b) app_state
   \<Rightarrow> response \<times> ('w, 'k, 'b) app_state" where
  "serve_public A r rq s =
     (case r of
        Health \<Rightarrow> (health (pkg_version A), s)
      | Protected_Resource \<Rightarrow>
          (json_ok (protected_resource_json (protected_resource_from_config (auth_config A))), s)
      | Authorization_Server \<Rightarrow>
          (json_ok (authorization_server_json (authorization_server_from_config (auth_config A))), s)
      | Register \<Rightarrow>
          (register (parse_url A) (PosInt (of_nat (net_system A (world (svc s)) div 10 ^ 9)))
             (auth_config A) (ap_json rq), s)
      | Authorize \<Rightarrow> on_proxy (authorize (oauth_proxy_new A) (ap_query rq)) s
      | Oauth_Callback \<Rightarrow> on_proxy (callback (oauth_proxy_new A) (ap_query rq)) s
      | Token \<Rightarrow>
          (case ap_form rq of
             Inl (status, text) \<Rightarrow> (plain status text, s)
           | Inr form \<Rightarrow> on_proxy (token (oauth_proxy_new A) form) s)
      | _ \<Rightarrow> (empty_answer 404, s))"

definition payload_too_large :: response where
  "payload_too_large = plain 413 ''length limit exceeded''"

definition service_of :: "('w, 'k, 'b) app \<Rightarrow> ('w, 'k, 'b) service" where
  "service_of A = service.truncate A"

text \<open>
  What a request on a protected route meets once it is through the layers. A tool that never returns has
  no answer.
\<close>

definition serve_inner ::
  "('w, 'k, 'b) app \<Rightarrow> route \<Rightarrow> app_request \<Rightarrow> extensions \<Rightarrow> ('w, 'k, 'b) app_state
   \<Rightarrow> (app_answer \<times> ('w, 'k, 'b) app_state) option" where
  "serve_inner A r rq ext s =
     (case r of
        Mcp \<Rightarrow>
          (case mcp_transport A (world (svc s)) rq of
             Protocol a \<Rightarrow> Some (Answered a, s)
           | Calls name arguments \<Rightarrow>
               (case read_call name arguments of
                  Inl e \<Rightarrow> Some (Answered (call_refused A e), s)
                | Inr t \<Rightarrow>
                    map_option (\<lambda>(res, t1). (Tool_Ran t res, s\<lparr>svc := t1\<rparr>))
                      (tool_router (service_of A) (ctx_of ext) t (svc s))))
      | Token_Introspect \<Rightarrow>
          Some (Answered (answer_of (for_method (in_method rq)
            (if method_allowed r (in_method rq) then
               (case introspect_handler A (ex_identity ext) (ex_token ext) (svc s) of
                  Inl e \<Rightarrow> e
                | Inr v \<Rightarrow> json_ok (token_introspect_json (show_ip A) v))
             else empty_answer 405))), s)
      | _ \<Rightarrow> Some (Answered (answer_of (empty_answer 404)), s))"

text \<open>The layers work on the state of the server, which the application's extends.\<close>

definition on_server ::
  "(('w, 'k, 'b) server_state \<Rightarrow> 'a \<times> ('w, 'k, 'b) server_state)
   \<Rightarrow> ('w, 'k, 'b) app_state \<Rightarrow> 'a \<times> ('w, 'k, 'b) app_state" where
  "on_server h s =
     (case h (server_state.truncate s) of
        (a, t) \<Rightarrow> (a, s\<lparr>svc := svc t, initialize_limiter := initialize_limiter t\<rparr>))"

definition app_serve ::
  "('w, 'k, 'b) app \<Rightarrow> app_request \<Rightarrow> ('w, 'k, 'b) app_state
   \<Rightarrow> (app_answer \<times> ('w, 'k, 'b) app_state) option" where
  "app_serve A rq s =
     (let r = route_of (in_path rq) in
      if protected_route r then
        (if (case ap_content_length rq of None \<Rightarrow> False | Some len \<Rightarrow> MCP_MAX_REQUEST_BYTES < len)
         then Some (Answered (answer_of payload_too_large), s)
         else
           (case on_server (mcp_layers (service_of A) (mcp_http.truncate rq)) s of
              (Inl a, s1) \<Rightarrow> Some (Answered a, s1)
            | (Inr ext, s1) \<Rightarrow> serve_inner A r rq ext s1))
      else if \<not> method_allowed r (in_method rq) then Some (Answered (answer_of (empty_answer 405)), s)
      else
        (case serve_public A r rq s of
           (a, s1) \<Rightarrow> Some (Answered (answer_of (for_method (in_method rq) a)), s1)))"

text \<open>The second, internal listener: \<^verbatim>\<open>metrics_app\<close> in \<^verbatim>\<open>main\<close>.\<close>

definition serve_metrics :: "('w, 'k, 'b) app \<Rightarrow> app_request \<Rightarrow> ('w, 'k, 'b) app_state \<Rightarrow> response" where
  "serve_metrics A rq s =
     (if in_path rq \<noteq> ''/metrics'' then empty_answer 404
      else if in_method rq = ''GET'' \<or> in_method rq = ''HEAD'' then
        for_method (in_method rq) (metrics_handler (encode_metrics A) (read_utf8 A) (metrics (svc s)))
      else empty_answer 405)"

section \<open>Runs\<close>

text \<open>
  The server that a configuration starts, and what can happen to it: a request is served, one of the spawned
  tasks runs, or time passes and the rest of the world moves on.
\<close>

definition app_start ::
  "config \<Rightarrow> ('w, 'k, 'b) app \<Rightarrow> 'w \<Rightarrow> string + ('w, 'k, 'b) app \<times> ('w, 'k, 'b) app_state" where
  "app_start cfg A w =
     map_sum id (\<lambda>(X, s). (service.extend X (service.more A),
                         server_state.extend s \<lparr>authorizations = no_authorizations, written = []\<rparr>))
       (build_app cfg (service_of A) w)"

datatype app_event = Served app_request app_answer | Note_Written nat | Elapsed

inductive app_step ::
  "('w, 'k, 'b) app \<Rightarrow> ('w, 'k, 'b) app_state \<Rightarrow> app_event \<Rightarrow> ('w, 'k, 'b) app_state \<Rightarrow> bool"
  for A :: "('w, 'k, 'b) app" where
  serve: "app_serve A rq s = Some (a, s1) \<Longrightarrow> app_step A s (Served rq a) s1"
| write_note:
    "i < length (spawned (svc s)) \<Longrightarrow> i \<notin> set (written s)
     \<Longrightarrow> emit_audit_message (service_of A) (spawned (svc s) ! i) (svc s) = (r, t)
     \<Longrightarrow> app_step A s (Note_Written i) (s\<lparr>svc := t, written := i # written s\<rparr>)"
| elapse: "app_step A s Elapsed (s\<lparr>svc := (svc s)\<lparr>world := w\<rparr>\<rparr>)"

inductive_cases app_step_cases [consumes 1, case_names serve write_note elapse]: "app_step A s e s1"

inductive app_run ::
  "('w, 'k, 'b) app \<Rightarrow> ('w, 'k, 'b) app_state \<Rightarrow> app_event list \<Rightarrow> ('w, 'k, 'b) app_state \<Rightarrow> bool"
  for A :: "('w, 'k, 'b) app" and s0 :: "('w, 'k, 'b) app_state" where
  started: "app_run A s0 [] s0"
| continued: "app_run A s0 es s \<Longrightarrow> app_step A s e s1 \<Longrightarrow> app_run A s0 (es @ [e]) s1"

section \<open>What serving does to the state\<close>

text \<open>The trace, in every case, only grows.\<close>

lemma service_of_simps [simp]:
  "net_send (service_of A) = net_send A" "net_clock (service_of A) = net_clock A"
  "sha256 (service_of A) = sha256 A" "discovery_url (service_of A) = discovery_url A"
  "auth_config (service_of A) = auth_config A" "sv_governor (service_of A) = sv_governor A"
  "jwt_decode_header (service_of A) = jwt_decode_header A" "jwks_decode (service_of A) = jwks_decode A"
  "jwt_decode (service_of A) = jwt_decode A" "expected_audience (service_of A) = expected_audience A"
  "expected_issuer (service_of A) = expected_issuer A"
  by (simp_all add: service_of_def service.defs)

lemma on_server_iff:
  "on_server h s = (a, s1) \<longleftrightarrow>
     (\<exists>t. h (server_state.truncate s) = (a, t) \<and> s1 = s\<lparr>svc := svc t, initialize_limiter := initialize_limiter t\<rparr>)"
  by (auto simp: on_server_def split: prod.splits)

lemma truncate_server [simp]:
  "svc (server_state.truncate s) = svc s" "initialize_limiter (server_state.truncate s) = initialize_limiter s"
  by (simp_all add: server_state.truncate_def)

lemma truncate_http [simp]:
  "in_authorization (mcp_http.truncate rq) = in_authorization rq"
  "in_session_id (mcp_http.truncate rq) = in_session_id rq" "in_method (mcp_http.truncate rq) = in_method rq"
  by (simp_all add: mcp_http.truncate_def)

text \<open>How a request is served: refused before the layers, by a layer, inside them, or without them.\<close>

lemma app_serve_cases:
  assumes "app_serve A rq s = Some (a, s1)"
  obtains (Too_Large) len where "protected_route (route_of (in_path rq))" "ap_content_length rq = Some len"
      "MCP_MAX_REQUEST_BYTES < len" "a = Answered (answer_of payload_too_large)" "s1 = s"
  | (Refused) r t where "protected_route (route_of (in_path rq))"
      "mcp_layers (service_of A) (mcp_http.truncate rq) (server_state.truncate s) = (Inl r, t)"
      "a = Answered r" "s1 = s\<lparr>svc := svc t, initialize_limiter := initialize_limiter t\<rparr>"
  | (Inside) ext t where "protected_route (route_of (in_path rq))"
      "mcp_layers (service_of A) (mcp_http.truncate rq) (server_state.truncate s) = (Inr ext, t)"
      "serve_inner A (route_of (in_path rq)) rq ext
         (s\<lparr>svc := svc t, initialize_limiter := initialize_limiter t\<rparr>) = Some (a, s1)"
  | (Not_Allowed) "\<not> protected_route (route_of (in_path rq))" "a = Answered (answer_of (empty_answer 405))" "s1 = s"
  | (Public) r where "\<not> protected_route (route_of (in_path rq))"
      "serve_public A (route_of (in_path rq)) rq s = (r, s1)" "a = Answered (answer_of (for_method (in_method rq) r))"
proof (cases "protected_route (route_of (in_path rq))")
  case False
  obtain r s2 where r: "serve_public A (route_of (in_path rq)) rq s = (r, s2)"
    by (cases "serve_public A (route_of (in_path rq)) rq s")
  show ?thesis
    using False assms r Not_Allowed Public by (simp add: app_serve_def Let_def split: if_splits)
next
  case True
  note prot = True
  show ?thesis
  proof (cases "\<exists>len. ap_content_length rq = Some len \<and> MCP_MAX_REQUEST_BYTES < len")
    case True
    then show ?thesis using assms prot Too_Large by (auto simp: app_serve_def Let_def)
  next
    case False
    obtain v t where l: "mcp_layers (service_of A) (mcp_http.truncate rq) (server_state.truncate s) = (v, t)"
      by (cases "mcp_layers (service_of A) (mcp_http.truncate rq) (server_state.truncate s)")
    have "app_serve A rq s = (case v of
        Inl a \<Rightarrow> Some (Answered a, s\<lparr>svc := svc t, initialize_limiter := initialize_limiter t\<rparr>)
      | Inr ext \<Rightarrow> serve_inner A (route_of (in_path rq)) rq ext
          (s\<lparr>svc := svc t, initialize_limiter := initialize_limiter t\<rparr>))"
      using False prot l by (simp add: app_serve_def Let_def on_server_def split: option.split)
    then show ?thesis using assms prot l Refused Inside by (cases v) auto
  qed
qed

end
