(* ===== verification/Stores.thy ===== *)
theory Stores
  imports Server
begin

text \<open>
  What holds of the server's stores in every state it reaches: the caps, and where the entries come from. The
  invariant is a relation that authentication and every tool preserve, so it is interpreted as
  an \<open>auth_relation\<close> and as a \<open>run_frame\<close>.
\<close>

section \<open>The invariant\<close>

definition capped :: "nat \<Rightarrow> ('k \<times> 'v) list \<Rightarrow> bool" where
  "capped n m \<longleftrightarrow> distinct (keys m) \<and> length m \<le> n"

text \<open>A key that some key set of the issuer gave under this id, and claims that such keys verified.\<close>

definition issued_key :: "('w, 'k, 'x) logto_client_scheme \<Rightarrow> string \<Rightarrow> 'k \<Rightarrow> bool" where
  "issued_key X kid key \<longleftrightarrow> (\<exists>v ks. jwks_decode X v = Inr ks \<and> (Some kid, Some key) \<in> set ks)"

definition attested :: "('w, 'k, 'x) logto_client_scheme \<Rightarrow> string \<Rightarrow> logto_claims \<Rightarrow> bool" where
  "attested X tok claims \<longleftrightarrow>
     (\<exists>header kid key unix. jwt_decode_header X tok = Some header \<and> jh_kid header = Some kid
        \<and> issued_key X kid key \<and> allowed_algorithm (jh_alg header)
        \<and> jwt_decode X unix tok key (token_validation X (jh_alg header)) = Some claims
        \<and> aud_matches (cl_aud claims) (expected_audience X))"

definition limits_ok :: "'b limiter \<Rightarrow> bool" where
  "limits_ok l \<longleftrightarrow> (\<forall>c. capped LIMITER_KEY_CAP (bearer_map c l) \<and> capped LIMITER_KEY_CAP (sub_map c l))"

definition sessions_ok :: "('w, 'x) jmap_client_scheme \<Rightarrow> http_request list \<Rightarrow> session_cache \<Rightarrow> bool" where
  "sessions_ok X sent m \<longleftrightarrow> capped SESSION_CAP m
     \<and> (\<forall>k \<in> set (keys m). \<exists>tok. k = hash_token X tok \<and> get_request (discovery_url X) tok \<in> set sent)"

definition validations_ok :: "('w, 'k, 'x) logto_client_scheme \<Rightarrow> validation_cache \<Rightarrow> bool" where
  "validations_ok X m \<longleftrightarrow> capped CACHE_CAP m
     \<and> (\<forall>k e. map_of m k = Some e \<longrightarrow>
          (\<exists>tok claims. k = hash_token X tok \<and> attested X tok claims \<and> ce_identity e = identity_of_claims claims))"

definition stores_ok :: "('w, 'k, 'b) service \<Rightarrow> ('w, 'k, 'b) service_state \<Rightarrow> bool" where
  "stores_ok X s \<longleftrightarrow>
     sessions_ok X (trace s) (sessions s) \<and> validations_ok X (vcache s)
     \<and> (\<forall>kid key. (kid, key) \<in> set (jwks_keys s) \<longrightarrow> issued_key X kid key)
     \<and> capped MAX_ENTRIES (last_used_entries s) \<and> limits_ok (limiter s)
     \<and> distinct (keys (audit_registry s))"

section \<open>The operations keep it\<close>

lemma sessions_ok_sent: "sessions_ok X sent m \<Longrightarrow> sessions_ok X (sent @ new) m"
  by (fastforce simp: sessions_ok_def)

lemma sessions_ok_evict: "sessions_ok X sent m \<Longrightarrow> sessions_ok X sent (session_evict k m)"
  by (auto simp: sessions_ok_def capped_def session_evict_def AList.delete_keys distinct_removeAll
      intro: le_trans [OF length_delete])

lemma sessions_ok_insert:
  assumes "sessions_ok X sent m" and "get_request (discovery_url X) tok \<in> set sent"
  shows "sessions_ok X sent (session_insert now (hash_token X tok) session m)"
proof -
  let ?k = "hash_token X tok"
  have d: "distinct (keys m)" and len: "length m \<le> SESSION_CAP"
    using assms(1) by (simp_all add: sessions_ok_def capped_def)
  note laws = session_insert_laws [OF d, where now = now and k = ?k and s = session]
  have "k = ?k \<or> k \<in> set (keys m)" if "k \<in> set (keys (session_insert now ?k session m))" for k
    using that laws(3) [of k] by (metis map_of_eq_None_iff not_None_eq set_map)
  then show ?thesis
    using assms laws(1) laws(2) [OF len] unfolding sessions_ok_def capped_def by blast
qed

lemma validations_ok_drop: "validations_ok X m \<Longrightarrow> validations_ok X (cache_remove k m)"
  by (auto simp: validations_ok_def capped_def cache_remove_def distinct_delete map_of_delete
      intro: le_trans [OF length_delete] split: if_splits)

lemma validations_ok_insert:
  assumes "validations_ok X m" and "attested X tok claims"
  shows "validations_ok X (cache_insert now unix (hash_token X tok) (identity_of_claims claims) e m)"
proof -
  let ?k = "hash_token X tok"
  have d: "distinct (keys m)" and len: "length m \<le> CACHE_CAP"
    using assms(1) by (simp_all add: validations_ok_def capped_def)
  note laws = cache_insert_laws [OF d, where now = now and unix = unix and k = ?k and i = "identity_of_claims claims" and e = e]
  have "\<exists>t c. k = hash_token X t \<and> attested X t c \<and> ce_identity v = identity_of_claims c"
    if "map_of (cache_insert now unix ?k (identity_of_claims claims) e m) k = Some v" for k v
  proof (cases "?k = k")
    case True
    then show ?thesis using that laws(4) assms(2) by auto
  next
    case False
    from laws(3) [OF False that] assms(1) show ?thesis by (auto simp: validations_ok_def)
  qed
  then show ?thesis
    using laws(1) laws(2) [OF len] unfolding validations_ok_def capped_def by blast
qed

lemma collect_keys_origin:
  assumes "(kid, key) \<in> set (collect_keys ks)"
  shows "(Some kid, Some key) \<in> set ks"
proof -
  let ?f = "\<lambda>(kid, key) m. case (kid, key) of (Some i, Some k) \<Rightarrow> AList.update i k m | _ \<Rightarrow> m"
  have upd: "(kid, key) \<in> set (AList.update i k m) \<Longrightarrow> (kid, key) \<in> set m \<or> (kid = i \<and> key = k)" for i k m
    by (induction m) (auto split: if_splits)
  have "(kid, key) \<in> set (fold ?f ks m) \<Longrightarrow> (kid, key) \<in> set m \<or> (Some kid, Some key) \<in> set ks" for m
  proof (induction ks arbitrary: m)
    case (Cons p ks)
    have "(kid, key) \<in> set (?f p m) \<Longrightarrow> (kid, key) \<in> set m \<or> (Some kid, Some key) = p"
      using upd by (auto split: option.splits prod.splits)
    moreover have "(kid, key) \<in> set (?f p m) \<or> (Some kid, Some key) \<in> set ks"
      using Cons.IH [of "?f p m"] Cons.prems by simp
    ultimately show ?case by auto
  qed simp
  from this [of "[]"] assms show ?thesis unfolding collect_keys_def by simp
qed

lemma accepted_attested:
  assumes "accepts X ks tok claims" and "\<forall>kid key. (kid, key) \<in> set ks \<longrightarrow> issued_key X kid key"
  shows "attested X tok claims"
  using assms map_of_SomeD unfolding accepts_def attested_def by metis

lemma capped_use: "capped MAX_ENTRIES m \<Longrightarrow> capped MAX_ENTRIES (last_used_put now h ip m)"
  unfolding capped_def
  using last_used.step_distinct [of m "(now, h, ip)"] last_used.step_bounded [of m "(now, h, ip)"] by simp

lemma capped_charge: "capped LIMITER_KEY_CAP m \<Longrightarrow> charge gv now k q m = (g, m1) \<Longrightarrow> capped LIMITER_KEY_CAP m1"
  using charge_laws(1,2) unfolding capped_def by blast

lemma capped_both:
  assumes "check_both gv now q h sub bm sm = (g, bm1, sm1)"
    and "capped LIMITER_KEY_CAP bm" "capped LIMITER_KEY_CAP sm"
  shows "capped LIMITER_KEY_CAP bm1 \<and> capped LIMITER_KEY_CAP sm1"
  using assms capped_charge by (fastforce simp: check_both_def split: prod.splits if_splits option.splits)

lemma limits_ok_check:
  assumes "limits_ok l"
  shows "limits_ok (snd (limiter_check gv now h sub cat l))"
  unfolding limits_ok_def
proof
  fix c
  have l: "capped LIMITER_KEY_CAP (bearer_map c l)" "capped LIMITER_KEY_CAP (sub_map c l)"
    using assms by (simp_all add: limits_ok_def)
  obtain g l1 where ch: "limiter_check gv now h sub cat l = (g, l1)"
    by (cases "limiter_check gv now h sub cat l")
  show "capped LIMITER_KEY_CAP (bearer_map c (snd (limiter_check gv now h sub cat l)))
      \<and> capped LIMITER_KEY_CAP (sub_map c (snd (limiter_check gv now h sub cat l)))"
  proof (cases "c = cat")
    case False
    then show ?thesis using l limiter_check_step(2) [OF ch False] ch by simp
  next
    case True
    then show ?thesis
      using l limiter_check_step(3) [OF ch] capped_charge [OF l(1)] capped_charge [OF l(2)] ch by fastforce
  qed
qed

section \<open>The task of an audit note\<close>

text \<open>It is a discovery and a call, so it preserves what the bodies of the tools preserve.\<close>

context frame
begin

lemma preserves_audit_task: "preserves R (emit_audit_message X n)"
  unfolding emit_audit_message_def
  by (intro preserves_intros preserves_account_id preserves_jmap_call)

end

section \<open>The interpretations\<close>

lemma keys_issued: "jwks_decode X v = Inr ks \<Longrightarrow> (kid, key) \<in> set (collect_keys ks) \<Longrightarrow> issued_key X kid key"
  unfolding issued_key_def by (intro exI conjI) (assumption, rule collect_keys_origin)

lemma accepted_ok:
  assumes "stores_ok X s" and "accepts X (jwks_keys s) tok claims"
  shows "validations_ok X (cache_insert now unix (hash_token X tok) (identity_of_claims claims) e (vcache s))"
  using assms accepted_attested [OF assms(2)] by (intro validations_ok_insert) (simp_all add: stores_ok_def)

interpretation auth_stores: auth_relation "\<lambda>s s1. stores_ok X s \<longrightarrow> stores_ok X s1" X
  for X :: "('w, 'k, 'b) service"
proof (unfold_locales, goal_cases)
  case (1 s)
  show ?case by simp
next
  case (2 s t u)
  then show ?case by simp
next
  case (3 s w rq)
  show ?case by (simp add: stores_ok_def sessions_ok_sent)
next
  case (4 s k)
  show ?case by (simp add: stores_ok_def sessions_ok_evict)
next
  case (5 tok s now session)
  then show ?case by (simp add: stores_ok_def sessions_ok_insert)
next
  case (6 s t)
  show ?case by (simp add: stores_ok_def)
next
  case (7 v ks s t)
  then show ?case by (simp add: stores_ok_def keys_issued)
next
  case (8 s tok claims now unix)
  then show ?case using accepted_ok [of X s tok claims] by (simp add: stores_ok_def)
next
  case (9 s now h ip)
  show ?case by (simp add: stores_ok_def capped_use)
next
  case 10
  show ?case by (simp add: stores_ok_def)
qed

interpretation run_stores: run_frame "\<lambda>s s1. stores_ok X s \<longrightarrow> stores_ok X s1" X ctx r
  for X :: "('w, 'k, 'b) service" and ctx r
  by unfold_locales
    (simp_all add: stores_ok_def limits_ok_check validations_ok_drop registry_set_def distinct_update)

section \<open>The metrics and the logs\<close>

text \<open>Every label that is recorded is the name of a tool or one of a few outcomes.\<close>

fun bounded_label :: "observation \<Rightarrow> bool" where
  "bounded_label (Inc f labels) \<longleftrightarrow>
     (case f of
        Tool_Calls_Total \<Rightarrow> (\<exists>r out. labels = [tool_name r, out] \<and> out \<in> {''ok'', ''error'', ''rate_limited''})
      | Introspect_Total \<Rightarrow> (\<exists>out. labels = [out] \<and> out \<in> {''active'', ''inactive'', ''error''})
      | _ \<Rightarrow> False)"
| "bounded_label (Observe f labels d) \<longleftrightarrow>
     (case f of
        Tool_Latency_Seconds \<Rightarrow> (\<exists>r. labels = [tool_name r])
      | Introspect_Latency_Seconds \<Rightarrow> (\<exists>out. labels = [out] \<and> out \<in> {''active'', ''inactive'', ''error''})
      | _ \<Rightarrow> False)"

definition metrics_ok :: "('w, 'k, 'm) auth_state_scheme \<Rightarrow> tool_event list \<Rightarrow> bool" where
  "metrics_ok s events \<longleftrightarrow> list_all bounded_label (metrics s)
     \<and> (\<forall>tool out. counter Tool_Calls_Total [tool, out] (metrics s)
          = length (filter (\<lambda>e. te_method e = tool \<and> te_outcome e = out) events))
     \<and> (\<forall>out. counter Introspect_Total [out] (metrics s)
          = length (filter (\<lambda>e. ie_outcome e = out) (introspect_log s)))"

lemma outcome_cases: "fst (tool_outcome r) \<in> {''ok'', ''error'', ''rate_limited''}"
  by (simp add: tool_outcome_def split: sum.split)

interpretation auth_metrics: auth_relation "\<lambda>s s1. metrics_ok s (audit_log s) \<longrightarrow> metrics_ok s1 (audit_log s1)" X
  for X :: "('w, 'k, 'b) service"
  by unfold_locales (auto simp: metrics_ok_def record_introspect_def)

interpretation run_metrics: run_frame "\<lambda>s s1. metrics_ok s (audit_log s) \<longrightarrow> metrics_ok s1 (audit_log s1)" X ctx r
  for X :: "('w, 'k, 'b) service" and ctx r
  using outcome_cases
  by unfold_locales (auto simp: metrics_ok_def record_tool_call_def event_of_def tool_call_event_def)

end
