(* ===== verification/Runs.thy ===== *)
theory Runs
  imports Application Stores
begin

text \<open>
  What holds of every run of the server, whatever requests arrive in whatever order: the invariant of its
  state, whose identities it accepts, where the credentials it sends come from, and what its audit
  trail says.
\<close>

lemma service_of_hash [simp]: "hash_token (service_of A) t = hash_token A t"
  by (simp add: hash_token_def)

lemma service_of_attested [simp]: "attested (service_of A) t c = attested A t c"
  by (simp add: attested_def issued_key_def token_validation_def)

section \<open>The proxy's handlers\<close>

lemma authorize_effect:
  assumes "authorize P q p = (r, p1)"
  shows "world p1 = world p \<and> trace p1 = trace p
    \<and> (pendings p1 = pendings p \<and> rs_status r = 400 \<and> rs_location r = None
       \<or> (\<exists>uri cstate sent. is_allowed_redirect_uri (proxy_parse_url P) (allowed_redirect_uris P) uri
            \<and> (case cstate of None \<Rightarrow> True | Some st \<Rightarrow> length st \<le> MAX_CLIENT_STATE_BYTES)
            \<and> pendings p1 = pending_insert (now_of P p) (random_state P (world p))
                 \<lparr>client_redirect_uri = uri, client_state = cstate, created = now_of P p\<rparr> (pendings p)
            \<and> rs_location r = Some (logto_base P @ ''/auth?'' @ form_write P sent)))"
proof -
  let ?pairs = "form_parse P (case q of None \<Rightarrow> [] | Some t \<Rightarrow> t)"
  let ?long = "\<lambda>c. case c of None \<Rightarrow> False | Some st \<Rightarrow> MAX_CLIENT_STATE_BYTES < length st"
  let ?st = "random_state P (world p)"
  let ?sent = "if list_ex (\<lambda>(k, _). k = ''state'') ?pairs then map (authorize_pair (callback_url P) ?st) ?pairs
    else map (authorize_pair (callback_url P) ?st) ?pairs @ [(''state'', ?st)]"
  show ?thesis
  proof (cases "\<exists>uri. first_value ''redirect_uri'' ?pairs = Some uri
      \<and> is_allowed_redirect_uri (proxy_parse_url P) (allowed_redirect_uris P) uri
      \<and> \<not> ?long (first_value ''state'' ?pairs)")
    case False
    then have "p1 = p \<and> (\<exists>text. r = plain 400 text)"
      using assms by (auto simp: authorize_def Let_def split: option.splits if_splits)
    then show ?thesis by (auto simp: plain_def)
  next
    case True
    then obtain uri where u: "first_value ''redirect_uri'' ?pairs = Some uri"
        "is_allowed_redirect_uri (proxy_parse_url P) (allowed_redirect_uris P) uri"
        "\<not> ?long (first_value ''state'' ?pairs)" by blast
    then have "p1 = p\<lparr>pendings := pending_insert (now_of P p) ?st
          \<lparr>client_redirect_uri = uri, client_state = first_value ''state'' ?pairs, created = now_of P p\<rparr> (pendings p)\<rparr>
        \<and> rs_location r = Some (logto_base P @ ''/auth?'' @ form_write P ?sent)"
      using assms by (simp add: authorize_def Let_def redirect_to_def) auto
    moreover have "case first_value ''state'' ?pairs of None \<Rightarrow> True | Some st \<Rightarrow> length st \<le> MAX_CLIENT_STATE_BYTES"
      using u(3) by (cases "first_value ''state'' ?pairs") simp_all
    ultimately show ?thesis using u(2) by auto
  qed
qed

lemma callback_effect:
  assumes "callback P q p = (r, p1)"
  shows "world p1 = world p \<and> trace p1 = trace p
    \<and> (pendings p1 = pendings p \<and> rs_location r = None
       \<or> (\<exists>st. pendings p1 = snd (pending_take (now_of P p) st (pendings p))
            \<and> (rs_location r = None
               \<or> (\<exists>e url ps. map_of (by_state (pendings p)) st = Some e
                    \<and> proxy_parse_url P (client_redirect_uri e) = Inr url
                    \<and> rs_location r = Some (append_pairs P url ps)))))"
proof -
  let ?pairs = "map_of (rev (form_parse P (case q of None \<Rightarrow> [] | Some t \<Rightarrow> t)))"
  show ?thesis
  proof (cases "?pairs ''state''")
    case None
    then show ?thesis using assms by (auto simp: callback_def plain_def)
  next
    case (Some st)
    obtain taken g where t: "pending_take (now_of P p) st (pendings p) = (taken, g)"
      by (cases "pending_take (now_of P p) st (pendings p)")
    have p1: "p1 = p\<lparr>pendings := g\<rparr>"
      using assms Some t by (auto simp: callback_def Let_def split: option.splits sum.splits)
    have g: "g = snd (pending_take (now_of P p) st (pendings p))" by (simp add: t)
    have loc: "rs_location r = None \<or> (\<exists>e url ps. map_of (by_state (pendings p)) st = Some e
        \<and> proxy_parse_url P (client_redirect_uri e) = Inr url \<and> rs_location r = Some (append_pairs P url ps))"
    proof (cases taken)
      case None
      then show ?thesis using assms Some t by (auto simp: callback_def Let_def plain_def)
    next
      case (Some e)
      have e: "map_of (by_state (pendings p)) st = Some e"
        using t Some by (auto simp: pending_take_def Let_def split: option.splits if_splits)
      show ?thesis
      proof (cases "proxy_parse_url P (client_redirect_uri e)")
        case (Inl x)
        then show ?thesis using assms \<open>?pairs ''state'' = Some st\<close> t Some by (auto simp: callback_def Let_def plain_def)
      next
        case (Inr url)
        then obtain ps where "rs_location r = Some (append_pairs P url ps)"
          using assms \<open>?pairs ''state'' = Some st\<close> t Some by (auto simp: callback_def Let_def redirect_to_def)
        with e Inr show ?thesis by blast
      qed
    qed
    show ?thesis using p1 g loc by auto
  qed
qed

lemma token_effect:
  assumes "token P form p = (r, p1)"
  shows "pendings p1 = pendings p \<and> rs_location r = None
    \<and> (\<exists>new. trace p1 = trace p @ new \<and> length new \<le> 1 \<and> list_all anonymous new)"
proof (cases "rewrite_token_pairs P (form_parse P form)")
  case None
  then show ?thesis using assms by (auto simp: token_def Let_def plain_def)
next
  case (Some v)
  obtain pairs saw where v: "v = (pairs, saw)" by (cases v)
  obtain w a where n: "net_send P (token_request P (form_write P pairs)) (world p) = (a, w)"
    by (cases "net_send P (token_request P (form_write P pairs)) (world p)")
  have "(p1 = p \<or> p1 = p\<lparr>world := w, trace := trace p @ [token_request P (form_write P pairs)]\<rparr>) \<and> rs_location r = None"
    using assms Some v n by (auto simp: token_def Let_def plain_def send_def split: sum.splits if_splits)
  then show ?thesis by (auto simp: token_request_def anonymous_def)
qed

section \<open>The invariant of the state\<close>

definition initializes_ok :: "'b initialize_limiter \<Rightarrow> bool" where
  "initializes_ok l \<longleftrightarrow> capped LIMITER_KEY_CAP (il_bearer l) \<and> capped LIMITER_KEY_CAP (il_sub l)"

text \<open>A pending authorization waits for an allowed client with a small state.\<close>

definition authorizations_ok :: "('w, 'k, 'b) app \<Rightarrow> pending_authorizations \<Rightarrow> bool" where
  "authorizations_ok A g \<longleftrightarrow> pending_ok g
     \<and> (\<forall>e \<in> set (by_state g).
          is_allowed_redirect_uri (parse_url A) (oauth_redirect_uris (auth_config A)) (client_redirect_uri (snd e))
          \<and> (case client_state (snd e) of None \<Rightarrow> True | Some st \<Rightarrow> length st \<le> MAX_CLIENT_STATE_BYTES))"

definition app_ok :: "('w, 'k, 'b) app \<Rightarrow> ('w, 'k, 'b) app_state \<Rightarrow> bool" where
  "app_ok A s \<longleftrightarrow> stores_ok (service_of A) (svc s) \<and> initializes_ok (initialize_limiter s)
     \<and> authorizations_ok A (authorizations s)
     \<and> distinct (written s) \<and> (\<forall>i \<in> set (written s). i < length (spawned (svc s)))"

lemma stores_ok_sent: "stores_ok X s \<Longrightarrow> stores_ok X (s\<lparr>world := w, trace := trace s @ new\<rparr>)"
  by (simp add: stores_ok_def sessions_ok_sent)

lemma stores_ok_world: "stores_ok X s \<Longrightarrow> stores_ok X (s\<lparr>world := w\<rparr>)"
  by (simp add: stores_ok_def)

lemma initializes_ok_check:
  assumes "initialize_check gv now h sub l = (g, l1)" and "initializes_ok l"
  shows "initializes_ok l1"
proof -
  obtain g1 bm sm where b: "check_both gv now (il_quota l) h sub (il_bearer l) (il_sub l) = (g1, bm, sm)"
    by (cases "check_both gv now (il_quota l) h sub (il_bearer l) (il_sub l)")
  from capped_both [OF b] assms b show ?thesis by (auto simp: initialize_check_def initializes_ok_def)
qed

lemma initializes_ok_layer:
  assumes "initialize_rate_limit X rq ext s = (v, t)" and "initializes_ok (initialize_limiter s)"
  shows "initializes_ok (initialize_limiter t)"
  using assms
  by (auto simp: initialize_rate_limit_def dest: initializes_ok_check
      split: if_splits option.splits prod.splits)

lemma layers_ok:
  assumes l: "mcp_layers X rq s = (v, t)"
    and ok: "stores_ok X (svc s)" "initializes_ok (initialize_limiter s)"
  shows "stores_ok X (svc t)" "initializes_ok (initialize_limiter t)" "spawned (svc t) = spawned (svc s)"
proof -
  obtain a s1 where b: "bearer_auth X (incoming.truncate rq) (svc s) = (a, s1)"
    by (cases "bearer_auth X (incoming.truncate rq) (svc s)")
  have svc: "svc t = s1" using l
    by (cases rule: mcp_layers_cases) (simp_all add: b)
  show "stores_ok X (svc t)" using auth_stores.bearer_auth_related [OF b] ok(1) svc by simp
  show "spawned (svc t) = spawned (svc s)"
    using same_tools.bearer_auth_related [OF b] svc by (simp add: same_tools_def)
  show "initializes_ok (initialize_limiter t)"
    using l b ok(2) initializes_ok_layer
    by (fastforce simp: mcp_layers_def Let_def split: admission.splits prod.splits option.splits)
qed

lemma spawned_grows:
  assumes "tool_router X ctx r s = Some (res, t)"
  shows "\<exists>new. spawned t = spawned s @ new"
  using tool_router_audited assms unfolding audited_def by blast

lemma stores_ok_tool:
  assumes "tool_router X ctx r s = Some (res, t)" and "stores_ok X s"
  shows "stores_ok X t"
  using run_stores.tool_router_preserves [unfolded run_preserves_def, rule_format, OF assms(1)] assms(2) .

lemma oauth_proxy_new_simps [simp]:
  "logto_base (oauth_proxy_new A) = trim_end_matches CHR ''/'' (authorization_server (auth_config A))"
  "allowed_redirect_uris (oauth_proxy_new A) = oauth_redirect_uris (auth_config A)"
  "proxy_parse_url (oauth_proxy_new A) = parse_url A" "append_pairs (oauth_proxy_new A) = url_append_pairs A"
  "form_write (oauth_proxy_new A) = url_form_write A"
  by (simp_all add: oauth_proxy_new_def)

lemma authorizations_ok_insert:
  assumes "authorizations_ok A g" and "is_allowed_redirect_uri (parse_url A) (oauth_redirect_uris (auth_config A)) uri"
    and "case cstate of None \<Rightarrow> True | Some st \<Rightarrow> length st \<le> MAX_CLIENT_STATE_BYTES"
  shows "authorizations_ok A (pending_insert now st \<lparr>client_redirect_uri = uri, client_state = cstate, created = now\<rparr> g)"
  using assms pending_insert_ok [of g now st] unfolding authorizations_ok_def by fastforce

lemma authorizations_ok_take: "authorizations_ok A g \<Longrightarrow> authorizations_ok A (snd (pending_take now st g))"
  using pending_take_ok(1) [of g now st]
  by (auto simp: authorizations_ok_def pending_take_def Let_def AList.delete_eq split: option.splits)

text \<open>Where an answer may send the user: to the issuer's login, or back to a client that is pending.\<close>

definition safe_location :: "('w, 'k, 'b) app \<Rightarrow> pending_authorizations \<Rightarrow> string option \<Rightarrow> bool" where
  "safe_location A g loc \<longleftrightarrow>
     (case loc of
        None \<Rightarrow> True
      | Some u \<Rightarrow>
          (\<exists>form. u = trim_end_matches CHR ''/'' (authorization_server (auth_config A)) @ ''/auth?'' @ form)
          \<or> (\<exists>e url ps. e \<in> set (by_state g) \<and> parse_url A (client_redirect_uri (snd e)) = Inr url
               \<and> u = url_append_pairs A url ps))"

lemma on_proxy_iff:
  "on_proxy h s = (r, s1) \<longleftrightarrow>
     (\<exists>p. h \<lparr>world = world (svc s), trace = trace (svc s), pendings = authorizations s\<rparr> = (r, p)
        \<and> s1 = s\<lparr>svc := (svc s)\<lparr>world := world p, trace := trace p\<rparr>, authorizations := pendings p\<rparr>)"
  by (auto simp: on_proxy_def split: prod.splits)

definition public_effect ::
  "('w, 'k, 'b) app \<Rightarrow> ('w, 'k, 'b) app_state \<Rightarrow> response \<Rightarrow> ('w, 'k, 'b) app_state \<Rightarrow> bool" where
  "public_effect A s a s1 \<longleftrightarrow>
     (\<exists>w new g. s1 = s\<lparr>svc := (svc s)\<lparr>world := w, trace := trace (svc s) @ new\<rparr>, authorizations := g\<rparr>
        \<and> length new \<le> 1 \<and> list_all anonymous new
        \<and> (authorizations_ok A (authorizations s) \<longrightarrow> authorizations_ok A g)
        \<and> safe_location A (authorizations s) (rs_location a))"

lemma unchanged_effect: "rs_location a = None \<Longrightarrow> public_effect A s a s"
  unfolding public_effect_def
  by (intro exI [of _ "world (svc s)"] exI [of _ "[]"] exI [of _ "authorizations s"]) (simp add: safe_location_def)

lemma authorize_public:
  assumes "on_proxy (authorize (oauth_proxy_new A) q) s = (a, s1)"
  shows "public_effect A s a s1"
proof -
  let ?p = "\<lparr>world = world (svc s), trace = trace (svc s), pendings = authorizations s\<rparr>"
  obtain p where h: "authorize (oauth_proxy_new A) q ?p = (a, p)"
    and s1: "s1 = s\<lparr>svc := (svc s)\<lparr>world := world p, trace := trace p\<rparr>, authorizations := pendings p\<rparr>"
    using assms on_proxy_iff by blast
  note e = authorize_effect [OF h]
  have g: "authorizations_ok A (authorizations s) \<longrightarrow> authorizations_ok A (pendings p)"
    using e authorizations_ok_insert by fastforce
  have "safe_location A (authorizations s) (rs_location a)"
    using e by (auto simp: safe_location_def)
  with g e s1 show ?thesis unfolding public_effect_def
    by (intro exI [of _ "world (svc s)"] exI [of _ "[]"] exI [of _ "pendings p"]) simp
qed

lemma callback_public:
  assumes "on_proxy (callback (oauth_proxy_new A) q) s = (a, s1)"
  shows "public_effect A s a s1"
proof -
  let ?p = "\<lparr>world = world (svc s), trace = trace (svc s), pendings = authorizations s\<rparr>"
  obtain p where h: "callback (oauth_proxy_new A) q ?p = (a, p)"
    and s1: "s1 = s\<lparr>svc := (svc s)\<lparr>world := world p, trace := trace p\<rparr>, authorizations := pendings p\<rparr>"
    using assms on_proxy_iff by blast
  note e = callback_effect [OF h]
  have g: "authorizations_ok A (authorizations s) \<longrightarrow> authorizations_ok A (pendings p)"
    using e authorizations_ok_take by fastforce
  have "safe_location A (authorizations s) (rs_location a)"
    using e by (auto simp: safe_location_def dest!: map_of_SomeD) force+
  with g e s1 show ?thesis unfolding public_effect_def
    by (intro exI [of _ "world (svc s)"] exI [of _ "[]"] exI [of _ "pendings p"]) simp
qed

lemma token_public:
  assumes "on_proxy (token (oauth_proxy_new A) form) s = (a, s1)"
  shows "public_effect A s a s1"
proof -
  let ?p = "\<lparr>world = world (svc s), trace = trace (svc s), pendings = authorizations s\<rparr>"
  obtain p where h: "token (oauth_proxy_new A) form ?p = (a, p)"
    and s1: "s1 = s\<lparr>svc := (svc s)\<lparr>world := world p, trace := trace p\<rparr>, authorizations := pendings p\<rparr>"
    using assms on_proxy_iff by blast
  obtain new where n: "trace p = trace (svc s) @ new" "length new \<le> 1" "list_all anonymous new"
      "pendings p = authorizations s" "rs_location a = None"
    using token_effect [OF h] by auto
  then show ?thesis using s1 unfolding public_effect_def
    by (intro exI [of _ "world p"] exI [of _ new] exI [of _ "authorizations s"]) (simp add: safe_location_def)
qed

lemma serve_public_effect:
  assumes "serve_public A r rq s = (a, s1)"
  shows "public_effect A s a s1"
  using assms authorize_public callback_public token_public
  by (cases r; cases "ap_form rq")
    (auto simp: serve_public_def json_ok_def health_def register_def plain_def empty_answer_def Let_def
      intro!: unchanged_effect split: option.splits if_splits)

section \<open>Every step keeps the invariant\<close>

lemma serve_inner_cases:
  assumes "serve_inner A r rq ext s = Some (a, s1)"
  obtains (Inert) r0 where "a = Answered r0" "s1 = s"
  | (Tool) t res t1 where "r = Mcp" "tool_router (service_of A) (ctx_of ext) t (svc s) = Some (res, t1)"
      "a = Tool_Ran t res" "s1 = s\<lparr>svc := t1\<rparr>"
      "\<exists>name args. mcp_transport A (world (svc s)) rq = Calls name args \<and> read_call name args = Inr t"
proof (cases "r = Mcp")
  case False
  then have "\<exists>r0. a = Answered r0 \<and> s1 = s" using assms by (cases r) (auto simp: serve_inner_def)
  with Inert show ?thesis by blast
next
  case True
  show ?thesis
  proof (cases "mcp_transport A (world (svc s)) rq")
    case (Protocol r0)
    then show ?thesis using assms True Inert by (auto simp: serve_inner_def)
  next
    case (Calls name args)
    show ?thesis
    proof (cases "read_call name args")
      case (Inl e)
      then have "a = Answered (call_refused A e) \<and> s1 = s" using assms True Calls by (simp add: serve_inner_def)
      then show ?thesis using Inert by blast
    next
      case (Inr t)
      then obtain res t1 where "tool_router (service_of A) (ctx_of ext) t (svc s) = Some (res, t1)"
          "a = Tool_Ran t res" "s1 = s\<lparr>svc := t1\<rparr>"
        using assms True Calls by (auto simp: serve_inner_def)
      with True Calls Inr show ?thesis by (intro Tool) auto
    qed
  qed
qed

lemma audit_task_related:
  assumes "emit_audit_message X n s = (r, t)"
  shows "stores_ok X s \<longrightarrow> stores_ok X t" "spawned t = spawned s" "audit_log t = audit_log s"
    "audit_registry t = audit_registry s"
    "\<exists>new. trace t = trace s @ new \<and> list_all (carries (an_token n)) new"
proof -
  show "stores_ok X s \<longrightarrow> stores_ok X t" by (rule preservesD [OF run_stores.preserves_audit_task assms])
  show "spawned t = spawned s" by (rule preservesD [OF spawned.preserves_audit_task assms])
  show "audit_log t = audit_log s" by (rule preservesD [OF audit_log.preserves_audit_task assms])
  show "audit_registry t = audit_registry s" by (rule preservesD [OF audit_registry.preserves_audit_task assms])
  have "emits (carries (an_token n)) (emit_audit_message X n)" unfolding emit_audit_message_def
    by (intro emits_intros credential.emits_account_id credential.emits_jmap_call TrueI)
  then show "\<exists>new. trace t = trace s @ new \<and> list_all (carries (an_token n)) new"
    using assms by (rule emitsD)
qed

text \<open>
  A relation that every run preserves: one that holds over the layers, over a tool, over a public route, over the
  writing of a note, and as time passes.
\<close>

locale app_relation = state_relation R
  for R :: "('w, 'k, 'b) app_state \<Rightarrow> ('w, 'k, 'b) app_state \<Rightarrow> bool" +
  fixes A :: "('w, 'k, 'b) app"
  assumes layers_step: "mcp_layers (service_of A) rq (server_state.truncate s) = (v, t)
      \<Longrightarrow> R s (s\<lparr>svc := svc t, initialize_limiter := initialize_limiter t\<rparr>)"
    and tool_step: "tool_router (service_of A) ctx c (svc s) = Some (res, t1) \<Longrightarrow> R s (s\<lparr>svc := t1\<rparr>)"
    and public_step: "public_effect A s r s1 \<Longrightarrow> R s s1"
    and task_step: "i < length (spawned (svc s)) \<Longrightarrow> i \<notin> set (written s)
      \<Longrightarrow> emit_audit_message (service_of A) (spawned (svc s) ! i) (svc s) = (u, t1)
      \<Longrightarrow> R s (s\<lparr>svc := t1, written := i # written s\<rparr>)"
    and time_step: "R s (s\<lparr>svc := (svc s)\<lparr>world := w\<rparr>\<rparr>)"
begin

lemma serve_related:
  assumes "app_serve A rq s = Some (a, s1)"
  shows "R s s1"
  using assms
proof (cases rule: app_serve_cases)
  case (Refused r t)
  then show ?thesis using layers_step [OF Refused(2)] by simp
next
  case (Inside ext t)
  let ?s = "s\<lparr>svc := svc t, initialize_limiter := initialize_limiter t\<rparr>"
  have mid: "R s ?s" by (rule layers_step [OF Inside(2)])
  from Inside(3) show ?thesis
  proof (cases rule: serve_inner_cases)
    case (Tool c res t1)
    show ?thesis using related_trans [OF mid tool_step [OF Tool(2)]] Tool(4) by simp
  qed (use mid in simp)
next
  case (Public r)
  show ?thesis by (rule public_step [OF serve_public_effect [OF Public(2)]])
qed (simp_all add: related_refl)

lemma step_related: "app_step A s e s1 \<Longrightarrow> R s s1"
  by (induction rule: app_step.induct) (auto intro: serve_related task_step time_step)

lemma run_related: "app_run A s0 es s \<Longrightarrow> R s0 s"
  by (induction rule: app_run.induct) (auto intro: related_refl related_trans step_related)

end

interpretation app_ok: app_relation "\<lambda>s s1. app_ok A s \<longrightarrow> app_ok A s1" A
  for A :: "('w, 'k, 'b) app"
proof (unfold_locales, goal_cases)
  case (3 rq s v t)
  then show ?case using layers_ok [OF 3] by (simp add: app_ok_def)
next
  case (4 ctx c s res t1)
  obtain new where "spawned t1 = spawned (svc s) @ new" using spawned_grows [OF 4] by blast
  then show ?case using stores_ok_tool [OF 4] by (auto simp: app_ok_def)
next
  case (5 s r s1)
  then show ?case using stores_ok_sent by (auto simp: public_effect_def app_ok_def)
next
  case (6 i s u t1)
  then show ?case using audit_task_related [OF 6(3)] by (simp add: app_ok_def)
next
  case (7 s w)
  then show ?case by (simp add: app_ok_def stores_ok_world)
qed simp_all

lemma app_run_ok: "app_run A s0 es s \<Longrightarrow> app_ok A s0 \<Longrightarrow> app_ok A s"
  using app_ok.run_related by blast

lemma app_start_ok:
  assumes "app_start cfg A w = Inr (B, s)"
  shows "app_ok B s" and "auth_config B = cfg" and "trace (svc s) = []" and "spawned (svc s) = []"
    and "audit_log (svc s) = []" and "written s = []" and "introspect_log (svc s) = []"
    and "authorizations s = no_authorizations" and "metrics (svc s) = []"
proof -
  obtain X s0 where b: "build_app cfg (service_of A) w = Inr (X, s0)"
    and B: "B = service.extend X (service.more A)"
    and s: "s = server_state.extend s0 \<lparr>authorizations = no_authorizations, written = []\<rparr>"
    using assms by (cases "build_app cfg (service_of A) w") (auto simp: app_start_def)
  have X: "auth_config X = cfg" "\<exists>l. limiter_new (rate_limit_reads_per_min cfg) (rate_limit_writes_per_min cfg) = Some l
      \<and> s0 = fresh_server_state w l"
    using b by (auto simp: build_app_def split: prod.splits sum.splits option.splits)
  then obtain l where l: "limiter_new (rate_limit_reads_per_min cfg) (rate_limit_writes_per_min cfg) = Some l"
      "s0 = fresh_server_state w l" by blast
  have none: "capped n []" for n :: nat by (simp add: capped_def)
  have "limits_ok l" unfolding limits_ok_def
  proof
    fix c show "capped LIMITER_KEY_CAP (bearer_map c l) \<and> capped LIMITER_KEY_CAP (sub_map c l)"
      using l(1) by (cases c) (auto simp: limiter_new_def none split: if_splits)
  qed
  then have "stores_ok (service_of B) (svc s)"
    by (simp add: s l(2) fresh_server_state_def server_state.defs stores_ok_def sessions_ok_def
        validations_ok_def none)
  moreover have "initializes_ok (initialize_limiter s)"
    by (simp add: s l(2) fresh_server_state_def server_state.defs initializes_ok_def
        initialize_limiter_new_def Let_def none)
  moreover have "authorizations_ok B (authorizations s)"
    by (simp add: s server_state.defs authorizations_ok_def no_authorizations_def pending_ok_def indexed_def)
  ultimately show "app_ok B s" by (simp add: app_ok_def s server_state.defs)
  show "auth_config B = cfg" using X(1) by (simp add: B service.defs)
  show "trace (svc s) = []" "spawned (svc s) = []" "audit_log (svc s) = []" "written s = []"
    "introspect_log (svc s) = []" "authorizations s = no_authorizations" "metrics (svc s) = []"
    by (simp_all add: s l(2) fresh_server_state_def server_state.defs)
qed

section \<open>Bounds and consistency\<close>

text \<open>
  C4. The running server stays within its bounds, whatever requests it gets: in every state that a server
  started from a configuration reaches, it holds at most 256 sessions, 256 validations, 1024 records of
  use, 4096 buckets of each kind and 2048 pending authorizations, with one entry for each key; the index of the
  pending authorizations by age lists exactly those that are pending, each of them for an allowed
  client; and no audit note is written twice.
\<close>

theorem reachable_state_bounded:
  assumes "app_start cfg A w = Inr (B, s0)" and "app_run B s0 es s"
  shows "length (sessions (svc s)) \<le> 256 \<and> distinct (keys (sessions (svc s)))
    \<and> length (vcache (svc s)) \<le> 256 \<and> distinct (keys (vcache (svc s)))
    \<and> length (last_used_entries (svc s)) \<le> 1024 \<and> distinct (keys (last_used_entries (svc s)))
    \<and> (\<forall>m \<in> {bearer_read (limiter (svc s)), bearer_write (limiter (svc s)), sub_read (limiter (svc s)),
             sub_write (limiter (svc s)), il_bearer (initialize_limiter s), il_sub (initialize_limiter s)}.
          length m \<le> 4096 \<and> distinct (keys m))
    \<and> length (by_state (authorizations s)) \<le> 2048 \<and> distinct (keys (by_state (authorizations s)))
    \<and> sorted (by_age (authorizations s)) \<and> distinct (by_age (authorizations s))
    \<and> set (by_age (authorizations s)) = (\<lambda>e. (created (snd e), fst e)) ` set (by_state (authorizations s))
    \<and> (\<forall>e \<in> set (by_state (authorizations s)).
          is_allowed_redirect_uri (parse_url B) (oauth_redirect_uris cfg) (client_redirect_uri (snd e)))
    \<and> distinct (written s) \<and> (\<forall>i \<in> set (written s). i < length (spawned (svc s)))"
proof -
  have ok: "app_ok B s" by (rule app_run_ok [OF assms(2) app_start_ok(1) [OF assms(1)]])
  then have limits: "limits_ok (limiter (svc s))" by (simp add: app_ok_def stores_ok_def)
  show ?thesis
    using ok app_start_ok(2) [OF assms(1)] limits [unfolded limits_ok_def, rule_format, of Read]
      limits [unfolded limits_ok_def, rule_format, of Write]
    by (simp add: app_ok_def stores_ok_def sessions_ok_def validations_ok_def capped_def initializes_ok_def
        authorizations_ok_def pending_ok_def indexed_def age_key_def SESSION_CAP_def CACHE_CAP_def
        MAX_ENTRIES_def LIMITER_KEY_CAP_def PENDING_CAP_def)
qed

section \<open>Identities\<close>

lemma validated_is_cached:
  assumes "validate_token X tok s = (Inr (Some i), s1)" and "stores_ok X s"
  shows "\<exists>e. map_of (vcache s1) (hash_token X tok) = Some e \<and> ce_identity e = i"
proof (cases "cache_lookup (now_of X s) (hash_token X tok) (vcache s)")
  case (Some j)
  then have "i = j \<and> s1 = s" using assms(1) by (simp add: validate_token_def Let_def bindE_def gets_def ret_def)
  then show ?thesis using Some by (auto simp: cache_lookup_def split: option.splits if_splits)
next
  case None
  then obtain header kid k s2 claims where
      d: "decoding_key_for X kid s = (Inr (Some k), s2)"
    and i: "i = identity_of_claims claims"
    and s1: "s1 = s2\<lparr>vcache := cache_insert (now_of X s2) (net_unix X (world s2)) (hash_token X tok)
        (identity_of_claims claims) (Some (cl_exp claims)) (vcache s2)\<rparr>"
    using assms(1)
    by (auto simp: validate_token_def Let_def bindE_Inr gets_def modifies_def ret_None_cases ret_def
        split: option.splits if_splits)
  have "stores_ok X s2" using preservesD [OF auth_stores.preserves_decoding_key d] assms(2) by simp
  then have "distinct (keys (vcache s2))" by (simp add: stores_ok_def validations_ok_def capped_def)
  from cache_insert_laws(4) [OF this] show ?thesis by (simp add: s1 i)
qed

lemma validated_attested:
  assumes "validate_token X tok s = (Inr (Some i), s1)" and ok: "stores_ok X s"
  shows "\<exists>t claims. hash_token X t = hash_token X tok \<and> attested X t claims \<and> i = identity_of_claims claims"
proof -
  obtain e where e: "map_of (vcache s1) (hash_token X tok) = Some e" "ce_identity e = i"
    using validated_is_cached [OF assms] by blast
  have "stores_ok X s1" using preservesD [OF auth_stores.preserves_validate_token assms(1)] ok by simp
  then have "validations_ok X (vcache s1)" by (simp add: stores_ok_def)
  then obtain t claims where "hash_token X tok = hash_token X t" "attested X t claims"
      "ce_identity e = identity_of_claims claims"
    using e(1) unfolding validations_ok_def by blast
  with e(2) show ?thesis by auto
qed


section \<open>Credentials\<close>

text \<open>
  A credential that a served request presented; a bearer token only counts when the request was let
  through to a tool.
\<close>

definition credential_in :: "config \<Rightarrow> app_event list \<Rightarrow> string \<Rightarrow> bool" where
  "credential_in cfg es h \<longleftrightarrow>
     (\<exists>rq a tok. Served rq a \<in> set es \<and> presented_by cfg (mcp_http.truncate rq) tok \<and> h = header_value tok
        \<and> (at_scheme tok = Bearer \<longrightarrow> (\<exists>t res. a = Tool_Ran t res)))"

definition sent_by :: "config \<Rightarrow> app_event list \<Rightarrow> http_request \<Rightarrow> bool" where
  "sent_by cfg es q \<longleftrightarrow> (case rq_auth q of None \<Rightarrow> True | Some h \<Rightarrow> credential_in cfg es h)"

lemma credential_in_mono: "credential_in cfg es h \<Longrightarrow> set es \<subseteq> set fs \<Longrightarrow> credential_in cfg fs h"
  unfolding credential_in_def by blast

lemma sent_by_mono: "sent_by cfg es q \<Longrightarrow> set es \<subseteq> set fs \<Longrightarrow> sent_by cfg fs q"
  by (auto simp: sent_by_def credential_in_mono split: option.splits)

text \<open>Authentication sends an app password at most, and a tool what its request presented.\<close>

lemma authentication_sends:
  assumes "bearer_auth X (incoming.truncate (mcp_http.truncate rq)) s = (v, t)"
  shows "\<exists>new. trace t = trace s @ new \<and> list_all (sent_by (auth_config X) [Served rq a]) new"
proof -
  have basic: "sent_by (auth_config X) [Served rq a] q"
    if "rq_auth q = Some (''Basic '' @ b)" "allow_app_password (auth_config X)"
      "extract_basic (in_authorization rq) = Some b" for q b
    using that by (auto simp: sent_by_def credential_in_def presented_by_def header_value_def
        intro!: exI [of _ "\<lparr>at_scheme = Basic, at_secret = b\<rparr>"])
  show ?thesis
    using authentication_requests [OF assms] basic extract_credential_cases
    by (fastforce simp: list_all_iff sent_by_def split: option.splits presented.splits)
qed

lemma tool_sends:
  assumes "tool_router X \<lparr>cx_identity = i, cx_token = Some tok\<rparr> r s = Some (res, t)"
    and "presented_by (auth_config X) (mcp_http.truncate rq) tok"
  shows "\<exists>new. trace t = trace s @ new \<and> list_all (sent_by (auth_config X) [Served rq (Tool_Ran r res)]) new"
proof -
  let ?ctx = "\<lparr>cx_identity = i, cx_token = Some tok\<rparr>"
  obtain new where new: "trace t = trace s @ new" "list_all (for_ctx confined ?ctx) new"
    using confinement.tool_router_emits assms(1) unfolding run_emits_def by blast
  have "credential_in (auth_config X) [Served rq (Tool_Ran r res)] (header_value tok)"
    using assms(2) by (auto simp: credential_in_def)
  then have "for_ctx confined ?ctx q \<Longrightarrow> sent_by (auth_config X) [Served rq (Tool_Ran r res)] q" for q
    by (auto simp: for_ctx_def confined_def carries_def sent_by_def fetch_request_def)
  then show ?thesis using new by (auto simp: list_all_iff)
qed

lemma tool_notes:
  assumes "tool_router X \<lparr>cx_identity = i, cx_token = Some tok\<rparr> r s = Some (res, t)"
  shows "\<exists>new. spawned t = spawned s @ new \<and> (\<forall>n \<in> set new. an_token n = header_value tok)"
proof -
  let ?ctx = "\<lparr>cx_identity = i, cx_token = Some tok\<rparr>"
  have "spawned t = spawned s @ notes_of (audit_registry t) ?ctx (tool_name r) (note_of r) res"
    using tool_router_audited assms unfolding audited_def by blast
  then show ?thesis
    by (auto simp: notes_of_def option_list_def audit_note_for_def bind_eq_Some_conv split: option.splits if_splits)
qed

text \<open>What one served request sends, and whose the notes are that it leaves.\<close>

lemma served_credentials:
  assumes "app_serve A rq s = Some (a, s1)"
  shows "(\<exists>new. trace (svc s1) = trace (svc s) @ new \<and> list_all (sent_by (auth_config A) [Served rq a]) new)
    \<and> (\<exists>new. spawned (svc s1) = spawned (svc s) @ new
         \<and> (\<forall>n \<in> set new. credential_in (auth_config A) [Served rq a] (an_token n)))"
  using assms
proof (cases rule: app_serve_cases)
  case (Refused r t)
  obtain v s2 where b: "bearer_auth (service_of A) (incoming.truncate (mcp_http.truncate rq)) (svc s) = (v, s2)"
    by (cases "bearer_auth (service_of A) (incoming.truncate (mcp_http.truncate rq)) (svc s)")
  have "svc t = s2" using Refused(2) by (cases rule: mcp_layers_cases) (simp_all add: b)
  then show ?thesis
    using Refused authentication_sends [OF b, of a] same_tools.bearer_auth_related [OF b]
    by (simp add: same_tools_def)
next
  case (Inside ext t)
  obtain ident tok where ext: "ext = \<lparr>ex_token = Some tok, ex_identity = Some ident\<rparr>"
    and b: "bearer_auth (service_of A) (incoming.truncate (mcp_http.truncate rq)) (svc s) = (Admitted ident tok, svc t)"
    using Inside(2) by (cases rule: mcp_layers_cases) auto
  note own = admitted_presents [OF b]
  obtain n1 where n1: "trace (svc t) = trace (svc s) @ n1" "list_all (sent_by (auth_config A) [Served rq a]) n1"
    using authentication_sends [OF b, of a] by auto
  have same: "spawned (svc t) = spawned (svc s)"
    using same_tools.bearer_auth_related [OF b] by (simp add: same_tools_def)
  from Inside(3) show ?thesis
  proof (cases rule: serve_inner_cases)
    case (Inert r0)
    then show ?thesis using n1 same by auto
  next
    case (Tool c res t1)
    then have run: "tool_router (service_of A) \<lparr>cx_identity = Some ident, cx_token = Some tok\<rparr> c (svc t) = Some (res, t1)"
      by (simp add: ext ctx_of_def)
    obtain n2 where n2: "trace t1 = trace (svc t) @ n2" "list_all (sent_by (auth_config A) [Served rq a]) n2"
      using tool_sends [OF run] own Tool by auto
    obtain m where m: "spawned t1 = spawned (svc t) @ m" "\<forall>n \<in> set m. an_token n = header_value tok"
      using tool_notes [OF run] by blast
    have "credential_in (auth_config A) [Served rq a] (header_value tok)"
      using own Tool by (auto simp: credential_in_def)
    then show ?thesis using Tool n1 n2 m same by auto
  qed
next
  case (Public r)
  have "public_effect A s r s1" by (rule serve_public_effect [OF Public(2)])
  then show ?thesis by (auto simp: public_effect_def sent_by_def anonymous_def list_all_iff)
qed simp_all

lemma run_credentials:
  assumes "app_run B s0 es s" and "trace (svc s0) = []" "spawned (svc s0) = []"
  shows "(\<forall>q \<in> set (trace (svc s)). sent_by (auth_config B) es q)
    \<and> (\<forall>n \<in> set (spawned (svc s)). credential_in (auth_config B) es (an_token n))"
  using assms(1)
proof induction
  case started
  then show ?case using assms(2,3) by simp
next
  case (continued es s e s1)
  have old: "\<forall>q \<in> set (trace (svc s)). sent_by (auth_config B) (es @ [e]) q"
      "\<forall>n \<in> set (spawned (svc s)). credential_in (auth_config B) (es @ [e]) (an_token n)"
    using continued.IH by (auto intro: sent_by_mono credential_in_mono)
  from continued.hyps(2) show ?case
  proof (cases rule: app_step_cases)
    case (serve rq a)
    obtain n m where n: "trace (svc s1) = trace (svc s) @ n" "list_all (sent_by (auth_config B) [e]) n"
      and m: "spawned (svc s1) = spawned (svc s) @ m" "\<forall>x \<in> set m. credential_in (auth_config B) [e] (an_token x)"
      using served_credentials [OF serve(2)] serve(1) by auto
    have "\<forall>q \<in> set n. sent_by (auth_config B) (es @ [e]) q"
        "\<forall>x \<in> set m. credential_in (auth_config B) (es @ [e]) (an_token x)"
      using n(2) m(2) by (auto simp: list_all_iff intro: sent_by_mono credential_in_mono)
    with old n(1) m(1) show ?thesis by auto
  next
    case (write_note i r t)
    note task = audit_task_related [OF write_note(5)]
    obtain n where n: "trace t = trace (svc s) @ n" "list_all (carries (an_token (spawned (svc s) ! i))) n"
      using task(5) by blast
    have "credential_in (auth_config B) (es @ [e]) (an_token (spawned (svc s) ! i))"
      using old(2) write_note(3) by simp
    then have "\<forall>q \<in> set n. sent_by (auth_config B) (es @ [e]) q"
      using n(2) by (auto simp: list_all_iff carries_def sent_by_def)
    with old n(1) task(2) write_note show ?thesis by auto
  next
    case (elapse w)
    then show ?thesis using old by simp
  qed
qed

text \<open>
  C1. Whose credentials the server uses, over any run: every credential in any request it has sent, for
  authentication, for a tool or for an audit note, was presented by a request that it served; a bearer token
  only if that request was let through to a tool, an app password only where the deployment allows them.
\<close>

theorem run_sends_presented_credentials:
  assumes "app_start cfg A w = Inr (B, s0)" and "app_run B s0 es s"
    and "q \<in> set (trace (svc s))" and "rq_auth q = Some h"
  shows "\<exists>rq a tok. Served rq a \<in> set es \<and> h = header_value tok
    \<and> (case at_scheme tok of
         Bearer \<Rightarrow> extract_bearer (in_authorization rq) = Some (at_secret tok) \<and> (\<exists>t res. a = Tool_Ran t res)
       | Basic \<Rightarrow> extract_basic (in_authorization rq) = Some (at_secret tok) \<and> allow_app_password cfg)"
proof -
  have "sent_by cfg es q"
    using run_credentials [OF assms(2)] app_start_ok(2-4) [OF assms(1)] assms(3) by auto
  then obtain rq a tok where "Served rq a \<in> set es" "presented_by cfg (mcp_http.truncate rq) tok" "h = header_value tok"
      "at_scheme tok = Bearer \<longrightarrow> (\<exists>t res. a = Tool_Ran t res)"
    using assms(4) by (auto simp: sent_by_def credential_in_def)
  then show ?thesis
    by (intro exI [of _ rq] exI [of _ a] exI [of _ tok])
      (auto simp: presented_by_def split: auth_scheme.splits)
qed

section \<open>The audit trail\<close>

fun tool_run :: "app_event \<Rightarrow> (tool_request \<times> (error_data + json)) option" where
  "tool_run (Served rq (Tool_Ran t res)) = Some (t, res)"
| "tool_run _ = None"

definition describes :: "tool_event \<Rightarrow> tool_request \<times> (error_data + json) \<Rightarrow> bool" where
  "describes ev run \<longleftrightarrow>
     (case run of (t, res) \<Rightarrow> te_method ev = tool_name t
        \<and> te_resource ev = map_option (\<lambda>r. if is_safe_id r then r else ''<invalid>'') (tool_resource t)
        \<and> te_outcome ev = (case res of Inr _ \<Rightarrow> ''ok''
             | Inl e \<Rightarrow> if err_code e = RATE_LIMITED_CODE then ''rate_limited'' else ''error'')
        \<and> te_error_class ev = (case res of Inr _ \<Rightarrow> None | Inl e \<Rightarrow> Some (error_class e)))"

lemma layers_audit:
  assumes "mcp_layers X rq s = (v, t)"
  shows "audit_log (svc t) = audit_log (svc s)"
proof -
  obtain a s1 where b: "bearer_auth X (incoming.truncate rq) (svc s) = (a, s1)"
    by (cases "bearer_auth X (incoming.truncate rq) (svc s)")
  have "svc t = s1" using assms by (cases rule: mcp_layers_cases) (simp_all add: b)
  then show ?thesis using same_tools.bearer_auth_related [OF b] by (simp add: same_tools_def)
qed

lemma served_audit:
  assumes "app_serve A rq s = Some (a, s1)"
  shows "\<exists>evs. audit_log (svc s1) = audit_log (svc s) @ evs
    \<and> list_all2 describes evs (List.map_filter tool_run [Served rq a])"
  using assms
proof (cases rule: app_serve_cases)
  case (Refused r t)
  then show ?thesis using layers_audit [OF Refused(2)] by (simp add: map_filter_simps)
next
  case (Inside ext t)
  from Inside(3) show ?thesis
  proof (cases rule: serve_inner_cases)
    case (Inert r0)
    then show ?thesis using layers_audit [OF Inside(2)] by (simp add: map_filter_simps)
  next
    case (Tool c res t1)
    then have "tool_router (service_of A) (ctx_of ext) c (svc t) = Some (res, t1)" by simp
    then obtain n el where "audit_log t1 = audit_log (svc t)
        @ [event_of (ctx_of ext) (tool_name c) (tool_resource c) el n res]"
      using tool_router_audited unfolding audited_def logged_def by blast
    then show ?thesis using Tool layers_audit [OF Inside(2)]
      by (auto simp: map_filter_simps describes_def event_of_def tool_call_event_def tool_outcome_def split: sum.split)
  qed
next
  case (Public r)
  have "public_effect A s r s1" by (rule serve_public_effect [OF Public(2)])
  then show ?thesis using Public(3) by (auto simp: public_effect_def map_filter_simps)
qed (simp_all add: map_filter_simps)

lemma run_audit_trail:
  assumes "app_start cfg A w = Inr (B, s0)" and "app_run B s0 es s"
  shows "list_all2 describes (audit_log (svc s)) (List.map_filter tool_run es)"
  using assms(2)
proof induction
  case started
  then show ?case using app_start_ok(5) [OF assms(1)] by (simp add: map_filter_simps)
next
  case (continued es s e s1)
  have "\<exists>evs. audit_log (svc s1) = audit_log (svc s) @ evs \<and> list_all2 describes evs (List.map_filter tool_run [e])"
    using continued.hyps(2)
  proof (cases rule: app_step_cases)
    case (serve rq a)
    then show ?thesis using served_audit by blast
  next
    case (write_note i r t)
    then show ?thesis using audit_task_related(3) [OF write_note(5)] by (simp add: map_filter_simps)
  next
    case (elapse w)
    then show ?thesis by (simp add: map_filter_simps)
  qed
  then show ?case using continued.IH
    by (auto simp: List.map_filter_def intro: list_all2_appendI)
qed

text \<open>
  C5. The audit trail of a run is complete and exact: it has one event for each tool that ran, in the order
  in which they ran, with the tool's name, the resource its request named, and the outcome its caller got; nothing
  else writes an event.
\<close>

theorem audit_trail_complete:
  assumes "app_start cfg A w = Inr (B, s0)" and "app_run B s0 es s"
  shows "list_all2 describes (audit_log (svc s)) (List.map_filter tool_run es)"
  by (rule run_audit_trail [OF assms])

section \<open>The metrics\<close>

interpretation app_metrics:
  app_relation "\<lambda>s s1. metrics_ok (svc s) (audit_log (svc s)) \<longrightarrow> metrics_ok (svc s1) (audit_log (svc s1))" A
  for A :: "('w, 'k, 'b) app"
proof (unfold_locales, goal_cases)
  case (3 rq s v t)
  obtain a s1 where b: "bearer_auth (service_of A) (incoming.truncate rq) (svc s) = (a, s1)"
    by (cases "bearer_auth (service_of A) (incoming.truncate rq) (svc s)")
  have "svc t = s1" using 3 by (cases rule: mcp_layers_cases) (simp_all add: b)
  then show ?case using auth_metrics.bearer_auth_related [OF b] by simp
next
  case (4 ctx c s res t1)
  then show ?case
    using run_metrics.tool_router_preserves [unfolded run_preserves_def, rule_format, OF 4] by simp
next
  case (5 s r s1)
  then show ?case by (auto simp: public_effect_def metrics_ok_def)
next
  case (6 i s u t1)
  then show ?case using preservesD [OF run_metrics.preserves_audit_task 6(3)] by simp
next
  case (7 s w)
  then show ?case by (simp add: metrics_ok_def)
qed simp_all

lemma describes_outcome:
  "describes ev (t, res) \<Longrightarrow> te_method ev = tool_name t \<and> te_outcome ev = fst (tool_outcome res)"
  by (auto simp: describes_def tool_outcome_def split: sum.split)

lemma describes_counts:
  assumes "list_all2 describes events runs"
  shows "length (filter (\<lambda>e. te_method e = tool \<and> te_outcome e = out) events)
    = length (filter (\<lambda>(t, res). tool_name t = tool \<and> fst (tool_outcome res) = out) runs)"
  using assms
proof (induction rule: list_all2_induct)
  case (Cons e events run runs)
  then show ?case by (cases run) (auto dest: describes_outcome)
qed simp

definition known_labels :: "string set" where
  "known_labels = range tool_name \<union> {''ok'', ''error'', ''rate_limited'', ''active'', ''inactive''}"

text \<open>
  C6. The metrics of a run count what happened, and name nobody: the counter of a tool and an outcome is the
  number of times the tool ran with that outcome, the counters of token validation agree with its log, and every
  label ever recorded is the name of a tool or one of five outcomes, so that neither an identity nor anything
  a caller sent can be one.
\<close>

theorem metrics_account:
  assumes "app_start cfg A w = Inr (B, s0)" and "app_run B s0 es s"
  shows "counter Tool_Calls_Total [tool, out] (metrics (svc s))
      = length (filter (\<lambda>(t, res). tool_name t = tool \<and> fst (tool_outcome res) = out) (List.map_filter tool_run es))
    \<and> counter Introspect_Total [out] (metrics (svc s))
      = length (filter (\<lambda>e. ie_outcome e = out) (introspect_log (svc s)))
    \<and> (\<forall>x \<in> set (metrics (svc s)). well_labelled x
         \<and> (case x of
              Inc f labels \<Rightarrow> f \<in> {Tool_Calls_Total, Introspect_Total} \<and> set labels \<subseteq> known_labels
            | Observe f labels d \<Rightarrow>
                f \<in> {Tool_Latency_Seconds, Introspect_Latency_Seconds} \<and> set labels \<subseteq> known_labels))"
proof -
  have ok: "metrics_ok (svc s) (audit_log (svc s))"
    using app_metrics.run_related [OF assms(2)] app_start_ok(5,7,9) [OF assms(1)] by (simp add: metrics_ok_def)
  have labels: "bounded_label x \<Longrightarrow> well_labelled x
      \<and> (case x of
            Inc f labels \<Rightarrow> f \<in> {Tool_Calls_Total, Introspect_Total} \<and> set labels \<subseteq> known_labels
          | Observe f labels d \<Rightarrow>
              f \<in> {Tool_Latency_Seconds, Introspect_Latency_Seconds} \<and> set labels \<subseteq> known_labels)" for x
    by (cases x rule: bounded_label.cases)
      (auto simp: known_labels_def metric_labels_def metric_buckets_def TOOL_LATENCY_BUCKETS_def INTROSPECT_LATENCY_BUCKETS_def
        split: metric_family.splits)
  have bounded: "\<forall>x \<in> set (metrics (svc s)). bounded_label x"
    using ok by (simp add: metrics_ok_def list_all_iff)
  show ?thesis
  proof (intro conjI)
    show "counter Tool_Calls_Total [tool, out] (metrics (svc s))
      = length (filter (\<lambda>(t, res). tool_name t = tool \<and> fst (tool_outcome res) = out) (List.map_filter tool_run es))"
      using ok describes_counts [OF run_audit_trail [OF assms]] by (simp only: metrics_ok_def)
    show "counter Introspect_Total [out] (metrics (svc s))
      = length (filter (\<lambda>e. ie_outcome e = out) (introspect_log (svc s)))"
      using ok by (simp only: metrics_ok_def)
  qed (use bounded labels in blast)
qed

end
