(* ===== verification/Routes.thy ===== *)
theory Routes
  imports Runs
begin

text \<open>
  What the routes of the running server promise: which of them are guarded, where they redirect, and that
  the documents lead a client from one to the next. The theorems on runs are applied at the end to a
  small server, started from a configuration.
\<close>

section \<open>The routes\<close>

lemma layers_refused:
  "bearer_auth X (incoming.truncate rq) (svc s) = (Rejected r, s1) \<Longrightarrow> mcp_layers X rq s = (Inl (answer_of r), s\<lparr>svc := s1\<rparr>)"
  by (simp add: mcp_layers_def)

text \<open>A tool runs as the transport's call said.\<close>

definition called :: "('w, 'k, 'b) app \<Rightarrow> app_request \<Rightarrow> tool_request \<Rightarrow> bool" where
  "called A rq t \<longleftrightarrow> (\<exists>w name args. mcp_transport A w rq = Calls name args \<and> read_call name args = Inr t)"

lemma only_mcp_runs_tools: "serve_inner A r rq ext s = Some (Tool_Ran t res, s1) \<Longrightarrow> r = Mcp \<and> called A rq t"
  by (erule serve_inner_cases) (auto simp: called_def)

lemma mcp_paths: "route_of p = Mcp \<longleftrightarrow> p = ''/mcp'' \<or> prefix ''/mcp/'' p"
  by (auto simp: route_of_def)

text \<open>
  C2. The protected routes are guarded and the public ones are harmless: a tool runs, and a protected route
  answers with anything but a refusal (401, 413, 429 or 500), only for a request under \<^verbatim>\<open>/mcp\<close>, at the
  introspection endpoint or off every route that is admitted with the credential it presents, and the tool is the one
  that the call names, with the arguments of the call; a request to a
  public route runs no tool, sends at most one request, without a credential, and changes nothing but the
  pending authorizations.
\<close>

theorem routes_guarded:
  assumes "app_serve A rq s = Some (a, s1)"
  shows "if protected_route (route_of (in_path rq)) then
      (\<exists>ident tok. fst (bearer_auth (service_of A) (incoming.truncate (mcp_http.truncate rq)) (svc s)) = Admitted ident tok
         \<and> presented_by (auth_config A) (mcp_http.truncate rq) tok
         \<and> (\<forall>t res. a = Tool_Ran t res \<longrightarrow>
              (in_path rq = ''/mcp'' \<or> prefix ''/mcp/'' (in_path rq)) \<and> called A rq t))
      \<or> (\<exists>r. a = Answered r \<and> rs_status r \<in> {401, 413, 500} \<and> authorizations s1 = authorizations s
           \<and> audit_log (svc s1) = audit_log (svc s) \<and> spawned (svc s1) = spawned (svc s)
           \<and> limiter (svc s1) = limiter (svc s) \<and> initialize_limiter s1 = initialize_limiter s)
    else (\<exists>r. a = Answered r)
      \<and> (\<exists>w new g. s1 = s\<lparr>svc := (svc s)\<lparr>world := w, trace := trace (svc s) @ new\<rparr>, authorizations := g\<rparr>
           \<and> length new \<le> 1 \<and> list_all (\<lambda>q. rq_auth q = None) new)"
proof -
  let ?X = "service_of A" and ?rq = "mcp_http.truncate rq"
  let ?admitted = "\<exists>ident tok. fst (bearer_auth ?X (incoming.truncate ?rq) (svc s)) = Admitted ident tok
         \<and> presented_by (auth_config A) ?rq tok
         \<and> (\<forall>t res. a = Tool_Ran t res \<longrightarrow>
              (in_path rq = ''/mcp'' \<or> prefix ''/mcp/'' (in_path rq)) \<and> called A rq t)"
  have admitted: ?admitted
    if "bearer_auth ?X (incoming.truncate ?rq) (svc s) = (Admitted ident tok, u)"
      "\<forall>t res. a = Tool_Ran t res \<longrightarrow> route_of (in_path rq) = Mcp \<and> called A rq t" for ident tok u
    using admitted_presents [OF that(1)] that mcp_paths by auto
  from assms show ?thesis
  proof (cases rule: app_serve_cases)
    case (Too_Large len)
    then show ?thesis by (simp add: payload_too_large_def plain_def)
  next
    case (Refused r t)
    show ?thesis
    proof (cases "fst (bearer_auth ?X (incoming.truncate ?rq) (svc s))")
      case (Admitted ident tok)
      then have "bearer_auth ?X (incoming.truncate ?rq) (svc s)
          = (Admitted ident tok, snd (bearer_auth ?X (incoming.truncate ?rq) (svc s)))" by (metis prod.collapse)
      from admitted [OF this] show ?thesis using Refused by simp
    next
      case (Rejected r1)
      then obtain u where u: "bearer_auth ?X (incoming.truncate ?rq) (svc s) = (Rejected r1, u)"
        by (metis prod.collapse)
      then have "r = answer_of r1" "t = (server_state.truncate s)\<lparr>svc := u\<rparr>"
        using layers_refused [of ?X ?rq "server_state.truncate s" r1 u] Refused(2) by auto
      then show ?thesis
        using Refused rejected_status [OF u] same_tools.bearer_auth_related [OF u]
        by (auto simp: same_tools_def)
    qed
  next
    case (Inside ext t)
    obtain ident tok where "bearer_auth ?X (incoming.truncate ?rq) (svc s) = (Admitted ident tok, svc t)"
      using Inside(2) by (cases rule: mcp_layers_cases) auto
    moreover have "\<forall>t res. a = Tool_Ran t res \<longrightarrow> route_of (in_path rq) = Mcp \<and> called A rq t"
      using Inside(3) only_mcp_runs_tools by blast
    ultimately have ?admitted by (rule admitted)
    then show ?thesis using Inside(1) by simp
  next
    case Not_Allowed
    then have "public_effect A s (empty_answer 405) s1"
      by (simp add: unchanged_effect empty_answer_def)
    then show ?thesis using Not_Allowed by (auto simp: public_effect_def anonymous_def [abs_def])
  next
    case (Public r)
    have "public_effect A s r s1" by (rule serve_public_effect [OF Public(2)])
    then show ?thesis using Public(1,3) by (auto simp: public_effect_def anonymous_def [abs_def])
  qed
qed


text \<open>
  C25. No open redirect: whatever authorizations were started and however the callback is called, a
  redirect of a public route leads to the issuer's login page or to a redirect URI that is on the
  configured allowlist.
\<close>

theorem no_open_redirect:
  assumes "app_start cfg A w = Inr (B, s0)" and "app_run B s0 es s"
    and "app_serve B rq s = Some (Answered a, s1)" and "\<not> protected_route (route_of (in_path rq))"
    and "rs_location a = Some u"
  shows "(\<exists>form. u = trim_end_matches CHR ''/'' (authorization_server cfg) @ ''/auth?'' @ form)
    \<or> (\<exists>uri url ps. is_allowed_redirect_uri (parse_url B) (oauth_redirect_uris cfg) uri
         \<and> parse_url B uri = Inr url \<and> u = url_append_pairs B url ps)"
proof -
  have ok: "authorizations_ok B (authorizations s)"
    using app_run_ok [OF assms(2) app_start_ok(1) [OF assms(1)]] by (simp add: app_ok_def)
  have "safe_location B (authorizations s) (rs_location a)"
    using assms(3)
  proof (cases rule: app_serve_cases)
    case Not_Allowed
    then show ?thesis by (simp add: safe_location_def answer_of_def response.defs empty_answer_def)
  next
    case (Public r)
    have "public_effect B s r s1" by (rule serve_public_effect [OF Public(2)])
    then have "safe_location B (authorizations s) (rs_location r)" by (auto simp: public_effect_def)
    moreover have "rs_location a = rs_location r"
      using Public(3) by (simp add: answer_of_def response.defs for_method_def)
    ultimately show ?thesis by simp
  qed (use assms(4) in simp_all)
  then show ?thesis
    using assms(5) ok app_start_ok(2) [OF assms(1)]
    by (fastforce simp: safe_location_def authorizations_ok_def)
qed

section \<open>Discovery\<close>

text \<open>
  C26. A client that starts from nothing finds its way: a request to \<^verbatim>\<open>/mcp\<close> without a credential is answered
  401 with the address of the resource document; the document there names this server's \<^verbatim>\<open>/mcp\<close> as the
  resource and its origin as the authorization server; the origin's metadata names addresses of the
  origin that are routed to the handlers of the login, of the token exchange and, exactly when
  registration is configured, of the registration.
\<close>

theorem discovery_leads_home:
  assumes "auth_config A = cfg" and "trim_end_matches CHR ''/'' (resource_url cfg) = resource_url cfg"
    and "valid_header_value (www_authenticate_header (resource_url cfg))"
    and "in_path rq = ''/mcp''" "in_authorization rq = None" "ap_content_length rq = None"
    and "in_path rq1 = ''/.well-known/oauth-protected-resource/mcp''" "in_method rq1 = ''GET''"
    and "in_path rq2 = ''/.well-known/oauth-authorization-server''" "in_method rq2 = ''GET''"
  shows "\<exists>a a1 a2 doc1 doc2.
      app_serve A rq s = Some (Answered a, s) \<and> rs_status a = 401
    \<and> rs_www_authenticate a = Some (''Bearer resource_metadata='' @ quoted (resource_url cfg @ in_path rq1))
    \<and> app_serve A rq1 s = Some (Answered a1, s) \<and> rs_status a1 = 200 \<and> rs_body a1 = Json_Text doc1
    \<and> get_str doc1 ''resource'' = Some (resource_url cfg @ ''/mcp'')
    \<and> get_array doc1 ''authorization_servers'' = Some [JStr (resource_url cfg)]
    \<and> app_serve A rq2 s = Some (Answered a2, s) \<and> rs_status a2 = 200 \<and> rs_body a2 = Json_Text doc2
    \<and> get_str doc2 ''issuer'' = Some (resource_url cfg)
    \<and> (\<forall>name p r m. (name, p, r, m) \<in> {(''authorization_endpoint'', ''/authorize'', Authorize, ''GET''),
           (''token_endpoint'', ''/token'', Token, ''POST'')} \<longrightarrow>
         get_str doc2 name = Some (resource_url cfg @ p) \<and> route_of p = r \<and> method_allowed r m)
    \<and> get_str doc2 ''registration_endpoint'' = map_option (\<lambda>_. resource_url cfg @ ''/register'') (dcr_client_id cfg)
    \<and> route_of ''/register'' = Register \<and> method_allowed Register ''POST''"
proof -
  let ?u = "resource_url cfg"
  let ?a = "unauthorized (www_authenticate_header ?u)"
  let ?d1 = "protected_resource_json (protected_resource_from_config cfg)"
  let ?d2 = "authorization_server_json (authorization_server_from_config cfg)"
  have "extract_credential None b = None" for b
    by (simp add: extract_credential_def extract_bearer_def extract_basic_def extract_scheme_def)
  then have "bearer_auth (service_of A) (incoming.truncate (mcp_http.truncate rq)) (svc s) = (Rejected ?a, svc s)"
    using assms(1,5) by (simp add: bearer_auth_def)
  then have "mcp_layers (service_of A) (mcp_http.truncate rq) (server_state.truncate s)
      = (Inl (answer_of ?a), server_state.truncate s)"
    using layers_refused [of "service_of A" "mcp_http.truncate rq" "server_state.truncate s"] by simp
  moreover have routes: "route_of ''/mcp'' = Mcp" "route_of ''/register'' = Register"
    "route_of ''/authorize'' = Authorize" "route_of ''/token'' = Token"
    "route_of ''/.well-known/oauth-protected-resource/mcp'' = Protected_Resource"
    "route_of ''/.well-known/oauth-authorization-server'' = Authorization_Server"
    by (simp_all add: route_of_def)
  ultimately have 0: "app_serve A rq s = Some (Answered (answer_of ?a), s)"
    using assms(4,6) by (simp add: app_serve_def protected_route_def on_server_def)
  have 1: "app_serve A rq1 s = Some (Answered (answer_of (json_ok ?d1)), s)"
    using assms(1,7,8) by (simp add: app_serve_def routes protected_route_def method_allowed_def serve_public_def for_method_def)
  have 2: "app_serve A rq2 s = Some (Answered (answer_of (json_ok ?d2)), s)"
    using assms(1,9,10) by (simp add: app_serve_def routes protected_route_def method_allowed_def serve_public_def for_method_def)
  have d1: "get_str ?d1 ''resource'' = Some (?u @ ''/mcp'')"
    "get_array ?d1 ''authorization_servers'' = Some [JStr ?u]"
    using assms(2) by (simp_all add: protected_resource_json_def protected_resource_from_config_def mcp_resource_def
        get_str_def get_array_def jstrs_def)
  have d2: "get_str ?d2 ''issuer'' = Some ?u"
    "get_str ?d2 ''authorization_endpoint'' = Some (?u @ ''/authorize'')"
    "get_str ?d2 ''token_endpoint'' = Some (?u @ ''/token'')"
    "get_str ?d2 ''registration_endpoint'' = map_option (\<lambda>_. ?u @ ''/register'') (dcr_client_id cfg)"
    by (cases "dcr_client_id cfg"; simp add: authorization_server_json_def authorization_server_from_config_def
        Let_def get_str_def get_array_def)+
  show ?thesis
    by (rule exI [of _ "answer_of ?a"], rule exI [of _ "answer_of (json_ok ?d1)"],
        rule exI [of _ "answer_of (json_ok ?d2)"], rule exI [of _ ?d1], rule exI [of _ ?d2])
      (use 0 1 2 d1 d2 routes assms(2,3,7) in \<open>simp add: answer_of_def response.defs json_ok_def
         unauthorized_def www_authenticate_header_def challenge_def plain_def method_allowed_def Let_def\<close>)
qed

section \<open>Witnesses\<close>

definition sample_app_config :: config where
  "sample_app_config = sample_config\<lparr>oauth_redirect_uris := [''https://c.x/cb'']\<rparr>"

definition sample_app :: "(nat, unit, nat) app" where
  "sample_app =
     service.extend (sample_service\<lparr>parse_url := sample_url_parser\<rparr>)
       \<lparr>url_form_parse = sample_form_parse, url_form_write = sample_form_write,
        url_append_pairs = (\<lambda>u ps. u_text u @ ''?'' @ sample_form_write ps), thread_rng = (\<lambda>_. ''r1''),
        pkg_version = ''0.2.21'', mcp_transport = (\<lambda>_ _. Calls ''mark_read'' [(''email_ids'', JArr [JStr ''e''])]),
        call_refused = (\<lambda>_. answer_of (plain 200 [])),
        encode_metrics = (\<lambda>_. Inr []), read_utf8 = Some\<rparr>"

definition sample_booted :: "(nat, unit, nat) app \<times> (nat, unit, nat) app_state" where
  "sample_booted = projr (app_start sample_app_config sample_app 5)"

lemma sample_boot: "app_start sample_app_config sample_app 5 = Inr (fst sample_booted, snd sample_booted)"
proof -
  have "\<not> isl (app_start sample_app_config sample_app 5)" by code_simp
  then show ?thesis by (cases "app_start sample_app_config sample_app 5") (simp_all add: sample_booted_def)
qed

definition sample_app_request :: "string \<Rightarrow> string \<Rightarrow> string option \<Rightarrow> app_request" where
  "sample_app_request m p q =
     \<lparr>in_authorization = Some ''Bearer t'', in_forwarded_for = None, in_path = p, in_method = m,
      in_session_id = Some ''s1'', ap_query = q, ap_content_length = None, ap_form = Inr [], ap_json = None\<rparr>"

definition sample_tool_call :: app_request where
  "sample_tool_call = sample_app_request ''POST'' ''/mcp'' None"

definition sample_after_tool :: "app_answer \<times> (nat, unit, nat) app_state" where
  "sample_after_tool = the (app_serve (fst sample_booted) sample_tool_call (snd sample_booted))"

lemma sample_tool_eval:
  "let (a, s1) = sample_after_tool
   in a = Tool_Ran sample_write (Inr (mark_seen_json [''e''] 1)) \<and> length (trace (svc s1)) = 3 \<and> length (audit_log (svc s1)) = 1
      \<and> rq_auth (trace (svc s1) ! 2) = Some ''Bearer t''"
  by code_simp

lemma sample_tool_serve:
  "app_serve (fst sample_booted) sample_tool_call (snd sample_booted)
     = Some (Tool_Ran sample_write (Inr (mark_seen_json [''e''] 1)), snd sample_after_tool)"
proof -
  have "app_serve (fst sample_booted) sample_tool_call (snd sample_booted) \<noteq> None" by code_simp
  then show ?thesis
    using sample_tool_eval by (auto simp: sample_after_tool_def Let_def split: prod.splits)
qed

lemma sample_tool_run:
  "app_run (fst sample_booted) (snd sample_booted)
     [Served sample_tool_call (Tool_Ran sample_write (Inr (mark_seen_json [''e''] 1)))] (snd sample_after_tool)"
  using app_run.continued [OF app_run.started app_step.serve [OF sample_tool_serve]] by simp

theorem reachable_state_bounded_witness:
  "length (sessions (svc (snd sample_after_tool))) \<le> 256 \<and> length (trace (svc (snd sample_after_tool))) = 3"
  using reachable_state_bounded [OF sample_boot sample_tool_run] sample_tool_eval
  by (simp add: Let_def split_beta)

theorem run_sends_presented_credentials_witness:
  "\<exists>q \<in> set (trace (svc (snd sample_after_tool))). rq_auth q = Some ''Bearer t''
     \<and> (\<exists>tok. header_value tok = ''Bearer t''
          \<and> (at_scheme tok = Bearer \<longrightarrow> extract_bearer (in_authorization sample_tool_call) = Some (at_secret tok)))"
proof -
  let ?q = "trace (svc (snd sample_after_tool)) ! 2"
  have q: "?q \<in> set (trace (svc (snd sample_after_tool)))" "rq_auth ?q = Some ''Bearer t''"
    using sample_tool_eval by (auto simp: Let_def split_beta)
  obtain rq a tok where
    "Served rq a \<in> set [Served sample_tool_call (Tool_Ran sample_write (Inr (mark_seen_json [''e''] 1)))]" "''Bearer t'' = header_value tok"
    "case at_scheme tok of
       Bearer \<Rightarrow> extract_bearer (in_authorization rq) = Some (at_secret tok) \<and> (\<exists>t res. a = Tool_Ran t res)
     | Basic \<Rightarrow> extract_basic (in_authorization rq) = Some (at_secret tok) \<and> allow_app_password sample_app_config"
    using run_sends_presented_credentials [OF sample_boot sample_tool_run q] by blast
  then have "header_value tok = ''Bearer t''"
      "at_scheme tok = Bearer \<longrightarrow> extract_bearer (in_authorization sample_tool_call) = Some (at_secret tok)"
    by auto
  with q show ?thesis by blast
qed

theorem audit_trail_complete_witness:
  "list_all2 describes (audit_log (svc (snd sample_after_tool))) [(sample_write, Inr (mark_seen_json [''e''] 1))]"
  using audit_trail_complete [OF sample_boot sample_tool_run] by (simp add: map_filter_simps)

theorem metrics_account_witness:
  "counter Tool_Calls_Total [''mark_read'', ''ok''] (metrics (svc (snd sample_after_tool))) = 1
   \<and> list_all well_labelled (metrics (svc (snd sample_after_tool)))"
proof -
  have "length (filter (\<lambda>(t, res). tool_name t = ''mark_read'' \<and> fst (tool_outcome res) = ''ok'')
      (List.map_filter tool_run [Served sample_tool_call (Tool_Ran sample_write (Inr (mark_seen_json [''e''] 1)))])) = 1"
    by code_simp
  with metrics_account [OF sample_boot sample_tool_run, of "''mark_read''" "''ok''"]
  show ?thesis by (simp only: list_all_iff) blast
qed


theorem routes_guarded_witness:
  "\<exists>ident tok. fst (bearer_auth (service_of (fst sample_booted)) (incoming.truncate (mcp_http.truncate sample_tool_call))
       (svc (snd sample_booted))) = Admitted ident tok"
proof -
  have p: "protected_route (route_of (in_path sample_tool_call))" by code_simp
  have no: "Tool_Ran t res \<noteq> Answered r" for t res r by simp
  from routes_guarded [OF sample_tool_serve, unfolded if_P [OF p]] show ?thesis
    by (elim disjE exE conjE) (intro exI, assumption, erule notE [OF no])
qed


theorem discovery_leads_home_witness:
  "\<exists>a. app_serve sample_app ((sample_app_request ''POST'' ''/mcp'' None)\<lparr>in_authorization := None\<rparr>) (snd sample_booted)
       = Some (Answered a, snd sample_booted) \<and> rs_status a = 401"
proof -
  have u: "trim_end_matches CHR ''/'' (resource_url sample_config) = resource_url sample_config"
      "valid_header_value (www_authenticate_header (resource_url sample_config))" by code_simp+
  have c: "auth_config sample_app = sample_config"
    by (simp add: sample_app_def sample_service_def service.defs)
  show ?thesis
    using discovery_leads_home [OF c u, of "(sample_app_request ''POST'' ''/mcp'' None)\<lparr>in_authorization := None\<rparr>"
      "sample_app_request ''GET'' ''/.well-known/oauth-protected-resource/mcp'' None"
      "sample_app_request ''GET'' ''/.well-known/oauth-authorization-server'' None" "snd sample_booted"]
    by (auto simp: sample_app_request_def)
qed

text \<open>An authorization of an allowed client: it is sent to the issuer.\<close>

definition sample_authorize :: app_request where
  "sample_authorize = sample_app_request ''GET'' ''/authorize'' (Some ''redirect_uri=https://c.x/cb&state=abc'')"

lemma sample_authorize_eval:
  "case app_serve (fst sample_booted) sample_authorize (snd sample_booted) of
     Some (Answered a, s1) \<Rightarrow>
       rs_location a = Some ''https://l.x/auth?redirect_uri=https://m.x/oauth/callback&state=r1&''
     | _ \<Rightarrow> False"
  by code_simp

theorem no_open_redirect_witness:
  "\<exists>u. (\<exists>form. u = trim_end_matches CHR ''/'' (authorization_server sample_app_config) @ ''/auth?'' @ form)
     \<or> (\<exists>uri. is_allowed_redirect_uri (parse_url (fst sample_booted)) (oauth_redirect_uris sample_app_config) uri)"
proof -
  obtain a s1 u where r: "app_serve (fst sample_booted) sample_authorize (snd sample_booted) = Some (Answered a, s1)"
      "rs_location a = Some u"
    using sample_authorize_eval by (auto split: option.splits prod.splits app_answer.splits)
  have "\<not> protected_route (route_of (in_path sample_authorize))" by code_simp
  from no_open_redirect [OF sample_boot app_run.started r(1) this r(2)] show ?thesis by blast
qed

end
