(* ===== verification/Startup.thy ===== *)
theory Startup
  imports Routes
begin

text \<open>
  The start of the process: \<^verbatim>\<open>main\<close> and \<^verbatim>\<open>init_tracing\<close> of \<^verbatim>\<open>src/main.rs\<close>, \<^verbatim>\<open>src/telemetry.rs\<close>, and the life of an
  MCP session (\<^verbatim>\<open>src/session.rs\<close>). What the platform and the tracing libraries do is a parameter (\<open>platform\<close>);
  the sockets that were bound, the subscriber and the lines on stderr are part of the outcome.
\<close>

section \<open>Tracing\<close>

record ('f, 'x) platform =
  default_filter :: "environment \<Rightarrow> 'f option"
  new_filter :: "string \<Rightarrow> 'f"
  build_exporter :: "string \<Rightarrow> string + 'x"
  bind_tcp :: "socket_addr list \<Rightarrow> socket_addr \<Rightarrow> string option"

text \<open>The provider of an exporter with its resource attributes; it is registered globally as well.\<close>

record 'x tracer =
  tr_service_name :: string
  tr_service_version :: string
  tr_exporter :: 'x

text \<open>What it returns, and what it prints to stderr: a failure is not an error of the caller.\<close>

definition try_build_otel_layer ::
  "('f, 'x) platform \<Rightarrow> string \<Rightarrow> environment \<Rightarrow> 'x tracer option \<times> string list" where
  "try_build_otel_layer P version env =
     (case env_ok (env ''OTEL_EXPORTER_OTLP_ENDPOINT'') of
        None \<Rightarrow> (None, [])
      | Some endpoint \<Rightarrow>
          (case build_exporter P endpoint of
             Inl err \<Rightarrow>
               (None, [''jmap-mcp: OTLP exporter init failed: '' @ err @ ''; disabling OTel tracing''])
           | Inr e \<Rightarrow>
               (Some \<lparr>tr_service_name = ''jmap-mcp'', tr_service_version = version, tr_exporter = e\<rparr>, [])))"

datatype log_format = Json_Lines | Compact_Lines

record ('f, 'x) subscriber =
  sb_filter :: 'f
  sb_otel :: "'x tracer option"
  sb_format :: log_format

definition init_tracing ::
  "('f, 'x) platform \<Rightarrow> string \<Rightarrow> environment \<Rightarrow> ('f, 'x) subscriber \<times> string list" where
  "init_tracing P version env =
     (let env_filter = (case default_filter P env of
            None \<Rightarrow> new_filter P ''jmap_mcp=info,tower_http=info,axum=info,info'' | Some f \<Rightarrow> f);
          (otel_layer, lines) = try_build_otel_layer P version env;
          json_layer = (env ''JMAP_MCP_LOG_FORMAT'' = Present ''json'')
      in (\<lparr>sb_filter = env_filter, sb_otel = otel_layer,
           sb_format = (if json_layer then Json_Lines else Compact_Lines)\<rparr>, lines))"

section \<open>The main function\<close>

text \<open>
  How far the start came: the sockets that were bound, in order, and the running server or the error that \<^verbatim>\<open>main\<close>
  returns. A panic while the metrics are registered is \<open>None\<close>.
\<close>

record ('f, 'x, 'w, 'k, 'b) started_up =
  st_subscriber :: "('f, 'x) subscriber"
  st_stderr :: "string list"
  st_metrics :: "metric_family list"
  st_bound :: "socket_addr list"
  st_outcome :: "string + ('w, 'k, 'b) app \<times> ('w, 'k, 'b) app_state"

definition serving ::
  "('f, 'x) platform \<Rightarrow> environment \<Rightarrow> ('w, 'k, 'b) app \<Rightarrow> 'w
   \<Rightarrow> socket_addr list \<times> (string + ('w, 'k, 'b) app \<times> ('w, 'k, 'b) app_state)" where
  "serving P env A w =
     (case from_env (parse_url A) env of
        Inl e \<Rightarrow> ([], Inl e)
      | Inr cfg \<Rightarrow>
     (case app_start cfg A w of
        Inl e \<Rightarrow> ([], Inl e)
      | Inr running \<Rightarrow>
     (case bind_tcp P [] (bind_addr cfg) of
        Some e \<Rightarrow> ([], Inl e)
      | None \<Rightarrow>
     (case bind_tcp P [bind_addr cfg] (metrics_bind_addr cfg) of
        Some e \<Rightarrow> ([bind_addr cfg], Inl e)
      | None \<Rightarrow> ([bind_addr cfg, metrics_bind_addr cfg], Inr running)))))"

definition main_start ::
  "('f, 'x) platform \<Rightarrow> environment \<Rightarrow> ('w, 'k, 'b) app \<Rightarrow> 'w \<Rightarrow> ('f, 'x, 'w, 'k, 'b) started_up option" where
  "main_start P env A w =
     (case init_tracing P (pkg_version A) env of (sub, lines) \<Rightarrow>
        map_option (\<lambda>families.
            case serving P env A w of (bound, outcome) \<Rightarrow>
              \<lparr>st_subscriber = sub, st_stderr = lines, st_metrics = families, st_bound = bound,
               st_outcome = outcome\<rparr>)
          (metrics_init []))"

text \<open>\<^verbatim>\<open>tokio::select!\<close>: the branch that ends first decides; an error of a listener is the error of \<^verbatim>\<open>main\<close>.\<close>

datatype first_ended = Public_Listener "string option" | Metrics_Listener "string option" | Shutdown_Signal

definition main_result :: "first_ended \<Rightarrow> string + unit" where
  "main_result b =
     (case b of
        Public_Listener (Some e) \<Rightarrow> Inl e
      | Metrics_Listener (Some e) \<Rightarrow> Inl e
      | _ \<Rightarrow> Inr ())"

datatype unix_signal = SIGTERM | SIGINT | Other_Signal nat

definition shutdown_signal :: "unix_signal \<Rightarrow> bool" where
  "shutdown_signal s \<longleftrightarrow> s = SIGTERM \<or> s = SIGINT"

section \<open>The life of a session\<close>

text \<open>In nanoseconds.\<close>

definition SESSION_KEEP_ALIVE :: nat where
  "SESSION_KEEP_ALIVE = 30 * 60 * 10 ^ 9"

text \<open>The library's configuration of a session; only the field that is set is named.\<close>

record session_config =
  keep_alive :: "nat option"

definition inner_manager :: "'x session_config_scheme \<Rightarrow> 'x session_config_scheme" where
  "inner_manager d = d\<lparr>keep_alive := Some SESSION_KEEP_ALIVE\<rparr>"

definition capped_session_error_source :: "'e capped_session_error \<Rightarrow> 'e option" where
  "capped_session_error_source e = (case e of Inner_Error x \<Rightarrow> Some x | Cap_Reached \<Rightarrow> None)"

text \<open>The error of a session as the text of an I/O error.\<close>

definition io_error_of :: "('e \<Rightarrow> string) \<Rightarrow> 'e capped_session_error \<Rightarrow> string" where
  "io_error_of show e = capped_session_error_text show e"

section \<open>Laws\<close>

lemma metrics_init_fresh: "\<exists>fs. metrics_init [] = Some fs \<and> set fs = UNIV"
  by (rule metrics_init_idempotent [of "[]"]) blast

lemma serving_cases [consumes 1, case_names configuration application public metrics running]:
  assumes "serving P env A w = (bound, out)"
  obtains e where "from_env (parse_url A) env = Inl e" "bound = []" "out = Inl e"
  | cfg e where "from_env (parse_url A) env = Inr cfg" "app_start cfg A w = Inl e" "bound = []" "out = Inl e"
  | cfg e r where "from_env (parse_url A) env = Inr cfg" "app_start cfg A w = Inr r"
      "bind_tcp P [] (bind_addr cfg) = Some e" "bound = []" "out = Inl e"
  | cfg e r where "from_env (parse_url A) env = Inr cfg" "app_start cfg A w = Inr r"
      "bind_tcp P [] (bind_addr cfg) = None" "bind_tcp P [bind_addr cfg] (metrics_bind_addr cfg) = Some e"
      "bound = [bind_addr cfg]" "out = Inl e"
  | cfg r where "from_env (parse_url A) env = Inr cfg" "app_start cfg A w = Inr r"
      "bind_tcp P [] (bind_addr cfg) = None" "bind_tcp P [bind_addr cfg] (metrics_bind_addr cfg) = None"
      "bound = [bind_addr cfg, metrics_bind_addr cfg]" "out = Inr r"
proof (cases "from_env (parse_url A) env")
  case loaded: (Inr cfg)
  show ?thesis
  proof (cases "app_start cfg A w")
    case refused: (Inl e)
    show ?thesis using assms that(2) [OF loaded refused] by (auto simp: serving_def loaded refused)
  next
    case started: (Inr r)
    show ?thesis
      using assms that(3-5) [OF loaded started] by (auto simp: serving_def loaded started split: option.splits)
  qed
qed (use that(1) assms in \<open>auto simp: serving_def\<close>)

text \<open>
  The start never panics, registers every metric, and neither the tracing exporter nor the log format has a say in
  whether and how the server runs.
\<close>

theorem tracing_never_blocks:
  obtains u where "main_start P env A w = Some u" and "set (st_metrics u) = UNIV"
    and "(st_bound u, st_outcome u) = serving P env A w"
proof -
  obtain fs where fs: "metrics_init [] = Some fs" "set fs = UNIV" using metrics_init_fresh by blast
  obtain sub lines where t: "init_tracing P (pkg_version A) env = (sub, lines)"
    by (cases "init_tracing P (pkg_version A) env")
  obtain bound out where s: "serving P env A w = (bound, out)" by (cases "serving P env A w")
  show ?thesis
    by (rule that [of "\<lparr>st_subscriber = sub, st_stderr = lines, st_metrics = fs, st_bound = bound, st_outcome = out\<rparr>"])
      (simp_all add: main_start_def fs t s)
qed

lemma serving_ignores_telemetry:
  "serving (P\<lparr>build_exporter := b, default_filter := d, new_filter := n\<rparr>) env A w = serving P env A w"
  by (simp add: serving_def cong: sum.case_cong option.case_cong)

text \<open>A configuration that does not load, or loads and cannot be served, opens no socket.\<close>

theorem bad_configuration_opens_nothing:
  assumes "main_start P env A w = Some u"
    and "\<forall>cfg. from_env (parse_url A) env = Inr cfg \<longrightarrow> (\<exists>e. app_start cfg A w = Inl e)"
  shows "st_bound u = [] \<and> (\<exists>e. st_outcome u = Inl e)"
proof -
  obtain bound out where s: "serving P env A w = (bound, out)" by (cases "serving P env A w")
  with assms(1) have "st_bound u = bound" "st_outcome u = out"
    by (auto simp: main_start_def split: prod.splits)
  with s show ?thesis by (cases rule: serving_cases) (use assms(2) in auto)
qed

lemma main_start_running:
  assumes "main_start P env A w = Some u" and "st_outcome u = Inr (B, s0)"
  obtains cfg where "from_env (parse_url A) env = Inr cfg" and "app_start cfg A w = Inr (B, s0)"
    and "st_bound u = [bind_addr cfg, metrics_bind_addr cfg]"
proof -
  obtain bound out where s: "serving P env A w = (bound, out)" by (cases "serving P env A w")
  with assms have "out = Inr (B, s0)" "st_bound u = bound"
    by (auto simp: main_start_def split: prod.splits)
  from s this that show ?thesis by (cases rule: serving_cases) auto
qed

text \<open>What a run serves, some state of the run served.\<close>

lemma app_run_served:
  "app_run B s0 es s \<Longrightarrow> Served rq a \<in> set es \<Longrightarrow> \<exists>t t1. app_serve B rq t = Some (a, t1)"
  by (induction rule: app_run.induct) (auto elim!: app_step_cases)

lemma tool_ran_presented:
  assumes "app_serve A rq s = Some (Tool_Ran t res, s1)"
  shows "\<exists>tok. presented_by (auth_config A) (mcp_http.truncate rq) tok"
  using assms
proof (cases rule: app_serve_cases)
  case (Inside ext u)
  obtain ident tok where "bearer_auth (service_of A) (incoming.truncate (mcp_http.truncate rq)) (svc s) = (Admitted ident tok, svc u)"
    using Inside(2) by (cases rule: mcp_layers_cases) auto
  from admitted_presents [OF this] show ?thesis by auto
qed simp_all

text \<open>
  C7. What the operator did not ask for is off, in every run of a server that \<^verbatim>\<open>main\<close> started: the server
  listens on the two configured addresses and no other, its configuration is sound, a tool runs only for a request
  with a bearer token unless \<^verbatim>\<open>JMAP_MCP_ALLOW_STALWART_APP_PASSWORD\<close> is set to \<^verbatim>\<open>1\<close>, \<^verbatim>\<open>true\<close> or \<^verbatim>\<open>yes\<close>, and
  without \<^verbatim>\<open>JMAP_MCP_OAUTH_REDIRECT_URIS\<close> no authorization is ever begun.
\<close>

theorem operator_governs:
  assumes "main_start P env A w = Some u" and "st_outcome u = Inr (B, s0)" and "app_run B s0 es s"
  shows "st_bound u = [bind_addr (auth_config B), metrics_bind_addr (auth_config B)]
    \<and> config_ok (auth_config B)
    \<and> (\<forall>rq t res. Served rq (Tool_Ran t res) \<in> set es \<longrightarrow>
         extract_bearer (in_authorization rq) \<noteq> None
         \<or> extract_basic (in_authorization rq) \<noteq> None
           \<and> (\<exists>raw. env ''JMAP_MCP_ALLOW_STALWART_APP_PASSWORD'' = Present raw
                \<and> trim raw \<in> {''1'', ''true'', ''yes''}))
    \<and> (env ''JMAP_MCP_OAUTH_REDIRECT_URIS'' = Not_Present \<longrightarrow> by_state (authorizations s) = [])"
proof -
  obtain cfg where cfg: "from_env (parse_url A) env = Inr cfg" "app_start cfg A w = Inr (B, s0)"
      "st_bound u = [bind_addr cfg, metrics_bind_addr cfg]"
    by (rule main_start_running [OF assms(1,2)])
  note B = app_start_ok(2) [OF cfg(2)] and operator = from_env_ok [OF cfg(1)]
  have ok: "authorizations_ok B (authorizations s)"
    using app_run_ok [OF assms(3) app_start_ok(1) [OF cfg(2)]] by (simp add: app_ok_def)
  have none: "\<not> is_allowed_redirect_uri (parse_url B) [] uri" for uri
    by (simp add: is_allowed_redirect_uri_def split: sum.split)
  have tools: "extract_bearer (in_authorization rq) \<noteq> None
      \<or> extract_basic (in_authorization rq) \<noteq> None \<and> allow_app_password cfg"
    if served: "Served rq (Tool_Ran t res) \<in> set es" for rq t res
  proof -
    obtain tok where "presented_by cfg (mcp_http.truncate rq) tok"
      using app_run_served [OF assms(3) served] tool_ran_presented B by fastforce
    then show ?thesis
      by (cases "at_scheme tok") (auto simp: presented_by_def mcp_http.defs)
  qed
  have "by_state (authorizations s) = []" if "oauth_redirect_uris cfg = []"
    using ok that none by (cases "by_state (authorizations s)") (auto simp: authorizations_ok_def B)
  with tools operator show ?thesis unfolding B by (simp add: cfg(3)) blast
qed

definition sample_platform :: "(string, unit) platform" where
  "sample_platform =
     \<lparr>default_filter = (\<lambda>_. None), new_filter = (\<lambda>s. s), build_exporter = (\<lambda>_. Inl ''no collector''),
      bind_tcp = (\<lambda>taken a. if a \<in> set taken then Some ''address in use'' else None)\<rparr>"

definition sample_operator :: environment where
  "sample_operator = sample_env(''OTEL_EXPORTER_OTLP_ENDPOINT'' := Present ''http://otel.x'')"

definition sample_started :: "(string, unit, nat, unit, nat) started_up" where
  "sample_started = the (main_start sample_platform sample_operator sample_app 5)"

fun ran_ok :: "app_answer \<Rightarrow> bool" where
  "ran_ok (Tool_Ran _ (Inr _)) = True"
| "ran_ok _ = False"

lemma sample_started_runs:
  "main_start sample_platform sample_operator sample_app 5 \<noteq> None
   \<and> (case st_outcome sample_started of Inl _ \<Rightarrow> False | Inr (B, s) \<Rightarrow>
        (case app_serve B sample_tool_call s of None \<Rightarrow> False | Some (a, _) \<Rightarrow> ran_ok a))"
  by code_simp

theorem operator_governs_witness:
  "\<exists>B s0 es s t res. st_outcome sample_started = Inr (B, s0) \<and> app_run B s0 es s
     \<and> Served sample_tool_call (Tool_Ran t res) \<in> set es
     \<and> st_bound sample_started = [bind_addr (auth_config B), metrics_bind_addr (auth_config B)]
     \<and> by_state (authorizations s) = []"
proof -
  have up: "main_start sample_platform sample_operator sample_app 5 = Some sample_started"
    using sample_started_runs by (auto simp: sample_started_def)
  obtain B s0 t res s1 where r: "st_outcome sample_started = Inr (B, s0)"
      "app_serve B sample_tool_call s0 = Some (Tool_Ran t res, s1)"
  proof -
    obtain B s0 a s1 where "st_outcome sample_started = Inr (B, s0)" "app_serve B sample_tool_call s0 = Some (a, s1)"
        "ran_ok a"
      using sample_started_runs by (auto split: sum.splits option.splits prod.splits)
    with that show ?thesis by (cases a) auto
  qed
  from app_run.continued [OF app_run.started app_step.serve [OF r(2)]]
  have run: "app_run B s0 [Served sample_tool_call (Tool_Ran t res)] s1" by simp
  have "sample_operator ''JMAP_MCP_OAUTH_REDIRECT_URIS'' = Not_Present"
    by (simp add: sample_operator_def sample_env_def)
  with operator_governs [OF up r(1) run] r(1) run show ?thesis by fastforce
qed

end
