(* ===== verification/Tool_Properties.thy ===== *)
theory Tool_Properties
  imports Samples
begin

text \<open>What the caller of a tool can rely on, over every tool of the router.\<close>

section \<open>Requests\<close>

lemma run_emitsD:
  "run_emits P m \<Longrightarrow> m s = Some (r, s') \<Longrightarrow> \<exists>new. trace s' = trace s @ new \<and> list_all P new"
  unfolding run_emits_def by blast


text \<open>
  A tool that declares \<^verbatim>\<open>read_only_hint\<close> keeps the promise: no request it sends asks the mail
  server for a \<^verbatim>\<open>/set\<close> method or uploads anything, and each carries the caller's credential.
\<close>

theorem read_only_tools_read:
  assumes "read_only_hint r" "tool_router X ctx r s = Some (res, s')"
  shows "\<exists>new. trace s' = trace s @ new
    \<and> list_all (\<lambda>q. read_only_request q
          \<and> (\<exists>tok. cx_token ctx = Some tok \<and> rq_auth q = Some (header_value tok))) new"
proof -
  obtain new where new: "trace s' = trace s @ new" "list_all (for_ctx reads_as ctx) new"
    using run_emitsD [OF reader.read_only_emits [OF assms(1)] assms(2)] by blast
  moreover have "for_ctx reads_as ctx q \<Longrightarrow> read_only_request q
          \<and> (\<exists>tok. cx_token ctx = Some tok \<and> rq_auth q = Some (header_value tok))" for q
    by (auto simp: for_ctx_def reads_as_def carries_def)
  ultimately show ?thesis by (auto simp: list_all_iff)
qed

text \<open>
  Only the tools that declare \<^verbatim>\<open>destructive_hint\<close> can destroy anything: no request of any other tool,
  and none of \<^verbatim>\<open>delete_email\<close>, which moves to the trash, contains a \<^verbatim>\<open>/set\<close> method with a list of objects to
  destroy, with a reference to one, or with emails to destroy after a submission.
\<close>

theorem undestructive_tools_keep_mail:
  assumes "\<not> destructive_hint r \<or> (\<exists>ids. r = Delete (Delete_Email ids))"
    and "tool_router X ctx r s = Some (res, s')"
  shows "\<exists>new. trace s' = trace s @ new \<and> list_all keeps_mail new"
proof -
  obtain new where "trace s' = trace s @ new" "list_all (for_ctx keeps_as ctx) new"
    using run_emitsD [OF keeper.undestructive_emits [OF assms(1)] assms(2)] by blast
  moreover have "for_ctx keeps_as ctx q \<Longrightarrow> keeps_mail q" for q
    by (auto simp: for_ctx_def keeps_as_def)
  ultimately show ?thesis by (auto simp: list_all_iff)
qed

text \<open>The tools that declare \<^verbatim>\<open>idempotent_hint\<close> create nothing and destroy nothing.\<close>

theorem idempotent_tools_update:
  assumes "idempotent_hint r" and "tool_router X ctx r s = Some (res, s')"
  shows "\<exists>new. trace s' = trace s @ new \<and> list_all updates_only new"
proof -
  obtain new where "trace s' = trace s @ new" "list_all (for_ctx updates_as ctx) new"
    using run_emitsD [OF updater.idempotent_emits [OF assms(1)] assms(2)] by blast
  moreover have "for_ctx updates_as ctx q \<Longrightarrow> updates_only q" for q
    by (auto simp: for_ctx_def updates_as_def)
  ultimately show ?thesis by (auto simp: list_all_iff)
qed

lemma trace_of_tool: "tool_router X ctx r s = Some (res, s') \<Longrightarrow> \<exists>new. trace s' = trace s @ new"
  using run_emitsD [OF confinement.tool_router_emits] by blast

section \<open>Rate limit and audit\<close>

text \<open>
  C20. A call over its limit does nothing: charged to the read limit by a tool that declares itself
  read-only and to the write limit by every other, a call whose bucket is empty gets the rate-limit error; it
  sends nothing, leaves no note and touches no cache, and all that changes is the limiter, one
  audit event and its count in the metrics.
\<close>

theorem limited_call_is_inert:
  assumes "cx_token ctx = Some tok" "cx_identity ctx = Some ident"
    and "limiter_check (sv_governor X) (now_of X s) (token_hash X (at_secret tok)) (Some (user_id ident))
           (if read_only_hint r then Read else Write) (limiter s) = (False, l)"
  shows "\<exists>e. tool_router X ctx r s = Some (Inl rate_limited_err, s\<lparr>limiter := l, audit_log := audit_log s @ [e],
      metrics := record_tool_call (tool_name r) ''rate_limited'' 0 (metrics s)\<rparr>)
    \<and> te_method e = tool_name r \<and> te_outcome e = ''rate_limited''"
proof -
  have "over_limit X ctx (category_of r) s l"
    using assms by (simp add: over_limit_def category_of_def)
  then obtain n where n: "tool_router X ctx r s = Some (Inl rate_limited_err, s\<lparr>limiter := l, audit_log := audit_log s
      @ [event_of ctx (tool_name r) (tool_resource r) 0 n (Inl rate_limited_err)],
      metrics := record_tool_call (tool_name r) ''rate_limited'' 0 (metrics s)\<rparr>)"
    using tool_router_refused unfolding refused_def by blast
  show ?thesis
    by (intro exI conjI, rule n)
      (simp_all add: event_of_def tool_call_event_def tool_outcome_def rate_limited_err_def)
qed

text \<open>
  Every call that returns leaves exactly one audit event, with the tool's name, the caller's
  address and the outcome that the caller gets; the resource it names is at most 255 characters long and of a
  fixed alphabet, whatever the caller passed, so that it cannot forge a line of the log.
\<close>

theorem call_audited_once:
  assumes "tool_router X ctx r s = Some (res, s')"
  shows "\<exists>e. audit_log s' = audit_log s @ [e]
    \<and> te_method e = tool_name r \<and> te_user e = opt_str (Option.bind (cx_identity ctx) email)
    \<and> te_outcome e = (case res of Inr _ \<Rightarrow> ''ok''
         | Inl err \<Rightarrow> if err_code err = RATE_LIMITED_CODE then ''rate_limited'' else ''error'')
    \<and> te_error_class e = (case res of Inr _ \<Rightarrow> None | Inl err \<Rightarrow> Some (error_class err))
    \<and> (case te_resource e of None \<Rightarrow> True
       | Some x \<Rightarrow> length x \<le> 255 \<and> list_all (\<lambda>c. is_alphanumeric c \<or> c \<in> set ''-_.@:<>'') x)"
proof -
  obtain n el where n: "audit_log s' = audit_log s @ [event_of ctx (tool_name r) (tool_resource r) el n res]"
    using tool_router_audited assms unfolding audited_def logged_def by blast
  have safe: "length x \<le> 255 \<and> list_all (\<lambda>c. is_alphanumeric c \<or> c \<in> set ''-_.@:<>'') x"
    if "is_safe_id x" for x
    using that by (auto simp: is_safe_id_def list_all_iff)
  have invalid: "list_all (\<lambda>c. is_alphanumeric c \<or> c \<in> set ''-_.@:<>'') ''<invalid>''"
    by (simp add: is_alphanumeric_def)
  show ?thesis
    by (rule exI [of _ "event_of ctx (tool_name r) (tool_resource r) el n res"])
      (use n safe invalid in \<open>auto simp: event_of_def tool_call_event_def tool_outcome_def tool_user_def
        split: sum.split option.split\<close>)
qed

text \<open>
  C21. Audit notes: a read-only tool leaves none, any other at most one, and none when the
  call was rate limited or its credential refused; the note is written with the caller's own
  credential, from the caller's own address, into the mailbox that this user designated, and names the
  tool and its outcome.
\<close>

theorem notes_belong_to_the_caller:
  assumes "tool_router X ctx r s = Some (res, s')"
  shows "\<exists>new. spawned s' = spawned s @ new \<and> length new \<le> (if read_only_hint r then 0 else 1)
    \<and> list_all (\<lambda>n. \<exists>tok ident. cx_token ctx = Some tok \<and> cx_identity ctx = Some ident
          \<and> an_token n = header_value tok \<and> email ident = Some (an_from_addr n)
          \<and> registry_get (audit_registry s') (user_id ident) = Some (an_mailbox_id n)
          \<and> an_method n = tool_name r
          \<and> (case res of Inr _ \<Rightarrow> an_outcome n = ''ok''
             | Inl e \<Rightarrow> an_outcome n = ''error''
                 \<and> err_code e \<notin> {RATE_LIMITED_CODE, AUTH_EXPIRED_CODE, UPSTREAM_AUTH_REJECTED_CODE})) new"
proof -
  have "spawned s' = spawned s @ notes_of (audit_registry s') ctx (tool_name r) (note_of r) res"
    using tool_router_audited assms unfolding audited_def by blast
  then show ?thesis
    by (auto simp: notes_of_def note_of_def option_list_def audit_note_for_def bind_eq_Some_conv
        split: option.split sum.split if_splits)
qed

text \<open>
  C31. Nobody's audit designation but the caller's own can change: a tool leaves the designation of every
  other user as it was, and no tool but \<^verbatim>\<open>set_audit_mailbox\<close> changes the registry at all.
\<close>

theorem designations_isolated:
  assumes "tool_router X ctx r s = Some (res, s')"
  shows "((\<forall>m. r \<noteq> Profile (Set_Audit_Mailbox m)) \<longrightarrow> audit_registry s' = audit_registry s)
    \<and> (\<forall>uid. map_option user_id (cx_identity ctx) \<noteq> Some uid
         \<longrightarrow> registry_get (audit_registry s') uid = registry_get (audit_registry s) uid)"
  using designations.tool_router_preserves [unfolded run_preserves_def, rule_format, OF assms]
  unfolding designates_own_def .

section \<open>A refused credential\<close>

text \<open>
  C33. How a refused credential is reported: results and other errors pass through and change nothing; when the
  mail server refused the credential, the caller's cached session is dropped in every case, and the caller is told
  to reconnect only if the credential has less than a minute to live or an unknown lifetime, in
  which case its cached validation is dropped too; a credential that is still good is reported as the server's fault and
  stays validated.
\<close>

theorem refusal_classified:
  assumes "react_to_auth_expiry X ctx r0 s = (r, s')"
    and "cx_token ctx = Some tok" and "cx_identity ctx = Some ident"
  shows "case r0 of
      Inr a \<Rightarrow> r = Inr a \<and> s' = s
    | Inl e \<Rightarrow>
        if err_code e \<noteq> AUTH_EXPIRED_CODE then r = Inl e \<and> s' = s
        else map_of (sessions s') (hash_token X (header_value tok)) = None
          \<and> (case exp_unix ident of
               Some t \<Rightarrow>
                 if net_unix X (world s) + 60 < t then r = Inl upstream_auth_rejected_err \<and> vcache s' = vcache s
                 else r = Inl auth_expired_err \<and> map_of (vcache s') (hash_token X (at_secret tok)) = None
             | None \<Rightarrow> r = Inl auth_expired_err \<and> map_of (vcache s') (hash_token X (at_secret tok)) = None)"
  using assms
  by (auto simp: react_to_auth_expiry_def comp_defs evict_def drop_token_def session_evict_def map_of_delete
      token_is_live_def EXPIRY_SKEW_SECS_def hash_token_def cache_remove_def split: sum.splits option.splits if_splits)

section \<open>Returning\<close>

text \<open>
  C22. Emptying a mailbox refines the sequence of its batches: it returns a number when after some full
  batches the server finds nothing, and the number is the sum of the batches, held at \<^verbatim>\<open>u32::MAX\<close>; it
  returns an error when after some full batches a call fails, or a batch destroyed a different
  number of emails than it found; and it runs for ever exactly when the server answers with full
  batches for ever.
\<close>

theorem emptying_refines_batches:
  "(empty_mailbox X token acct mb 0 s = Some (Inr gone, s') \<longleftrightarrow>
      (\<exists>bs s1. full_batches X token acct mb s bs s1 \<and> stops X token acct mb s1 None s'
         \<and> unat gone = min (2 ^ 32 - 1) (sum_list bs)))
   \<and> (empty_mailbox X token acct mb 0 s = Some (Inl e, s') \<longleftrightarrow>
      (\<exists>bs s1. full_batches X token acct mb s bs s1 \<and> stops X token acct mb s1 (Some e) s'))
   \<and> (empty_mailbox X token acct mb 0 s = None \<longleftrightarrow>
      (\<forall>k. \<exists>bs s1. full_batches X token acct mb s bs s1 \<and> length bs = k))"
  using empty_mailbox_outcome [of X token acct mb 0 s] by (simp add: u32_max_def)

lemma empty_role_returns:
  assumes "shrinks X emails_in"
  shows "empty_role X ctx tool role missing s \<noteq> None"
proof -
  have "empty_mailbox X token acct mb 0 s1 \<noteq> None" for token acct mb s1
    using empty_mailbox_returns [OF assms] by (metis option.discI)
  then have "empty_body X ctx role missing s \<noteq> None"
    by (simp add: empty_body_def split: prod.split sum.split)
  then show ?thesis by (simp add: empty_role_def)
qed

lemma returns_Some: "returns f m s \<noteq> None"
  by (simp add: returns_def)

text \<open>
  C23. Every tool returns: those that do not empty a mailbox, against any server at all; the two
  that do, against a server on which every full batch leaves fewer emails in the mailbox it emptied.
\<close>

theorem tool_returns:
  assumes "r = Delete Empty_Trash \<or> r = Delete Empty_Spam \<Longrightarrow> shrinks X emails_in"
  shows "tool_router X ctx r s \<noteq> None"
proof -
  have "core_router X ctx q s \<noteq> None" for q by (cases q) (simp_all add: returns_Some)
  moreover have "reads_router X ctx q s \<noteq> None" for q by (cases q) (simp_all add: returns_Some)
  moreover have "flags_router X ctx q s \<noteq> None" for q by (cases q) (simp_all add: returns_Some)
  moreover have "compose_router X ctx q s \<noteq> None" for q by (cases q) (simp_all add: returns_Some)
  moreover have "attachments_router X ctx q s \<noteq> None" for q by (cases q) (simp_all add: returns_Some)
  moreover have "mailbox_mgmt_router X ctx q s \<noteq> None" for q by (cases q) (simp_all add: returns_Some)
  moreover have "spam_router X ctx q s \<noteq> None" for q by (cases q) (simp_all add: returns_Some)
  moreover have "profile_router X ctx q s \<noteq> None" for q by (cases q) (simp_all add: returns_Some)
  moreover have "delete_router X ctx q s \<noteq> None" if "r = Delete q" for q
    using assms that empty_role_returns [of X emails_in]
    by (cases q) (simp_all add: returns_Some may_return_def empty_trash_def empty_spam_def)
  ultimately show ?thesis by (cases r) (simp_all only: tool_router.simps not_False_eq_True)
qed

section \<open>Where a description says more\<close>

text \<open>
  \<^verbatim>\<open>verify_session\<close> answers that the session is authenticated from a cached session, without asking the
  server, for as long as the cache entry is fresh.
\<close>

lemma verify_session_from_cache:
  assumes "cx_token ctx = Some tok" "cx_identity ctx = Some ident"
    and "limiter_check (sv_governor X) (now_of X s) (token_hash X (at_secret tok)) (Some (user_id ident))
           Read (limiter s) = (True, l)"
    and "session_lookup (now_of X s) (hash_token X (header_value tok)) (sessions s) = Some session"
  shows "\<exists>s'. verify_session X ctx s = (Inr (True, username session), s') \<and> trace s' = trace s \<and> world s' = world s"
  using assms
  by (simp add: verify_session_def run_tool_def rate_limit_check_def with_token_def session_for_def
      finish_tool_def react_to_auth_expiry_def emit_tool_audit_def tool_call_def comp_defs now_of_def Let_def)

text \<open>
  The emptying loop takes an answer without a list of ids for an empty mailbox, and then returns: it
  is not a query that found nothing that ends it.
\<close>

lemma missing_answer_ends_emptying:
  assumes "call X token [CAP_CORE, CAP_MAIL] (empty_calls acct mb) s = (Inr [], s')"
  shows "empty_mailbox X token acct mb n s = Some (Inr n, s')"
  by (rule empty_mailbox_step)
    (simp add: empty_step_def bindE_def assms lift_def account_empty_batch_def array_length_def method_payload_def)

section \<open>Witnesses\<close>


theorem read_only_tools_read_witness:
  "let s' = snd (sample_run (Core List_Mailboxes))
   in length (trace s') = 2
     \<and> list_all (\<lambda>q. read_only_request q
          \<and> (\<exists>tok. cx_token sample_ctx = Some tok \<and> rq_auth q = Some (header_value tok))) (trace s')"
  using read_only_tools_read [OF _ sample_run_router, of "Core List_Mailboxes"] sample_read_eval
  by (auto simp: Let_def split_beta sample_state_def)

theorem undestructive_tools_keep_mail_witness:
  "let s' = snd (sample_run sample_write) in length (trace s') = 2 \<and> list_all keeps_mail (trace s')"
  using undestructive_tools_keep_mail [OF _ sample_run_router, of sample_write] sample_write_eval
  by (auto simp: Let_def split_beta sample_state_def sample_write_def)

theorem limited_call_is_inert_witness:
  "\<exists>e l. tool_router sample_service sample_ctx sample_write (sample_state 0)
     = Some (Inl rate_limited_err, (sample_state 0)\<lparr>limiter := l, audit_log := [e],
         metrics := record_tool_call ''mark_read'' ''rate_limited'' 0 []\<rparr>)
   \<and> te_method e = ''mark_read'' \<and> te_outcome e = ''rate_limited''"
proof -
  let ?l = "(limiter (sample_state 0))\<lparr>bearer_write := [(''74'', \<lparr>be_bucket = 0, be_last_seen = 0\<rparr>)]\<rparr>"
  have "\<exists>e. tool_router sample_service sample_ctx sample_write (sample_state 0)
     = Some (Inl rate_limited_err, (sample_state 0)\<lparr>limiter := ?l, audit_log := audit_log (sample_state 0) @ [e],
         metrics := record_tool_call (tool_name sample_write) ''rate_limited'' 0 (metrics (sample_state 0))\<rparr>)
   \<and> te_method e = tool_name sample_write \<and> te_outcome e = ''rate_limited''"
    by (rule limited_call_is_inert [where tok = "\<lparr>at_scheme = Bearer, at_secret = ''t''\<rparr>"
          and ident = "the (cx_identity sample_ctx)"])
      (use sample_refused in \<open>simp_all add: sample_ctx_def sample_write_def\<close>)
  then show ?thesis by (auto simp: sample_write_def sample_state_def)
qed

theorem call_audited_once_witness:
  "let (res, s') = sample_run sample_write
   in \<exists>e. audit_log s' = [e] \<and> te_method e = ''mark_read'' \<and> te_user e = ''julian@a.x'' \<and> te_outcome e = ''ok''"
  using call_audited_once [OF sample_run_router, of sample_write] sample_write_eval
  by (auto simp: Let_def split_beta sample_state_def sample_ctx_def sample_write_def opt_str_def)

theorem notes_belong_to_the_caller_witness:
  "let s' = snd (sample_run sample_write)
   in length (spawned s') = 1
     \<and> list_all (\<lambda>n. an_token n = ''Bearer t'' \<and> an_from_addr n = ''julian@a.x'' \<and> an_method n = ''mark_read'')
         (spawned s')"
  using notes_belong_to_the_caller [OF sample_run_router, of sample_write] sample_write_eval
  by (auto simp: Let_def split_beta sample_state_def sample_ctx_def sample_write_def header_value_def list_all_iff)

theorem designations_isolated_witness:
  "registry_get (audit_registry (snd (sample_run sample_write))) ''u1'' = Some ''audit-id''"
  using designations_isolated [OF sample_run_router, of sample_write]
  by (simp add: sample_write_def sample_state_def registry_get_def)

theorem refusal_classified_witness:
  "fst (react_to_auth_expiry sample_service sample_ctx (Inl (map_jmap_err Unauthorized) :: error_data + unit) (sample_state 5))
     = Inl auth_expired_err"
proof -
  obtain r s' where run: "react_to_auth_expiry sample_service sample_ctx
      (Inl (map_jmap_err Unauthorized) :: error_data + unit) (sample_state 5) = (r, s')"
    by (cases "react_to_auth_expiry sample_service sample_ctx
      (Inl (map_jmap_err Unauthorized) :: error_data + unit) (sample_state 5)")
  from refusal_classified [OF run, of "the (cx_token sample_ctx)" "the (cx_identity sample_ctx)"] run
  show ?thesis by (simp add: sample_ctx_def map_jmap_err_def)
qed

theorem tool_returns_witness:
  "tool_router sample_service sample_ctx (Delete Empty_Trash) (sample_state 5) \<noteq> None"
  using tool_returns [where emails_in = "\<lambda>token acct mb w. w", OF sample_shrinks] by blast

end
