(* ===== verification/Call_Laws.thy ===== *)
theory Call_Laws
  imports Compose_Tools
begin

text \<open>
  What can be read off a tool that succeeded: the last request of a call in full, the answers the tool was
  given while it ran, and the sender that was chosen for a message.
\<close>

section \<open>The last request of a call\<close>

text \<open>Everything before it only fetches the session.\<close>

definition session_fetch :: "string \<Rightarrow> http_request \<Rightarrow> bool" where
  "session_fetch tok r \<longleftrightarrow> rq_method r = ''GET'' \<and> rq_body r = No_Body \<and> rq_auth r = Some tok"

lemma emits_fetch: "emits (session_fetch token) (session_for X token)"
  unfolding session_for_def Let_def
  by (intro emits_intros emits_send emits_modifies)
    (simp_all add: session_fetch_def get_request_def check_status_def emits_if emits_bindE evict_def emits_modifies
      emits_fail emits_ret)

lemma keeps_trace_status: "keeps trace (check_status X token resp)"
  unfolding check_status_def evict_def by (intro same.preserves_intros preserves_modifies) simp

lemma comp_Inr [simp]:
  "map_err f m s = (Inr a, s1) \<longleftrightarrow> m s = (Inr a, s1)"
  "lift r s = (Inr a, s1) \<longleftrightarrow> r = Inr a \<and> s1 = s"
  "need e v s = (Inr a, s1) \<longleftrightarrow> v = Some a \<and> s1 = s"
  "refuse_if c e s = (Inr (), s1) \<longleftrightarrow> \<not> c \<and> s1 = s"
  "ret b s = (Inr a, s1) \<longleftrightarrow> b = a \<and> s1 = s"
  by (auto simp: map_err_def lift_def need_def refuse_if_def ret_def fail_def
      split: prod.splits sum.splits option.splits)

lemma call_posts:
  assumes "call X token use calls s = (Inr resps, s')"
  shows "\<exists>before url. trace s' = trace s @ before @ [post_json url token (call_body use calls)]
    \<and> list_all (session_fetch token) before"
proof -
  obtain session s1 resp s2 where s1: "session_for X token s = (Inr session, s1)"
    and s2: "send X (post_json (api_url session) token (call_body use calls)) s1 = (Inr resp, s2)"
    and s3: "check_status X token resp s2 = (Inr (), s')"
    using assms by (auto simp: call_def jmap_call_def bindE_Inr)
  obtain before where "trace s1 = trace s @ before" "list_all (session_fetch token) before"
    using emitsD [OF emits_fetch s1] by blast
  moreover have "trace s2 = trace s1 @ [post_json (api_url session) token (call_body use calls)]"
    using s2 by (auto simp: send_def split: prod.splits)
  moreover have "trace s' = trace s2" using preservesD [OF keeps_trace_status s3] .
  ultimately show ?thesis by auto
qed

text \<open>A tool that succeeded: its body did, and what comes after the body sends nothing.\<close>

lemma run_tool_Inr:
  assumes "run_tool X ctx tool res note counted cat body s = (Inr a, s')"
  shows "\<exists>s0 s1. body s0 = (Inr a, s1) \<and> trace s0 = trace s \<and> trace s' = trace s1"
proof -
  obtain r s1 where b: "bindE (rate_limit_check X ctx cat) (\<lambda>_. body) s = (r, s1)"
    and f: "finish_tool X ctx tool res note counted (now_of X s) r s1 = (Inr a, s')"
    using assms by (auto simp: run_tool_def bindE_gets attempt_def split: prod.splits)
  have r: "r = Inr a"
    using f by (cases r; cases "note")
      (auto simp: finish_tool_def attempt_def react_to_auth_expiry_def bindE_Inr spawn_audit_def emit_tool_audit_def
        modifies_def fail_def gets_def evict_def drop_token_def split: prod.splits if_splits option.splits)
  obtain s0 u where "rate_limit_check X ctx cat s = (Inr u, s0)" "body s0 = (Inr a, s1)"
    using b r by (auto simp: bindE_Inr)
  moreover have "trace s0 = trace s"
    using emitsD [OF emits_rate_limit_check [of "\<lambda>_. False"] calculation(1)] by (auto simp: list_all_iff)
  moreover have "trace s' = trace s1"
    using emitsD [OF emits_finish_tool [of "\<lambda>_. False"] f] by (auto simp: list_all_iff)
  ultimately show ?thesis by blast
qed

section \<open>What the server answered\<close>

text \<open>\<open>given m a s s'\<close>: between \<open>s\<close> and \<open>s'\<close> the computation \<open>m\<close> was run and answered \<open>a\<close>.\<close>

definition given :: "(('w, 'm) io_scheme, 'e, 'a) comp \<Rightarrow> 'a \<Rightarrow> ('w, 'm) io_scheme \<Rightarrow> ('w, 'm) io_scheme \<Rightarrow> bool" where
  "given m a s s' \<longleftrightarrow>
     (\<exists>t t'. m t = (Inr a, t') \<and> prefix (trace s) (trace t) \<and> prefix (trace t') (trace s'))"

lemma givenI: "m s = (Inr a, s') \<Longrightarrow> given m a s s'"
  unfolding given_def by blast

lemma given_widen:
  "given m a t t' \<Longrightarrow> prefix (trace s) (trace t) \<Longrightarrow> prefix (trace t') (trace s') \<Longrightarrow> given m a s s'"
  unfolding given_def by (meson prefix_order.trans)

lemma emits_prefix: "emits P m \<Longrightarrow> m s = (r, s1) \<Longrightarrow> prefix (trace s) (trace s1)"
  by (auto dest: emitsD)

section \<open>The chosen sender\<close>

text \<open>
  The sender is chosen among what the server lists for the account, its aliases, and what the operator
  granted to the user of the session.
\<close>

definition sender_of ::
  "('w, 'k, 'b) service \<Rightarrow> string \<Rightarrow> string \<Rightarrow> string option \<Rightarrow> string list \<Rightarrow> string option \<Rightarrow> chosen_from
   \<Rightarrow> ('w, 'k, 'b) service_state \<Rightarrow> ('w, 'k, 'b) service_state \<Rightarrow> bool" where
  "sender_of X token acct from preferred user chosen s s' \<longleftrightarrow>
     (\<exists>identities aliases session.
        given (identity_list X token acct) identities s s'
        \<and> given (principal_aliases X token user) aliases s s'
        \<and> given (session_for X token) session s s'
        \<and> choose_from_address (merge_owned identities aliases
             (extras_granted_to (username session) (sv_extra_from_addresses X))) from preferred user = Inr chosen)"

lemma emits_listing:
  "emits (confined token) (identity_list X token acct)" "emits (confined token) (principal_aliases X token user)"
  unfolding identity_list_def principal_aliases_def
  by (intro emits_intros confinement.emits_jmap_call; simp)+

lemma resolved_sender:
  assumes "resolve_submission_identity X token acct from preferred user s = (Inr chosen, s')"
  shows "sender_of X token acct from preferred user chosen s s'"
proof -
  obtain identities aliases session s1 s2 where
    i: "identity_list X token acct s = (Inr identities, s1)"
    and a: "principal_aliases X token user s1 = (Inr aliases, s2)"
    and w: "session_for X token s2 = (Inr session, s')"
    and c: "choose_from_address (merge_owned identities aliases
             (extras_granted_to (username session) (sv_extra_from_addresses X))) from preferred user = Inr chosen"
    using assms by (auto simp: resolve_submission_identity_def owned_addresses_def bindE_Inr)
  have "prefix (trace s) (trace s1)" "prefix (trace s1) (trace s2)" "prefix (trace s2) (trace s')"
    using emits_prefix [OF emits_listing(1) i] emits_prefix [OF emits_listing(2) a]
      emits_prefix [OF emits_fetch w] by blast+
  then show ?thesis
    unfolding sender_of_def using c i a w
    by (intro exI [of _ identities] exI [of _ aliases] exI [of _ session])
      (auto intro: given_widen [OF givenI] prefix_order.trans)
qed

lemma sender_widen:
  "sender_of X token acct from preferred user chosen t t' \<Longrightarrow> prefix (trace s) (trace t)
   \<Longrightarrow> prefix (trace t') (trace s') \<Longrightarrow> sender_of X token acct from preferred user chosen s s'"
  unfolding sender_of_def by (meson given_widen)

section \<open>Submitting\<close>

text \<open>The batch that creates a message and submits it, as the last request.\<close>

definition submission_request ::
  "string \<Rightarrow> string \<Rightarrow> string \<Rightarrow> json \<Rightarrow> string \<Rightarrow> string \<Rightarrow> string option \<Rightarrow> http_request" where
  "submission_request url token acct mail identity drafts sent =
     post_json url token (call_body [CAP_CORE, CAP_MAIL, CAP_SUBMISSION]
       (submission_calls acct mail identity (sent_patch drafts sent)))"

lemma submit_posts:
  assumes "submit X token acct mail identity (sent_patch drafts sent) s = (Inr (email_id, submission_id), s')"
  shows "\<exists>before url. trace s' = trace s @ before @ [submission_request url token acct mail identity drafts sent]"
proof -
  obtain resps where c: "call X token [CAP_CORE, CAP_MAIL, CAP_SUBMISSION]
      (submission_calls acct mail identity (sent_patch drafts sent)) s = (Inr resps, s')"
    using assms by (auto simp: submit_def bindE_Inr)
  from call_posts [OF c] show ?thesis unfolding submission_request_def by blast
qed

lemma submit_prefix:
  "submit X token acct mail identity patch s = (r, s') \<Longrightarrow> prefix (trace s) (trace s')"
  by (rule emits_prefix [OF confinement.emits_submit])

lemma account_prefix: "account_of X token s = (r, s') \<Longrightarrow> prefix (trace s) (trace s')"
  by (rule emits_prefix [OF confinement.emits_account_of])

lemma folders_prefix: "send_folders X token acct s = (r, s') \<Longrightarrow> prefix (trace s) (trace s')"
  by (rule emits_prefix [OF confinement.emits_send_folders])

lemma get_email_prefix: "get_email X token acct i props s = (r, s') \<Longrightarrow> prefix (trace s) (trace s')"
  by (rule emits_prefix [OF confinement.emits_get_email])

lemma resolve_prefix:
  "resolve_submission_identity X token acct fr preferred user s = (r, s') \<Longrightarrow> prefix (trace s) (trace s')"
  by (rule emits_prefix [OF confinement.emits_resolve])

lemmas step_prefix = account_prefix folders_prefix get_email_prefix resolve_prefix submit_prefix

lemma sender_personal:
  "sender_of X token acct fr preferred user chosen s s' \<Longrightarrow> \<not> is_role_address (cf_email chosen)"
  unfolding sender_of_def using choose_from_address_ok choose_address_ok by metis

text \<open>Choosing the sender and submitting: the last two steps of every tool that sends.\<close>

lemma submitted:
  assumes start: "prefix (trace s) (trace u)"
    and chosen: "resolve_submission_identity X token acct fr preferred user u = (Inr chosen, v)"
    and sub: "submit X token acct mail (cf_identity_id chosen) (sent_patch drafts sent) v = (Inr ids, s1)"
    and t: "trace s' = trace s1"
  shows "prefix (trace u) (trace s')"
    and "sender_of X token acct fr preferred user chosen s s'" "\<not> is_role_address (cf_email chosen)"
    and "given (submit X token acct mail (cf_identity_id chosen) (sent_patch drafts sent)) ids s s'"
    and "\<exists>before url. trace s' = before @ [submission_request url token acct mail (cf_identity_id chosen) drafts sent]"
proof -
  have pre: "prefix (trace u) (trace v)" "prefix (trace v) (trace s')"
    using step_prefix(4) [OF chosen] step_prefix(5) [OF sub] t by simp_all
  then show "prefix (trace u) (trace s')" by (rule prefix_order.trans)
  from pre have reach: "prefix (trace s) (trace v)" using start by (blast intro: prefix_order.trans)
  show sender: "sender_of X token acct fr preferred user chosen s s'"
    by (rule sender_widen [OF resolved_sender [OF chosen] start pre(2)])
  then show "\<not> is_role_address (cf_email chosen)" by (rule sender_personal)
  show "given (submit X token acct mail (cf_identity_id chosen) (sent_patch drafts sent)) ids s s'"
    unfolding given_def using sub reach t by fastforce
  obtain email_id submission_id where "ids = (email_id, submission_id)" by (cases ids)
  then show "\<exists>before url. trace s' = before
      @ [submission_request url token acct mail (cf_identity_id chosen) drafts sent]"
    using submit_posts [of X token acct mail "cf_identity_id chosen" drafts sent v] sub t by (metis append.assoc)
qed

text \<open>The steps an answer to an email takes before: the account, the folders and the email.\<close>

lemma fetched_email:
  assumes steps: "account_of X token s0 = (Inr acct, u1)" "send_folders X token acct u1 = (Inr folders, u2)"
      "get_email X token acct i props u2 = (Inr parent, u3)"
    and t: "trace s0 = trace s"
  shows "prefix (trace s) (trace u3)" "prefix (trace u3) (trace s') \<Longrightarrow> given (get_email X token acct i props) parent s s'"
proof -
  have pre: "prefix (trace s) (trace u2)" "prefix (trace u2) (trace u3)"
    using step_prefix(1) [OF steps(1)] step_prefix(2) [OF steps(2)] step_prefix(3) [OF steps(3)] t
    by (auto intro: prefix_order.trans)
  then show "prefix (trace s) (trace u3)" by (blast intro: prefix_order.trans)
  show "given (get_email X token acct i props) parent s s'" if "prefix (trace u3) (trace s')"
    unfolding given_def using steps(3) pre that by blast
qed

end
