(* ===== verification/Email_Laws.thy ===== *)
theory Email_Laws
  imports Attachment_Tools
begin

text \<open>
  What the tools make of an email: the cut of a body, the texts of a sender that a reader gets to
  see, the fields of a message that is composed and read back, and the unread total.
\<close>

section \<open>Cutting\<close>

lemma back_off_le: "back_off s cap \<le> cap"
proof (induction s cap rule: back_off.induct)
  case (1 s cap)
  then show ?case by (subst back_off.simps) (auto intro: le_trans)
qed

lemma back_off_boundary: "is_char_boundary s (back_off s cap)"
proof (induction s cap rule: back_off.induct)
  case (1 s cap)
  then show ?case by (subst back_off.simps) simp
qed

lemma back_off_longest: "back_off s cap < k \<Longrightarrow> k \<le> cap \<Longrightarrow> \<not> is_char_boundary s k"
proof (induction s cap rule: back_off.induct)
  case (1 s cap)
  show ?case
  proof (cases "is_char_boundary s cap")
    case True
    with "1.prems" show ?thesis by (subst (asm) back_off.simps) simp
  next
    case False
    then have "back_off s (cap - 1) < k" using "1.prems"(1) by (subst (asm) back_off.simps) simp
    with 1 False show ?thesis by (cases "k = cap") auto
  qed
qed

text \<open>
  A body is cut at a character: what is kept of it is its beginning, at most 256 KiB long, it
  ends between two characters, and it is the longest such beginning.
\<close>

theorem truncation_longest:
  "prefix (truncate_text_body s) s \<and> length (truncate_text_body s) \<le> 262144
   \<and> is_char_boundary s (length (truncate_text_body s))
   \<and> (\<nexists>k. length (truncate_text_body s) < k \<and> k \<le> 262144 \<and> k \<le> length s \<and> is_char_boundary s k)"
proof (cases "length s \<le> 262144")
  case True
  then show ?thesis
    by (auto simp: truncate_text_body_def MAX_TEXT_BODY_BYTES_def is_char_boundary_def)
next
  case False
  let ?b = "back_off s 262144"
  have "truncate_text_body s = take ?b s" "length (take ?b s) = ?b"
    using False back_off_le [of s 262144] by (simp_all add: truncate_text_body_def MAX_TEXT_BODY_BYTES_def)
  then show ?thesis
    using back_off_le [of s 262144] back_off_boundary [of s 262144] back_off_longest [of s 262144]
    by (auto simp: take_is_prefix)
qed

section \<open>What a reader sees\<close>

definition marker_free :: "string \<Rightarrow> bool" where
  "marker_free x \<longleftrightarrow> list_all (\<lambda>w. \<not> has_marker x w) escape_markers"

lemma marker_free_sanitized [simp]: "marker_free (sanitize_external_text x)"
  by (simp add: marker_free_def sanitize_external_text_def list_all_iff escape_removes_marker)

lemma marker_free_list [simp]: "list_all marker_free (sanitize_external_list xs)"
  by (simp add: sanitize_external_list_def list_all_iff)

lemma marker_free_option [simp]: "list_all marker_free (option_list (map_option sanitize_external_text v))"
  by (cases v) (simp_all add: option_list_def)


text \<open>The strings of a JSON value, keys aside.\<close>

fun json_texts :: "json \<Rightarrow> string list" where
  "json_texts (JStr t) = [t]"
| "json_texts (JArr vs) = concat (map json_texts vs)"
| "json_texts (JObj m) = concat (map (\<lambda>(k, v). json_texts v) m)"
| "json_texts _ = []"

lemma sanitized_texts: "json_texts (sanitize_external_value v) = map sanitize_external_text (json_texts v)"
  by (induction v rule: sanitize_external_value.induct)
    (auto simp: map_concat comp_def split_beta intro!: arg_cong [of _ _ concat])

lemma suspicious_texts: "external_value_suspicious v \<longleftrightarrow> list_ex is_suspicious (json_texts v)"
  by (induction v rule: external_value_suspicious.induct)
    (simp_all add: list_ex_iff external_text_is_suspicious_def split_beta, force+)

lemma json_texts_strs [simp]: "json_texts (jstrs xs) = xs"
  by (induction xs) (simp_all add: jstrs_def)

lemma is_suspicious_external [simp]: "external_text_is_suspicious = is_suspicious"
  by (simp add: fun_eq_iff external_text_is_suspicious_def)

text \<open>
  The listings are sandboxed too: what \<^verbatim>\<open>list_recent_emails\<close>, \<^verbatim>\<open>search_emails\<close>, \<^verbatim>\<open>read_thread\<close> and
  \<^verbatim>\<open>get_email_headers\<close> return of senders, recipients, subjects and threading headers holds no
  marker, and a listed email or header set is flagged exactly when one of the raw texts it shows is
  suspicious.
\<close>

theorem listings_sandboxed:
  "(let r = email_summary_of mail in
      list_all marker_free (es_from r @ es_to r @ option_list (es_subject r))
      \<and> (es_suspicious r \<longleftrightarrow> list_ex is_suspicious
           (addrs mail ''from'' @ addrs mail ''to'' @ option_list (str_field mail ''subject''))))
   \<and> (let r = search_hit_of mb snippets mail in
      list_all marker_free (sh_from r @ option_list (sh_subject r))
      \<and> (sh_suspicious r \<longleftrightarrow> list_ex is_suspicious
           (addrs mail ''from'' @ option_list (str_field mail ''subject'')
            @ filter (\<lambda>t. t \<noteq> []) (option_list (snippets (opt_str (str_field mail ''id'')))))))
   \<and> (let r = thread_email_of mail in
      list_all marker_free (th_from r @ option_list (th_subject r))
      \<and> (th_suspicious r \<longleftrightarrow> list_ex is_suspicious
           (addrs mail ''from'' @ option_list (str_field mail ''subject'')
            @ [truncate_text_body (extract_text_body mail)])))
   \<and> (let r = headers_of mail;
          raw = addrs mail ''from'' @ addrs mail ''to'' @ option_list (str_field mail ''subject'')
            @ json_texts (get_or_null mail ''messageId'') @ json_texts (get_or_null mail ''inReplyTo'')
            @ json_texts (get_or_null mail ''references'') in
      list_all marker_free (concat (map (json_texts \<circ> get_or_null (eh_headers r))
        [''from'', ''to'', ''subject'', ''message_id'', ''in_reply_to'', ''references'']))
      \<and> (eh_suspicious r \<longleftrightarrow> list_ex is_suspicious raw))"
proof (intro conjI)
  let ?texts = "\<lambda>r. concat (map (json_texts \<circ> get_or_null (eh_headers r))
        [''from'', ''to'', ''subject'', ''message_id'', ''in_reply_to'', ''references''])"
  have clean: "list_all marker_free (map sanitize_external_text xs)" for xs
    by (simp add: list_all_iff)
  show "let r = email_summary_of mail in
      list_all marker_free (es_from r @ es_to r @ option_list (es_subject r))
      \<and> (es_suspicious r \<longleftrightarrow> list_ex is_suspicious
           (addrs mail ''from'' @ addrs mail ''to'' @ option_list (str_field mail ''subject'')))"
    by (simp add: email_summary_of_def Let_def external_texts_suspicious_def)
  show "let r = search_hit_of mb snippets mail in
      list_all marker_free (sh_from r @ option_list (sh_subject r))
      \<and> (sh_suspicious r \<longleftrightarrow> list_ex is_suspicious
           (addrs mail ''from'' @ option_list (str_field mail ''subject'')
            @ filter (\<lambda>t. t \<noteq> []) (option_list (snippets (opt_str (str_field mail ''id''))))))"
    by (auto simp: search_hit_of_def Let_def external_texts_suspicious_def evaluate_def option_list_def
        split: option.split)
  show "let r = thread_email_of mail in
      list_all marker_free (th_from r @ option_list (th_subject r))
      \<and> (th_suspicious r \<longleftrightarrow> list_ex is_suspicious
           (addrs mail ''from'' @ option_list (str_field mail ''subject'')
            @ [truncate_text_body (extract_text_body mail)]))"
    by (auto simp: thread_email_of_def Let_def external_texts_suspicious_def evaluate_def)
  have "?texts (headers_of mail) = map sanitize_external_text
      (addrs mail ''from'' @ addrs mail ''to'' @ option_list (str_field mail ''subject'')
       @ json_texts (get_or_null mail ''messageId'') @ json_texts (get_or_null mail ''inReplyTo'')
       @ json_texts (get_or_null mail ''references''))"
    by (simp add: headers_of_def Let_def get_or_null_def [of "jobj _"] sanitized_texts
        sanitize_external_list_def option_list_def split: option.split)
  then show "let r = headers_of mail;
          raw = addrs mail ''from'' @ addrs mail ''to'' @ option_list (str_field mail ''subject'')
            @ json_texts (get_or_null mail ''messageId'') @ json_texts (get_or_null mail ''inReplyTo'')
            @ json_texts (get_or_null mail ''references'') in
      list_all marker_free (?texts r)
      \<and> (eh_suspicious r \<longleftrightarrow> list_ex is_suspicious raw)"
    unfolding Let_def
    by (simp only: clean) (simp add: headers_of_def Let_def external_texts_suspicious_def suspicious_texts)
qed

section \<open>Composing\<close>

definition is_object :: "json \<Rightarrow> bool" where
  "is_object v \<longleftrightarrow> as_object v \<noteq> None"

lemma is_object_jobj [simp]: "is_object (jobj kvs)" "is_object (JObj m)"
  by (simp_all add: is_object_def jobj_def)

lemma put_object [simp]:
  "is_object v \<Longrightarrow> json_get (json_put k x v) j = (if j = k then Some x else json_get v j)"
  "is_object v \<Longrightarrow> is_object (json_put k x v)"
  by (cases v; simp add: is_object_def)+

lemma draft_object_get:
  "is_object (draft_object drafts from to subject text [])"
  "json_get (draft_object drafts from to subject text []) k =
     map_of [(''mailboxIds'', jobj [(drafts, JBool True)]),
            (''keywords'', jobj [(''$draft'', JBool True), (''$seen'', JBool True)]),
            (''from'', JArr [from]), (''to'', JArr to), (''subject'', JStr subject),
            (''bodyValues'', jobj [(''b'', body_value text)]),
            (''textBody'', text_part)] k"
  by (simp_all add: draft_object_def)

lemma put_in_object [simp]:
  assumes "is_object v" "json_get v a = Some w"
  shows "json_get (put_in a b x v) j = (if j = a then Some (json_put b x w) else json_get v j)"
    and "is_object (put_in a b x v)"
  using assms by (simp_all add: put_in_def)

lemma addr_of_email_objs: "List.map_filter addr_of (email_objs xs) = xs"
  by (induction xs) (simp_all add: email_objs_def map_filter_simps addr_of_def get_str_def)

lemma html_part_id: "part_id_of mail f = Some ''h''" if "json_get mail f = Some html_part"
  using that by (simp add: part_id_of_def get_array_def html_part_def first_of_def get_str_def)

lemma text_part_id: "part_id_of mail f = Some ''b''" if "json_get mail f = Some text_part"
  using that by (simp add: part_id_of_def get_array_def text_part_def first_of_def get_str_def)

text \<open>The message after each step of \<open>build_email_object\<close>.\<close>

definition with_html :: "string option \<Rightarrow> json \<Rightarrow> json" where
  "with_html html v =
     (case html of
        None \<Rightarrow> v
      | Some h \<Rightarrow> json_put ''htmlBody'' html_part (put_in ''bodyValues'' ''h'' (body_value h) v))"

definition with_addresses :: "string \<Rightarrow> string list \<Rightarrow> json \<Rightarrow> json" where
  "with_addresses f xs v = (if xs = [] then v else json_put f (JArr (email_objs xs)) v)"

definition with_parent :: "string option \<Rightarrow> json \<Rightarrow> json" where
  "with_parent irt v = (case irt of None \<Rightarrow> v | Some i \<Rightarrow> json_put ''inReplyTo'' (jstrs [i]) v)"

lemma build_email_steps:
  "build_email_object p drafts from = Inr mail \<longleftrightarrow>
     (se_body_html p = None \<or> trim (se_body_text p) \<noteq> []) \<and>
     mail = with_parent (se_in_reply_to p) (with_addresses ''bcc'' (se_bcc p) (with_addresses ''cc'' (se_cc p)
       (with_html (se_body_html p)
         (draft_object drafts from (email_objs (se_to p)) (se_subject p) (se_body_text p) []))))"
  by (auto simp: build_email_object_def Let_def with_html_def with_addresses_def with_parent_def)

lemma with_addresses_get [simp]:
  "is_object v \<Longrightarrow> json_get (with_addresses f xs v) k = (if xs \<noteq> [] \<and> k = f then Some (JArr (email_objs xs)) else json_get v k)"
  "is_object v \<Longrightarrow> is_object (with_addresses f xs v)"
  by (simp_all add: with_addresses_def)

lemma with_parent_get [simp]:
  "is_object v \<Longrightarrow> json_get (with_parent irt v) k
     = (if irt \<noteq> None \<and> k = ''inReplyTo'' then Some (jstrs [the irt]) else json_get v k)"
  "is_object v \<Longrightarrow> is_object (with_parent irt v)"
  by (auto simp: with_parent_def split: option.split)

lemma with_html_get [simp]:
  assumes "is_object v" "json_get v ''bodyValues'' = Some (jobj kvs)"
  shows "json_get (with_html html v) k =
     (if html \<noteq> None \<and> k = ''htmlBody'' then Some html_part
      else if html \<noteq> None \<and> k = ''bodyValues'' then
        Some (JObj (obj_insert ''h'' (body_value (the html)) (obj_of kvs)))
      else json_get v k)"
    and "is_object (with_html html v)"
  using assms by (auto simp: with_html_def jobj_def split: option.split)

lemma build_email_gets:
  assumes "build_email_object p drafts from = Inr mail"
  shows "json_get mail ''textBody'' = Some text_part"
    and "json_get mail ''htmlBody'' = map_option (\<lambda>_. html_part) (se_body_html p)"
    and "\<exists>values. json_get mail ''bodyValues'' = Some (JObj values)
       \<and> map_of values ''b'' = Some (body_value (se_body_text p))
       \<and> map_of values ''h'' = map_option body_value (se_body_html p)"
    and "json_get mail ''to'' = Some (JArr (email_objs (se_to p)))"
    and "json_get mail ''cc'' = (if se_cc p = [] then None else Some (JArr (email_objs (se_cc p))))"
    and "json_get mail ''bcc'' = (if se_bcc p = [] then None else Some (JArr (email_objs (se_bcc p))))"
    and "json_get mail ''subject'' = Some (JStr (se_subject p))"
    and "json_get mail ''from'' = Some (JArr [from])"
    and "json_get mail ''mailboxIds'' = Some (jobj [(drafts, JBool True)])"
    and "json_get mail ''keywords'' = Some (jobj [(''$draft'', JBool True), (''$seen'', JBool True)])"
proof -
  note mail = assms [unfolded build_email_steps, THEN conjunct2]
  let ?d = "draft_object drafts from (email_objs (se_to p)) (se_subject p) (se_body_text p) []"
  have bodies: "json_get ?d ''bodyValues'' = Some (jobj [(''b'', body_value (se_body_text p))])"
    by (simp add: draft_object_get)
  note gets = mail with_html_get [OF draft_object_get(1) bodies] draft_object_get
  show "json_get mail ''textBody'' = Some text_part" by (simp add: gets)
  show "json_get mail ''htmlBody'' = map_option (\<lambda>_. html_part) (se_body_html p)"
    by (cases "se_body_html p") (simp_all add: gets)
  show "\<exists>values. json_get mail ''bodyValues'' = Some (JObj values)
       \<and> map_of values ''b'' = Some (body_value (se_body_text p))
       \<and> map_of values ''h'' = map_option body_value (se_body_html p)"
    by (cases "se_body_html p") (simp_all add: gets jobj_def map_of_obj_of)
  show "json_get mail ''to'' = Some (JArr (email_objs (se_to p)))" by (simp add: gets)
  show "json_get mail ''cc'' = (if se_cc p = [] then None else Some (JArr (email_objs (se_cc p))))"
    by (simp add: gets)
  show "json_get mail ''bcc'' = (if se_bcc p = [] then None else Some (JArr (email_objs (se_bcc p))))"
    by (simp add: gets)
  show "json_get mail ''subject'' = Some (JStr (se_subject p))" by (simp add: gets)
  show "json_get mail ''from'' = Some (JArr [from])" by (simp add: gets)
  show "json_get mail ''mailboxIds'' = Some (jobj [(drafts, JBool True)])" by (simp add: gets)
  show "json_get mail ''keywords'' = Some (jobj [(''$draft'', JBool True), (''$seen'', JBool True)])"
    by (simp add: gets)
qed

text \<open>
  C34. A composed message reads back as what the caller gave: from the message that a send builds, the
  readers get the caller's text body, HTML body, recipients and subject; a message with an
  HTML part always has a text part that is not blank, and no message is built without one.
\<close>

theorem composed_message_reads_back:
  "case build_email_object p drafts from of
     Inl e \<Rightarrow> err_code e = - 32602 \<and> se_body_html p \<noteq> None \<and> trim (se_body_text p) = []
   | Inr mail \<Rightarrow>
       (case se_body_html p of None \<Rightarrow> True | Some _ \<Rightarrow> trim (extract_text_body mail) \<noteq> [])
       \<and> extract_text_body mail = se_body_text p \<and> extract_html_body mail = se_body_html p
       \<and> addrs mail ''to'' = se_to p \<and> addrs mail ''cc'' = se_cc p \<and> addrs mail ''bcc'' = se_bcc p
       \<and> str_field mail ''subject'' = Some (se_subject p)
       \<and> get_array mail ''from'' = Some [from] \<and> set (keywords_of mail) = {''$draft'', ''$seen''}"
proof (cases "build_email_object p drafts from")
  case (Inl e)
  then show ?thesis by (auto simp: build_email_object_def Let_def split: if_splits)
next
  case (Inr mail)
  note g = build_email_gets [OF Inr]
  obtain vs where vs: "json_get mail ''bodyValues'' = Some (JObj vs)"
    "map_of vs ''b'' = Some (body_value (se_body_text p))" "map_of vs ''h'' = map_option body_value (se_body_html p)"
    using g(3) by blast
  have v: "get_str (body_value t) ''value'' = Some t" for t by (simp add: get_str_def body_value_def)
  have plain_body: "extract_text_body mail = se_body_text p"
    using vs by (simp add: extract_text_body_def get_object_def text_part_id [OF g(1)] v)
  have "extract_html_body mail = se_body_html p"
  proof (cases "se_body_html p")
    case None
    then show ?thesis using g(2) by (simp add: extract_html_body_def part_id_of_def get_array_def)
  next
    case (Some h)
    then have "part_id_of mail ''htmlBody'' = Some ''h''" using g(2) by (simp add: html_part_id)
    then show ?thesis using Some vs by (simp add: extract_html_body_def get_object_def v)
  qed
  moreover have "set (keywords_of mail) = {''$draft'', ''$seen''}"
    using g(10) keys_obj_of [of "[(''$draft'', JBool True), (''$seen'', JBool True)]"]
    by (simp add: keywords_of_def get_object_def jobj_def)
  ultimately show ?thesis
    using plain_body g(4,5,6,7,8) Inr build_email_steps [of p drafts "from" mail]
    by (cases "se_body_html p") (simp_all add: addrs_def get_array_def addr_of_email_objs get_str_def)
qed

section \<open>Orders and totals\<close>

lemma foldl_saturating:
  "unat (foldl (\<lambda>t m. saturating_add t (unread_of m)) t l)
     = min (2 ^ 64 - 1) (unat t + sum_list (map (unat \<circ> unread_of) l))"
proof (induction l arbitrary: t)
  case Nil
  have "unat t < 2 ^ 64" using unsigned_less [of t] by simp
  then show ?case by simp
next
  case (Cons m l)
  have step: "unat (saturating_add t (unread_of m)) = min (2 ^ 64 - 1) (unat t + unat (unread_of m))"
    using unat_saturating [of t "unread_of m"] by (simp add: saturating_add_def)
  have "min k (min k (a + b) + c) = min k (a + (b + c))" for k a b c :: nat by simp
  then show ?case unfolding foldl.simps Cons.IH step by (simp add: comp_def)
qed

text \<open>
  The unread total of \<^verbatim>\<open>get_unread_summary\<close> is the sum of the counts the server gave, over every
  mailbox it listed, held at \<^verbatim>\<open>u64::MAX\<close>: it never wraps around.
\<close>

theorem total_unread_saturates:
  "unat (total_unread l) = min (2 ^ 64 - 1) (sum_list (map (unat \<circ> unread_of) l))"
  using foldl_saturating [of 0 l] by (simp add: total_unread_def)

text \<open>
  The threads and the activity listing are in descending order: the sort that \<^verbatim>\<open>read_thread\<close> and
  \<^verbatim>\<open>list_recent_activity\<close> use keeps every item, puts larger keys first, and leaves items with
  the same key in the server's order.
\<close>

theorem sort_desc_stable:
  "mset (sort_desc f xs) = mset xs
   \<and> sorted_wrt (\<lambda>a b. f b \<le> f a) (sort_desc f xs)
   \<and> filter (\<lambda>x. f x = k) (sort_desc f xs) = filter (\<lambda>x. f x = k) xs"
proof (intro conjI)
  show "mset (sort_desc f xs) = mset xs" by (simp add: sort_desc_def)
  have "sorted (map f (sort_key f (rev xs)))" by simp
  then have "sorted_wrt (\<lambda>a b. f a \<le> f b) (sort_key f (rev xs))" by (simp add: sorted_wrt_map)
  then show "sorted_wrt (\<lambda>a b. f b \<le> f a) (sort_desc f xs)"
    by (simp add: sort_desc_def sorted_wrt_rev)
  show "filter (\<lambda>x. f x = k) (sort_desc f xs) = filter (\<lambda>x. f x = k) xs"
    by (simp add: sort_desc_def rev_filter [symmetric] sort_key_stable)
qed

end
