(* ===== verification/Send_Laws.thy ===== *)
theory Send_Laws
  imports Call_Laws Email_Laws Samples
begin

text \<open>
  What the flag tools and \<^verbatim>\<open>send_email\<close> have asked the mail server for when they succeed, and that what
  they send is well-formed.
\<close>

section \<open>Updates\<close>

lemma update_map_keys:
  "sorted_wrt (<) (map fst (update_map ids patch))"
  "map_of (update_map ids patch) i = (if i \<in> set ids then Some patch else None)"
proof -
  have "foldl (\<lambda>m i. obj_insert i patch m) m ids = foldl (\<lambda>m (k, v). obj_insert k v m) m (map (\<lambda>i. (i, patch)) ids)" for m
    by (induction ids arbitrary: m) simp_all
  then have u: "update_map ids patch = obj_of (map (\<lambda>i. (i, patch)) ids)"
    by (simp add: update_map_def obj_of_def)
  show "sorted_wrt (<) (map fst (update_map ids patch))" unfolding u by (rule obj_of_sorted)
  show "map_of (update_map ids patch) i = (if i \<in> set ids then Some patch else None)"
    unfolding u map_of_obj_of by (simp add: map_of_map_restrict rev_map restrict_map_def)
qed

lemma with_account_posts:
  assumes "with_account X ctx (\<lambda>token acct. email_set_update X token acct ids patch) s = (Inr n, s')"
  shows "\<exists>tok acct before url. cx_token ctx = Some tok \<and> ids \<noteq> []
    \<and> trace s' = trace s @ before @ [post_json url (header_value tok)
         (call_body [CAP_CORE, CAP_MAIL] (update_call acct (update_map ids patch)))]
    \<and> list_all (session_fetch (header_value tok)) before"
proof -
  obtain tok acct s1 resps where tok: "cx_token ctx = Some tok"
    and a: "account_of X (header_value tok) s = (Inr acct, s1)" and ids: "ids \<noteq> []"
    and c: "call X (header_value tok) [CAP_CORE, CAP_MAIL] (update_call acct (update_map ids patch)) s1
            = (Inr resps, s')"
    using assms by (auto simp: with_account_def with_token_def bindE_Inr email_set_update_def)
  have "emits (session_fetch (header_value tok)) (account_of X (header_value tok))"
    unfolding account_of_def account_id_def by (intro emits_intros emits_fetch)
  from emitsD [OF this a] obtain b1 where b1: "trace s1 = trace s @ b1" "list_all (session_fetch (header_value tok)) b1"
    by blast
  from call_posts [OF c] obtain b2 url where b2: "trace s' = trace s1 @ b2 @ [post_json url (header_value tok)
         (call_body [CAP_CORE, CAP_MAIL] (update_call acct (update_map ids patch)))]"
      "list_all (session_fetch (header_value tok)) b2" by blast
  show ?thesis
    by (intro exI [of _ tok] exI [of _ acct] exI [of _ "b1 @ b2"] exI [of _ url]) (simp add: tok ids b1 b2)
qed

text \<open>The emails a flag tool is called on, and the patch each of them gets.\<close>

fun flag_targets :: "flags_request \<Rightarrow> string list" where
  "flag_targets (Mark_Read ids) = ids" | "flag_targets (Mark_Unread ids) = ids"
| "flag_targets (Set_Flag ids _) = ids" | "flag_targets (Unset_Flag ids _) = ids"
| "flag_targets (Set_Keyword ids _) = ids" | "flag_targets (Unset_Keyword ids _) = ids"
| "flag_targets (Move_To_Mailbox ids _) = ids" | "flag_targets (Copy_To_Mailbox ids _) = ids"

fun flag_effect :: "flags_request \<Rightarrow> json" where
  "flag_effect (Mark_Read _) = JObj [(''keywords/$seen'', JBool True)]"
| "flag_effect (Mark_Unread _) = JObj [(''keywords/$seen'', JNull)]"
| "flag_effect (Set_Flag _ f) = JObj [(''keywords/'' @ flag_keyword f, JBool True)]"
| "flag_effect (Unset_Flag _ f) = JObj [(''keywords/'' @ flag_keyword f, JNull)]"
| "flag_effect (Set_Keyword _ k) = JObj [(''keywords/'' @ k, JBool True)]"
| "flag_effect (Unset_Keyword _ k) = JObj [(''keywords/'' @ k, JNull)]"
| "flag_effect (Move_To_Mailbox _ m) = JObj [(''mailboxIds'', JObj [(m, JBool True)])]"
| "flag_effect (Copy_To_Mailbox _ m) = JObj [(''mailboxIds/'' @ m, JBool True)]"

lemma flags_router_update:
  "\<exists>f tool res nt. flags_router X ctx r = returns f (run_tool X ctx tool res nt (\<lambda>_. None) Write
     (with_account X ctx (\<lambda>token acct. email_set_update X token acct (flag_targets r) (flag_effect r))))"
proof -
  have e: "jobj [(k, v)] = JObj [(k, v)]" for k v by (simp add: jobj_def obj_of_def)
  show ?thesis
    by (cases r)
      (simp_all only: flags_router.simps flag_targets.simps flag_effect.simps mark_read_def mark_unread_def
        set_flag_def unset_flag_def set_keyword_def unset_keyword_def move_to_mailbox_def copy_to_mailbox_def
        keyword_patch_def membership_def e, blast+)
qed

text \<open>
  C32. A keyword, flag or placement tool that succeeded sent one update and nothing else but a session
  fetch: one \<^verbatim>\<open>Email/set\<close> with the caller's credential, whose \<^verbatim>\<open>update\<close> has exactly the ids of the call as
  its keys, each once and in order, and the same patch for each; an empty list of ids never
  succeeds.
\<close>

theorem flag_tools_update_exactly:
  assumes "flags_router X ctx r s = Some (Inr u, s')"
  shows "flag_targets r \<noteq> [] \<and> (\<exists>tok acct before url m. cx_token ctx = Some tok
    \<and> trace s' = trace s @ before @ [post_json url (header_value tok) (call_body [CAP_CORE, CAP_MAIL]
         [(''Email/set'', jobj [(''accountId'', JStr acct), (''update'', JObj m)], ''e'')])]
    \<and> list_all (session_fetch (header_value tok)) before
    \<and> sorted_wrt (<) (map fst m)
    \<and> map_of m = (\<lambda>i. if i \<in> set (flag_targets r) then Some (flag_effect r) else None))"
proof -
  obtain tool res nt n where run: "run_tool X ctx tool res nt (\<lambda>_. None) Write
     (with_account X ctx (\<lambda>token acct. email_set_update X token acct (flag_targets r) (flag_effect r))) s
     = (Inr n, s')"
    using assms flags_router_update [of X ctx r] by (auto simp: returns_Inr)
  obtain s0 s1 where b: "with_account X ctx (\<lambda>token acct.
       email_set_update X token acct (flag_targets r) (flag_effect r)) s0 = (Inr n, s1)"
    and t: "trace s0 = trace s" "trace s' = trace s1" using run_tool_Inr [OF run] by blast
  from with_account_posts [OF b] obtain tok acct before url where
    w: "cx_token ctx = Some tok" "flag_targets r \<noteq> []"
      "trace s1 = trace s0 @ before @ [post_json url (header_value tok)
         (call_body [CAP_CORE, CAP_MAIL] (update_call acct (update_map (flag_targets r) (flag_effect r))))]"
      "list_all (session_fetch (header_value tok)) before" by blast
  note keys = update_map_keys [of "flag_targets r" "flag_effect r"]
  show ?thesis
    by (intro conjI exI [of _ tok] exI [of _ acct] exI [of _ before] exI [of _ url]
        exI [of _ "update_map (flag_targets r) (flag_effect r)"])
      (use w t keys in \<open>simp_all add: update_call_def fun_eq_iff\<close>)
qed

section \<open>Sending\<close>


section \<open>Well-formed requests\<close>

lemma wf_call_body:
  "list_all (\<lambda>c. wf_json (fst (snd c))) calls \<Longrightarrow> wf_json (call_body use calls)"
  by (auto simp: call_body_def list_all_iff split_beta intro!: wf_jobj)

lemma wf_from_header: "wf_json (from_header c)"
  by (auto simp: from_header_def Let_def intro!: wf_jobj wf_json_put split: option.split)

lemma wf_email_objs: "list_all wf_json (email_objs xs)"
  by (auto simp: email_objs_def list_all_iff intro!: wf_jobj)

lemma wf_parts: "wf_json (body_value t)" "wf_json text_part" "wf_json html_part" "wf_json (jstrs xs)"
  by (auto simp: body_value_def text_part_def html_part_def jstrs_def list_all_iff intro!: wf_jobj)

lemma wf_draft_object: "wf_json v \<Longrightarrow> list_all wf_json tos \<Longrightarrow> wf_json (draft_object drafts v tos subject t [])"
  by (auto simp: draft_object_def wf_parts intro!: wf_jobj)

lemma wf_put_in: "wf_json v \<Longrightarrow> wf_json x \<Longrightarrow> wf_json (put_in a b x v)"
  by (auto simp: put_in_def intro!: wf_json_put intro: wf_json_get split: option.split)

lemma wf_sent_patch: "wf_json (sent_patch drafts sent)"
  by (auto simp: sent_patch_def Let_def intro!: wf_jobj wf_json_put split: option.split)

lemma wf_composed:
  assumes "build_email_object p drafts v = Inr mail" "wf_json v"
  shows "wf_json mail"
  using assms(1) wf_email_objs
  by (auto simp: build_email_steps with_parent_def with_addresses_def with_html_def wf_parts
      intro!: wf_json_put wf_put_in wf_draft_object assms(2) split: option.split)


section \<open>Witnesses\<close>

theorem flag_tools_update_exactly_witness:
  "\<exists>acct before url m. trace (snd (sample_run sample_write)) = before @ [post_json url ''Bearer t''
       (call_body [CAP_CORE, CAP_MAIL] [(''Email/set'', jobj [(''accountId'', JStr acct), (''update'', JObj m)], ''e'')])]
     \<and> map_of m = (\<lambda>i. if i = ''e'' then Some (JObj [(''keywords/$seen'', JBool True)]) else None)"
proof -
  have "flags_router sample_service sample_ctx (Mark_Read [''e'']) (sample_state 5)
      = Some (Inr (mark_seen_json [''e''] 1), snd (sample_run sample_write))"
    using sample_run_router [of sample_write] sample_write_eval
    by (simp add: sample_write_def Let_def split_beta prod_eq_iff)
  from flag_tools_update_exactly [OF this, unfolded flag_effect.simps] show ?thesis
    by (simp add: sample_ctx_def header_value_def sample_state_def) blast
qed



end
