(* ===== verification/Reply_Laws.thy ===== *)
theory Reply_Laws
  imports Send_Laws
begin

text \<open>
  What the tools that compose a message submit: a new message as the caller asked for it, a reply to the
  people and in the thread of the email it answers, a forward that quotes the email in full.
\<close>

section \<open>Replying\<close>

lemma with_threading_get:
  assumes "is_object v"
  shows "json_get (with_threading parent v) k =
    (case parent_message_id parent of
       None \<Rightarrow> json_get v k
     | Some mid \<Rightarrow>
         if k = ''references'' then
           Some (JArr ((case get_array parent ''references'' of None \<Rightarrow> [] | Some r \<Rightarrow> r) @ [JStr mid]))
         else if k = ''inReplyTo'' then Some (jstrs [mid]) else json_get v k)"
  using assms by (simp add: with_threading_def Let_def split: option.split)

lemma draft_text:
  assumes "\<And>k. k = ''textBody'' \<or> k = ''bodyValues'' \<Longrightarrow>
      json_get v k = json_get (draft_object drafts hdr tos subject t []) k"
  shows "extract_text_body v = t"
proof -
  have "json_get v ''textBody'' = Some text_part"
    "json_get v ''bodyValues'' = Some (jobj [(''b'', body_value t)])"
    using assms by (simp_all add: draft_object_get)
  then show ?thesis
    by (simp add: extract_text_body_def get_object_def text_part_id jobj_def map_of_obj_of get_str_def body_value_def)
qed

lemma reply_subject_marked: "to_ascii_lowercase (take 3 (reply_subject t)) = ''re:''"
proof (cases "starts_with (to_ascii_lowercase t) ''re:''")
  case True
  then obtain u where "to_ascii_lowercase t = ''re:'' @ u" by (auto simp: prefix_def)
  then have "take 3 (to_ascii_lowercase t) = ''re:''" by simp
  then show ?thesis using True by (simp add: reply_subject_def to_ascii_lowercase_def take_map)
next
  case False
  have "to_ascii_lowercase ''Re:'' = ''re:''" by code_simp
  then show ?thesis using False by (simp add: reply_subject_def)
qed

text \<open>The message of a reply, and what its readers find in it.\<close>

definition reply_message :: "reply_email_params \<Rightarrow> json \<Rightarrow> chosen_from \<Rightarrow> string \<Rightarrow> json" where
  "reply_message p parent chosen drafts = with_threading parent
     (draft_object drafts (from_header chosen) (reply_recipients (ry_reply_to_all p) parent)
        (reply_subject (opt_str (str_field parent ''subject''))) (ry_body p) [])"

lemma reply_message_reads:
  "get_array (reply_message p parent chosen drafts) ''from'' = Some [from_header chosen]"
  "get_array (reply_message p parent chosen drafts) ''to'' = Some (reply_recipients (ry_reply_to_all p) parent)"
  "str_field (reply_message p parent chosen drafts) ''subject''
     = Some (reply_subject (opt_str (str_field parent ''subject'')))"
  "get_array (reply_message p parent chosen drafts) ''references'' = map_option (\<lambda>mid.
     (case get_array parent ''references'' of None \<Rightarrow> [] | Some r \<Rightarrow> r) @ [JStr mid]) (parent_message_id parent)"
  "extract_text_body (reply_message p parent chosen drafts) = ry_body p"
proof -
  show "extract_text_body (reply_message p parent chosen drafts) = ry_body p"
    by (rule draft_text [where drafts = drafts and tos = "[]" and subject = "[]" and hdr = JNull])
      (auto simp: reply_message_def with_threading_get draft_object_get split: option.split)
qed (simp_all add: get_array_def get_str_def reply_message_def with_threading_get draft_object_get
    split: option.split)


section \<open>Forwarding\<close>

definition forward_message :: "forward_email_params \<Rightarrow> json \<Rightarrow> chosen_from \<Rightarrow> string \<Rightarrow> json" where
  "forward_message p parent chosen drafts =
     draft_object drafts (from_header chosen) (email_objs (fw_to p))
       (forward_subject (opt_str (str_field parent ''subject''))) (forward_body (fw_message p) parent) []"

lemma forward_message_reads:
  "get_array (forward_message p parent chosen drafts) ''from'' = Some [from_header chosen]"
  "addrs (forward_message p parent chosen drafts) ''to'' = fw_to p"
  "extract_text_body (forward_message p parent chosen drafts) = forward_body (fw_message p) parent"
proof -
  show "extract_text_body (forward_message p parent chosen drafts) = forward_body (fw_message p) parent"
    by (rule draft_text [where drafts = drafts and tos = "[]" and subject = "[]" and hdr = JNull])
      (auto simp: forward_message_def draft_object_get)
qed (simp_all add: get_array_def addrs_def forward_message_def draft_object_get addr_of_email_objs)

lemma forward_body_quotes:
  "\<exists>quoted. forward_body note0 parent = opt_str note0 @ quoted @ extract_text_body parent"
proof -
  let ?h = "''---------- Forwarded message ----------'' @ newline
     @ ''From: '' @ comma_join (addrs parent ''from'') @ newline
     @ ''To: '' @ comma_join (addrs parent ''to'') @ newline
     @ ''Subject: '' @ opt_str (str_field parent ''subject'') @ newline @ newline"
  have h: "forward_body m parent
      = (case m of None \<Rightarrow> [] | Some n \<Rightarrow> if n = [] then [] else n @ newline @ newline) @ ?h @ extract_text_body parent" for m
    by (simp only: forward_body_def append_assoc)
  show ?thesis
    unfolding h
    by (cases "note0") (auto simp only: opt_str_def option.case append_assoc append_Nil if_True if_False
        split: if_split intro: exI [of _ ?h] exI [of _ "newline @ newline @ ?h"])
qed


section \<open>Witnesses\<close>

definition sample_reply :: reply_email_params where
  "sample_reply = \<lparr>ry_email_id = ''e'', ry_reply_to_all = False, ry_body = ''text'', ry_from = None\<rparr>"

definition sample_forward :: forward_email_params where
  "sample_forward =
     \<lparr>fw_email_id = ''e'', fw_to = [''carol@c.x''], fw_message = Some ''look'', fw_from = None\<rparr>"

lemma sample_reply_eval:
  "fst (reply_email sample_service sample_ctx sample_reply (sample_state 5)) = Inr (''e1'', ''s1'', Some ''m1'')"
  "fst (forward_email sample_service sample_ctx sample_forward (sample_state 5)) = Inr (''e1'', ''s1'')"
  by code_simp+

lemma sample_token: "cx_token sample_ctx = Some tok \<Longrightarrow> header_value tok = ''Bearer t''"
  by (auto simp: sample_ctx_def header_value_def)

lemma sample_params [simp]:
  "\<not> ry_reply_to_all sample_reply" "ry_body sample_reply = ''text''"
  "fw_to sample_forward = [''carol@c.x'']" "fw_message sample_forward = Some ''look''"
  by (simp_all add: sample_reply_def sample_forward_def)



end
