(* ===== verification/Answers.thy ===== *)
theory Answers
  imports Email_Laws Call_Laws Samples
begin

text \<open>
  What the JSON answers of the tools hold of the words of senders: the laws of the views of
  \<open>Email_Laws\<close>, carried through the whole run of a tool to the members of its answer.
\<close>

section \<open>Parts of an answer\<close>

text \<open>The values at a path; an array stands for its elements.\<close>

fun nodes_at :: "string list \<Rightarrow> json \<Rightarrow> json list" where
  "nodes_at ps (JArr vs) = concat (map (nodes_at ps) vs)"
| "nodes_at (p # ps) (JObj m) = (case map_of m p of None \<Rightarrow> [] | Some v \<Rightarrow> nodes_at ps v)"
| "nodes_at [] v = [v]"
| "nodes_at (p # ps) v = []"

text \<open>
  Where a tool answers with texts that senders wrote, which of them are bodies, and what it marks as
  untrusted.
\<close>

fun sender_paths :: "tool_request \<Rightarrow> string list list" where
  "sender_paths (Core (List_Recent_Emails _ _)) = [[''emails'', ''from''], [''emails'', ''to''], [''emails'', ''subject'']]"
| "sender_paths (Core (Read_Email _)) =
     [[''from''], [''to''], [''cc''], [''subject''], [''body_html''], [''attachments'', ''name'']]"
| "sender_paths (Reads (Search_Emails _ _ _)) = [[''results'', ''from''], [''results'', ''subject'']]"
| "sender_paths (Reads (Read_Thread _ _)) = [[''emails'', ''from''], [''emails'', ''subject'']]"
| "sender_paths (Reads (Get_Email_Headers _)) =
     map (\<lambda>k. [''headers'', k]) [''from'', ''to'', ''subject'', ''message_id'', ''in_reply_to'', ''references'']"
| "sender_paths (Reads (List_Attachments _)) = [[''attachments'', ''filename'']]"
| "sender_paths (Attachments (Download_Attachment _ _)) = [[''filename'']]"
| "sender_paths _ = []"

fun body_paths :: "tool_request \<Rightarrow> string list list" where
  "body_paths (Core (Read_Email _)) = [[''body_text'']]"
| "body_paths (Reads (Search_Emails _ _ _)) = [[''results'', ''snippet'']]"
| "body_paths (Reads (Read_Thread _ _)) = [[''emails'', ''body_text'']]"
| "body_paths _ = []"

fun marked_items :: "tool_request \<Rightarrow> json \<Rightarrow> json list" where
  "marked_items (Core (List_Recent_Emails _ _)) v = nodes_at [''emails''] v"
| "marked_items (Core (Read_Email _)) v = [v]"
| "marked_items (Reads (Search_Emails _ _ _)) v = nodes_at [''results''] v"
| "marked_items (Reads (Read_Thread _ _)) v = nodes_at [''emails''] v"
| "marked_items (Reads (Get_Email_Headers _)) v = [v]"
| "marked_items (Reads (List_Attachments _)) v = [v]"
| "marked_items (Attachments (Download_Attachment _ _)) v = [v]"
| "marked_items _ v = []"

definition wrapped_text :: "json \<Rightarrow> bool" where
  "wrapped_text v \<longleftrightarrow> v = JNull \<or> (\<exists>mailbox sender i body. v = JStr (wrap_body mailbox sender i body))"

definition marked :: "json \<Rightarrow> bool" where
  "marked v \<longleftrightarrow> json_get v ''untrusted_content'' = Some (JBool True)
     \<and> (\<exists>b. json_get v ''suspicious'' = Some (JBool b))"

definition sandboxed :: "tool_request \<Rightarrow> json \<Rightarrow> bool" where
  "sandboxed r v \<longleftrightarrow>
     (\<forall>p \<in> set (sender_paths r). \<forall>n \<in> set (nodes_at p v). list_all marker_free (json_texts n))
     \<and> (\<forall>p \<in> set (body_paths r). list_all wrapped_text (nodes_at p v))
     \<and> list_all marked (marked_items r v)"

section \<open>The encodings\<close>

lemma nodes_jobj [simp]:
  "nodes_at (p # ps) (jobj kvs) = (case map_of (rev kvs) p of None \<Rightarrow> [] | Some v \<Rightarrow> nodes_at ps v)"
  by (simp add: jobj_def map_of_obj_of)

lemma nodes_jarr [simp]: "nodes_at ps (jarr f xs) = concat (map (\<lambda>x. nodes_at ps (f x)) xs)"
  by (simp add: jarr_def comp_def)

lemma nodes_self [simp]: "nodes_at [] (jobj kvs) = [jobj kvs]"
  by (simp add: jobj_def)

lemma all_texts: "(\<forall>n \<in> set (nodes_at [] v). list_all P (json_texts n)) \<longleftrightarrow> list_all P (json_texts v)"
  by (induction v rule: json_texts.induct) (auto simp: list_all_iff)

lemma texts_of_fields [simp]:
  "json_texts (jstr_opt v) = option_list v" "json_texts (jstrs xs) = xs"
  by (cases v; simp add: jstr_opt_def jopt_def option_list_def) simp


lemma nodes_jstr_opt: "n \<in> set (nodes_at [] (jstr_opt v)) \<Longrightarrow> n = JNull \<or> (\<exists>t. v = Some t \<and> n = JStr t)"
  by (cases v) (simp_all add: jstr_opt_def jopt_def)

lemma json_get_answer [simp]: "marked (jobj kvs) \<longleftrightarrow>
   map_of (rev kvs) ''untrusted_content'' = Some (JBool True) \<and> (\<exists>b. map_of (rev kvs) ''suspicious'' = Some (JBool b))"
  by (simp add: marked_def)

section \<open>The tools\<close>

lemmas body_defs = with_account_def with_token_def bindE_Inr ret_def

lemma recent_emails_answer:
  assumes "list_recent_emails X ctx m l s = (Inr a, s')"
  obtains mails where "a = map email_summary_of mails"
  using run_tool_Inr [OF assms [unfolded list_recent_emails_def]] by (auto simp: body_defs)

lemma read_email_answer:
  assumes "read_email X ctx i s = (Inr a, s')"
  obtains mail where "a = read_result_of i mail"
  using run_tool_Inr [OF assms [unfolded read_email_def]] by (auto simp: body_defs)

lemma search_answer:
  assumes "search_emails X ctx q mb l s = (Inr a, s')"
  obtains snippets mails n where "a = (map (search_hit_of mb snippets) mails, n)"
  using run_tool_Inr [OF assms [unfolded search_emails_def Let_def]] by (auto simp: body_defs)

lemma thread_answer:
  assumes "read_thread X ctx i l s = (Inr a, s')"
  obtains mails where "a = map thread_email_of mails"
  using run_tool_Inr [OF assms [unfolded read_thread_def]] by (auto simp: body_defs)

lemma headers_answer:
  assumes "get_email_headers X ctx i s = (Inr a, s')"
  obtains mail where "a = headers_of mail"
  using run_tool_Inr [OF assms [unfolded get_email_headers_def]] by (auto simp: body_defs)

lemma listing_answer:
  assumes "list_attachments X ctx i s = (Inr a, s')"
  obtains mail where "a = attachment_listing_of mail"
  using run_tool_Inr [OF assms [unfolded list_attachments_def]] by (auto simp: body_defs)

lemma download_answer:
  assumes "download_attachment X ctx i b s = (Inr a, s')"
  obtains name where "da_filename a = sanitize_external_text name" "da_untrusted_content a"
  using run_tool_Inr [OF assms [unfolded download_attachment_def Let_def]] by (auto simp: body_defs)

section \<open>Every answer is sandboxed\<close>

lemma marker_free_lists [simp]:
  "list_all marker_free (map sanitize_external_text xs)"
  by (simp add: list_all_iff)

lemma sandboxed_recent: "sandboxed (Core (List_Recent_Emails m l)) (recent_emails_json (map email_summary_of mails))"
  by (auto simp: sandboxed_def recent_emails_json_def email_summary_json_def email_summary_of_def Let_def
      all_texts ball_UN list_all_iff [of marked])

lemma sandboxed_hits:
  "sandboxed (Reads (Search_Emails q mb l)) (search_emails_json (map (search_hit_of mb' snippets) mails, n))"
  by (auto simp: sandboxed_def search_emails_json_def search_hit_json_def search_hit_of_def Let_def
      all_texts ball_UN list_all_iff [of marked] list_all_iff [of wrapped_text] wrapped_text_def evaluate_def
      dest!: nodes_jstr_opt split: option.splits if_splits)

lemma sandboxed_thread: "sandboxed (Reads (Read_Thread i l)) (read_thread_json (map thread_email_of mails))"
  by (auto simp: sandboxed_def read_thread_json_def thread_email_json_def thread_email_of_def Let_def
      all_texts ball_UN list_all_iff [of marked] list_all_iff [of wrapped_text] wrapped_text_def evaluate_def)

lemma sandboxed_read: "sandboxed (Core (Read_Email i)) (read_email_json (read_result_of i' mail))"
  by (auto simp: sandboxed_def read_email_json_def read_result_of_def attachment_summary_json_def
      attachment_summary_of_def read_email_html_body_def option_list_def Let_def all_texts ball_UN wrapped_text_def
      evaluate_def dest!: nodes_jstr_opt split: option.splits)

lemma sandboxed_headers: "sandboxed (Reads (Get_Email_Headers i)) (email_headers_json (headers_of mail))"
  by (auto simp: sandboxed_def email_headers_json_def headers_of_def Let_def all_texts sanitized_texts
      sanitize_external_list_def split: option.splits)

lemma sandboxed_listing: "sandboxed (Reads (List_Attachments i)) (list_attachments_json (attachment_listing_of mail))"
  by (auto simp: sandboxed_def list_attachments_json_def attachment_listing_of_def attachment_info_json_def
      attachment_info_of_def all_texts ball_UN)

lemma sandboxed_download:
  "da_filename a = sanitize_external_text name \<Longrightarrow> da_untrusted_content a
   \<Longrightarrow> sandboxed (Attachments (Download_Attachment i b)) (download_attachment_json a)"
  by (simp add: sandboxed_def download_attachment_json_def)


section \<open>Witness\<close>

lemma sample_reading_eval:
  "let (res, s') = sample_run (Reads (Get_Email_Headers ''e''))
   in \<not> isl res \<and> nodes_at [''headers'', ''subject''] (projr res) = [JStr ''hi'']"
  by code_simp


end
