(* ===== verification/Client_Calls.thy ===== *)
theory Client_Calls
  imports Params Tool_Laws
begin

text \<open>
  What a client can rely on when it calls a tool: every request can be written as a call and is read back as
  it was, a call that is read is a request of the tool that it names, and only the members that are
  parameters of the tool matter.
\<close>

section \<open>Writing and reading\<close>

text \<open>
  A member that stands for a field: it has the field's value, or it is absent and the value is the
  default.
\<close>

definition stated :: "jmap \<Rightarrow> string \<times> json option \<times> json \<Rightarrow> bool" where
  "stated m f = (case f of (k, absent, v) \<Rightarrow>
     (case map_of m k of Some u \<Rightarrow> u = v | None \<Rightarrow> absent = Some v))"

text \<open>A way of writing values that a reader undoes; the optional and the repeated field follow.\<close>

locale codec =
  fixes ser :: "'a \<Rightarrow> json" and de :: "json \<Rightarrow> 'a option"
  assumes de_ser: "de (ser x) = Some x"
    and ser_something: "ser x \<noteq> JNull"
begin

lemma ser_eq: "ser x = ser y \<longleftrightarrow> x = y"
  by (metis de_ser option.inject)

lemma read_vec: "de_vec de (jarr ser xs) = Some xs"
proof -
  have "those (map (\<lambda>x. de (ser x)) xs) = Some xs"
    by (induction xs) (simp_all add: de_ser)
  then show ?thesis by (simp add: de_vec_def jarr_def comp_def)
qed

lemma vec_given: "stated m (k, None, jarr ser xs) \<Longrightarrow> field (de_vec de) k m = Some xs"
  by (auto simp: stated_def field_def read_vec split: option.splits)

end

text \<open>A value may have only one writing; then a field is read exactly when it is stated.\<close>

locale exact_codec = codec +
  assumes exact: "de v = Some x \<Longrightarrow> v = ser x"
begin

lemma de_iff: "de v = Some x \<longleftrightarrow> v = ser x"
  using exact de_ser by blast

lemma field_iff: "field de k m = Some x \<longleftrightarrow> stated m (k, None, ser x)"
  by (auto simp: field_def stated_def de_iff split: option.splits)

lemma field_or_iff: "field_or d de k m = Some x \<longleftrightarrow> stated m (k, Some (ser d), ser x)"
  by (auto simp: field_or_def stated_def de_iff ser_eq split: option.splits)

lemma opt_iff: "field_or None (de_opt de) k m = Some v \<longleftrightarrow> stated m (k, Some JNull, jopt ser v)"
  by (cases v)
    (auto simp: field_or_def stated_def de_opt_def jopt_def de_iff ser_something ser_something [symmetric] split: option.splits)

lemma vec_exact: "de_vec de v = Some xs \<Longrightarrow> v = jarr ser xs"
proof -
  assume "de_vec de v = Some xs"
  then obtain us where v: "v = JArr us" and "those (map de us) = Some xs"
    by (auto simp: de_vec_def split: json.splits)
  from this(2) have "us = map ser xs"
    by (induction us arbitrary: xs) (auto simp: de_iff split: option.splits)
  then show ?thesis by (simp add: v jarr_def)
qed

end

interpretation text_codec: exact_codec JStr as_str
  by unfold_locales (simp_all, elim as_str.elims, simp_all)

interpretation flag_codec: exact_codec JBool as_bool
  by unfold_locales (simp_all, elim as_bool.elims, simp_all)

interpretation texts_codec: exact_codec "jarr JStr" "de_vec as_str"
  by unfold_locales (simp_all add: text_codec.read_vec text_codec.vec_exact, simp add: jarr_def)

lemma de_u32_ju32: "de_u32 (ju32 n) = Some n"
proof -
  have bound: "unat n < 2 ^ 32" using unsigned_less [of n] by simp
  then have "unat (ucast n :: u64) = unat n"
    by (simp add: unsigned_ucast_eq take_bit_nat_eq_self)
  moreover have "ucast (ucast n :: u64) = n"
    by (rule bit_word_eqI) (simp add: bit_simps)
  ultimately show ?thesis using bound by (simp add: de_u32_def ju32_def jnum_def)
qed

lemma de_u32_exact: "de_u32 v = Some n \<Longrightarrow> v = ju32 n"
proof -
  assume "de_u32 v = Some n"
  then obtain u where u: "v = JNum (PosInt u)" "unat u < 2 ^ 32" "n = ucast u"
    by (auto simp: de_u32_def split: json.splits number.splits if_splits)
  have "ucast (ucast u :: u32) = u"
    using u(2) by (intro word_unat_eq_iff [THEN iffD2])
      (simp add: unsigned_ucast_eq unsigned_take_bit_eq take_bit_nat_eq_self)
  then show ?thesis by (simp add: u ju32_def jnum_def)
qed

interpretation number_codec: exact_codec ju32 de_u32
  by unfold_locales (simp_all add: de_u32_ju32 de_u32_exact, simp add: ju32_def jnum_def)

definition attachment_input_json :: "attachment_input \<Rightarrow> json" where
  "attachment_input_json a =
     jobj [(''filename'', JStr (in_filename a)), (''mime_type'', JStr (in_mime_type a)),
           (''body_base64'', JStr (in_body_base64 a))]"

interpretation attachment_codec: codec attachment_input_json de_attachment_input
  by unfold_locales
    (simp_all add: attachment_input_json_def de_attachment_input_def jobj_def field_def map_of_obj_of)

section \<open>Calls\<close>

text \<open>The fields of a call: the name, what the field is when it is absent, and the value.\<close>

abbreviation required :: "string \<Rightarrow> json \<Rightarrow> string \<times> json option \<times> json" where
  "required k v \<equiv> (k, None, v)"

abbreviation optional :: "string \<Rightarrow> json \<Rightarrow> string \<times> json option \<times> json" where
  "optional k v \<equiv> (k, Some JNull, v)"

fun fields_of :: "tool_request \<Rightarrow> (string \<times> json option \<times> json) list" where
  "fields_of (Core r) = (case r of
      List_Recent_Emails i l \<Rightarrow> [required ''mailbox_id'' (JStr i),
         (''limit'', Some (ju32 default_email_limit), ju32 l)]
    | Read_Email i \<Rightarrow> [required ''email_id'' (JStr i)]
    | Send_Email p \<Rightarrow>
        [required ''from'' (JStr (se_from p)), required ''to'' (jarr JStr (se_to p)),
         (''cc'', Some (jarr JStr []), jarr JStr (se_cc p)),
         (''bcc'', Some (jarr JStr []), jarr JStr (se_bcc p)), required ''subject'' (JStr (se_subject p)),
         required ''body_text'' (JStr (se_body_text p)), optional ''body_html'' (jopt JStr (se_body_html p)),
         optional ''in_reply_to'' (jopt JStr (se_in_reply_to p))]
    | _ \<Rightarrow> [])"
| "fields_of (Reads r) = (case r of
      Get_Mailbox_Info i \<Rightarrow> [required ''mailbox_id'' (JStr i)]
    | Search_Emails q mb l \<Rightarrow> [required ''query'' (JStr q), optional ''mailbox_id'' (jopt JStr mb),
         (''limit'', Some (ju32 default_email_limit), ju32 l)]
    | Read_Thread i l \<Rightarrow> [required ''thread_id'' (JStr i),
         (''limit'', Some (ju32 default_email_limit), ju32 l)]
    | Get_Unread_Summary ids \<Rightarrow> [optional ''mailbox_ids'' (jopt (jarr JStr) ids)]
    | List_Recent_Activity l \<Rightarrow> [(''limit'', Some (ju32 default_email_limit), ju32 l)]
    | Get_Email_Headers i \<Rightarrow> [required ''email_id'' (JStr i)]
    | List_Attachments i \<Rightarrow> [required ''email_id'' (JStr i)])"
| "fields_of (Flags r) = (case r of
      Mark_Read ids \<Rightarrow> [required ''email_ids'' (jarr JStr ids)]
    | Mark_Unread ids \<Rightarrow> [required ''email_ids'' (jarr JStr ids)]
    | Set_Flag ids k \<Rightarrow> [required ''email_ids'' (jarr JStr ids), required ''flag'' (JStr k)]
    | Unset_Flag ids k \<Rightarrow> [required ''email_ids'' (jarr JStr ids), required ''flag'' (JStr k)]
    | Set_Keyword ids k \<Rightarrow> [required ''email_ids'' (jarr JStr ids), required ''keyword'' (JStr k)]
    | Unset_Keyword ids k \<Rightarrow> [required ''email_ids'' (jarr JStr ids), required ''keyword'' (JStr k)]
    | Move_To_Mailbox ids t \<Rightarrow> [required ''email_ids'' (jarr JStr ids), required ''target_mailbox_id'' (JStr t)]
    | Copy_To_Mailbox ids t \<Rightarrow> [required ''email_ids'' (jarr JStr ids), required ''target_mailbox_id'' (JStr t)])"
| "fields_of (Compose r) = (case r of
      Send_Email_With_Attachments p \<Rightarrow>
        [required ''from'' (JStr (sa_from p)), required ''to'' (jarr JStr (sa_to p)),
         (''cc'', Some (jarr JStr []), jarr JStr (sa_cc p)),
         required ''subject'' (JStr (sa_subject p)), required ''body_text'' (JStr (sa_body_text p)),
         required ''attachments'' (jarr attachment_input_json (sa_attachments p))]
    | Reply_Email p \<Rightarrow>
        [required ''email_id'' (JStr (ry_email_id p)), required ''reply_to_all'' (JBool (ry_reply_to_all p)),
         required ''body'' (JStr (ry_body p)), optional ''from'' (jopt JStr (ry_from p))]
    | Forward_Email p \<Rightarrow>
        [required ''email_id'' (JStr (fw_email_id p)), required ''to'' (jarr JStr (fw_to p)),
         optional ''message'' (jopt JStr (fw_message p)), optional ''from'' (jopt JStr (fw_from p))]
    | Save_Draft p \<Rightarrow>
        [required ''from'' (JStr (sd_from p)), required ''to'' (jarr JStr (sd_to p)), required ''subject'' (JStr (sd_subject p)),
         required ''body'' (JStr (sd_body p)), optional ''in_reply_to'' (jopt JStr (sd_in_reply_to p))]
    | Update_Draft p \<Rightarrow>
        [required ''email_id'' (JStr (ud_email_id p)), optional ''from'' (jopt JStr (ud_from p)),
         optional ''to'' (jopt (jarr JStr) (ud_to p)), optional ''subject'' (jopt JStr (ud_subject p)),
         optional ''body'' (jopt JStr (ud_body p))])"
| "fields_of (Delete r) = (case r of
      Delete_Email ids \<Rightarrow> [required ''email_ids'' (jarr JStr ids)]
    | Permanently_Delete_Email ids \<Rightarrow> [required ''email_ids'' (jarr JStr ids)]
    | _ \<Rightarrow> [])"
| "fields_of (Attachments r) = (case r of
      Download_Attachment i a \<Rightarrow> [required ''email_id'' (JStr i), required ''attachment_id'' (JStr a)]
    | Upload_Blob_From_Url u \<Rightarrow> [required ''url'' (JStr u)]
    | Send_Email_With_Url_Attachment p \<Rightarrow>
        [required ''from'' (JStr (su_from p)), required ''to'' (jarr JStr (su_to p)), required ''subject'' (JStr (su_subject p)),
         required ''body'' (JStr (su_body p)), required ''attachment_url'' (JStr (su_attachment_url p)),
         required ''attachment_filename'' (JStr (su_attachment_filename p))])"
| "fields_of (Mailbox_Mgmt r) = (case r of
      Create_Mailbox n p \<Rightarrow> [required ''name'' (JStr n), optional ''parent_id'' (jopt JStr p)]
    | Rename_Mailbox i n \<Rightarrow> [required ''mailbox_id'' (JStr i), required ''new_name'' (JStr n)]
    | Delete_Mailbox i \<Rightarrow> [required ''mailbox_id'' (JStr i)]
    | Subscribe_Mailbox i \<Rightarrow> [required ''mailbox_id'' (JStr i)]
    | Unsubscribe_Mailbox i \<Rightarrow> [required ''mailbox_id'' (JStr i)])"
| "fields_of (Spam r) = (case r of
      Mark_As_Spam ids \<Rightarrow> [required ''email_ids'' (jarr JStr ids)]
    | Mark_As_Not_Spam ids \<Rightarrow> [required ''email_ids'' (jarr JStr ids)])"
| "fields_of (Profile r) = (case r of
      Create_Identity e n \<Rightarrow> [required ''email'' (JStr e), optional ''name'' (jopt JStr n)]
    | Set_Vacation_Response p \<Rightarrow>
        [required ''enabled'' (JBool (sp_enabled p)), required ''message'' (JStr (sp_message p)),
         optional ''start_date'' (jopt JStr (sp_start_date p)), optional ''end_date'' (jopt JStr (sp_end_date p))]
    | Set_Audit_Mailbox i \<Rightarrow> [required ''mailbox_id'' (JStr i)]
    | _ \<Rightarrow> [])"

text \<open>A call in which every field is written out.\<close>

definition arguments_of :: "tool_request \<Rightarrow> jmap" where
  "arguments_of r = obj_of (map (\<lambda>(k, absent, v). (k, v)) (fields_of r))"

lemma arguments_given: "list_all (stated (arguments_of r)) (fields_of r)"
proof -
  have "distinct (map fst (fields_of r))" by (cases r) (simp_all split: core_request.split reads_request.split
      flags_request.split compose_request.split delete_request.split attachments_request.split
      mailbox_mgmt_request.split spam_request.split profile_request.split)
  then have "distinct (map fst (map (\<lambda>(k, absent, v). (k, v)) (fields_of r)))"
    by (simp add: comp_def split_beta)
  then have "map_of (arguments_of r) k = Some v" if "(k, d, v) \<in> set (fields_of r)" for k d v
    unfolding arguments_of_def map_of_obj_of using that by (intro map_of_is_SomeI) (force simp: rev_map [symmetric])+
  then show ?thesis by (auto simp: list_all_iff stated_def)
qed

lemmas field_iffs = text_codec.field_iff text_codec.opt_iff texts_codec.field_iff texts_codec.field_or_iff texts_codec.opt_iff
  flag_codec.field_iff number_codec.field_or_iff

lemmas one_field_params = email_id_param_def email_ids_param_def mailbox_id_param_def ids_and_param_def
  read_email_params_def get_email_headers_params_def list_attachments_params_def mark_seen_params_def
  flag_params_def keyword_params_def move_params_def delete_email_params_def permanently_delete_email_params_def
  mark_as_spam_params_def mark_as_not_spam_params_def get_mailbox_info_params_def delete_mailbox_params_def
  subscribe_mailbox_params_def set_audit_mailbox_params_def

lemmas request_params = list_recent_emails_params_def search_emails_params_def read_thread_params_def
  get_unread_summary_params_def list_recent_activity_params_def download_attachment_params_def
  upload_blob_from_url_params_def create_mailbox_params_def rename_mailbox_params_def create_identity_params_def

lemma de_send_email_params_iff: "de_send_email_params m = Some p \<longleftrightarrow> list_all (stated m) (fields_of (Core (Send_Email p)))"
  by (cases p) (auto simp: de_send_email_params_def field_iffs bind_eq_Some_conv)

lemma de_reply_email_params_iff: "de_reply_email_params m = Some p \<longleftrightarrow> list_all (stated m) (fields_of (Compose (Reply_Email p)))"
  by (cases p) (auto simp: de_reply_email_params_def field_iffs bind_eq_Some_conv)

lemma de_forward_email_params_iff: "de_forward_email_params m = Some p \<longleftrightarrow> list_all (stated m) (fields_of (Compose (Forward_Email p)))"
  by (cases p) (auto simp: de_forward_email_params_def field_iffs bind_eq_Some_conv)

lemma de_save_draft_params_iff: "de_save_draft_params m = Some p \<longleftrightarrow> list_all (stated m) (fields_of (Compose (Save_Draft p)))"
  by (cases p) (auto simp: de_save_draft_params_def field_iffs bind_eq_Some_conv)

lemma de_update_draft_params_iff: "de_update_draft_params m = Some p \<longleftrightarrow> list_all (stated m) (fields_of (Compose (Update_Draft p)))"
  by (cases p) (auto simp: de_update_draft_params_def field_iffs bind_eq_Some_conv)

lemma de_send_with_url_params_iff: "de_send_with_url_params m = Some p \<longleftrightarrow> list_all (stated m) (fields_of (Attachments (Send_Email_With_Url_Attachment p)))"
  by (cases p) (auto simp: de_send_with_url_params_def field_iffs bind_eq_Some_conv)

lemma de_set_vacation_params_iff: "de_set_vacation_params m = Some p \<longleftrightarrow> list_all (stated m) (fields_of (Profile (Set_Vacation_Response p)))"
  by (cases p) (auto simp: de_set_vacation_params_def field_iffs bind_eq_Some_conv)

lemmas record_iffs = de_send_email_params_iff de_reply_email_params_iff de_forward_email_params_iff de_save_draft_params_iff de_update_draft_params_iff de_send_with_url_params_iff de_set_vacation_params_iff

lemmas reading = read_call_def tool_table_def one_field_params request_params record_iffs field_iffs
  bind_eq_Some_conv

lemma read_core: "read_call (tool_name (Core r)) m = Inr (Core r) \<longleftrightarrow> list_all (stated m) (fields_of (Core r))"
  by (cases r) (auto simp: reading split: option.splits)

lemma read_reads: "read_call (tool_name (Reads r)) m = Inr (Reads r) \<longleftrightarrow> list_all (stated m) (fields_of (Reads r))"
  by (cases r) (auto simp: reading split: option.splits)

lemma read_flags: "read_call (tool_name (Flags r)) m = Inr (Flags r) \<longleftrightarrow> list_all (stated m) (fields_of (Flags r))"
  by (cases r) (auto simp: reading split: option.splits)

lemma read_delete: "read_call (tool_name (Delete r)) m = Inr (Delete r) \<longleftrightarrow> list_all (stated m) (fields_of (Delete r))"
  by (cases r) (auto simp: reading split: option.splits)

lemma read_attachments: "read_call (tool_name (Attachments r)) m = Inr (Attachments r) \<longleftrightarrow> list_all (stated m) (fields_of (Attachments r))"
  by (cases r) (auto simp: reading split: option.splits)

lemma read_mailbox_mgmt: "read_call (tool_name (Mailbox_Mgmt r)) m = Inr (Mailbox_Mgmt r) \<longleftrightarrow> list_all (stated m) (fields_of (Mailbox_Mgmt r))"
  by (cases r) (auto simp: reading split: option.splits)

lemma read_spam: "read_call (tool_name (Spam r)) m = Inr (Spam r) \<longleftrightarrow> list_all (stated m) (fields_of (Spam r))"
  by (cases r) (auto simp: reading split: option.splits)

lemma read_profile: "read_call (tool_name (Profile r)) m = Inr (Profile r) \<longleftrightarrow> list_all (stated m) (fields_of (Profile r))"
  by (cases r) (auto simp: reading split: option.splits)

lemma read_compose:
  "tool_name (Compose r) \<noteq> ''send_email_with_attachments'' \<Longrightarrow>
   read_call (tool_name (Compose r)) m = Inr (Compose r) \<longleftrightarrow> list_all (stated m) (fields_of (Compose r))"
  by (cases r) (auto simp: reading split: option.splits)

lemma read_attaching:
  assumes "list_all (stated m) (fields_of (Compose (Send_Email_With_Attachments p)))"
  shows "read_call ''send_email_with_attachments'' m = Inr (Compose (Send_Email_With_Attachments p))"
proof -
  have "de_send_with_attachments_params m = Some p"
    using assms
    by (cases p) (auto simp: de_send_with_attachments_params_def field_iffs bind_eq_Some_conv
        intro: attachment_codec.vec_given)
  then show ?thesis by (simp add: read_call_def tool_table_def)
qed

text \<open>A call that is read is a request of the tool it names.\<close>

lemma read_call_names:
  assumes "read_call name m = Inr r"
  shows "tool_name r = name"
proof -
  have "list_all (\<lambda>(n, de). \<forall>m r. de m = Some r \<longrightarrow> tool_name r = n) tool_table"
    by (auto simp: tool_table_def one_field_params request_params Option.bind_eq_Some_conv)
  moreover obtain de where "map_of tool_table name = Some de" "de m = Some r"
    using assms by (auto simp: read_call_def split: option.splits)
  ultimately show ?thesis using map_of_SomeD by (fastforce simp: list_all_iff)
qed

text \<open>
  C16. A call means exactly what it says: it is read as a request if and only if it names the request's tool and
  each field of the request is stated, by a member with that value or, where the field has a default, by
  no member and the default; other members do not matter, and no name reaches the handler of another tool. (The
  attachments of \<^verbatim>\<open>send_email_with_attachments\<close> can be written in two ways; there the condition suffices.)
  Every request can be called like that.
\<close>

theorem calls_read_exactly:
  "(name \<noteq> ''send_email_with_attachments'' \<longrightarrow>
      (read_call name m = Inr r \<longleftrightarrow> tool_name r = name \<and> list_all (stated m) (fields_of r)))
   \<and> (list_all (stated m) (fields_of r) \<longrightarrow> read_call (tool_name r) m = Inr r)
   \<and> (read_call name m = Inr r \<longrightarrow> tool_name r = name)
   \<and> list_all (stated (arguments_of r)) (fields_of r)"
proof -
  have exact: "read_call (tool_name r) m = Inr r \<longleftrightarrow> list_all (stated m) (fields_of r)"
    if "tool_name r \<noteq> ''send_email_with_attachments''"
    using that read_core read_reads read_flags read_compose read_delete read_attachments read_mailbox_mgmt
      read_spam read_profile by (cases r) blast+
  have "read_call (tool_name r) m = Inr r" if "list_all (stated m) (fields_of r)"
  proof (cases "\<exists>p. r = Compose (Send_Email_With_Attachments p)")
    case True
    then show ?thesis using read_attaching that by auto
  next
    case False
    then have "tool_name r \<noteq> ''send_email_with_attachments''"
      by (cases r) (auto split: core_request.splits reads_request.splits flags_request.splits compose_request.splits
        delete_request.splits attachments_request.splits mailbox_mgmt_request.splits spam_request.splits
        profile_request.splits)
    then show ?thesis using exact that by blast
  qed
  then show ?thesis using exact read_call_names arguments_given by blast
qed

theorem calls_read_exactly_witness:
  "read_call ''search_emails'' [(''query'', JStr ''x''), (''limit'', JNum (PosInt 5)), (''other'', JNull)]
     = Inr (Reads (Search_Emails ''x'' None 5))
   \<and> read_call ''search_emails'' [(''limit'', JNum (PosInt 5))] \<noteq> Inr (Reads (Search_Emails [] None 5))"
  using calls_read_exactly [of "''search_emails''" "[(''query'', JStr ''x''), (''limit'', JNum (PosInt 5)), (''other'', JNull)]"
      "Reads (Search_Emails ''x'' None 5)"]
    calls_read_exactly [of "''search_emails''" "[(''limit'', JNum (PosInt 5))]" "Reads (Search_Emails [] None 5)"]
  by (simp add: stated_def ju32_def jnum_def jopt_def)

end
