(* ===== verification/Test_Support.thy ===== *)
theory Test_Support
  imports Email_View "HOL-Library.Code_Target_Nat"
begin

text \<open>
  The vocabulary of the repository's unit tests. The \<^verbatim>\<open>Tests_...\<close> theories translate the test functions of
  \<^verbatim>\<open>src/\<close> and run them on the model: a test is a boolean, the conjunction of its assertions in their order; a
  loop over cases is \<open>list_all\<close>; \<^verbatim>\<open>unwrap\<close>, \<^verbatim>\<open>expect\<close> and \<^verbatim>\<open>unwrap_err\<close> are a case distinction on whose other
  branch the test fails. What the clock or the randomness of a test may be is an argument of the test.
\<close>

section \<open>Assertions on strings\<close>

text \<open>\<^verbatim>\<open>str::matches(needle).count()\<close>: the non-overlapping occurrences, from the left.\<close>

function match_count :: "string \<Rightarrow> string \<Rightarrow> nat" where
  "match_count needle s =
     (case (if needle = [] then None else find_sub needle s) of
        None \<Rightarrow> 0
      | Some k \<Rightarrow> Suc (match_count needle (drop (k + length needle) s)))"
  by pat_completeness auto
termination
proof (relation "measure (\<lambda>(n, s). length s)", goal_cases)
  case (2 needle s k)
  then have "needle \<noteq> []" "find_sub needle s = Some k" by (auto split: if_splits)
  moreover from this have "k + length needle \<le> length s" by (intro find_sub_Some_le)
  ultimately show ?case by (cases needle) auto
qed simp

declare match_count.simps [simp del]

text \<open>\<^verbatim>\<open>str::lines\<close>, and a string in double quotes.\<close>

definition str_lines :: "string \<Rightarrow> string list" where
  "str_lines s =
     (let parts = split_char CHR 0x0A s
      in if last parts = [] then butlast parts else parts)"

definition qt :: "string \<Rightarrow> string" where
  "qt s = dq @ s @ dq"

section \<open>Assertions on results and values\<close>

text \<open>\<^verbatim>\<open>unwrap\<close> and \<^verbatim>\<open>unwrap_err\<close>, followed by assertions on what they give.\<close>

definition on_ok :: "'e + 'a \<Rightarrow> ('a \<Rightarrow> bool) \<Rightarrow> bool" where
  "on_ok r f = (case r of Inl _ \<Rightarrow> False | Inr x \<Rightarrow> f x)"

definition on_err :: "'e + 'a \<Rightarrow> ('e \<Rightarrow> bool) \<Rightarrow> bool" where
  "on_err r f = (case r of Inl e \<Rightarrow> f e | Inr _ \<Rightarrow> False)"

definition on_some :: "'a option \<Rightarrow> ('a \<Rightarrow> bool) \<Rightarrow> bool" where
  "on_some r f = (case r of None \<Rightarrow> False | Some x \<Rightarrow> f x)"

text \<open>\<^verbatim>\<open>v["k"]\<close> and \<^verbatim>\<open>v[i]\<close> of a JSON value: null where there is nothing.\<close>

definition at_key :: "json \<Rightarrow> string \<Rightarrow> json" where
  "at_key v k = (case json_get v k of None \<Rightarrow> JNull | Some x \<Rightarrow> x)"

fun at_index :: "json \<Rightarrow> nat \<Rightarrow> json" where
  "at_index (JArr xs) i = (if i < length xs then xs ! i else JNull)"
| "at_index _ i = JNull"

text \<open>Evaluation: the structure of a test is unfolded before its calls are computed.\<close>

lemma list_all_ground: "list_all p [] = True" "list_all p (x # xs) = (p x \<and> list_all p xs)"
  by simp_all

lemmas test_structure = Let_def list_all_ground on_ok_def on_err_def on_some_def

text \<open>The same without binders, for tests whose calls must not be unfolded on a bound result.\<close>

lemma on_ok_parts: "on_ok r f \<longleftrightarrow> \<not> isl r \<and> f (projr r)"
  by (cases r) (simp_all add: on_ok_def)

lemma on_err_parts: "on_err r f \<longleftrightarrow> isl r \<and> f (projl r)"
  by (cases r) (simp_all add: on_err_def)

lemma on_some_parts: "on_some r f \<longleftrightarrow> r \<noteq> None \<and> f (the r)"
  by (cases r) (simp_all add: on_some_def)

text \<open>
  The replacement functions by cases on their input, as code equations: under a binder, where the input is a
  variable, they then stay folded.
\<close>

lemma replace_ascii_code [code]:
  "replace_ascii_case_insensitive [] needle repl = []"
  "replace_ascii_case_insensitive (c # s) needle repl =
     (if needle = [] then c # s
      else case find_sub (to_ascii_lowercase needle) (to_ascii_lowercase (c # s)) of
        None \<Rightarrow> c # s
      | Some k \<Rightarrow> take k (c # s) @ repl @
          replace_ascii_case_insensitive (drop (k + length needle) (c # s)) needle repl)"
  by (simp_all add: replace_ascii_case_insensitive.simps [of "[]"]
      replace_ascii_case_insensitive.simps [of "c # s"])

lemma replace_sub_code [code]:
  "replace_sub needle repl [] = []"
  "replace_sub needle repl (c # s) =
     (case (if needle = [] then None else find_sub needle (c # s)) of
        None \<Rightarrow> c # s
      | Some k \<Rightarrow> take k (c # s) @ repl @ replace_sub needle repl (drop (k + length needle) (c # s)))"
  by (simp_all add: replace_sub.simps [of _ _ "[]"] replace_sub.simps [of _ _ "c # s"])

end
