(* ===== verification/Tests_Sender.thy ===== *)
theory Tests_Sender
  imports Test_Support From_Address Service
begin

text \<open>
  The unit tests of \<^verbatim>\<open>src/mcp.rs\<close> on the sender of a message, on limits and on the life of a token.
\<close>

section \<open>Declared addresses\<close>

definition ofa :: "string \<Rightarrow> string \<Rightarrow> owned_from_address" where
  "ofa owner mail = \<lparr>ofa_owner = owner, ofa_email = mail\<rparr>"

definition granted_emails :: "string option \<Rightarrow> owned_from_address list \<Rightarrow> string list" where
  "granted_emails user extras = map ofa_email (extras_granted_to user extras)"

definition a_declared_address_reaches_only_its_owner :: bool where
  "a_declared_address_reaches_only_its_owner =
     (let extras = [ofa ''julian@kampong.social'' ''julian@lindner.earth'',
                    ofa ''lucy@lindner.earth'' ''lucy@kampong.social''] in
      granted_emails (Some ''julian@kampong.social'') extras = [''julian@lindner.earth'']
      \<and> granted_emails (Some ''lucy@lindner.earth'') extras = [''lucy@kampong.social'']
      \<and> \<not> List.member (granted_emails (Some ''lucy@lindner.earth'') extras) ''julian@lindner.earth'')"

definition owner_matching_is_case_insensitive :: bool where
  "owner_matching_is_case_insensitive =
     (let extras = [ofa ''julian@kampong.social'' ''julian@lindner.earth''] in
      granted_emails (Some ''Julian@Kampong.Social'') extras = [''julian@lindner.earth''])"

definition a_session_without_a_username_is_granted_nothing :: bool where
  "a_session_without_a_username_is_granted_nothing =
     (let extras = [ofa ''julian@kampong.social'' ''julian@lindner.earth''] in
      granted_emails None extras = [])"

definition an_unrelated_account_is_granted_nothing :: bool where
  "an_unrelated_account_is_granted_nothing =
     (let extras = [ofa ''julian@kampong.social'' ''julian@lindner.earth''] in
      granted_emails (Some ''someone@else.test'') extras = [])"

lemma declared_address_tests_pass:
  "a_declared_address_reaches_only_its_owner"
  "owner_matching_is_case_insensitive"
  "a_session_without_a_username_is_granted_nothing"
  "an_unrelated_account_is_granted_nothing"
  unfolding a_declared_address_reaches_only_its_owner_def owner_matching_is_case_insensitive_def
    a_session_without_a_username_is_granted_nothing_def an_unrelated_account_is_granted_nothing_def
    test_structure
  by code_simp+

section \<open>The choice of the sender\<close>

definition owned :: "string \<Rightarrow> string option \<Rightarrow> owned_address" where
  "owned mail ident = \<lparr>oa_email = mail, oa_identity_id = ident, oa_name = None\<rparr>"

definition kampong_mailbox :: "owned_address list" where
  "kampong_mailbox =
     [owned ''team@kampong.social'' (Some ''I1''), owned ''postmaster@kampong.social'' (Some ''I2''),
      owned ''julian@kampong.social'' (Some ''I3''), owned ''julian@lindner.earth'' None,
      owned ''julian@lindner.sg'' (Some ''I4'')]"

definition never_picks_the_first_listed_address :: bool where
  "never_picks_the_first_listed_address =
     on_ok (choose_from_address kampong_mailbox None [''julian@kampong.social''] (Some ''julian@kampong.social''))
       (\<lambda>chosen. cf_email chosen = ''julian@kampong.social'' \<and> cf_identity_id chosen = ''I3'')"

definition alias_without_identity_is_sendable :: bool where
  "alias_without_identity_is_sendable =
     on_ok (choose_from_address kampong_mailbox (Some ''julian@lindner.earth'') [] (Some ''julian@kampong.social''))
       (\<lambda>chosen. cf_email chosen = ''julian@lindner.earth'' \<and> cf_identity_id chosen = ''I3'')"

definition alias_match_is_case_insensitive :: bool where
  "alias_match_is_case_insensitive =
     on_ok (choose_from_address kampong_mailbox (Some ''  Julian@Lindner.Earth '') []
              (Some ''julian@kampong.social''))
       (\<lambda>chosen. cf_email chosen = ''julian@lindner.earth'')"

definition role_addresses_are_refused :: bool where
  "role_addresses_are_refused =
     list_all (\<lambda>role.
         on_err (choose_from_address kampong_mailbox (Some role) [] (Some ''julian@kampong.social''))
           (\<lambda>err. contains (err_message err) ''role address''
             \<and> \<not> contains (err_message err) ''team@kampong.social, postmaster''))
       [''team@kampong.social'', ''postmaster@kampong.social'']"

definition role_address_is_not_chosen_implicitly :: bool where
  "role_address_is_not_chosen_implicitly =
     on_err (choose_from_address kampong_mailbox None [''team@kampong.social''] None)
       (\<lambda>err. contains (err_message err) ''pass `from` explicitly'')"

definition unowned_address_is_refused :: bool where
  "unowned_address_is_refused =
     on_err (choose_from_address kampong_mailbox (Some ''someone@elsewhere.test'') []
               (Some ''julian@kampong.social''))
       (\<lambda>err. contains (err_message err) ''not an address on this mailbox''
         \<and> contains (err_message err) ''julian@lindner.earth'')"

definition sendable_list_omits_role_addresses :: bool where
  "sendable_list_omits_role_addresses =
     (let l = sendable_list kampong_mailbox in
      contains l ''julian@lindner.earth'' \<and> \<not> contains l ''team@'' \<and> \<not> contains l ''postmaster@'')"

definition role_address_detection :: bool where
  "role_address_detection \<longleftrightarrow>
     list_all (\<lambda>r. is_role_address r)
       [''team@kampong.social'', ''postmaster@lindner.earth'', ''ABUSE@kampong.social'', ''no-reply@x.test'',
        ''noreply@x.test'']
     \<and> list_all (\<lambda>p. \<not> is_role_address p)
       [''julian@lindner.earth'', ''julian.japan@lindner.earth'', ''nathalie@lindner.earth'']"

text \<open>The accounts of the tests on configured aliases.\<close>

definition team_and_julian :: "owned_address list" where
  "team_and_julian = [owned ''team@kampong.social'' (Some ''b''), owned ''julian@kampong.social'' (Some ''l'')]"

definition configured_extra_address_is_sendable_and_borrows_an_identity :: bool where
  "configured_extra_address_is_sendable_and_borrows_an_identity =
     on_ok (choose_from_address (team_and_julian @ [owned ''julian@lindner.earth'' None])
              (Some ''julian@lindner.earth'') [] (Some ''julian@kampong.social''))
       (\<lambda>chosen. cf_email chosen = ''julian@lindner.earth'' \<and> cf_identity_id chosen = ''l'')"

definition reply_prefers_the_alias_the_message_was_addressed_to :: bool where
  "reply_prefers_the_alias_the_message_was_addressed_to =
     on_ok (choose_from_address (team_and_julian @ [owned ''julian@lindner.earth'' None]) None
              [''julian@lindner.earth''] (Some ''julian@kampong.social''))
       (\<lambda>chosen. cf_email chosen = ''julian@lindner.earth'' \<and> cf_identity_id chosen = ''l'')"

definition role_address_is_refused_even_though_it_is_a_real_identity :: bool where
  "role_address_is_refused_even_though_it_is_a_real_identity =
     list_all (\<lambda>role.
         on_err (choose_from_address team_and_julian (Some role) [] (Some ''julian@kampong.social''))
           (\<lambda>err. contains (err_message err) ''shared role address''))
       [''team@kampong.social'', ''TEAM@kampong.social'', ''  team@kampong.social  '']"

definition role_address_is_never_chosen_implicitly :: bool where
  "role_address_is_never_chosen_implicitly =
     on_err (choose_from_address [owned ''team@kampong.social'' (Some ''b'')] None [''team@kampong.social'']
               (Some ''team@kampong.social''))
       (\<lambda>_. True)"

definition empty_mailbox_is_an_error :: bool where
  "empty_mailbox_is_an_error = on_err (choose_from_address [] None [] (Some ''me@x.test'')) (\<lambda>_. True)"

lemma choice_tests_pass:
  "never_picks_the_first_listed_address"
  "alias_without_identity_is_sendable"
  "alias_match_is_case_insensitive"
  "role_addresses_are_refused"
  "role_address_is_not_chosen_implicitly"
  "unowned_address_is_refused"
  "sendable_list_omits_role_addresses"
  "role_address_detection"
  "configured_extra_address_is_sendable_and_borrows_an_identity"
  "reply_prefers_the_alias_the_message_was_addressed_to"
  "role_address_is_refused_even_though_it_is_a_real_identity"
  "role_address_is_never_chosen_implicitly"
  "empty_mailbox_is_an_error"
  unfolding never_picks_the_first_listed_address_def alias_without_identity_is_sendable_def
    alias_match_is_case_insensitive_def role_addresses_are_refused_def
    role_address_is_not_chosen_implicitly_def unowned_address_is_refused_def
    sendable_list_omits_role_addresses_def role_address_detection_def
    configured_extra_address_is_sendable_and_borrows_an_identity_def
    reply_prefers_the_alias_the_message_was_addressed_to_def
    role_address_is_refused_even_though_it_is_a_real_identity_def
    role_address_is_never_chosen_implicitly_def empty_mailbox_is_an_error_def test_structure
  by code_simp+

section \<open>The principal's aliases\<close>

definition aliases_expand_against_the_domain_map :: bool where
  "aliases_expand_against_the_domain_map =
     (let doms = map_of [(''k'', ''lindner.earth'')];
          account = jobj [(''aliases'', jobj
            [(''0'', jobj [(''name'', JStr ''julian''), (''domainId'', JStr ''k''), (''enabled'', JBool True),
                           (''description'', JStr ''julian local'')]),
             (''1'', jobj [(''name'', JStr ''old''), (''domainId'', JStr ''k''), (''enabled'', JBool False)]),
             (''2'', jobj [(''name'', JStr ''orphan''), (''domainId'', JStr ''zz''), (''enabled'', JBool True)])])];
          out = aliases_of account doms in
      length out = 1 \<and> oa_email (out ! 0) = ''julian@lindner.earth'' \<and> oa_identity_id (out ! 0) = None)"

definition aliases_expand_from_the_list_shape_stalwart_returns :: bool where
  "aliases_expand_from_the_list_shape_stalwart_returns =
     (let doms = map_of [(''k'', ''lindner.earth'')];
          account = jobj [(''aliases'', JArr
            [jobj [(''name'', JStr ''julian''), (''domainId'', JStr ''k''), (''enabled'', JBool True),
                   (''description'', JStr ''personal'')],
             jobj [(''name'', JStr ''old''), (''domainId'', JStr ''k''), (''enabled'', JBool False)],
             jobj [(''name'', JStr ''orphan''), (''domainId'', JStr ''zz''), (''enabled'', JBool True)]])];
          out = aliases_of account doms in
      length out = 1 \<and> oa_email (out ! 0) = ''julian@lindner.earth'' \<and> oa_identity_id (out ! 0) = None)"

definition optional_alias_lookup_does_not_swallow_auth_or_backend_failures :: bool where
  "optional_alias_lookup_does_not_swallow_auth_or_backend_failures \<longleftrightarrow>
     principal_aliases_unavailable (Method_Error ''unknownCapability'' None)
     \<and> principal_aliases_unavailable (Method_Error ''forbidden'' None)
     \<and> \<not> principal_aliases_unavailable Unauthorized
     \<and> \<not> principal_aliases_unavailable (Upstream 503)"

definition principal_matching :: bool where
  "principal_matching =
     (let a = jobj [(''name'', JStr ''julian''), (''email'', JStr ''julian@kampong.social'')] in
      principal_is a ''julian@kampong.social'' \<and> principal_is a ''julian''
      \<and> \<not> principal_is a ''nathalie@kampong.social'')"

lemma alias_tests_pass:
  "aliases_expand_against_the_domain_map"
  "aliases_expand_from_the_list_shape_stalwart_returns"
  "optional_alias_lookup_does_not_swallow_auth_or_backend_failures"
  "principal_matching"
  unfolding aliases_expand_against_the_domain_map_def
    aliases_expand_from_the_list_shape_stalwart_returns_def
    optional_alias_lookup_does_not_swallow_auth_or_backend_failures_def principal_matching_def
    test_structure
  by code_simp+

section \<open>Display names\<close>

definition named :: "string \<Rightarrow> string option \<Rightarrow> owned_address" where
  "named mail display = \<lparr>oa_email = mail, oa_identity_id = Some ''x'', oa_name = display\<rparr>"

definition from_header_carries_the_identity_display_name :: bool where
  "from_header_carries_the_identity_display_name =
     on_ok (choose_from_address [named ''julian@lindner.earth'' (Some ''Julian Lindner'')]
              (Some ''julian@lindner.earth'') [] None)
       (\<lambda>chosen. cf_name chosen = Some ''Julian Lindner''
         \<and> from_header chosen = jobj [(''name'', JStr ''Julian Lindner''), (''email'', JStr ''julian@lindner.earth'')])"

definition from_header_omits_the_name_when_there_is_none :: bool where
  "from_header_omits_the_name_when_there_is_none =
     on_ok (choose_from_address [named ''julian@lindner.earth'' None] (Some ''julian@lindner.earth'') [] None)
       (\<lambda>chosen. from_header chosen = jobj [(''email'', JStr ''julian@lindner.earth'')])"

definition blank_display_names_are_dropped_not_emitted :: bool where
  "blank_display_names_are_dropped_not_emitted =
     list_all (\<lambda>blank.
         on_ok (choose_from_address [named ''julian@lindner.earth'' (Some blank)] (Some ''julian@lindner.earth'')
                  [] None)
           (\<lambda>chosen. from_header chosen = jobj [(''email'', JStr ''julian@lindner.earth'')]))
       [[], ''   '', [CHR 0x09]]"

definition display_name_is_passed_through_verbatim :: bool where
  "display_name_is_passed_through_verbatim =
     on_ok (choose_from_address [named ''j@x.test'' (Some (''  Lindner, Julian '' @ qt ''JL'' @ ''  ''))]
              (Some ''j@x.test'') [] None)
       (\<lambda>chosen. from_header chosen
          = jobj [(''name'', JStr (''Lindner, Julian '' @ qt ''JL'')), (''email'', JStr ''j@x.test'')])"

definition resolving_a_name_never_changes_the_address :: bool where
  "resolving_a_name_never_changes_the_address =
     on_ok (choose_from_address
              [\<lparr>oa_email = ''julian@kampong.social'', oa_identity_id = Some ''l'', oa_name = Some ''Julian Lindner''\<rparr>,
               named ''julian@lindner.earth'' (Some ''Julian Lindner'')]
              (Some ''julian@lindner.earth'') [] None)
       (\<lambda>chosen. cf_email chosen = ''julian@lindner.earth'' \<and> cf_identity_id chosen = ''x'')"

lemma display_name_tests_pass:
  "from_header_carries_the_identity_display_name"
  "from_header_omits_the_name_when_there_is_none"
  "blank_display_names_are_dropped_not_emitted"
  "display_name_is_passed_through_verbatim"
  "resolving_a_name_never_changes_the_address"
  unfolding from_header_carries_the_identity_display_name_def
    from_header_omits_the_name_when_there_is_none_def blank_display_names_are_dropped_not_emitted_def
    display_name_is_passed_through_verbatim_def resolving_a_name_never_changes_the_address_def
    test_structure
  by code_simp+

section \<open>The life of a token\<close>

definition live_token_is_not_treated_as_expired :: "int \<Rightarrow> bool" where
  "live_token_is_not_treated_as_expired now = token_is_live now (Some (now + 3600))"

definition expired_and_near_expiry_tokens_are_not_live :: "int \<Rightarrow> bool" where
  "expired_and_near_expiry_tokens_are_not_live now \<longleftrightarrow>
     \<not> token_is_live now (Some (now - 1)) \<and> \<not> token_is_live now (Some (now - 3600))
     \<and> \<not> token_is_live now (Some (now + EXPIRY_SKEW_SECS div 2))"

definition missing_exp_is_not_live :: "int \<Rightarrow> bool" where
  "missing_exp_is_not_live now \<longleftrightarrow> \<not> token_is_live now None"

definition upstream_rejection_and_expiry_codes_are_distinct :: bool where
  "upstream_rejection_and_expiry_codes_are_distinct \<longleftrightarrow>
     UPSTREAM_AUTH_REJECTED_CODE \<noteq> AUTH_EXPIRED_CODE
     \<and> error_class \<lparr>err_code = UPSTREAM_AUTH_REJECTED_CODE, err_message = ''x''\<rparr> = ''upstream_auth_rejected''"

text \<open>The tests of \<^verbatim>\<open>src/audit.rs\<close>.\<close>

definition is_safe_id_accepts_jmap_ids_and_emails :: bool where
  "is_safe_id_accepts_jmap_ids_and_emails \<longleftrightarrow>
     is_safe_id ''Mca12345'' \<and> is_safe_id ''alice@kampong.social'' \<and> \<not> is_safe_id ''has space''
     \<and> \<not> is_safe_id (''inject'' @ [CHR 0x0A] @ ''outcome=ok'') \<and> \<not> is_safe_id []"

definition error_class_maps_known_codes :: bool where
  "error_class_maps_known_codes \<longleftrightarrow>
     error_class (internal_error ''x'') = ''internal'' \<and> error_class (invalid_params ''x'') = ''invalid_params''"

lemma token_tests_pass:
  "live_token_is_not_treated_as_expired now"
  "expired_and_near_expiry_tokens_are_not_live now"
  "missing_exp_is_not_live now"
  by (simp_all add: live_token_is_not_treated_as_expired_def expired_and_near_expiry_tokens_are_not_live_def
      missing_exp_is_not_live_def token_is_live_def EXPIRY_SKEW_SECS_def)

lemma audit_tests_pass:
  "upstream_rejection_and_expiry_codes_are_distinct"
  "is_safe_id_accepts_jmap_ids_and_emails"
  "error_class_maps_known_codes"
  by code_simp+

end
