(* ===== verification/Tests_State.thy ===== *)
theory Tests_State
  imports Test_Support Samples Server
begin

text \<open>
  The unit tests of the shared state: \<^verbatim>\<open>src/rate_limit.rs\<close>, \<^verbatim>\<open>src/jmap_client.rs\<close> and \<^verbatim>\<open>src/logto_oidc.rs\<close>.
  The token bucket is \<open>counting_governor\<close>, which is what \<^verbatim>\<open>governor\<close> does while no time passes.
\<close>

section \<open>The limiters (\<^verbatim>\<open>src/rate_limit.rs\<close>)\<close>

text \<open>The answers of a limiter to a sequence of checks.\<close>

definition new_limiter :: "nat \<Rightarrow> nat \<Rightarrow> nat limiter option" where
  "new_limiter = limiter_new"

fun answers :: "(string \<times> string option \<times> category) list \<Rightarrow> nat limiter \<Rightarrow> bool list" where
  "answers [] l = []"
| "answers ((h, sub, cat) # rs) l =
     (case limiter_check counting_governor 0 h sub cat l of (granted, l1) \<Rightarrow> granted # answers rs l1)"

fun initialize_answers :: "(string \<times> string option) list \<Rightarrow> nat initialize_limiter \<Rightarrow> bool list" where
  "initialize_answers [] l = []"
| "initialize_answers ((h, sub) # rs) l =
     (case initialize_check counting_governor 0 h sub l of (granted, l1) \<Rightarrow> granted # initialize_answers rs l1)"

definition zero_quota_rejected :: bool where
  "zero_quota_rejected \<longleftrightarrow> new_limiter 0 1 = None \<and> new_limiter 1 0 = None"

definition reads_and_writes_have_independent_buckets :: bool where
  "reads_and_writes_have_independent_buckets =
     on_some (new_limiter 2 2) (\<lambda>l.
       let r = (''h'', Some ''s'', Read); w = (''h'', Some ''s'', Write) in
       answers [r, r, r, w, w, w] l = [True, True, False, True, True, False])"

definition distinct_bearers_dont_share_a_bucket :: bool where
  "distinct_bearers_dont_share_a_bucket =
     on_some (new_limiter 1 1) (\<lambda>l.
       answers [(''h1'', None, Read), (''h1'', None, Read), (''h2'', None, Read)] l = [True, False, True])"

definition sub_bucket_denies_across_bearers_for_same_user :: bool where
  "sub_bucket_denies_across_bearers_for_same_user =
     on_some (new_limiter 1 1) (\<lambda>l.
       answers [(''h1'', Some ''user-A'', Read), (''h2'', Some ''user-A'', Read)] l = [True, False])"

definition no_sub_means_bearer_only :: bool where
  "no_sub_means_bearer_only =
     on_some (new_limiter 1 1) (\<lambda>l.
       answers [(''h1'', None, Read), (''h1'', None, Read), (''h2'', None, Read)] l = [True, False, True])"

definition initialize_limiter_denies_after_burst_on_bearer :: bool where
  "initialize_limiter_denies_after_burst_on_bearer =
     (let l = initialize_limiter_new (60 * 10 ^ 9) 2; c = (''h'', Some ''s'') in
      initialize_answers [c, c, c] l = [True, True, False])"

definition initialize_limiter_denies_across_bearers_for_same_sub :: bool where
  "initialize_limiter_denies_across_bearers_for_same_sub =
     (let l = initialize_limiter_new (60 * 10 ^ 9) 1 in
      initialize_answers [(''h1'', Some ''s''), (''h2'', Some ''s'')] l = [True, False])"

definition initialize_limiter_no_sub_uses_bearer_only :: bool where
  "initialize_limiter_no_sub_uses_bearer_only =
     (let l = initialize_limiter_new (60 * 10 ^ 9) 1 in
      initialize_answers [(''h'', None), (''h'', None), (''h2'', None)] l = [True, False, True])"

text \<open>The test of \<^verbatim>\<open>src/main.rs\<close> on the limiter as the server builds it.\<close>

definition initialize_burst_absorbs_repeated_reconnects :: bool where
  "initialize_burst_absorbs_repeated_reconnects =
     (let l = initialize_limiter_new INITIALIZE_REFILL_INTERVAL MAX_INITIALIZES_PER_IDENTITY in
      list_all (\<lambda>granted. granted) (initialize_answers (replicate 20 (''bearer-hash'', Some ''user-sub'')) l))"

lemma limiter_tests_pass:
  "zero_quota_rejected"
  "reads_and_writes_have_independent_buckets"
  "distinct_bearers_dont_share_a_bucket"
  "sub_bucket_denies_across_bearers_for_same_user"
  "no_sub_means_bearer_only"
  "initialize_limiter_denies_after_burst_on_bearer"
  "initialize_limiter_denies_across_bearers_for_same_sub"
  "initialize_limiter_no_sub_uses_bearer_only"
  "initialize_burst_absorbs_repeated_reconnects"
  unfolding zero_quota_rejected_def reads_and_writes_have_independent_buckets_def
    distinct_bearers_dont_share_a_bucket_def sub_bucket_denies_across_bearers_for_same_user_def
    no_sub_means_bearer_only_def initialize_limiter_denies_after_burst_on_bearer_def
    initialize_limiter_denies_across_bearers_for_same_sub_def
    initialize_limiter_no_sub_uses_bearer_only_def initialize_burst_absorbs_repeated_reconnects_def
    test_structure
  by code_simp+

section \<open>The session resource (\<^verbatim>\<open>src/jmap_client.rs\<close>)\<close>

text \<open>The derived deserialiser of \<^verbatim>\<open>JmapSession\<close>, on what the tests give it.\<close>

definition de_session :: "json \<Rightarrow> string + jmap_session" where
  "de_session v =
     (case (get_str v ''apiUrl'', get_str v ''downloadUrl'', get_str v ''uploadUrl'') of
        (Some a, Some d, Some u) \<Rightarrow>
          Inr \<lparr>api_url = a, download_url = d, upload_url = u,
               primary_accounts = (case get_object v ''primaryAccounts'' of
                   None \<Rightarrow> []
                 | Some m \<Rightarrow> List.map_filter (\<lambda>(k, x). map_option (Pair k) (as_str x)) m),
               username = get_str v ''username''\<rparr>
      | _ \<Rightarrow> Inl ''missing field'')"

definition session_json :: "string \<Rightarrow> string \<Rightarrow> string \<Rightarrow> (string \<times> string) list \<Rightarrow> string \<Rightarrow> json" where
  "session_json a d u accounts user =
     jobj [(''apiUrl'', JStr a), (''downloadUrl'', JStr d), (''uploadUrl'', JStr u),
           (''primaryAccounts'', jobj (map (\<lambda>(k, x). (k, JStr x)) accounts)), (''username'', JStr user)]"

definition UNAUTHENTICATED_SESSION :: json where
  "UNAUTHENTICATED_SESSION =
     session_json ''https://jmap.kampong.social/jmap/''
       ''https://jmap.kampong.social/jmap/download/{accountId}/{blobId}/{name}''
       ''https://jmap.kampong.social/jmap/upload/{accountId}/'' [] []"

definition the_unauthenticated_session_parses_but_is_not_authenticated :: bool where
  "the_unauthenticated_session_parses_but_is_not_authenticated =
     on_ok (de_session UNAUTHENTICATED_SESSION) (\<lambda>s. \<not> is_authenticated s \<and> mail_account_id s = None)"

definition a_real_session_is_authenticated :: bool where
  "a_real_session_is_authenticated =
     on_ok (de_session (session_json ''https://example.test/jmap/'' ''d'' ''u'' [(CAP_MAIL, ''acct-1'')]
                          ''lucy@example.test''))
       (\<lambda>s. is_authenticated s)"

definition either_account_or_username_is_enough :: bool where
  "either_account_or_username_is_enough \<longleftrightarrow>
     on_ok (de_session (session_json ''a'' ''d'' ''u'' [(CAP_MAIL, ''x'')] [])) (\<lambda>s. is_authenticated s)
     \<and> on_ok (de_session (session_json ''a'' ''d'' ''u'' [] ''someone@example.test'')) (\<lambda>s. is_authenticated s)
     \<and> on_ok (de_session (session_json ''a'' ''d'' ''u'' [] ''   '')) (\<lambda>s. \<not> is_authenticated s)"

definition download_url_template_expands :: bool where
  "download_url_template_expands =
     (let u = expand_download_url
                (''https://mail.example/jmap/download/{accountId}/{blobId}/{name}'' @ [CHR 0x3F] @ ''type={type}'')
                ''acct1'' ''blob9'' ''image/png'' ''photo.png'' in
      contains u ''/acct1/blob9/photo.png'' \<and> contains u ''type=image%2Fpng'')"

definition url_escape_leaves_unreserved :: bool where
  "url_escape_leaves_unreserved \<longleftrightarrow>
     url_escape ''abc-1.2_3~'' = ''abc-1.2_3~'' \<and> url_escape ''a/b c'' = ''a%2Fb%20c''"

lemma session_resource_tests_pass:
  "the_unauthenticated_session_parses_but_is_not_authenticated"
  "a_real_session_is_authenticated"
  "either_account_or_username_is_enough"
  "download_url_template_expands"
  "url_escape_leaves_unreserved"
  unfolding the_unauthenticated_session_parses_but_is_not_authenticated_def a_real_session_is_authenticated_def
    either_account_or_username_is_enough_def download_url_template_expands_def
    url_escape_leaves_unreserved_def test_structure
  by code_simp+

section \<open>The client against a mail server (\<^verbatim>\<open>src/jmap_client.rs\<close>)\<close>

text \<open>
  A mock server is a function from a request and the number of requests it has had to its reply; the world of
  these tests is that number. Where it has no route it answers 404. Async test functions run their calls in a
  \<open>comp\<close>, on a fresh client and state.
\<close>

type_synonym mock = "http_request \<Rightarrow> nat \<Rightarrow> string + http_reply"

definition respond :: "nat \<Rightarrow> json option \<Rightarrow> string + http_reply" where
  "respond status body =
     Inr \<lparr>rp_status = status, rp_json = (case body of None \<Rightarrow> Inl ''EOF'' | Some v \<Rightarrow> Inr v),
          rp_bytes = Inr [], rp_length = None, rp_content_type = None, rp_chunks = []\<rparr>"

definition server_uri :: string where "server_uri = ''http://127.0.0.1:8080''"

definition is_get :: "string \<Rightarrow> http_request \<Rightarrow> bool" where
  "is_get path rq \<longleftrightarrow> rq_method rq = ''GET'' \<and> rq_url rq = server_uri @ path"

text \<open>The client of a mock, with the discovery address that \<^verbatim>\<open>JmapClient::new\<close> derives.\<close>

definition mock_client :: "mock \<Rightarrow> nat jmap_client" where
  "mock_client m =
     \<lparr>net_send = (\<lambda>rq w. (m rq w, w + 1)), net_clock = (\<lambda>_. 0), net_system = (\<lambda>_. 0),
      discovery_url = (case jmap_client_new (\<lambda>_. Inl ''unused'') server_uri None of
                         Inl _ \<Rightarrow> [] | Inr (discovery, _) \<Rightarrow> discovery),
      sha256 = (\<lambda>t. t), decode_session = de_session, decode_upload = (\<lambda>_. Inl ''unused'')\<rparr>"

definition no_sessions :: "nat jmap_state" where
  "no_sessions = \<lparr>world = 0, trace = [], sessions = []\<rparr>"

definition session_body :: json where
  "session_body =
     session_json ''https://mail.example.test/jmap/''
       (''https://mail.example.test/jmap/download/{accountId}/{blobId}/{name}'' @ [CHR 0x3F] @ ''type={type}'')
       ''https://mail.example.test/jmap/upload/{accountId}/'' [(CAP_MAIL, ''acct-1'')] ''julian@kampong.social''"

definition session_discovery_yields_username_and_account_id :: bool where
  "session_discovery_yields_username_and_account_id =
     (let client = mock_client (\<lambda>rq _.
            if is_get ''/.well-known/jmap'' rq \<and> rq_auth rq = Some ''Bearer live-token''
            then respond 200 (Some session_body) else respond 404 None);
          r = bindE (session_for client ''Bearer live-token'') (\<lambda>session.
              bindE (account_id client ''Bearer live-token'') (\<lambda>account. ret (session, account))) no_sessions in
      on_ok (fst r) (\<lambda>(session, account).
        is_authenticated session \<and> username session = Some ''julian@kampong.social''
        \<and> mail_account_id session = Some ''acct-1'' \<and> account = ''acct-1''))"

definition session_is_cached_per_token :: bool where
  "session_is_cached_per_token =
     (let client = mock_client (\<lambda>rq _.
            if is_get ''/.well-known/jmap'' rq then respond 200 (Some session_body) else respond 404 None);
          (r, s) = bindE (session_for client ''live-token'') (\<lambda>_. session_for client ''live-token'') no_sessions in
      on_ok r (\<lambda>_. True) \<and> world s = 1)"

definition stalwart_401_maps_to_unauthorized :: bool where
  "stalwart_401_maps_to_unauthorized =
     (let client = mock_client (\<lambda>rq _.
            if is_get ''/.well-known/jmap'' rq then respond 401 None else respond 404 None);
          r = session_for client ''rejected-token'' no_sessions in
      on_err (fst r) (\<lambda>e. e = Unauthorized))"

text \<open>The first request is accepted, later ones are refused.\<close>

definition unauthorized_evicts_cached_session :: bool where
  "unauthorized_evicts_cached_session =
     (let client = mock_client (\<lambda>rq n.
            if is_get ''/.well-known/jmap'' rq then (if n = 0 then respond 200 (Some session_body) else respond 401 None)
            else respond 404 None);
          lookup = (\<lambda>s. session_lookup (now_of client s) (hash_token client ''tok'') (sessions s));
          (r1, s1) = session_for client ''tok'' no_sessions;
          (r2, s2) = bindE (evict client ''tok'') (\<lambda>_. session_for client ''tok'') s1 in
      on_ok r1 (\<lambda>_. True) \<and> on_some (lookup s1) (\<lambda>_. True)
      \<and> on_err r2 (\<lambda>e. e = Unauthorized) \<and> lookup s2 = None)"

lemma discovery_tests_pass:
  "session_discovery_yields_username_and_account_id"
  "session_is_cached_per_token"
  "stalwart_401_maps_to_unauthorized"
  "unauthorized_evicts_cached_session"
  by code_simp+

section \<open>Token validation (\<^verbatim>\<open>src/logto_oidc.rs\<close>)\<close>

definition aud_single_and_multi_membership :: bool where
  "aud_single_and_multi_membership \<longleftrightarrow>
     aud_matches (Single ''https://x'') ''https://x'' \<and> \<not> aud_matches (Single ''https://x'') ''https://y''
     \<and> aud_matches (Multi [''https://x'', ''https://y'']) ''https://y''
     \<and> \<not> aud_matches (Multi [''https://x'', ''https://y'']) ''https://z''"

definition jwks_url_derived_from_issuer :: bool where
  "jwks_url_derived_from_issuer =
     (case logto_client_new ''https://login.example.test/oidc/'' ''https://res'' of
        (jwks, _, issuer) \<Rightarrow>
          jwks = ''https://login.example.test/oidc/jwks'' \<and> issuer = ''https://login.example.test/oidc'')"

text \<open>
  The client of an issuer at a mock server. A token without dots is no JWT: \<^verbatim>\<open>decode_header\<close> refuses it.
\<close>

definition mock_logto :: "string \<Rightarrow> mock \<Rightarrow> (nat, unit) logto_client" where
  "mock_logto issuer m =
     (case logto_client_new issuer ''https://resource.test'' of
        (jwks, audience, iss) \<Rightarrow>
          jmap_client.extend (mock_client m)
            \<lparr>jwks_url = jwks, expected_audience = audience, expected_issuer = iss,
             jwt_decode_header = (\<lambda>t. if CHR ''.'' \<in> set t then Some \<lparr>jh_alg = ES384, jh_kid = Some ''k''\<rparr> else None),
             jwks_decode = (\<lambda>v. case get_array v ''keys'' of
                None \<Rightarrow> Inl ''missing field keys'' | Some ks \<Rightarrow> Inr (map (\<lambda>k. (get_str k ''kid'', Some ())) ks)),
             jwt_decode = (\<lambda>_ _ _ _. None)\<rparr>)"

definition no_keys :: "(nat, unit) logto_state" where
  "no_keys = jmap_state.extend no_sessions
     \<lparr>jwks_keys = [], jwks_fetched_at = None, jwks_attempted_at = None, vcache = []\<rparr>"

definition opaque_token_rejected :: bool where
  "opaque_token_rejected =
     (let c = mock_logto ''https://login.example.test/oidc'' (\<lambda>_ _. Inl ''no network'');
          (r, s) = validate_token c ''opaque-abc123'' no_keys in
      on_ok r (\<lambda>identity. identity = None) \<and> trace s = [])"

definition unknown_kids_share_one_jwks_refresh_during_cooldown :: bool where
  "unknown_kids_share_one_jwks_refresh_during_cooldown =
     (let client = mock_logto (server_uri @ ''/oidc'') (\<lambda>rq _.
            if is_get ''/oidc/jwks'' rq then respond 200 (Some (jobj [(''keys'', JArr [])])) else respond 404 None);
          (r1, s1) = decoding_key_for client ''attacker-kid-1'' no_keys;
          (r2, s2) = decoding_key_for client ''attacker-kid-2'' s1 in
      on_ok r1 (\<lambda>k. k = None) \<and> on_ok r2 (\<lambda>k. k = None) \<and> world s2 = 1)"

lemma validation_tests_pass:
  "aud_single_and_multi_membership"
  "jwks_url_derived_from_issuer"
  "opaque_token_rejected"
  "unknown_kids_share_one_jwks_refresh_during_cooldown"
  by code_simp+

section \<open>Metrics (\<^verbatim>\<open>src/metrics.rs\<close>)\<close>

text \<open>What fails in the first of these tests is a panic of \<open>init\<close>.\<close>

definition init_is_idempotent :: bool where
  "init_is_idempotent =
     on_some (metrics_init []) (\<lambda>r1. on_some (metrics_init r1) (\<lambda>r2. metrics_init r2 \<noteq> None))"

definition record_tool_call_advances_counter :: bool where
  "record_tool_call_advances_counter =
     (let m = record_tool_call ''__test_tool'' ''ok'' 50000000 [];
          m1 = record_tool_call ''__test_tool'' ''ok'' 70000000 m in
      counter Tool_Calls_Total [''__test_tool'', ''ok''] m1 = 2)"

lemma metrics_tests_pass:
  "init_is_idempotent"
  "record_tool_call_advances_counter"
  by code_simp+

end
