(* ===== verification/Tests_Address.thy ===== *)
theory Tests_Address
  imports Test_Support Url_Safety Last_Used From_Address OAuth_Redirect
begin

text \<open>
  The unit tests of \<^verbatim>\<open>src/url_safety.rs\<close>, \<^verbatim>\<open>src/last_used.rs\<close> and \<^verbatim>\<open>src/oauth_redirect.rs\<close>.
\<close>

section \<open>Refused addresses (\<^verbatim>\<open>src/url_safety.rs\<close>)\<close>

definition ipv4_loopback_is_private :: bool where
  "ipv4_loopback_is_private = is_private_or_local_ip (V4 (Ipv4 127 0 0 1))"

definition ipv4_rfc1918_is_private :: bool where
  "ipv4_rfc1918_is_private \<longleftrightarrow>
     is_private_or_local_ip (V4 (Ipv4 10 0 0 1)) \<and> is_private_or_local_ip (V4 (Ipv4 172 16 0 1))
     \<and> is_private_or_local_ip (V4 (Ipv4 192 168 1 1))"

definition ipv4_link_local_is_private :: bool where
  "ipv4_link_local_is_private = is_private_or_local_ip (V4 (Ipv4 169 254 169 254))"

definition ipv4_cgnat_is_private :: bool where
  "ipv4_cgnat_is_private \<longleftrightarrow>
     is_private_or_local_ip (V4 (Ipv4 100 100 1 1)) \<and> \<not> is_private_or_local_ip (V4 (Ipv4 100 63 0 1))"

definition ipv4_benchmark_and_reserved_ranges_are_blocked :: bool where
  "ipv4_benchmark_and_reserved_ranges_are_blocked =
     list_all (\<lambda>ip. is_private_or_local_ip (V4 ip))
       [Ipv4 0 1 2 3, Ipv4 198 18 0 1, Ipv4 198 19 255 254, Ipv4 240 0 0 1]"

definition ipv4_public_addresses_pass :: bool where
  "ipv4_public_addresses_pass \<longleftrightarrow>
     \<not> is_private_or_local_ip (V4 (Ipv4 1 1 1 1)) \<and> \<not> is_private_or_local_ip (V4 (Ipv4 140 82 114 4))"

definition ipv6_loopback_and_ula_blocked :: bool where
  "ipv6_loopback_and_ula_blocked \<longleftrightarrow>
     is_private_or_local_ip (V6 (Ipv6 0 0 0 0 0 0 0 1))
     \<and> on_some (parse_ip_addr ''fc00::1'') is_private_or_local_ip
     \<and> on_some (parse_ip_addr ''fd12:3456::1'') is_private_or_local_ip
     \<and> on_some (parse_ip_addr ''fe80::1'') is_private_or_local_ip"

definition ipv6_ipv4_mapped_falls_through :: bool where
  "ipv6_ipv4_mapped_falls_through =
     on_some (parse_ip_addr ''::ffff:10.0.0.1'') (\<lambda>mapped. is_private_or_local_ip mapped)"

definition ipv6_public_passes :: bool where
  "ipv6_public_passes =
     on_some (parse_ip_addr ''2606:4700:4700::1111'') (\<lambda>ip. \<not> is_private_or_local_ip ip)"

lemma address_class_tests_pass:
  "ipv4_loopback_is_private"
  "ipv4_rfc1918_is_private"
  "ipv4_link_local_is_private"
  "ipv4_cgnat_is_private"
  "ipv4_benchmark_and_reserved_ranges_are_blocked"
  "ipv4_public_addresses_pass"
  "ipv6_loopback_and_ula_blocked"
  "ipv6_ipv4_mapped_falls_through"
  "ipv6_public_passes"
  unfolding ipv4_loopback_is_private_def ipv4_rfc1918_is_private_def ipv4_link_local_is_private_def
    ipv4_cgnat_is_private_def ipv4_benchmark_and_reserved_ranges_are_blocked_def
    ipv4_public_addresses_pass_def ipv6_loopback_and_ula_blocked_def ipv6_ipv4_mapped_falls_through_def
    ipv6_public_passes_def test_structure
  by code_simp+

section \<open>URLs that are fetched (\<^verbatim>\<open>src/url_safety.rs\<close>)\<close>

text \<open>
  The parser and the resolver of these tests: \<open>test_url\<close> reads the URLs the tests contain, and the resolver
  answers an address literal with that address. \<open>canonical_host\<close> has the two spellings of 127.0.0.1 that the
  tests use.
\<close>

definition canonical_host :: "string \<Rightarrow> string" where
  "canonical_host h = (if h = ''127.1'' \<or> h = ''0177.0.0.1'' then ''127.0.0.1'' else h)"

definition test_url :: url_parser where
  "test_url s =
     (case find_sub ''://'' s of
        None \<Rightarrow> Inl ''relative URL without a base''
      | Some k \<Rightarrow>
          (let scheme = take k s; rest = drop (k + 3) s;
               fragment = map_option snd (split_once CHR ''#'' rest);
               rest = takeWhile (\<lambda>c. c \<noteq> CHR ''#'') rest;
               query = map_option snd (split_once CHR 0x3F rest);
               rest = takeWhile (\<lambda>c. c \<noteq> CHR 0x3F) rest;
               authority = takeWhile (\<lambda>c. c \<noteq> CHR ''/'') rest;
               path = dropWhile (\<lambda>c. c \<noteq> CHR ''/'') rest;
               (user, host_port) = (case split_once CHR ''@'' authority of
                                      None \<Rightarrow> ([], authority) | Some p \<Rightarrow> p);
               host = canonical_host (takeWhile (\<lambda>c. c \<noteq> CHR '':'') host_port)
           in Inr \<lparr>u_text = s, u_scheme = scheme, u_host = Some host,
                   u_is_domain = (parse_ip_addr host = None),
                   u_port = (if scheme = ''https'' then Some 443 else None),
                   u_path = path, u_query = query, u_fragment = fragment, u_username = user,
                   u_password = None\<rparr>))"

definition literal_lookup :: "string \<Rightarrow> nat \<Rightarrow> string + socket_addr list" where
  "literal_lookup host port =
     (case parse_ip_addr host of None \<Rightarrow> Inl ''no such host'' | Some ip \<Rightarrow> Inr [(ip, port)])"

fun show_v4 :: "ip_addr \<Rightarrow> string" where
  "show_v4 (V4 (Ipv4 a b c d)) =
     show_nat (unat a) @ ''.'' @ show_nat (unat b) @ ''.'' @ show_nat (unat c) @ ''.'' @ show_nat (unat d)"
| "show_v4 (V6 _) = []"

definition checked_url :: "string \<Rightarrow> string + validated_https_url" where
  "checked_url = validate_https_url test_url literal_lookup show_v4"

definition validate_rejects_non_https :: bool where
  "validate_rejects_non_https =
     on_err (checked_url ''http://example.com/foo'') (\<lambda>err. contains (to_ascii_lowercase err) ''https'')"

definition validate_rejects_loopback_literal :: bool where
  "validate_rejects_loopback_literal =
     on_err (checked_url ''https://127.0.0.1/x'') (\<lambda>err. contains err ''127.0.0.1'')"

definition validate_rejects_cloud_metadata :: bool where
  "validate_rejects_cloud_metadata =
     on_err (checked_url ''https://169.254.169.254/latest/meta-data/'') (\<lambda>err. contains err ''169.254.169.254'')"

definition validate_rejects_rfc1918_literal :: bool where
  "validate_rejects_rfc1918_literal =
     on_err (checked_url ''https://10.0.0.1/x'') (\<lambda>err. contains err ''10.0.0.1'')"

definition validated_url_carries_the_checked_socket_address :: bool where
  "validated_url_carries_the_checked_socket_address =
     on_ok (checked_url ''https://1.1.1.1/resource'') (\<lambda>v.
       u_text (v_url v) = ''https://1.1.1.1/resource'' \<and> \<not> v_is_domain v
       \<and> length (v_addrs v) = 1 \<and> show_v4 (fst (v_addrs v ! 0)) = ''1.1.1.1'')"

lemma url_tests_pass:
  "validate_rejects_non_https"
  "validate_rejects_loopback_literal"
  "validate_rejects_cloud_metadata"
  "validate_rejects_rfc1918_literal"
  "validated_url_carries_the_checked_socket_address"
  unfolding validate_rejects_non_https_def validate_rejects_loopback_literal_def
    validate_rejects_cloud_metadata_def validate_rejects_rfc1918_literal_def
    validated_url_carries_the_checked_socket_address_def test_structure
  by code_simp+

section \<open>The client's address (\<^verbatim>\<open>src/last_used.rs\<close>)\<close>

definition v4_addr :: "u8 \<Rightarrow> u8 \<Rightarrow> u8 \<Rightarrow> u8 \<Rightarrow> ip_addr" where
  "v4_addr a b c d = V4 (Ipv4 a b c d)"

definition record_then_get_round_trip :: "nat \<Rightarrow> bool" where
  "record_then_get_round_trip now =
     (let t = last_used_put now ''abc'' (Some (v4_addr 192 0 2 1)) [] in
      on_some (last_used_get t ''abc'') (\<lambda>r. lu_ip r = Some (v4_addr 192 0 2 1)))"

definition record_overwrites_previous_entry_for_same_key :: "nat \<Rightarrow> bool" where
  "record_overwrites_previous_entry_for_same_key now =
     (let t = last_used_put now ''k'' None [];
          t = last_used_put (now + 10 * 10 ^ 6) ''k'' (Some (v4_addr 10 0 0 1)) t in
      on_some (last_used_get t ''k'') (\<lambda>r. lu_ip r = Some (v4_addr 10 0 0 1)))"

definition get_returns_none_for_unknown_hash :: bool where
  "get_returns_none_for_unknown_hash = (last_used_get [] ''nope'' = None)"

definition xff_entry_count_counts_entries_not_bytes :: bool where
  "xff_entry_count_counts_entries_not_bytes \<longleftrightarrow>
     xff_entry_count None = 0
     \<and> xff_entry_count (Some ''203.0.113.5'') = 1
     \<and> xff_entry_count (Some ''203.0.113.5, 10.0.0.1'') = 2
     \<and> xff_entry_count (Some ''203.0.113.5, 10.0.0.1, 10.0.0.2'') = 3
     \<and> xff_entry_count (Some ''203.0.113.5,10.0.0.1'') = 2"

definition xff_entry_count_distinguishes_absent_from_unreadable_and_empty :: bool where
  "xff_entry_count_distinguishes_absent_from_unreadable_and_empty \<longleftrightarrow>
     xff_entry_count None = 0 \<and> xff_entry_count (Some []) = 0 \<and> xff_entry_count (Some ''   '') = 0
     \<and> xff_entry_count (Some [CHR 0xFF, CHR '','', CHR 0xFE]) = 2"

definition xff_entry_count_matches_what_parse_client_ip_indexes :: bool where
  "xff_entry_count_matches_what_parse_client_ip_indexes =
     (let xff = ''203.0.113.5, 10.0.0.1'' in
      xff_entry_count (Some xff) = 2
      \<and> parse_client_ip (Some xff) 2 = Some (v4_addr 203 0 113 5)
      \<and> parse_client_ip (Some xff) 1 = Some (v4_addr 10 0 0 1))"

definition parse_client_ip_with_one_trusted_hop_takes_rightmost :: bool where
  "parse_client_ip_with_one_trusted_hop_takes_rightmost \<longleftrightarrow>
     parse_client_ip (Some ''203.0.113.5'') 1 = Some (v4_addr 203 0 113 5)
     \<and> parse_client_ip (Some ''1.2.3.4, 10.0.0.1, 198.51.100.7'') 1 = Some (v4_addr 198 51 100 7)
     \<and> parse_client_ip (Some ''  198.51.100.7  ,  10.0.0.1  '') 1 = Some (v4_addr 10 0 0 1)"

definition parse_client_ip_with_two_trusted_hops_takes_third_from_right :: bool where
  "parse_client_ip_with_two_trusted_hops_takes_third_from_right \<longleftrightarrow>
     parse_client_ip (Some ''198.51.100.7, 10.0.0.1'') 2 = Some (v4_addr 198 51 100 7)
     \<and> parse_client_ip (Some ''1.2.3.4, 198.51.100.7, 10.0.0.1'') 2 = Some (v4_addr 198 51 100 7)"

definition parse_client_ip_returns_none_when_chain_shorter_than_trust :: bool where
  "parse_client_ip_returns_none_when_chain_shorter_than_trust \<longleftrightarrow>
     parse_client_ip (Some ''198.51.100.7'') 2 = None"

definition parse_client_ip_returns_none_when_no_proxies_trusted :: bool where
  "parse_client_ip_returns_none_when_no_proxies_trusted \<longleftrightarrow>
     parse_client_ip (Some ''198.51.100.7'') 0 = None"

definition parse_client_ip_returns_none_for_garbage :: bool where
  "parse_client_ip_returns_none_for_garbage \<longleftrightarrow>
     parse_client_ip None 1 = None \<and> parse_client_ip (Some []) 1 = None
     \<and> parse_client_ip (Some ''not an ip'') 1 = None \<and> parse_client_ip (Some '', , ,'') 1 = None"

lemma last_use_tests_pass:
  "record_then_get_round_trip now"
  "record_overwrites_previous_entry_for_same_key now"
  by (simp_all add: record_then_get_round_trip_def record_overwrites_previous_entry_for_same_key_def
      last_used_put_def last_used_get_def make_room_def update_conv' test_structure)

lemma client_address_tests_pass:
  "get_returns_none_for_unknown_hash"
  "xff_entry_count_counts_entries_not_bytes"
  "xff_entry_count_distinguishes_absent_from_unreadable_and_empty"
  "xff_entry_count_matches_what_parse_client_ip_indexes"
  "parse_client_ip_with_one_trusted_hop_takes_rightmost"
  "parse_client_ip_with_two_trusted_hops_takes_third_from_right"
  "parse_client_ip_returns_none_when_chain_shorter_than_trust"
  "parse_client_ip_returns_none_when_no_proxies_trusted"
  "parse_client_ip_returns_none_for_garbage"
  by code_simp+

section \<open>Redirect targets (\<^verbatim>\<open>src/oauth_redirect.rs\<close>)\<close>

definition allows :: "string list \<Rightarrow> string \<Rightarrow> bool" where
  "allows = is_allowed_redirect_uri test_url"

definition allowlist_matches_exact_redirect_uri_only :: bool where
  "allowlist_matches_exact_redirect_uri_only =
     on_ok (parse_allowlist test_url ''https://claude.ai/api/mcp/auth_callback'' ''TEST'') (\<lambda>allowed.
       allows allowed ''https://claude.ai/api/mcp/auth_callback''
       \<and> \<not> allows allowed ''https://claude.ai/api/mcp/auth_callback/''
       \<and> \<not> allows allowed ''https://attacker.example/callback''
       \<and> \<not> allows allowed ''https://claude.ai:8443/api/mcp/auth_callback'')"

definition loopback_allowlist_varies_only_the_port :: bool where
  "loopback_allowlist_varies_only_the_port =
     on_ok (parse_allowlist test_url ''http://localhost:8787/callback'' ''TEST'') (\<lambda>allowed.
       allows allowed ''http://localhost:49152/callback''
       \<and> \<not> allows allowed ''http://127.0.0.1:49152/callback''
       \<and> \<not> allows allowed ''http://localhost:49152/other''
       \<and> \<not> allows allowed (''http://localhost:49152/callback'' @ [CHR 0x3F] @ ''next=evil'')
       \<and> \<not> allows allowed ''https://localhost:49152/callback'')"

definition loopback_https_entry_is_not_downgraded_to_cleartext :: bool where
  "loopback_https_entry_is_not_downgraded_to_cleartext \<longleftrightarrow>
     on_ok (parse_allowlist test_url ''https://localhost:8443/cb'' ''TEST'') (\<lambda>allowed.
       allows allowed ''https://localhost:8443/cb''
       \<and> \<not> allows allowed ''http://localhost:3118/cb''
       \<and> \<not> allows allowed ''http://localhost:8443/cb''
       \<and> \<not> allows allowed ''https://localhost:3118/cb'')
     \<and> list_all (\<lambda>entry. on_ok (parse_allowlist test_url entry ''TEST'') (\<lambda>allowed.
           \<not> allows allowed ''http://127.0.0.1:3118/cb''))
         [''https://127.0.0.1:8443/cb'', ''https://127.1:8443/cb'', ''https://0177.0.0.1:8443/cb'']"

definition allowlist_rejects_fragments_and_userinfo :: bool where
  "allowlist_rejects_fragments_and_userinfo \<longleftrightarrow>
     on_err (parse_allowlist test_url ''https://claude.ai/cb#frag'' ''TEST'') (\<lambda>_. True)
     \<and> on_err (parse_allowlist test_url ''https://user@claude.ai/cb'' ''TEST'') (\<lambda>_. True)"

definition allowlist_accepts_private_use_schemes :: bool where
  "allowlist_accepts_private_use_schemes =
     on_ok (parse_allowlist test_url
              ''cursor://anysphere.cursor-mcp/oauth/callback,grokbot://mcp/oauth/callback'' ''TEST'') (\<lambda>allowed.
       allows allowed ''cursor://anysphere.cursor-mcp/oauth/callback''
       \<and> allows allowed ''grokbot://mcp/oauth/callback''
       \<and> \<not> allows allowed ''cursor://anysphere.cursor-mcp/oauth/callback/extra''
       \<and> \<not> allows allowed ''evil://mcp/oauth/callback'')"

definition http_is_loopback_only :: bool where
  "http_is_loopback_only \<longleftrightarrow>
     list_all (\<lambda>uri. on_ok (parse_allowlist test_url uri ''TEST'') (\<lambda>_. True))
       [''http://localhost:8787/callback'', ''http://127.0.0.1:8787/callback'']
     \<and> list_all (\<lambda>uri. on_err (parse_allowlist test_url uri ''TEST'') (\<lambda>_. True))
       [''http://evil.example/callback'', ''http://localhost.evil.example/callback'']"

definition deployed_allowlist_parses :: bool where
  "deployed_allowlist_parses =
     on_ok (parse_allowlist test_url
         (''https://claude.ai/api/mcp/auth_callback,''
          @ ''https://claude.com/api/mcp/auth_callback,''
          @ ''https://www.cursor.com/agents/mcp/oauth/callback,''
          @ ''cursor://anysphere.cursor-mcp/oauth/callback,''
          @ ''grokbot://mcp/oauth/callback,''
          @ ''http://localhost:8787/callback,''
          @ ''claude://claude.ai/oauth/callback,''
          @ ''claude://oauth/callback,''
          @ ''cowork://oauth/callback'')
         ''JMAP_MCP_OAUTH_REDIRECT_URIS'') (\<lambda>allowed. length allowed = 9)"

lemma redirect_tests_pass:
  "allowlist_matches_exact_redirect_uri_only"
  "loopback_allowlist_varies_only_the_port"
  "loopback_https_entry_is_not_downgraded_to_cleartext"
  "allowlist_rejects_fragments_and_userinfo"
  "allowlist_accepts_private_use_schemes"
  "http_is_loopback_only"
  "deployed_allowlist_parses"
  unfolding allowlist_matches_exact_redirect_uri_only_def loopback_allowlist_varies_only_the_port_def
    loopback_https_entry_is_not_downgraded_to_cleartext_def allowlist_rejects_fragments_and_userinfo_def
    allowlist_accepts_private_use_schemes_def http_is_loopback_only_def deployed_allowlist_parses_def
    test_structure
  by code_simp+

end
