(* ===== verification/Tests_OAuth.thy ===== *)
theory Tests_OAuth
  imports Test_Support OAuth_Metadata OAuth_Proxy Auth Tests_Address
begin

text \<open>
  The unit tests of \<^verbatim>\<open>src/config.rs\<close>, \<^verbatim>\<open>src/oauth_metadata.rs\<close> and of the headers of \<^verbatim>\<open>src/auth.rs\<close>.
\<close>

section \<open>Declared addresses (\<^verbatim>\<open>src/config.rs\<close>)\<close>

definition parses_separated_and_normalises :: bool where
  "parses_separated_and_normalises =
     on_ok (parse_extra_from_addresses
         (''Julian@Kampong.Social=Julian@Lindner.Earth, julian@kampong.social=jl@lindner.sg'' @ [CHR 0x0A]
          @ '' julian@kampong.social=jl@lindner.sg''))
       (\<lambda>out. pf_owned out
           = [\<lparr>ofa_owner = ''julian@kampong.social'', ofa_email = ''julian@lindner.earth''\<rparr>,
              \<lparr>ofa_owner = ''julian@kampong.social'', ofa_email = ''jl@lindner.sg''\<rparr>]
         \<and> pf_unowned out = [])"

definition empty_is_empty :: bool where
  "empty_is_empty =
     on_ok (parse_extra_from_addresses (''   ,,'' @ [CHR 0x0A] @ '' ''))
       (\<lambda>out. pf_owned out = [] \<and> pf_unowned out = [])"

definition an_entry_without_an_owner_is_granted_to_nobody :: bool where
  "an_entry_without_an_owner_is_granted_to_nobody =
     on_ok (parse_extra_from_addresses ''julian@lindner.earth'')
       (\<lambda>out. pf_owned out = [] \<and> pf_unowned out = [''julian@lindner.earth''])"

definition declared_role_addresses_are_refused :: bool where
  "declared_role_addresses_are_refused =
     list_all (\<lambda>role. on_err (parse_extra_from_addresses role) (\<lambda>err. contains err ''role address''))
       [''team@kampong.social'', ''TEAM@kampong.social'', ''postmaster@lindner.earth'',
        ''julian@lindner.earth, team@kampong.social'', ''julian@kampong.social=team@kampong.social'',
        ''team@kampong.social=julian@lindner.earth'']"

definition malformed_entries_fail_loudly :: bool where
  "malformed_entries_fail_loudly =
     list_all (\<lambda>bad. on_err (parse_extra_from_addresses bad) (\<lambda>_. True))
       [''notanemail'', ''two@at@signs.com'', ''@lindner.earth'', ''julian@'', ''julian@local'',
        ''julian@kampong.social=notanemail'', ''notanemail=julian@lindner.earth'', ''=julian@lindner.earth'',
        ''julian@kampong.social='']"

definition a_padded_chain_defeats_a_higher_hop_count :: bool where
  "a_padded_chain_defeats_a_higher_hop_count =
     (let padded = ''1.2.3.4, 198.51.100.9''; replaced = ''203.0.113.5, 10.0.0.1'' in
      parse_client_ip (Some padded) 2 = Some (v4_addr 1 2 3 4)
      \<and> parse_client_ip (Some padded) 1 = Some (v4_addr 198 51 100 9)
      \<and> parse_client_ip (Some replaced) 2 = Some (v4_addr 203 0 113 5))"

definition default_trusted_proxy_hops_matches_the_measured_chain_length :: bool where
  "default_trusted_proxy_hops_matches_the_measured_chain_length \<longleftrightarrow>
     DEFAULT_TRUSTED_PROXY_HOPS = 2
     \<and> parse_client_ip (Some ''203.0.113.5, 10.0.0.1'') DEFAULT_TRUSTED_PROXY_HOPS = Some (v4_addr 203 0 113 5)"

lemma declaration_tests_pass:
  "parses_separated_and_normalises"
  "empty_is_empty"
  "an_entry_without_an_owner_is_granted_to_nobody"
  "declared_role_addresses_are_refused"
  "malformed_entries_fail_loudly"
  "a_padded_chain_defeats_a_higher_hop_count"
  "default_trusted_proxy_hops_matches_the_measured_chain_length"
  unfolding parses_separated_and_normalises_def empty_is_empty_def
    an_entry_without_an_owner_is_granted_to_nobody_def declared_role_addresses_are_refused_def
    malformed_entries_fail_loudly_def a_padded_chain_defeats_a_higher_hop_count_def
    default_trusted_proxy_hops_matches_the_measured_chain_length_def test_structure
  by code_simp+

section \<open>The configuration (\<^verbatim>\<open>src/config.rs\<close>)\<close>

definition cfg_with :: "string \<Rightarrow> string + config" where
  "cfg_with url =
     config_new url ''https://login.example.test/oidc'' ''https://mail.example.test'' (v4_addr 0 0 0 0, 3000)"

definition strips_trailing_slash_on_resource_url :: bool where
  "strips_trailing_slash_on_resource_url =
     on_ok (cfg_with ''https://jmap-mcp.example.test/'') (\<lambda>cfg. resource_url cfg = ''https://jmap-mcp.example.test'')"

definition resource_url_accepts_mcp_suffix :: bool where
  "resource_url_accepts_mcp_suffix =
     list_all (\<lambda>raw. on_ok (cfg_with raw) (\<lambda>cfg. resource_url cfg = ''https://jmap-mcp.kampong.social''))
       [''https://jmap-mcp.kampong.social'', ''https://jmap-mcp.kampong.social/'',
        ''https://jmap-mcp.kampong.social/mcp'', ''https://jmap-mcp.kampong.social/mcp/'']"

definition both_spellings_derive_identical_urls :: bool where
  "both_spellings_derive_identical_urls =
     on_ok (cfg_with ''https://jmap-mcp.kampong.social'') (\<lambda>plain.
     on_ok (cfg_with ''https://jmap-mcp.kampong.social/mcp'') (\<lambda>suffixed.
       (let resource = mcp_resource (resource_url suffixed);
            challenge = www_authenticate_header (resource_url suffixed);
            meta = authorization_server_from_config suffixed in
        resource = ''https://jmap-mcp.kampong.social/mcp''
        \<and> resource = mcp_resource (resource_url plain)
        \<and> contains challenge (''resource_metadata=''
             @ qt ''https://jmap-mcp.kampong.social/.well-known/oauth-protected-resource/mcp'')
        \<and> challenge = www_authenticate_header (resource_url plain)
        \<and> as_issuer meta = ''https://jmap-mcp.kampong.social''
        \<and> as_authorization_endpoint meta = ''https://jmap-mcp.kampong.social/authorize''
        \<and> as_token_endpoint meta = ''https://jmap-mcp.kampong.social/token''
        \<and> resource_url suffixed = ''https://jmap-mcp.kampong.social'')))"

definition resource_url_keeps_other_paths_and_lookalikes :: bool where
  "resource_url_keeps_other_paths_and_lookalikes \<longleftrightarrow>
     on_ok (cfg_with ''https://jmap-mcp.kampong.social/mcpx'') (\<lambda>cfg.
       resource_url cfg = ''https://jmap-mcp.kampong.social/mcpx'')
     \<and> on_ok (cfg_with ''https://jmap-mcp.kampong.social/mcp/mcp'') (\<lambda>cfg.
       resource_url cfg = ''https://jmap-mcp.kampong.social/mcp'')"

definition rejects_non_http_url :: bool where
  "rejects_non_http_url =
     on_err (config_new ''jmap-mcp.example.test'' ''https://login.example.test'' ''https://mail.example.test''
               (v4_addr 0 0 0 0, 3000)) (\<lambda>_. True)"

definition show_socket :: "socket_addr \<Rightarrow> string" where
  "show_socket a = show_v4 (fst a) @ '':'' @ show_nat (snd a)"

definition metrics_bind_prefers_explicit_then_pod_ip_then_localhost :: bool where
  "metrics_bind_prefers_explicit_then_pod_ip_then_localhost \<longleftrightarrow>
     on_ok (resolve_metrics_bind_addr (Some ''0.0.0.0:1234'') (Some ''10.0.0.5'')) (\<lambda>a.
       show_socket a = ''0.0.0.0:1234'')
     \<and> on_ok (resolve_metrics_bind_addr None (Some ''10.0.0.5'')) (\<lambda>a. show_socket a = ''10.0.0.5:9090'')
     \<and> on_ok (resolve_metrics_bind_addr None None) (\<lambda>a. show_socket a = ''127.0.0.1:9090'')"

lemma config_tests_pass:
  "strips_trailing_slash_on_resource_url"
  "resource_url_accepts_mcp_suffix"
  "both_spellings_derive_identical_urls"
  "resource_url_keeps_other_paths_and_lookalikes"
  "rejects_non_http_url"
  "metrics_bind_prefers_explicit_then_pod_ip_then_localhost"
  unfolding strips_trailing_slash_on_resource_url_def resource_url_accepts_mcp_suffix_def
    both_spellings_derive_identical_urls_def resource_url_keeps_other_paths_and_lookalikes_def
    rejects_non_http_url_def metrics_bind_prefers_explicit_then_pod_ip_then_localhost_def test_structure
  by code_simp+

section \<open>The documents (\<^verbatim>\<open>src/oauth_metadata.rs\<close>)\<close>

definition test_config :: "string + config" where
  "test_config = cfg_with ''https://jmap-mcp.example.test''"

definition protected_resource_points_at_self :: bool where
  "protected_resource_points_at_self =
     on_ok test_config (\<lambda>cfg.
       let m = protected_resource_from_config cfg in
       pr_resource m = ''https://jmap-mcp.example.test/mcp''
       \<and> pr_authorization_servers m = [''https://jmap-mcp.example.test'']
       \<and> List.member (pr_bearer_methods_supported m) ''header''
       \<and> list_ex (\<lambda>s. s = ''openid'') (pr_scopes_supported m))"

definition as_metadata_is_same_origin_with_jwks_on_logto :: bool where
  "as_metadata_is_same_origin_with_jwks_on_logto =
     on_ok test_config (\<lambda>cfg.
       let m = authorization_server_from_config cfg in
       as_issuer m = ''https://jmap-mcp.example.test''
       \<and> as_authorization_endpoint m = ''https://jmap-mcp.example.test/authorize''
       \<and> as_token_endpoint m = ''https://jmap-mcp.example.test/token''
       \<and> as_jwks_uri m = ''https://login.example.test/oidc/jwks''
       \<and> List.member (as_code_challenge_methods_supported m) ''S256''
       \<and> as_registration_endpoint m = None)"

definition as_metadata_advertises_registration_when_configured :: bool where
  "as_metadata_advertises_registration_when_configured =
     on_ok test_config (\<lambda>cfg.
       let cfg = cfg\<lparr>dcr_client_id := Some ''abc123''\<rparr>;
           m = authorization_server_from_config cfg in
       as_registration_endpoint m = Some ''https://jmap-mcp.example.test/register'')"

text \<open>One registration at an instant, with the allowlist and the requested URI of a test.\<close>

definition register_status :: "number \<Rightarrow> string \<Rightarrow> string \<Rightarrow> config \<Rightarrow> nat" where
  "register_status now allowed requested cfg =
     (let cfg = cfg\<lparr>dcr_client_id := Some ''abc123'', oauth_redirect_uris := [allowed]\<rparr>;
          body = jobj [(''redirect_uris'', JArr [JStr requested])] in
      rs_status (register test_url now cfg (Some body)))"

definition register_rejects_unregistered_redirect_uri :: "number \<Rightarrow> bool" where
  "register_rejects_unregistered_redirect_uri now =
     on_ok test_config (\<lambda>cfg.
       register_status now ''https://claude.ai/api/mcp/auth_callback'' ''https://attacker.example/cb'' cfg = 400)"

definition register_accepts_allowlisted_redirect_uri :: "number \<Rightarrow> bool" where
  "register_accepts_allowlisted_redirect_uri now =
     on_ok test_config (\<lambda>cfg.
       register_status now ''https://claude.ai/api/mcp/auth_callback''
         ''https://claude.ai/api/mcp/auth_callback'' cfg = 201)"

definition register_accepts_ephemeral_port_for_allowlisted_loopback_callback :: "number \<Rightarrow> bool" where
  "register_accepts_ephemeral_port_for_allowlisted_loopback_callback now =
     on_ok test_config (\<lambda>cfg.
       register_status now ''http://localhost:8787/callback'' ''http://localhost:49152/callback'' cfg = 201)"

definition www_authenticate_includes_resource_metadata_url :: bool where
  "www_authenticate_includes_resource_metadata_url =
     (let h = www_authenticate_header ''https://jmap-mcp.example.test'' in
      starts_with h ''Bearer ''
      \<and> contains h (''resource_metadata='' @ qt ''https://jmap-mcp.example.test/.well-known/oauth-protected-resource/mcp''))"

lemma metadata_tests_pass:
  "protected_resource_points_at_self"
  "as_metadata_is_same_origin_with_jwks_on_logto"
  "as_metadata_advertises_registration_when_configured"
  "register_rejects_unregistered_redirect_uri now"
  "register_accepts_allowlisted_redirect_uri now"
  "register_accepts_ephemeral_port_for_allowlisted_loopback_callback now"
  "www_authenticate_includes_resource_metadata_url"
  unfolding protected_resource_points_at_self_def as_metadata_is_same_origin_with_jwks_on_logto_def
    as_metadata_advertises_registration_when_configured_def register_rejects_unregistered_redirect_uri_def
    register_accepts_allowlisted_redirect_uri_def
    register_accepts_ephemeral_port_for_allowlisted_loopback_callback_def
    www_authenticate_includes_resource_metadata_url_def test_structure
  by code_simp+

section \<open>Credentials (\<^verbatim>\<open>src/auth.rs\<close>)\<close>

definition extracts_well_formed_bearer :: bool where
  "extracts_well_formed_bearer \<longleftrightarrow> extract_bearer (Some ''Bearer abc.def.ghi'') = Some ''abc.def.ghi''"

definition rejects_lowercase_scheme :: bool where
  "rejects_lowercase_scheme \<longleftrightarrow> extract_bearer (Some ''bearer abc'') = None"

definition rejects_basic_scheme :: bool where
  "rejects_basic_scheme \<longleftrightarrow> extract_bearer (Some ''Basic dXNlcjpwYXNz'') = None"

definition basic_is_ignored_unless_the_deployment_opted_in :: bool where
  "basic_is_ignored_unless_the_deployment_opted_in =
     (let h = ''Basic dXNlcjpwYXNz'' in
      extract_credential (Some h) False = None
      \<and> on_some (extract_credential (Some h) True) (\<lambda>p. case p of App_Password _ \<Rightarrow> True | Jwt _ \<Rightarrow> False))"

definition a_garbage_bearer_still_goes_to_the_jwt_path :: bool where
  "a_garbage_bearer_still_goes_to_the_jwt_path =
     (let h = ''Bearer not-a-jwt'' in
      list_all (\<lambda>allow.
          on_some (extract_credential (Some h) allow) (\<lambda>p. case p of Jwt _ \<Rightarrow> True | App_Password _ \<Rightarrow> False))
        [False, True])"

definition empty_basic_credential_is_not_a_credential :: bool where
  "empty_basic_credential_is_not_a_credential \<longleftrightarrow>
     extract_basic (Some ''Basic   '') = None \<and> extract_credential (Some ''Basic '') True = None"

definition scheme_travels_with_the_secret :: bool where
  "scheme_travels_with_the_secret \<longleftrightarrow>
     header_value \<lparr>at_scheme = Bearer, at_secret = ''t''\<rparr> = ''Bearer t''
     \<and> header_value \<lparr>at_scheme = Basic, at_secret = ''t''\<rparr> = ''Basic t''
     \<and> at_secret \<lparr>at_scheme = Basic, at_secret = ''t''\<rparr> = ''t''"

definition rejects_empty_token :: bool where
  "rejects_empty_token \<longleftrightarrow> extract_bearer (Some ''Bearer '') = None"

definition trims_whitespace_around_token :: bool where
  "trims_whitespace_around_token \<longleftrightarrow> extract_bearer (Some ''Bearer   xyz   '') = Some ''xyz''"

definition unauthorized_has_www_authenticate :: bool where
  "unauthorized_has_www_authenticate =
     (let r = unauthorized (www_authenticate_header ''https://jmap-mcp.example.test'') in
      rs_status r = 401 \<and> on_some (rs_www_authenticate r) (\<lambda>h. contains h ''resource_metadata=''))"

definition missing_token_challenge_has_no_error_param :: bool where
  "missing_token_challenge_has_no_error_param =
     (let r = unauthorized (www_authenticate_header ''https://jmap-mcp.example.test'') in
      on_some (rs_www_authenticate r) (\<lambda>h. \<not> contains h ''error=''))"

definition rejected_token_challenge_signals_invalid_token :: bool where
  "rejected_token_challenge_signals_invalid_token =
     (let r = unauthorized (www_authenticate_invalid_token ''https://jmap-mcp.example.test'') in
      rs_status r = 401
      \<and> on_some (rs_www_authenticate r) (\<lambda>v.
          contains v (''error='' @ qt ''invalid_token'')
          \<and> contains v (''resource_metadata=''
              @ qt ''https://jmap-mcp.example.test/.well-known/oauth-protected-resource/mcp'')))"

lemma credential_tests_pass:
  "extracts_well_formed_bearer"
  "rejects_lowercase_scheme"
  "rejects_basic_scheme"
  "basic_is_ignored_unless_the_deployment_opted_in"
  "a_garbage_bearer_still_goes_to_the_jwt_path"
  "empty_basic_credential_is_not_a_credential"
  "scheme_travels_with_the_secret"
  "rejects_empty_token"
  "trims_whitespace_around_token"
  "unauthorized_has_www_authenticate"
  "missing_token_challenge_has_no_error_param"
  "rejected_token_challenge_signals_invalid_token"
  unfolding extracts_well_formed_bearer_def rejects_lowercase_scheme_def rejects_basic_scheme_def
    basic_is_ignored_unless_the_deployment_opted_in_def a_garbage_bearer_still_goes_to_the_jwt_path_def
    empty_basic_credential_is_not_a_credential_def scheme_travels_with_the_secret_def
    rejects_empty_token_def trims_whitespace_around_token_def unauthorized_has_www_authenticate_def
    missing_token_challenge_has_no_error_param_def rejected_token_challenge_signals_invalid_token_def
    test_structure
  by code_simp+

end
