(* ===== verification/Tests_Server.thy ===== *)
theory Tests_Server
  imports Tests_State Tests_OAuth Application
begin

text \<open>
  The unit tests of \<^verbatim>\<open>src/oauth_proxy.rs\<close> and the tests of \<^verbatim>\<open>src/main.rs\<close>, which drive the whole server: a
  request goes in at the router and the test looks at what the caller gets. Beside them the test of
  \<^verbatim>\<open>src/mcp.rs\<close> that needs a mail server.
\<close>

section \<open>The test server\<close>

text \<open>
  The libraries of these tests: form coding by percent-escapes, the parser and the resolver of Tests_Address, the
  mock mail server of Tests_State. \<open>transport\<close> is what the MCP transport makes of a request inside a session;
  outside of one the request is the \<^verbatim>\<open>initialize\<close> call, which it answers itself.
\<close>

definition form_value :: "string \<Rightarrow> string" where
  "form_value s = url_unescape (map (\<lambda>c. if c = CHR ''+'' then CHR '' '' else c) s)"

definition parse_form :: "string \<Rightarrow> (string \<times> string) list" where
  "parse_form s =
     map (\<lambda>t. case split_once CHR ''='' t of None \<Rightarrow> (form_value t, []) | Some (k, v) \<Rightarrow> (form_value k, form_value v))
       (filter (\<lambda>t. t \<noteq> []) (split_char CHR ''&'' s))"

definition write_form :: "(string \<times> string) list \<Rightarrow> string" where
  "write_form ps =
     (case map (\<lambda>(k, v). url_escape k @ ''='' @ url_escape v) ps of
        [] \<Rightarrow> [] | t # ts \<Rightarrow> t @ concat (map (\<lambda>x. ''&'' @ x) ts))"

definition initialized :: answer where
  "initialized = answer_of (plain 200 [])"

definition environment :: "mock \<Rightarrow> mcp_action \<Rightarrow> (nat, unit, nat) app" where
  "environment m transport =
     service.extend
       (sample_service\<lparr>net_send := net_send (mock_client m), decode_session := de_session,
          jwt_decode_header := (\<lambda>_. None), parse_url := test_url, show_ip := show_v4\<rparr>)
       \<lparr>url_form_parse = parse_form, url_form_write = write_form,
        url_append_pairs = (\<lambda>u ps. u_text u @ [CHR 0x3F] @ write_form ps), thread_rng = (\<lambda>_. ''c0ffee''),
        pkg_version = ''0.2.21'',
        mcp_transport = (\<lambda>_ rq. if in_session_id rq = None then Protocol initialized else transport),
        call_refused = (\<lambda>_. answer_of (plain 200 [])), encode_metrics = (\<lambda>_. Inr []), read_utf8 = Some\<rparr>"

type_synonym running = "(nat, unit, nat) app \<times> (nat, unit, nat) app_state"

text \<open>\<^verbatim>\<open>router(cfg)\<close> of the tests: the server of a configuration with limits that no test meets.\<close>

definition router :: "mock \<Rightarrow> mcp_action \<Rightarrow> config \<Rightarrow> string + running" where
  "router m transport cfg =
     app_start (cfg\<lparr>rate_limit_reads_per_min := 100000, rate_limit_writes_per_min := 100000,
                    download_max_bytes := 5 * 1024 * 1024, upload_max_bytes := 10 * 1024 * 1024\<rparr>)
       (environment m transport) 0"

definition no_server :: mock where
  "no_server = (\<lambda>_ _. Inl ''connection refused'')"

definition request :: "string \<Rightarrow> string \<Rightarrow> app_request" where
  "request meth path =
     \<lparr>in_authorization = None, in_forwarded_for = None, in_path = path, in_method = meth, in_session_id = None,
      ap_query = None, ap_content_length = None, ap_form = Inr [], ap_json = None\<rparr>"

text \<open>\<^verbatim>\<open>oneshot\<close>: one request to the server of a configuration, and the answer when it is no tool's result.\<close>

definition oneshot :: "string + config \<Rightarrow> app_request \<Rightarrow> (answer \<Rightarrow> bool) \<Rightarrow> bool" where
  "oneshot cfg rq f =
     on_ok cfg (\<lambda>c. on_ok (router no_server (Protocol initialized) c) (\<lambda>(A, s).
       on_some (app_serve A rq s) (\<lambda>(a, _). case a of Answered r \<Rightarrow> f r | Tool_Ran _ _ \<Rightarrow> False)))"

definition body_json :: "('x) response_scheme \<Rightarrow> json" where
  "body_json r = (case rs_body r of Json_Text v \<Rightarrow> v | _ \<Rightarrow> JNull)"

section \<open>Public and refused requests (\<^verbatim>\<open>src/main.rs\<close>)\<close>

definition health_is_public :: bool where
  "health_is_public =
     oneshot test_config (request ''GET'' ''/health'') (\<lambda>r.
       rs_status r = 200 \<and> rs_content_type r = Some ''application/json''
       \<and> at_key (body_json r) ''status'' = JStr ''healthy''
       \<and> at_key (body_json r) ''version'' = JStr ''0.2.21'')"

definition mcp_without_token_returns_401 :: bool where
  "mcp_without_token_returns_401 =
     oneshot test_config (request ''POST'' ''/mcp'') (\<lambda>r.
       rs_status r = 401 \<and> on_some (rs_www_authenticate r) (\<lambda>www. contains www ''oauth-protected-resource/mcp''))"

definition oversized_mcp_body_is_rejected_before_collection :: bool where
  "oversized_mcp_body_is_rejected_before_collection =
     oneshot test_config
       ((request ''POST'' ''/mcp'')\<lparr>ap_content_length := Some (MCP_MAX_REQUEST_BYTES + 1)\<rparr>)
       (\<lambda>r. rs_status r = 413)"

definition metadata_endpoint_is_public :: bool where
  "metadata_endpoint_is_public =
     oneshot test_config (request ''GET'' ''/.well-known/oauth-protected-resource'') (\<lambda>r. rs_status r = 200)"

definition initialize_429_is_json_rpc_with_retry_after :: bool where
  "initialize_429_is_json_rpc_with_retry_after =
     (let r = initialize_rate_limited; v = body_json r in
      rs_status r = 429
      \<and> on_some (retry_after r) (\<lambda>t. parse_uint (2 ^ 64) t = Some (INITIALIZE_REFILL_INTERVAL div 10 ^ 9))
      \<and> at_key v ''jsonrpc'' = JStr ''2.0''
      \<and> at_key (at_key v ''error'') ''code'' = JNum (NegInt (word_of_int RATE_LIMITED_CODE)))"

lemma router_tests_pass:
  "health_is_public"
  "mcp_without_token_returns_401"
  "oversized_mcp_body_is_rejected_before_collection"
  "metadata_endpoint_is_public"
  "initialize_429_is_json_rpc_with_retry_after"
  unfolding health_is_public_def mcp_without_token_returns_401_def
    oversized_mcp_body_is_rejected_before_collection_def metadata_endpoint_is_public_def
    initialize_429_is_json_rpc_with_retry_after_def test_structure
  by code_simp+

section \<open>Tool calls through the router (\<^verbatim>\<open>src/main.rs\<close>)\<close>

text \<open>\<^verbatim>\<open>mock_jmap\<close>: a mail server that answers every batch with one body.\<close>

definition responses_of :: "(string \<times> json \<times> string) list \<Rightarrow> json" where
  "responses_of rs = jobj [(''methodResponses'', JArr (map (\<lambda>(m, p, c). JArr [JStr m, p, JStr c]) rs))]"

definition lucy_session :: json where
  "lucy_session = session_json (server_uri @ ''/jmap/'') ''d'' ''u'' [(CAP_MAIL, ''acct-1'')] ''lucy@lindner.earth''"

definition mock_jmap :: "string option \<Rightarrow> mock" where
  "mock_jmap html_body = (\<lambda>rq _.
     let body_values = jobj [(''b'', jobj [(''value'', JStr ''plain text'')])];
         mail = jobj [(''id'', JStr ''email-1''),
                      (''from'', JArr [jobj [(''email'', JStr ''someone@example.test'')]]),
                      (''to'', JArr [jobj [(''email'', JStr ''lucy@lindner.earth'')]]),
                      (''subject'', JStr ''hello''),
                      (''textBody'', JArr [jobj [(''partId'', JStr ''b''), (''type'', JStr ''text/plain'')]]),
                      (''attachments'', JArr [])];
         (body_values, mail) = (case html_body of
             None \<Rightarrow> (body_values, mail)
           | Some html \<Rightarrow>
               (json_put ''h'' (jobj [(''value'', JStr html)]) body_values,
                json_put ''htmlBody'' (JArr [jobj [(''partId'', JStr ''h''), (''type'', JStr ''text/html'')]]) mail));
         mail = json_put ''bodyValues'' body_values mail in
     if is_get ''/.well-known/jmap'' rq then respond 200 (Some lucy_session)
     else if rq_method rq = ''POST'' \<and> rq_url rq = server_uri @ ''/jmap/'' then
       respond 200 (Some (responses_of
         [(''Mailbox/get'', jobj [(''list'', JArr
             [jobj [(''id'', JStr ''mb-drafts''), (''role'', JStr ''drafts''), (''name'', JStr ''Drafts'')],
              jobj [(''id'', JStr ''mb-sent''), (''role'', JStr ''sent''), (''name'', JStr ''Sent'')]])], ''m''),
          (''Identity/get'', jobj [(''list'', JArr
             [jobj [(''id'', JStr ''id-1''), (''email'', JStr ''lucy@lindner.earth''), (''name'', JStr ''Lucy'')]])], ''i''),
          (''Email/get'', jobj [(''list'', JArr [mail])], ''g''),
          (''Email/set'', jobj [(''created'', jobj [(''d'', jobj [(''id'', JStr ''email-new'')])])], ''s''),
          (''EmailSubmission/set'', jobj [(''created'', jobj [(''sub'', jobj [(''id'', JStr ''sub-1'')])])], ''e'')]))
     else respond 404 None)"

definition harness_config :: "string \<Rightarrow> string + config" where
  "harness_config stalwart_uri =
     (case config_new ''https://jmap-mcp.example.test'' ''https://login.example.test/oidc'' stalwart_uri
             (v4_addr 0 0 0 0, 3000) of
        Inl e \<Rightarrow> Inl e | Inr cfg \<Rightarrow> Inr (cfg\<lparr>allow_app_password := True\<rparr>))"

definition mcp_request :: "string \<Rightarrow> string option \<Rightarrow> app_request" where
  "mcp_request basic session =
     (request ''POST'' ''/mcp'')\<lparr>in_authorization := Some basic, in_session_id := session\<rparr>"

text \<open>\<^verbatim>\<open>initialize\<close>, then one call of a tool on the same server; what the test asserts of its result.\<close>

definition call_tool :: "mock \<Rightarrow> string + config \<Rightarrow> string \<Rightarrow> jmap \<Rightarrow> (error_data + json \<Rightarrow> bool) \<Rightarrow> bool" where
  "call_tool m cfg tool args f =
     (let basic = ''Basic bHVjeUBsaW5kbmVyLmVhcnRoOmFwcC1wYXNzd29yZA=='' in
      on_ok cfg (\<lambda>c. on_ok (router m (Calls tool args) c) (\<lambda>(A, s).
        on_some (app_serve A (mcp_request basic None) s) (\<lambda>(init, s1).
          init = Answered initialized
          \<and> on_some (app_serve A (mcp_request basic (Some ''sid'')) s1) (\<lambda>(resp, _).
              case resp of Tool_Ran _ res \<Rightarrow> f res | Answered _ \<Rightarrow> False)))))"

definition send_email_with_html_and_empty_text_is_an_error_to_the_caller :: bool where
  "send_email_with_html_and_empty_text_is_an_error_to_the_caller =
     call_tool (mock_jmap None) (harness_config server_uri) ''send_email''
       [(''from'', JStr ''lucy@lindner.earth''), (''to'', JArr [JStr ''julian@lindner.earth'']),
        (''subject'', JStr ''Briefing''), (''body_text'', JStr ''   ''), (''body_html'', JStr ''<h1>Briefing</h1>'')]
       (\<lambda>out. on_err out (\<lambda>e. contains (err_message e) ''body_html requires a non-empty body_text''))"

definition read_email_returns_the_html_the_backend_served :: bool where
  "read_email_returns_the_html_the_backend_served =
     (let html = ''<div style='' @ qt ''color:#0a0'' @ ''>briefing</div>'' in
      call_tool (mock_jmap (Some html)) (harness_config server_uri) ''read_email''
        [(''email_id'', JStr ''email-1'')]
        (\<lambda>out. on_ok out (\<lambda>v. as_str (at_key v ''body_html'') = Some html)))"

lemma send_harness_test_passes: "send_email_with_html_and_empty_text_is_an_error_to_the_caller"
  unfolding send_email_with_html_and_empty_text_is_an_error_to_the_caller_def call_tool_def Let_def
    on_ok_parts on_err_parts on_some_parts split_beta
  by code_simp

lemma read_harness_test_passes: "read_email_returns_the_html_the_backend_served"
  unfolding read_email_returns_the_html_the_backend_served_def call_tool_def Let_def
    on_ok_parts on_some_parts split_beta
  by code_simp

section \<open>The owner is the account of the mail server (\<^verbatim>\<open>src/mcp.rs\<close>)\<close>

definition empty_batches :: mock where
  "empty_batches = (\<lambda>rq _.
     if is_get ''/.well-known/jmap'' rq then
       respond 200 (Some (session_json (server_uri @ ''/jmap/'') ''d'' ''u'' [(CAP_MAIL, ''acct-lucy'')]
                            ''lucy@lindner.earth''))
     else if rq_method rq = ''POST'' \<and> rq_url rq = server_uri @ ''/jmap/'' then respond 200 (Some (responses_of []))
     else respond 404 None)"

definition a_logto_claim_cannot_borrow_another_accounts_from_address :: bool where
  "a_logto_claim_cannot_borrow_another_accounts_from_address =
     on_ok (case harness_config server_uri of Inl e \<Rightarrow> Inl e | Inr cfg \<Rightarrow>
              router empty_batches (Protocol initialized) (cfg\<lparr>extra_from_addresses :=
                [\<lparr>ofa_owner = ''julian@kampong.social'', ofa_email = ''julian@lindner.earth''\<rparr>]\<rparr>)) (\<lambda>(A, s).
       on_ok (fst (owned_addresses (service_of A) ''Bearer t'' ''acct-lucy'' (Some ''julian@kampong.social'') (svc s)))
         (\<lambda>owned. \<not> list_ex (\<lambda>a. eq_ignore_ascii_case (oa_email a) ''julian@lindner.earth'') owned))"

lemma claim_test_passes: "a_logto_claim_cannot_borrow_another_accounts_from_address"
  by code_simp

section \<open>The OAuth proxy (\<^verbatim>\<open>src/oauth_proxy.rs\<close>)\<close>

text \<open>\<^verbatim>\<open>OAuthProxyState::new\<close> for an issuer, a resource and an allowlist.\<close>

definition proxy_for :: "string \<Rightarrow> string \<Rightarrow> string list \<Rightarrow> nat proxy_net" where
  "proxy_for issuer resource uris =
     oauth_proxy_new ((environment no_server (Protocol initialized))
       \<lparr>auth_config := sample_config\<lparr>authorization_server := issuer, resource_url := resource,
                                     oauth_redirect_uris := uris\<rparr>\<rparr>)"

definition nothing_pending :: "nat proxy_state" where
  "nothing_pending = \<lparr>world = 0, trace = [], pendings = no_authorizations\<rparr>"

definition callback_url_derived_from_resource :: bool where
  "callback_url_derived_from_resource =
     (let st = proxy_for ''https://login.example.test/oidc/'' ''https://jmap-mcp.example.test'' [''https://claude.ai/cb''] in
      callback_url st = ''https://jmap-mcp.example.test/oauth/callback''
      \<and> logto_base st = ''https://login.example.test/oidc'')"

definition pending_roundtrip_and_expiry_guard :: "nat \<Rightarrow> bool" where
  "pending_roundtrip_and_expiry_guard now =
     (let g = pending_insert now ''abc'' \<lparr>client_redirect_uri = ''https://claude.ai/cb'', client_state = Some ''xyz'',
                                         created = now\<rparr> no_authorizations;
          (p, g1) = pending_take now ''abc'' g in
      on_some p (\<lambda>p. client_redirect_uri p = ''https://claude.ai/cb'' \<and> client_state p = Some ''xyz'')
      \<and> fst (pending_take now ''abc'' g1) = None)"

definition claude_proxy :: "nat proxy_net" where
  "claude_proxy = proxy_for ''https://login.example.test/oidc'' ''https://jmap-mcp.example.test''
     [''https://claude.ai/api/mcp/auth_callback'']"

definition authorize_rejects_unregistered_redirect_uri :: bool where
  "authorize_rejects_unregistered_redirect_uri =
     (rs_status (fst (authorize claude_proxy
        (Some ''client_id=abc&redirect_uri=https%3A%2F%2Fattacker.example%2Fcb&response_type=code'')
        nothing_pending)) = 400)"

definition authorize_forwards_only_allowed_redirect_uri_to_pending_state :: bool where
  "authorize_forwards_only_allowed_redirect_uri_to_pending_state =
     (let (response, s) = authorize claude_proxy
            (Some (''client_id=abc&redirect_uri=https%3A%2F%2Fclaude.ai%2Fapi%2Fmcp%2Fauth_callback''
                   @ ''&state=client-state&resource=https%3A%2F%2Fjmap-mcp.example.test%2F'')) nothing_pending in
      rs_status response = 303
      \<and> on_some (rs_location response) (\<lambda>location.
         on_ok (test_url location) (\<lambda>upstream.
         on_some (u_query upstream) (\<lambda>query.
           let params = map_of (rev (parse_form query)) in
           params ''redirect_uri'' = Some ''https://jmap-mcp.example.test/oauth/callback''
           \<and> params ''resource'' = Some ''https://jmap-mcp.example.test''
           \<and> on_some (params ''state'') (\<lambda>proxy_state.
               on_some (fst (pending_take (now_of claude_proxy s) proxy_state (pendings s))) (\<lambda>pending.
                 client_redirect_uri pending = ''https://claude.ai/api/mcp/auth_callback''
                 \<and> client_state pending = Some ''client-state''))))))"

definition token_rejects_unregistered_authorization_code_redirect_uri :: bool where
  "token_rejects_unregistered_authorization_code_redirect_uri =
     (rs_status (fst (token claude_proxy
        ''grant_type=authorization_code&code=abc&redirect_uri=https%3A%2F%2Fattacker.example%2Fcb&code_verifier=v''
        nothing_pending)) = 400)"

definition token_rejects_missing_authorization_code_redirect_uri :: bool where
  "token_rejects_missing_authorization_code_redirect_uri =
     (rs_status (fst (token claude_proxy ''grant_type=authorization_code&code=abc&code_verifier=v''
        nothing_pending)) = 400)"

definition normalize_resource_strips_trailing_slash :: bool where
  "normalize_resource_strips_trailing_slash \<longleftrightarrow>
     normalize_resource ''https://jmap-mcp.kampong.social/'' = ''https://jmap-mcp.kampong.social''
     \<and> normalize_resource ''https://jmap-mcp.kampong.social'' = ''https://jmap-mcp.kampong.social''"

definition normalize_resource_strips_mcp_path :: bool where
  "normalize_resource_strips_mcp_path \<longleftrightarrow>
     normalize_resource ''https://jmap-mcp.kampong.social/mcp'' = ''https://jmap-mcp.kampong.social''
     \<and> normalize_resource ''https://jmap-mcp.kampong.social/mcp/'' = ''https://jmap-mcp.kampong.social''"

lemma proxy_tests_pass:
  "callback_url_derived_from_resource"
  "authorize_rejects_unregistered_redirect_uri"
  "authorize_forwards_only_allowed_redirect_uri_to_pending_state"
  "token_rejects_unregistered_authorization_code_redirect_uri"
  "token_rejects_missing_authorization_code_redirect_uri"
  "normalize_resource_strips_trailing_slash"
  "normalize_resource_strips_mcp_path"
  by code_simp+

lemma pending_test_passes: "pending_roundtrip_and_expiry_guard now"
  by (simp add: pending_roundtrip_and_expiry_guard_def pending_insert_def pending_take_def no_authorizations_def
      PENDING_TTL_def on_some_def)

definition authorize_rejects_oversized_client_state :: bool where
  "authorize_rejects_oversized_client_state =
     (let st = proxy_for ''https://login.example.test/oidc'' ''https://jmap-mcp.example.test'' [''https://claude.ai/cb''];
          query = ''redirect_uri=https%3A%2F%2Fclaude.ai%2Fcb&state='' @ replicate (MAX_CLIENT_STATE_BYTES + 1) CHR ''a'' in
      rs_status (fst (authorize st (Some query) nothing_pending)) = 400)"

lemma parse_form_oversized:
  "parse_form (''redirect_uri=https%3A%2F%2Fclaude.ai%2Fcb&state='' @ replicate n CHR ''a'')
   = [(''redirect_uri'', ''https://claude.ai/cb''), (''state'', replicate n CHR ''a'')]"
proof -
  let ?as = "replicate n CHR ''a''"
  have split: "split_char CHR ''&'' ?as = [?as]"
    by (rule split_char_free) (simp add: set_replicate_conv_if)
  have same: "form_value ?as = ?as"
    by (induction n) (simp_all add: form_value_def url_unescape_plain)
  have uri: "form_value ''https%3A%2F%2Fclaude.ai%2Fcb'' = ''https://claude.ai/cb''"
    "form_value ''redirect_uri'' = ''redirect_uri''" "form_value ''state'' = ''state''"
    by code_simp+
  show ?thesis
    by (simp add: parse_form_def split same uri)
qed

lemma state_limit_test_passes: "authorize_rejects_oversized_client_state"
proof -
  let ?st = "proxy_for ''https://login.example.test/oidc'' ''https://jmap-mcp.example.test'' [''https://claude.ai/cb'']"
  have allowed: "is_allowed_redirect_uri (proxy_parse_url ?st) (allowed_redirect_uris ?st) ''https://claude.ai/cb''"
    by code_simp
  have form: "form_parse ?st = parse_form"
    by (simp add: proxy_for_def oauth_proxy_new_def environment_def service.defs app.defs)
  show ?thesis
    unfolding authorize_rejects_oversized_client_state_def Let_def authorize_def form
    by (simp only: option.case parse_form_oversized)
       (simp add: allowed first_value_def plain_def)
qed

end
