(* ===== verification/Spec2Isabelle.thy ===== *)
theory Spec2Isabelle
  imports Startup Tool_Catalog Reply_Laws Answers Client_Calls Tests_Text Tests_Mail Tests_Sender Tests_Server
begin

text \<open>
  A model of jmap-mcp, an MCP server that gives language-model clients access to a mailbox over JMAP, and
  the theorems that make it correct.

  \<^bold>\<open>The program and its parts.\<close>
  A client discovers the server's OAuth metadata and registers (\<^verbatim>\<open>src/oauth_metadata.rs\<close>), signs in through
  the OAuth proxy in front of the issuer (\<^verbatim>\<open>src/oauth_proxy.rs\<close>, \<^verbatim>\<open>src/oauth_redirect.rs\<close>), and then calls
  tools on \<^verbatim>\<open>/mcp\<close>. Each request passes the layers of \<^verbatim>\<open>src/main.rs\<close>: the authentication middleware
  (\<^verbatim>\<open>src/auth.rs\<close>), which accepts a bearer token of the issuer (\<^verbatim>\<open>src/logto_oidc.rs\<close>) or, where the operator
  allows it, an app password that the mail server accepts; and the throttle of new sessions
  (\<^verbatim>\<open>src/rate_limit.rs\<close>). The tools of \<^verbatim>\<open>src/mcp.rs\<close> and \<^verbatim>\<open>src/mcp/\<close> run in one frame: the rate limit, the
  body, which talks to the mail server through the client of \<^verbatim>\<open>src/jmap_client.rs\<close> with the caller's own
  credential, the reaction to a refused credential, the audit note (\<^verbatim>\<open>src/audit_mailbox.rs\<close>) and the audit
  event (\<^verbatim>\<open>src/audit.rs\<close>). What a tool shows of an email goes through \<^verbatim>\<open>src/content_sandbox.rs\<close>, a URL
  that a tool fetches through \<^verbatim>\<open>src/url_safety.rs\<close>.

  \<^bold>\<open>How the code is modelled.\<close>
  A Rust string is the list of its bytes; \<^verbatim>\<open>serde_json\<close> objects are association lists with keys in byte order
  (theory Json, \<open>wf_json\<close>); machine integers whose wrap-around or saturation matters are words. Errors are
  the left values of a sum. A handler is a function from a state to a result and a state (theory Http,
  \<open>comp\<close>); the state is a record that grows with the components (\<open>jmap_state\<close>, \<open>logto_state\<close>,
  \<open>auth_state\<close>, \<open>service_state\<close>, \<open>server_state\<close>, \<open>app_state\<close>) and carries, beside the fields of the code, the
  trace of all requests sent so far, the audit events, the metrics and the spawned audit notes, so that theorems
  can speak of them. The whole server is one function from a request to an answer (\<open>app_serve\<close>), and a run
  (\<open>app_run\<close>) any sequence of three steps: a request is served, one of the spawned notes is written, or time passes
  and the world moves on. Requests run one after the other; what has to survive interleaving (the bounded
  stores, the pending authorizations, the limiter, the session cap) is proved, beside that, for every
  sequence of operations on the shared state.

  \<^bold>\<open>The theories.\<close>
  \<^item> Prelude, Json, Http, Errors, Url, Ip_Parser: strings and their \<^verbatim>\<open>str\<close> methods, JSON values, effects with the
    predicates \<open>emits\<close> and \<open>keeps\<close> and the locale \<open>state_relation\<close> (a relation between the states before and after
    a computation), the errors of the client and of the tools, what is read of a URL, and the address parsers of
    the standard library. Metrics: \<^verbatim>\<open>src/metrics.rs\<close>.
  \<^item> Capped_Store: the bounded maps with eviction, and the locale \<open>capped_store\<close> with what every run of
    operations keeps (distinct keys, the cap, the origin of an entry). It is interpreted on the session cache
    (Jmap_Client), the validation cache (Logto_Oidc), the record of last uses (Last_Used) and the buckets of the
    limiter (Rate_Limit).
  \<^item> Config, From_Address, Url_Safety, Content_Sandbox: \<^verbatim>\<open>src/config.rs\<close>, the sender addresses of \<^verbatim>\<open>src/mcp.rs\<close>,
    \<^verbatim>\<open>src/url_safety.rs\<close>, \<^verbatim>\<open>src/content_sandbox.rs\<close>.
  \<^item> OAuth_Redirect, OAuth_Metadata, OAuth_Proxy: the redirect allowlist, the metadata documents and the
    registration, the proxy with its pending authorizations and their index by age.
  \<^item> Last_Used, Rate_Limit, Jmap_Client, Logto_Oidc, Auth: the remaining state of the server and the
    authentication middleware. Two families of locales start here. \<open>request_policy\<close> (Jmap_Client) is a predicate on
    requests that every operation of the client respects; Policy extends it to \<open>read_policy\<close>, \<open>update_policy\<close>,
    \<open>write_policy\<close> and \<open>destroy_policy\<close>, what a tool may send. \<open>state_relation\<close> is extended to \<open>client_relation\<close> (Jmap_Client),
    \<open>validation_relation\<close> (Logto_Oidc) and \<open>auth_relation\<close> (Auth), to \<open>frame\<close> (Tool_Frame) and \<open>run_frame\<close> (Tool_Laws),
    and to \<open>app_relation\<close> (Runs): a relation on states that each layer keeps once it keeps that of the layer below.
  \<^item> Service: the frame of every tool (\<open>run_tool\<close>) and the lookups the tools share. Policy, Tool_Frame and Tool_Laws
    interpret the contracts of a tool as \<open>confinement\<close> (own credential or a validated public URL), \<open>reader\<close> (no
    update, no upload), \<open>updater\<close> (updates at most), \<open>keeper\<close> (nothing is destroyed), \<open>audit_log\<close>, \<open>spawned\<close>,
    \<open>metrics\<close>, \<open>audit_registry\<close> and \<open>designations\<close>.
  \<^item> Email_View, Core_Tools, Read_Tools, Flag_Tools, Delete_Tools, Mailbox_Tools, Compose_Tools,
    Attachment_Tools, Profile_Tools: the tools, one theory per source file, each with the contracts of its
    tools. Results: their result records as JSON. Params: the parameters of each tool as they are read of a
    call. Router: one request per tool and the dispatch. Tool_Catalog: the entry each tool is listed with.
  \<^item> Server: the service a configuration builds, the layers of an MCP request, the session cap. Application: the
    routes and the runs. Startup: \<^verbatim>\<open>main\<close>, from the environment to a running server, with \<^verbatim>\<open>src/telemetry.rs\<close>.
  \<^item> Tool_Laws, Emptying, Tool_Properties: the laws of every tool, and emptying a mailbox as a sequence of
    batches. Email_Laws, Answers: what a reader gets to see of an email, and what a JSON answer holds of it.
    Call_Laws, Send_Laws, Reply_Laws: what a tool that succeeded has asked the mail server for. Client_Calls: what
    a call is read as, with the locales \<open>codec\<close> and \<open>exact_codec\<close> for a value and its JSON form.
  \<^item> Stores, Runs, Routes: the invariant of the running server, and what holds of every run and every route.
    Samples: a small mail server on which whole tools are evaluated, for the witnesses.
  \<^item> Test_Support, Tests_Text, Tests_Mail, Tests_Address, Tests_Sender, Tests_OAuth, Tests_State, Tests_Server: the test
    functions of the repository, translated and evaluated on the model, the tests that drive the whole
    server included. They are the check of the definitions against what the authors expect of the code.

  \<^bold>\<open>What is shown.\<close>
  \<^item> Of every run (Runs, Routes, Startup): a credential that the server sends was presented to it; an identity was
    attested by the issuer; the stores stay within their caps and consistent; the audit log has one event
    for each tool that ran, with its outcome, and the metrics count the same; nothing runs that the operator's
    environment did not ask for. Tools run only for admitted requests; a call that cannot be read is inert;
    public routes redirect to the issuer or to an allowlisted URI and nowhere else; the discovery documents lead
    to routes of the server.
  \<^item> Credentials: an admitted request presented the credential it is admitted with, and that credential was
    accepted (Auth); neither authentication nor a tool sends it anywhere but to the mail server, and no other
    credential is sent (Auth, Tool_Properties, composed in Server); a cached session or validation is used
    only for the token it was made for and within its time (Jmap_Client, Logto_Oidc); tokens are accepted
    only under a key of the issuer, an allowed algorithm and the expected audience (Logto_Oidc).
  \<^item> Tools (Tool_Properties, Client_Calls): a call is read exactly as it states; every tool keeps the hints it is
    listed with (Tool_Catalog): read-only, idempotent, destructive; a limited call is inert, audit notes and designations belong to the
    caller, refusals are classified, every tool returns provided that emptying makes progress, and emptying
    refines the sequence of its batches.
  \<^item> Mail: the sender is one the account may use (From_Address); a send, a reply and a forward submit the
    message they should (Send_Laws, Reply_Laws); flag tools update exactly the given emails and what is
    sent is well-formed (Send_Laws); composed messages read back (Email_Laws).
  \<^item> Content of others: markers are removed and the wrapper closes once (Content_Sandbox), in every tool that
    reads (Email_Laws) and in every answer (Answers); the addresses that are refused are a list of networks
    (Url_Safety).
  \<^item> OAuth: the authorization round trip, the agreement of the two indexes of the pendings, one-shot
    redemption (OAuth_Proxy), the redirect allowlist (OAuth_Redirect).
  \<^item> Bounds: the limiter's burst (Rate_Limit), the pace of key-set refreshes (Logto_Oidc), the session cap
    (Server), the length of a shown body (Email_Laws).

  \<^bold>\<open>Partiality and bounds.\<close>
  Emptying a mailbox (\<open>empty_mailbox\<close>) and the replacement loop of the sandbox (\<open>replace_loop\<close>) are partial
  functions: a loop that never ends is the value \<open>None\<close>. The replacement loop is shown to return for every
  needle of the source; emptying to return when full batches shrink the mailbox, and to be exactly its
  batches in every case, running for ever included. No fuel is used. The caps and times
  (256 entries, 60 seconds, one hour, ten minutes, 30 seconds, 256 KiB) are those of the source.

  \<^bold>\<open>Parameters.\<close>
  The network (\<open>net_send\<close>) with the clocks, SHA-256, the URL parser and the resolver, JWT decoding and
  verification, the token bucket (crate \<^verbatim>\<open>governor\<close>), base64, form coding, randomness, the derived deserialisers of
  what the mail server answers, the text of a JSON value, the MCP transport with its inner session manager, the
  text encoder of the metrics, the exporter of spans and the binding of sockets are fields of the records the
  definitions take. Where a theorem relies on one of them, the documented behaviour is a hypothesis and the
  witness instantiates it.

  \<^bold>\<open>Not modelled.\<close>
  \<^item> Tracing spans and log lines that are not audit events (\<^verbatim>\<open>log_set_failures\<close> among them): no answer depends on them.
  \<^item> How the HTTP library reads and answers connections, drains them at shutdown and matches methods, beyond
    what \<open>app_serve\<close> says; the protocol of the MCP transport (initialization, streams, listing of the tools); the
    Prometheus registry. They are calls into libraries.
  \<^item> The JSON schemas of the parameters, which a derive macro generates from the records.
  \<^item> Real concurrency inside one operation: locks make each operation on shared state atomic.
  \<^item> Of the tests: those that fill a store to its cap (the caps are theorems) and those about constants or libraries.
\<close>

end
